(* ===== verification/Prelude.thy ===== *)
theory Prelude
  imports Main "HOL-Library.Word"
begin

text \<open>
  Shared ground of the development: the fixed-width integers of the Rust sources and the
  casts between them, results and stateful computations with early return, and the decimal
  printing and parsing of the Rust standard library.  Facts that the component theories
  use for automation are collected in \<open>eff_simps\<close> (running a computation) and
  \<open>eff_intros\<close> (what a computation may change).
\<close>

unbundle bit_operations_syntax

named_theorems eff_simps
named_theorems eff_intros

section \<open>Integers\<close>

type_synonym u8 = "8 word"
type_synonym u16 = "16 word"
type_synonym u32 = "32 word"
type_synonym u64 = "64 word"
type_synonym bytes = "u8 list"

text \<open>
  Unsigned integers are words.  Signed integers are words under a constructor of their own, so
  that the order on them is the signed one and every \<open>as\<close> cast of the source is visible.
\<close>

datatype i32 = I32 "32 word"
datatype i64 = I64 "64 word"
datatype i128 = I128 "128 word"

fun i32_int :: "i32 \<Rightarrow> int" where "i32_int (I32 w) = sint w"
fun i64_int :: "i64 \<Rightarrow> int" where "i64_int (I64 w) = sint w"
fun i128_int :: "i128 \<Rightarrow> int" where "i128_int (I128 w) = sint w"

lemma i32_int_inject [simp]: "i32_int a = i32_int b \<longleftrightarrow> a = b"
  by (cases a; cases b) (metis i32_int.simps word_eq_iff_signed)

lemma i64_int_inject [simp]: "i64_int a = i64_int b \<longleftrightarrow> a = b"
  by (cases a; cases b) (metis i64_int.simps word_eq_iff_signed)

instantiation i32 :: linorder
begin

definition less_eq_i32 :: "i32 \<Rightarrow> i32 \<Rightarrow> bool" where
  "less_eq_i32 a b \<longleftrightarrow> i32_int a \<le> i32_int b"

definition less_i32 :: "i32 \<Rightarrow> i32 \<Rightarrow> bool" where
  "less_i32 a b \<longleftrightarrow> i32_int a < i32_int b"

instance
  by standard (auto simp: less_eq_i32_def less_i32_def)

end

instantiation i64 :: linorder
begin

definition less_eq_i64 :: "i64 \<Rightarrow> i64 \<Rightarrow> bool" where
  "less_eq_i64 a b \<longleftrightarrow> i64_int a \<le> i64_int b"

definition less_i64 :: "i64 \<Rightarrow> i64 \<Rightarrow> bool" where
  "less_i64 a b \<longleftrightarrow> i64_int a < i64_int b"

instance
  by standard (auto simp: less_eq_i64_def less_i64_def)

end

text \<open>The \<open>as\<close> casts the source uses.\<close>

definition u64_as_i64 :: "u64 \<Rightarrow> i64" where "u64_as_i64 w = I64 w"
definition u32_as_i32 :: "u32 \<Rightarrow> i32" where "u32_as_i32 w = I32 w"
definition u32_as_i64 :: "u32 \<Rightarrow> i64" where "u32_as_i64 w = I64 (ucast w)"
definition i64_as_i128 :: "i64 \<Rightarrow> i128" where
  "i64_as_i128 a = (case a of I64 w \<Rightarrow> I128 (scast w))"
definition u64_as_i128 :: "u64 \<Rightarrow> i128" where "u64_as_i128 w = I128 (ucast w)"
definition int_as_i64 :: "int \<Rightarrow> i64" where "int_as_i64 n = I64 (word_of_int n)"
definition i64_as_usize :: "i64 \<Rightarrow> u64" where
  "i64_as_usize a = (case a of I64 w \<Rightarrow> w)"

lemma u64_as_i64_inject [simp]: "u64_as_i64 a = u64_as_i64 b \<longleftrightarrow> a = b"
  by (simp add: u64_as_i64_def)

lemma u32_as_i32_inject [simp]: "u32_as_i32 a = u32_as_i32 b \<longleftrightarrow> a = b"
  by (simp add: u32_as_i32_def)

lemma sint_eq_uint_cases:
  fixes w :: "'a::len word"
  shows "sint w = (if uint w < 2 ^ (LENGTH('a) - 1) then uint w else uint w - 2 ^ LENGTH('a))"
proof -
  have len: "(2::int) ^ LENGTH('a) = 2 * 2 ^ (LENGTH('a) - 1)"
    by (metis len_gt_0 power_minus_mult mult.commute)
  have lo: "0 \<le> uint w" and hi: "uint w < 2 ^ LENGTH('a)"
    by (simp_all add: uint_lt2p)
  have "sint w = (uint w + 2 ^ (LENGTH('a) - 1)) mod 2 ^ LENGTH('a) - 2 ^ (LENGTH('a) - 1)"
    by (simp add: sint_uint signed_take_bit_eq_take_bit_shift take_bit_eq_mod)
  also have "(uint w + 2 ^ (LENGTH('a) - 1)) mod 2 ^ LENGTH('a) =
    (if uint w < 2 ^ (LENGTH('a) - 1) then uint w + 2 ^ (LENGTH('a) - 1)
     else uint w + 2 ^ (LENGTH('a) - 1) - 2 ^ LENGTH('a))"
    using lo hi len by (auto intro: int_mod_pos_eq mod_pos_pos_trivial)
  finally show ?thesis using len by simp
qed

lemma i64_int_u64_as_i64:
  "i64_int (u64_as_i64 w) = (if uint w < 2 ^ 63 then uint w else uint w - 2 ^ 64)"
  using sint_eq_uint_cases [of w] by (simp add: u64_as_i64_def)

lemma i32_int_u32_as_i32:
  "i32_int (u32_as_i32 w) = (if uint w < 2 ^ 31 then uint w else uint w - 2 ^ 32)"
  using sint_eq_uint_cases [of w] by (simp add: u32_as_i32_def)

lemma i64_int_u32_as_i64: "i64_int (u32_as_i64 w) = uint w"
proof -
  have lt: "uint w < 2 ^ 32" using uint_lt2p [of w] by simp
  then have "uint (ucast w :: 64 word) = uint w"
    by (simp add: uint_up_ucast is_up)
  then show ?thesis
    using lt sint_eq_uint_cases [of "ucast w :: 64 word"] by (simp add: u32_as_i64_def)
qed

lemma u32_as_i64_inject [simp]: "u32_as_i64 a = u32_as_i64 b \<longleftrightarrow> a = b"
  by (metis i64_int_u32_as_i64 unsigned_word_eqI)

lemma i64_int_bounds: "- (2 ^ 63) \<le> i64_int a" "i64_int a < 2 ^ 63"
  by (cases a; simp add: sint_uint signed_take_bit_eq_take_bit_shift take_bit_eq_mod)+

lemma i128_int_bounds: "- (2 ^ 127) \<le> i128_int a" "i128_int a < 2 ^ 127"
  by (cases a; simp add: sint_uint signed_take_bit_eq_take_bit_shift take_bit_eq_mod)+

lemma i64_int_int_as_i64:
  assumes "- (2 ^ 63) \<le> n" "n < 2 ^ 63"
  shows "i64_int (int_as_i64 n) = n"
  using assms by (simp add: int_as_i64_def signed_of_int signed_take_bit_int_eq_self)

section \<open>Results and stateful computations\<close>

text \<open>
  \<open>Result<T, E>\<close> is \<open>'e + 'a\<close> with \<open>Inl\<close> for \<open>Err\<close>; \<open>bindE m f\<close> is \<open>m?\<close> followed by
  the rest of the block.
\<close>

definition bindE :: "'e + 'a \<Rightarrow> ('a \<Rightarrow> 'e + 'b) \<Rightarrow> 'e + 'b" where
  "bindE m f = (case m of Inl e \<Rightarrow> Inl e | Inr x \<Rightarrow> f x)"

definition map_err :: "('e \<Rightarrow> 'd) \<Rightarrow> 'e + 'a \<Rightarrow> 'd + 'a" where
  "map_err g m = (case m of Inl e \<Rightarrow> Inl (g e) | Inr x \<Rightarrow> Inr x)"

definition ok_or :: "'e \<Rightarrow> 'a option \<Rightarrow> 'e + 'a" where
  "ok_or e m = (case m of None \<Rightarrow> Inl e | Some x \<Rightarrow> Inr x)"

text \<open>\<open>iter.map(f).collect::<Result<Vec<_>, _>>()\<close>: stops at the first error.\<close>

fun collectE :: "('a \<Rightarrow> 'e + 'b) \<Rightarrow> 'a list \<Rightarrow> 'e + 'b list" where
  "collectE f [] = Inr []"
| "collectE f (x # xs) = bindE (f x) (\<lambda>y. bindE (collectE f xs) (\<lambda>ys. Inr (y # ys)))"

lemma bindE_simps [simp]:
  "bindE (Inl e) f = Inl e"
  "bindE (Inr x) f = f x"
  by (simp_all add: bindE_def)

lemma bindE_Inr_iff: "bindE m f = Inr y \<longleftrightarrow> (\<exists>x. m = Inr x \<and> f x = Inr y)"
  by (cases m) simp_all

lemma map_err_simps [simp]:
  "map_err g (Inl e) = Inl (g e)"
  "map_err g (Inr x) = Inr x"
  by (simp_all add: map_err_def)

lemma map_err_Inr_iff [simp]: "map_err g m = Inr x \<longleftrightarrow> m = Inr x"
  by (cases m) simp_all

lemma ok_or_simps [simp]:
  "ok_or e None = Inl e"
  "ok_or e (Some x) = Inr x"
  by (simp_all add: ok_or_def)

lemma ok_or_Inr_iff [simp]: "ok_or e m = Inr x \<longleftrightarrow> m = Some x"
  by (cases m) simp_all

lemma collectE_Inr_iff: "collectE f xs = Inr ys \<longleftrightarrow> list_all2 (\<lambda>x y. f x = Inr y) xs ys"
  by (induction xs arbitrary: ys) (auto simp: bindE_Inr_iff list_all2_Cons1)

lemma collectE_first_error:
  "collectE f us = Inr ys \<Longrightarrow> f x = Inl e \<Longrightarrow> collectE f (us @ x # vs) = Inl e"
  by (induction us arbitrary: ys) (auto simp: bindE_Inr_iff)

lemma collectE_InlD: "collectE f xs = Inl e \<Longrightarrow> \<exists>x \<in> set xs. f x = Inl e"
  by (induction xs) (auto simp: bindE_def split: sum.splits)

text \<open>
  An \<open>async\<close> function that reads and writes a state: it returns a result and the state it
  leaves, also when it returns an error.
\<close>

type_synonym ('w, 'e, 'a) eff = "'w \<Rightarrow> ('e + 'a) \<times> 'w"

definition ret :: "'a \<Rightarrow> ('w, 'e, 'a) eff" where
  "ret x = (\<lambda>w. (Inr x, w))"

definition fail :: "'e \<Rightarrow> ('w, 'e, 'a) eff" where
  "fail e = (\<lambda>w. (Inl e, w))"

definition lift :: "'e + 'a \<Rightarrow> ('w, 'e, 'a) eff" where
  "lift r = (\<lambda>w. (r, w))"

definition bind :: "('w, 'e, 'a) eff \<Rightarrow> ('a \<Rightarrow> ('w, 'e, 'b) eff) \<Rightarrow> ('w, 'e, 'b) eff" where
  "bind m f = (\<lambda>w. case m w of (Inl e, w') \<Rightarrow> (Inl e, w') | (Inr x, w') \<Rightarrow> f x w')"

definition map_errS :: "('e \<Rightarrow> 'd) \<Rightarrow> ('w, 'e, 'a) eff \<Rightarrow> ('w, 'd, 'a) eff" where
  "map_errS g m = (\<lambda>w. case m w of (r, w') \<Rightarrow> (map_err g r, w'))"

text \<open>A \<open>for\<close> loop whose body may return early with \<open>?\<close>.\<close>

fun for_each :: "('a \<Rightarrow> ('w, 'e, unit) eff) \<Rightarrow> 'a list \<Rightarrow> ('w, 'e, unit) eff" where
  "for_each f [] = ret ()"
| "for_each f (x # xs) = bind (f x) (\<lambda>_. for_each f xs)"

lemma run_ret [eff_simps]: "ret x w = (Inr x, w)"
  by (simp add: ret_def)

lemma run_fail [eff_simps]: "fail e w = (Inl e, w)"
  by (simp add: fail_def)

lemma run_lift [eff_simps]: "lift r w = (r, w)"
  by (simp add: lift_def)

lemma run_bind [eff_simps]:
  "bind m f w = (case m w of (Inl e, w') \<Rightarrow> (Inl e, w') | (Inr x, w') \<Rightarrow> f x w')"
  by (simp add: bind_def)

lemma run_map_errS [eff_simps]: "map_errS g m w = (case m w of (r, w') \<Rightarrow> (map_err g r, w'))"
  by (simp add: map_errS_def)

text \<open>
  What a computation may do to the state, whatever it returns: a reflexive and transitive
  relation between the state before and the state after is kept by every way of composing
  computations.
\<close>

definition effects :: "('w \<Rightarrow> 'w \<Rightarrow> bool) \<Rightarrow> ('w, 'e, 'a) eff \<Rightarrow> bool" where
  "effects R m \<longleftrightarrow> (\<forall>w. R w (snd (m w)))"

lemma effectsI [intro?]: "(\<And>w. R w (snd (m w))) \<Longrightarrow> effects R m"
  by (simp add: effects_def)

lemma effectsD: "effects R m \<Longrightarrow> R w (snd (m w))"
  by (simp add: effects_def)

locale evolution =
  fixes R :: "'w \<Rightarrow> 'w \<Rightarrow> bool"
  assumes refl: "R w w"
    and trans: "R u v \<Longrightarrow> R v w \<Longrightarrow> R u w"
begin

lemma effects_ret: "effects R (ret x)"
  by (simp add: effects_def ret_def refl)

lemma effects_fail: "effects R (fail e)"
  by (simp add: effects_def fail_def refl)

lemma effects_lift: "effects R (lift r)"
  by (simp add: effects_def lift_def refl)

lemma effects_bind:
  assumes m: "effects R m" and f: "\<And>x. effects R (f x)"
  shows "effects R (bind m f)"
proof
  fix w
  obtain r w' where mw: "m w = (r, w')" by fastforce
  have "R w w'" using effectsD [OF m, of w] by (simp add: mw)
  then show "R w (snd (bind m f w))"
    using effectsD [OF f, of w'] by (cases r) (auto simp: run_bind mw intro: trans)
qed

lemma effects_map_errS: "effects R m \<Longrightarrow> effects R (map_errS g m)"
  by (auto simp: effects_def run_map_errS split: prod.splits)
    (metis snd_conv)

lemma effects_for_each: "(\<And>x. x \<in> set xs \<Longrightarrow> effects R (f x)) \<Longrightarrow> effects R (for_each f xs)"
  by (induction xs) (auto intro: effects_ret effects_bind)

lemmas effects_rules =
  effects_ret effects_fail effects_lift effects_bind effects_map_errS effects_for_each

end

section \<open>Strings and bytes\<close>

text \<open>A Rust \<open>String\<close> is the list of its UTF-8 bytes, each written as a character.\<close>

definition as_bytes :: "string \<Rightarrow> bytes" where
  "as_bytes s = map of_char s"

definition chars_of :: "bytes \<Rightarrow> string" where
  "chars_of bs = map (\<lambda>b. char_of (unat b)) bs"

lemma of_nat_of_char_word: "(of_nat (of_char c) :: u8) = of_char c"
  by (cases c) (simp add: of_char_def)

lemma unat_of_char: "unat (of_char c :: u8) = of_char c"
  unfolding of_nat_of_char_word [symmetric] by (simp add: unat_of_nat)

lemma chars_of_as_bytes [simp]: "chars_of (as_bytes s) = s"
  by (simp add: chars_of_def as_bytes_def unat_of_char o_def)

lemma as_bytes_inject [simp]: "as_bytes s = as_bytes t \<longleftrightarrow> s = t"
  by (metis chars_of_as_bytes)

lemma as_bytes_append [simp]: "as_bytes (s @ t) = as_bytes s @ as_bytes t"
  by (simp add: as_bytes_def)

text \<open>The byte sequences \<open>String::from_utf8\<close> accepts (Unicode, table 3-7).\<close>

definition cont_byte :: "u8 \<Rightarrow> bool" where
  "cont_byte b \<longleftrightarrow> 0x80 \<le> b \<and> b \<le> 0xBF"

fun utf8_valid :: "bytes \<Rightarrow> bool" where
  "utf8_valid [] = True"
| "utf8_valid (b # bs) =
    (if b < 0x80 then utf8_valid bs
     else if 0xC2 \<le> b \<and> b \<le> 0xDF then
       (case bs of c1 # r \<Rightarrow> cont_byte c1 \<and> utf8_valid r | _ \<Rightarrow> False)
     else if 0xE0 \<le> b \<and> b \<le> 0xEF then
       (case bs of c1 # c2 # r \<Rightarrow>
          cont_byte c1 \<and> (b = 0xE0 \<longrightarrow> 0xA0 \<le> c1) \<and> (b = 0xED \<longrightarrow> c1 \<le> 0x9F) \<and>
          cont_byte c2 \<and> utf8_valid r
        | _ \<Rightarrow> False)
     else if 0xF0 \<le> b \<and> b \<le> 0xF4 then
       (case bs of c1 # c2 # c3 # r \<Rightarrow>
          cont_byte c1 \<and> (b = 0xF0 \<longrightarrow> 0x90 \<le> c1) \<and> (b = 0xF4 \<longrightarrow> c1 \<le> 0x8F) \<and>
          cont_byte c2 \<and> cont_byte c3 \<and> utf8_valid r
        | _ \<Rightarrow> False)
     else False)"

definition from_utf8 :: "bytes \<Rightarrow> string option" where
  "from_utf8 bs = (if utf8_valid bs then Some (chars_of bs) else None)"

definition is_ascii :: "string \<Rightarrow> bool" where
  "is_ascii s \<longleftrightarrow> (\<forall>c \<in> set s. (of_char c :: nat) < 128)"

lemma utf8_valid_ascii: "is_ascii s \<Longrightarrow> utf8_valid (as_bytes s)"
proof (induction s)
  case Nil
  then show ?case by (simp add: as_bytes_def)
next
  case (Cons c s)
  then have "(of_char c :: u8) < 0x80"
    by (simp add: is_ascii_def word_less_nat_alt unat_of_char)
  with Cons show ?case by (simp add: is_ascii_def as_bytes_def)
qed

lemma from_utf8_ascii: "is_ascii s \<Longrightarrow> from_utf8 (as_bytes s) = Some s"
  by (simp add: from_utf8_def utf8_valid_ascii)

lemma is_ascii_append [simp]: "is_ascii (s @ t) \<longleftrightarrow> is_ascii s \<and> is_ascii t"
  by (auto simp: is_ascii_def)

section \<open>Decimal numbers\<close>

definition digit_char :: "nat \<Rightarrow> char" where
  "digit_char d = char_of (48 + d)"

definition is_digit :: "char \<Rightarrow> bool" where
  "is_digit c \<longleftrightarrow> 48 \<le> (of_char c :: nat) \<and> (of_char c :: nat) \<le> 57"

definition digit_val :: "char \<Rightarrow> nat" where
  "digit_val c = of_char c - 48"

fun show_nat :: "nat \<Rightarrow> string" where
  "show_nat n = (if n < 10 then [digit_char n] else show_nat (n div 10) @ [digit_char (n mod 10)])"

declare show_nat.simps [simp del]

definition show_int :: "int \<Rightarrow> string" where
  "show_int i = (if i < 0 then CHR ''-'' # show_nat (nat (- i)) else show_nat (nat i))"

definition read_digits :: "string \<Rightarrow> nat" where
  "read_digits s = foldl (\<lambda>n c. 10 * n + digit_val c) 0 s"

text \<open>
  \<open>str::parse\<close> for an unsigned type of \<open>w\<close> bits: an optional plus sign, at least one digit,
  digits only, and no overflow.
\<close>

definition parse_unsigned :: "nat \<Rightarrow> string \<Rightarrow> nat option" where
  "parse_unsigned w s =
    (let ds = (case s of c # r \<Rightarrow> if c = CHR ''+'' then r else s | [] \<Rightarrow> [])
     in if ds \<noteq> [] \<and> list_all is_digit ds \<and> read_digits ds < 2 ^ w
        then Some (read_digits ds) else None)"

lemma of_char_digit_char [simp]: "d < 10 \<Longrightarrow> of_char (digit_char d) = (48 + d :: nat)"
  by (simp add: digit_char_def)

lemma digit_val_digit_char [simp]: "d < 10 \<Longrightarrow> digit_val (digit_char d) = d"
  by (simp add: digit_val_def)

lemma is_digit_digit_char [simp]: "d < 10 \<Longrightarrow> is_digit (digit_char d)"
  by (simp add: is_digit_def)

lemma show_nat_digits: "list_all is_digit (show_nat n)"
proof (induction n rule: show_nat.induct)
  case (1 n)
  then show ?case by (subst show_nat.simps) simp
qed

lemma show_nat_nonempty [simp]: "show_nat n \<noteq> []"
  by (subst show_nat.simps) simp

lemma read_digits_snoc: "read_digits (s @ [c]) = 10 * read_digits s + digit_val c"
  by (simp add: read_digits_def)

lemma read_show_nat [simp]: "read_digits (show_nat n) = n"
proof (induction n rule: show_nat.induct)
  case (1 n)
  show ?case
  proof (cases "n < 10")
    case True
    then show ?thesis by (subst show_nat.simps) (simp add: read_digits_def)
  next
    case False
    then show ?thesis
      using 1 by (subst show_nat.simps) (simp add: read_digits_snoc)
  qed
qed

lemma show_nat_inject [simp]: "show_nat m = show_nat n \<longleftrightarrow> m = n"
  by (metis read_show_nat)

lemma is_digit_not_sign: "is_digit c \<Longrightarrow> c \<noteq> CHR ''-'' \<and> c \<noteq> CHR ''+'' \<and> c \<noteq> CHR ''.''"
  by (auto simp: is_digit_def)

lemma show_nat_hd: "show_nat n = c # s \<Longrightarrow> is_digit c"
  using show_nat_digits [of n] by simp

lemma show_int_inject [simp]: "show_int i = show_int j \<longleftrightarrow> i = j"
proof
  assume eq: "show_int i = show_int j"
  have sign: "show_nat m \<noteq> CHR ''-'' # s" for m s
    using show_nat_hd [of m "CHR ''-''" s] by (auto simp: is_digit_def)
  from eq show "i = j"
    by (auto simp: show_int_def sign sign [symmetric] split: if_splits)
qed simp

lemma show_int_no_dot: "CHR ''.'' \<notin> set (show_int i)"
  using show_nat_digits [of "nat i"] show_nat_digits [of "nat (- i)"]
  by (auto simp: show_int_def list_all_iff dest: is_digit_not_sign)

lemma parse_unsigned_show:
  assumes "n < 2 ^ w"
  shows "parse_unsigned w (show_nat n) = Some n"
proof -
  obtain c ds where s: "show_nat n = c # ds" by (cases "show_nat n") auto
  have "read_digits (c # ds) = n" using read_show_nat [of n] by (simp add: s)
  moreover have "list_all is_digit (c # ds)" using show_nat_digits [of n] by (simp add: s)
  ultimately show ?thesis
    using assms by (auto simp: s parse_unsigned_def dest: is_digit_not_sign)
qed

text \<open>A text is cut at its first dot in one way only.\<close>

lemma first_sep_unique:
  assumes "xs @ c # ys = xs' @ c # ys'" "c \<notin> set xs" "c \<notin> set xs'"
  shows "xs = xs' \<and> ys = ys'"
  using assms
proof (induction xs arbitrary: xs')
  case Nil
  then show ?case by (cases xs') auto
next
  case (Cons x xs)
  then show ?case by (cases xs') auto
qed

section \<open>Searching a list\<close>

lemma find_skip: "list_all (\<lambda>y. \<not> P y) us \<Longrightarrow> find P (us @ xs) = find P xs"
  by (induction us) auto

lemma find_SomeE:
  assumes "find P xs = Some x"
  obtains us vs where "xs = us @ x # vs" "P x" "list_all (\<lambda>y. \<not> P y) us"
  using assms
proof (induction xs arbitrary: thesis)
  case (Cons y ys)
  show ?case
  proof (cases "P y")
    case True
    then show ?thesis using Cons.prems by (intro Cons.prems(1) [of "[]" ys]) auto
  next
    case False
    with Cons.prems(2) have "find P ys = Some x" by simp
    from Cons.IH [OF _ this] obtain us vs where
      "ys = us @ x # vs" "P x" "list_all (\<lambda>y. \<not> P y) us" by blast
    with False show ?thesis by (intro Cons.prems(1) [of "y # us" vs]) auto
  qed
qed simp

lemma find_split:
  "find P xs = Some x \<longleftrightarrow> (\<exists>us vs. xs = us @ x # vs \<and> P x \<and> list_all (\<lambda>y. \<not> P y) us)"
  by (rule iffI) (blast elim: find_SomeE, auto simp: find_skip)

lemma find_rev_iff:
  "find P (rev xs) = Some x \<longleftrightarrow> (\<exists>us vs. xs = us @ x # vs \<and> P x \<and> list_all (\<lambda>y. \<not> P y) vs)"
  (is "?l \<longleftrightarrow> ?r")
proof
  assume ?l
  then obtain us vs where uv: "rev xs = us @ x # vs" "P x" "list_all (\<lambda>y. \<not> P y) us"
    unfolding find_split by blast
  have "xs = rev vs @ x # rev us" using arg_cong [OF uv(1), of rev] by simp
  with uv(2,3) show ?r by (intro exI [of _ "rev vs"] exI [of _ "rev us"]) simp
next
  assume ?r
  then obtain us vs where "xs = us @ x # vs" "P x" "list_all (\<lambda>y. \<not> P y) vs" by blast
  then show ?l unfolding find_split by (intro exI [of _ "rev vs"] exI [of _ "rev us"]) simp
qed

end
