(* ===== verification/Extern.thy ===== *)
theory Extern
  imports Prelude
begin

text \<open>
  The values the program exchanges with the crates it depends on, and those crates' functions
  as the parameters of the model.  \<open>scval\<close> and \<open>scaddress\<close> have the variants of
  \<open>stellar_xdr::ScVal\<close> and \<open>ScAddress\<close> that the source matches on; every other variant is one
  opaque constructor, because the source treats them all alike.  \<open>json\<close> is a JSON document: the
  fields of an object in their order, with repetitions, an integer of any size, and \<open>JFraction\<close> for
  a number with a fraction or an exponent.  In what the program writes, dates, decimals and UUIDs stay
  values: their text is the business of the serializers of those crates.
\<close>

section \<open>Instants\<close>

text \<open>\<open>DateTime<Utc>\<close> as microseconds since the Unix epoch, the resolution Postgres stores.\<close>

type_synonym datetime = int

definition micros :: "int \<Rightarrow> int" where
  "micros secs = secs * 1000000"

definition timestamp :: "datetime \<Rightarrow> i64" where
  "timestamp t = int_as_i64 (t div 1000000)"

section \<open>Soroban values\<close>

datatype scaddress =
    ScAccount bytes
  | ScContract bytes
  | ScAddressOther nat

datatype scval =
    ScU32 u32
  | ScU64 u64
  | ScI128 i64 u64
  | ScSymbol bytes
  | ScString bytes
  | ScBytes bytes
  | ScAddress scaddress
  | ScVec "scval list option"
  | ScMap "(scval \<times> scval) list option"
  | ScOther nat

section \<open>JSON\<close>

type_synonym uuid = "128 word"

datatype json =
    JNull
  | JBool bool
  | JInt int
  | JFraction string
  | JStr string
  | JTime datetime
  | JDecimal int
  | JUuid uuid
  | JArr "json list"
  | JObj "(string \<times> json) list"

fun json_field :: "json \<Rightarrow> string \<Rightarrow> json option" where
  "json_field (JObj fs) k = map_of fs k"
| "json_field _ k = None"

text \<open>\<open>Option<T>\<close> serializes as \<open>null\<close> or the value.\<close>

definition json_opt :: "('a \<Rightarrow> json) \<Rightarrow> 'a option \<Rightarrow> json" where
  "json_opt f x = (case x of None \<Rightarrow> JNull | Some y \<Rightarrow> f y)"

section \<open>The crates\<close>

text \<open>
  \<open>scval_from_xdr_base64\<close> is \<open>ScVal::from_xdr_base64\<close> (\<open>None\<close> for an error), \<open>stringm_to_string\<close>
  is \<open>Display\<close> of \<open>StringM\<close>, \<open>strkey_ed25519_to_string\<close> and \<open>strkey_contract_to_string\<close> are the
  strkey encodings, \<open>datetime_from_timestamp\<close> is \<open>DateTime::from_timestamp(secs, 0)\<close>,
  \<open>hex_encode\<close> is \<open>hex::encode\<close>, \<open>hmac_sha256\<close> maps a key and the bytes fed to \<open>update\<close> to
  \<open>finalize\<close>, and \<open>json_to_vec\<close> is \<open>serde_json::to_vec\<close>.
\<close>

record crates =
  scval_from_xdr_base64 :: "string \<Rightarrow> scval option"
  stringm_to_string :: "bytes \<Rightarrow> string"
  strkey_ed25519_to_string :: "bytes \<Rightarrow> string"
  strkey_contract_to_string :: "bytes \<Rightarrow> string"
  datetime_from_timestamp :: "i64 \<Rightarrow> datetime option"
  hex_encode :: "bytes \<Rightarrow> string"
  hmac_sha256 :: "bytes \<Rightarrow> bytes \<Rightarrow> bytes"
  json_to_vec :: "json \<Rightarrow> bytes"

end
