(* ===== verification/Models.thy ===== *)
theory Models
  imports Extern
begin

text \<open>
  The row and response types of \<open>src/models.rs\<close>: the status enumerations with their text form,
  one record per table row, and the JSON each response type serializes to.  Record fields carry
  a prefix for their table, because HOL record fields share one name space.
\<close>

section \<open>Statuses\<close>

datatype escrow_status = Created | Funded | InProgress | Completed | Cancelled

fun escrow_status_as_str :: "escrow_status \<Rightarrow> string" where
  "escrow_status_as_str Created = ''created''"
| "escrow_status_as_str Funded = ''funded''"
| "escrow_status_as_str InProgress = ''in_progress''"
| "escrow_status_as_str Completed = ''completed''"
| "escrow_status_as_str Cancelled = ''cancelled''"

definition escrow_status_from_str :: "string \<Rightarrow> string + escrow_status" where
  "escrow_status_from_str s =
    (if s = ''created'' then Inr Created
     else if s = ''funded'' then Inr Funded
     else if s = ''in_progress'' then Inr InProgress
     else if s = ''completed'' then Inr Completed
     else if s = ''cancelled'' then Inr Cancelled
     else Inl (''unknown escrow status: '' @ s))"

datatype dispute_status = Open | Resolved

fun dispute_status_as_str :: "dispute_status \<Rightarrow> string" where
  "dispute_status_as_str Open = ''open''"
| "dispute_status_as_str Resolved = ''resolved''"

definition dispute_status_from_str :: "string \<Rightarrow> string + dispute_status" where
  "dispute_status_from_str s =
    (if s = ''open'' then Inr Open
     else if s = ''resolved'' then Inr Resolved
     else Inl (''unknown dispute status: '' @ s))"

section \<open>Rows\<close>

record escrow_row =
  e_id :: i64
  e_contract_id :: string
  e_client :: string
  e_provider :: string
  e_arbitrator :: string
  e_token :: string
  e_status :: string
  e_created_at :: datetime
  e_updated_at :: datetime
  e_updated_ledger :: i64
  e_review_period :: i64
  e_chain_created_at :: "datetime option"
  e_title :: "string option"
  e_metadata_uri :: "string option"
  e_metadata_hash :: "string option"

record milestone_row =
  m_escrow_id :: i64
  m_milestone_id :: i32
  m_description :: string
  m_amount :: int
  m_status :: string
  m_updated_at :: datetime
  m_deadline :: "datetime option"
  m_submitted_at :: "datetime option"
  m_evidence_uri :: "string option"
  m_evidence_hash :: "string option"
  m_released_via :: "string option"

record dispute_row =
  d_escrow_id :: i64
  d_milestone_id :: i32
  d_raised_by :: string
  d_reason :: string
  d_status :: string
  d_resolution_kind :: "string option"
  d_resolution_provider_bps :: "i32 option"
  d_created_at :: datetime
  d_resolved_at :: "datetime option"

record webhook_row =
  w_id :: uuid
  w_escrow_id :: i64
  w_owner_address :: string
  w_url :: string
  w_created_at :: datetime
  w_secret :: string

record escrow_detail =
  ed_escrow :: escrow_row
  ed_milestones :: "milestone_row list"

record webhook_created =
  wc_id :: uuid
  wc_escrow_id :: i64
  wc_owner_address :: string
  wc_url :: string
  wc_created_at :: datetime
  wc_secret :: string

definition webhook_created_from :: "webhook_row \<Rightarrow> webhook_created" where
  "webhook_created_from w =
    \<lparr>wc_id = w_id w, wc_escrow_id = w_escrow_id w, wc_owner_address = w_owner_address w,
     wc_url = w_url w, wc_created_at = w_created_at w, wc_secret = w_secret w\<rparr>"

section \<open>Serialization\<close>

definition escrow_row_fields :: "escrow_row \<Rightarrow> (string \<times> json) list" where
  "escrow_row_fields e =
    [(''id'', JInt (i64_int (e_id e))),
     (''contract_id'', JStr (e_contract_id e)),
     (''client'', JStr (e_client e)),
     (''provider'', JStr (e_provider e)),
     (''arbitrator'', JStr (e_arbitrator e)),
     (''token'', JStr (e_token e)),
     (''status'', JStr (e_status e)),
     (''created_at'', JTime (e_created_at e)),
     (''updated_at'', JTime (e_updated_at e)),
     (''updated_ledger'', JInt (i64_int (e_updated_ledger e))),
     (''review_period'', JInt (i64_int (e_review_period e))),
     (''chain_created_at'', json_opt JTime (e_chain_created_at e)),
     (''title'', json_opt JStr (e_title e)),
     (''metadata_uri'', json_opt JStr (e_metadata_uri e)),
     (''metadata_hash'', json_opt JStr (e_metadata_hash e))]"

definition milestone_row_json :: "milestone_row \<Rightarrow> json" where
  "milestone_row_json m = JObj
    [(''escrow_id'', JInt (i64_int (m_escrow_id m))),
     (''milestone_id'', JInt (i32_int (m_milestone_id m))),
     (''description'', JStr (m_description m)),
     (''amount'', JDecimal (m_amount m)),
     (''status'', JStr (m_status m)),
     (''updated_at'', JTime (m_updated_at m)),
     (''deadline'', json_opt JTime (m_deadline m)),
     (''submitted_at'', json_opt JTime (m_submitted_at m)),
     (''evidence_uri'', json_opt JStr (m_evidence_uri m)),
     (''evidence_hash'', json_opt JStr (m_evidence_hash m)),
     (''released_via'', json_opt JStr (m_released_via m))]"

definition dispute_row_json :: "dispute_row \<Rightarrow> json" where
  "dispute_row_json d = JObj
    [(''escrow_id'', JInt (i64_int (d_escrow_id d))),
     (''milestone_id'', JInt (i32_int (d_milestone_id d))),
     (''raised_by'', JStr (d_raised_by d)),
     (''reason'', JStr (d_reason d)),
     (''status'', JStr (d_status d)),
     (''resolution_kind'', json_opt JStr (d_resolution_kind d)),
     (''resolution_provider_bps'',
        json_opt (\<lambda>b. JInt (i32_int b)) (d_resolution_provider_bps d)),
     (''created_at'', JTime (d_created_at d)),
     (''resolved_at'', json_opt JTime (d_resolved_at d))]"

text \<open>\<open>#[serde(flatten)]\<close> puts the escrow's own fields beside \<open>milestones\<close>.\<close>

definition escrow_detail_json :: "escrow_detail \<Rightarrow> json" where
  "escrow_detail_json d = JObj
    (escrow_row_fields (ed_escrow d) @
     [(''milestones'', JArr (map milestone_row_json (ed_milestones d)))])"

text \<open>\<open>secret\<close> is \<open>skip_serializing\<close> in \<open>WebhookRow\<close>, and a plain field of \<open>WebhookCreated\<close>.\<close>

definition webhook_row_json :: "webhook_row \<Rightarrow> json" where
  "webhook_row_json w = JObj
    [(''id'', JUuid (w_id w)),
     (''escrow_id'', JInt (i64_int (w_escrow_id w))),
     (''owner_address'', JStr (w_owner_address w)),
     (''url'', JStr (w_url w)),
     (''created_at'', JTime (w_created_at w))]"

definition webhook_created_json :: "webhook_created \<Rightarrow> json" where
  "webhook_created_json w = JObj
    [(''id'', JUuid (wc_id w)),
     (''escrow_id'', JInt (i64_int (wc_escrow_id w))),
     (''owner_address'', JStr (wc_owner_address w)),
     (''url'', JStr (wc_url w)),
     (''created_at'', JTime (wc_created_at w)),
     (''secret'', JStr (wc_secret w))]"

section \<open>Facts\<close>

lemma escrow_status_from_as_str [simp]:
  "escrow_status_from_str (escrow_status_as_str s) = Inr s"
  by (cases s) (simp_all add: escrow_status_from_str_def)

lemma escrow_status_from_strD:
  "escrow_status_from_str t = Inr s \<Longrightarrow> t = escrow_status_as_str s"
  by (auto simp: escrow_status_from_str_def split: if_split_asm)

lemma escrow_status_from_str_Inr:
  "escrow_status_from_str t = Inr s \<longleftrightarrow> t = escrow_status_as_str s"
  using escrow_status_from_strD by fastforce

lemma dispute_status_from_as_str [simp]:
  "dispute_status_from_str (dispute_status_as_str s) = Inr s"
  by (cases s) (simp_all add: dispute_status_from_str_def)

lemma dispute_status_from_strD:
  "dispute_status_from_str t = Inr s \<Longrightarrow> t = dispute_status_as_str s"
  by (auto simp: dispute_status_from_str_def split: if_split_asm)

lemma dispute_status_from_str_Inr:
  "dispute_status_from_str t = Inr s \<longleftrightarrow> t = dispute_status_as_str s"
  using dispute_status_from_strD by fastforce

lemma escrow_status_as_str_inject [simp]:
  "escrow_status_as_str s = escrow_status_as_str t \<longleftrightarrow> s = t"
  by (metis escrow_status_from_as_str sum.inject(2))

end
