(* ===== verification/Tables.thy ===== *)
theory Tables
  imports Prelude
begin

text \<open>
  The shapes of the SQL statements in \<open>src/db.rs\<close> over a table held as the list of its rows:
  selection by key, \<open>UPDATE ... WHERE\<close>, \<open>DELETE ... WHERE\<close>, and \<open>LIMIT ... OFFSET\<close>.  The
  lemmas say what each does to the rows, to their keys and to a lookup.
\<close>

definition find_by :: "('r \<Rightarrow> 'k) \<Rightarrow> 'k \<Rightarrow> 'r list \<Rightarrow> 'r option" where
  "find_by key k rows = find (\<lambda>r. key r = k) rows"

definition update_where :: "('r \<Rightarrow> bool) \<Rightarrow> ('r \<Rightarrow> 'r) \<Rightarrow> 'r list \<Rightarrow> 'r list" where
  "update_where P f rows = map (\<lambda>r. if P r then f r else r) rows"

definition delete_where :: "('r \<Rightarrow> bool) \<Rightarrow> 'r list \<Rightarrow> 'r list" where
  "delete_where P rows = filter (\<lambda>r. \<not> P r) rows"

definition page :: "nat \<Rightarrow> nat \<Rightarrow> 'r list \<Rightarrow> 'r list" where
  "page lim off rows = take lim (drop off rows)"

lemma find_by_Nil [simp]: "find_by key k [] = None"
  by (simp add: find_by_def)

lemma find_by_SomeD: "find_by key k rows = Some r \<Longrightarrow> r \<in> set rows \<and> key r = k"
  by (auto simp: find_by_def find_Some_iff)

lemma find_by_None_iff: "find_by key k rows = None \<longleftrightarrow> (\<forall>r \<in> set rows. key r \<noteq> k)"
  by (auto simp: find_by_def find_None_iff)

lemma find_by_append:
  "find_by key k (xs @ ys) =
    (case find_by key k xs of Some r \<Rightarrow> Some r | None \<Rightarrow> find_by key k ys)"
  by (induction xs) (auto simp: find_by_def)

lemma find_by_append_one [simp]:
  "find_by key k (xs @ [r]) =
    (case find_by key k xs of Some r' \<Rightarrow> Some r' | None \<Rightarrow> if key r = k then Some r else None)"
  by (simp add: find_by_append find_by_def [of key k "[r]"] split: option.split)

lemma find_by_update_where:
  assumes "\<And>r. key (f r) = key r"
  shows "find_by key k (update_where P f rows) =
    map_option (\<lambda>r. if P r then f r else r) (find_by key k rows)"
  by (induction rows) (auto simp: find_by_def update_where_def assms)

lemma find_by_distinct:
  "distinct (map key rows) \<Longrightarrow> r \<in> set rows \<Longrightarrow> find_by key (key r) rows = Some r"
  by (induction rows) (auto simp: find_by_def rev_image_eqI)

lemma set_update_where:
  "r \<in> set (update_where P f rows) \<longleftrightarrow>
    (\<exists>r0 \<in> set rows. r = (if P r0 then f r0 else r0))"
  by (auto simp: update_where_def)

lemma update_where_cases:
  assumes "r \<in> set (update_where P f rows)"
  obtains (kept) "r \<in> set rows" "\<not> P r"
        | (changed) r0 where "r0 \<in> set rows" "P r0" "r = f r0"
  using assms by (auto simp: set_update_where split: if_splits)

lemma map_key_update_where:
  assumes "\<And>r. key (f r) = key r"
  shows "map key (update_where P f rows) = map key rows"
  by (simp add: update_where_def o_def assms if_distrib cong: if_cong)

lemma list_all_update_where:
  "list_all I rows \<Longrightarrow> (\<And>r. P r \<Longrightarrow> I r \<Longrightarrow> I (f r)) \<Longrightarrow> list_all I (update_where P f rows)"
  by (auto simp: list_all_iff set_update_where)

lemma update_where_unmatched [simp]:
  "(\<And>r. r \<in> set rows \<Longrightarrow> \<not> P r) \<Longrightarrow> update_where P f rows = rows"
  by (simp add: update_where_def map_idI)

lemma update_where_append [simp]:
  "update_where P f (xs @ ys) = update_where P f xs @ update_where P f ys"
  by (simp add: update_where_def)

lemma set_delete_where [simp]: "set (delete_where P rows) = {r \<in> set rows. \<not> P r}"
  by (auto simp: delete_where_def)

lemma list_all_delete_where: "list_all I rows \<Longrightarrow> list_all I (delete_where P rows)"
  by (simp add: list_all_iff)

lemma distinct_delete_where:
  "distinct (map key rows) \<Longrightarrow> distinct (map key (delete_where P rows))"
  by (simp add: delete_where_def distinct_map_filter)

lemma delete_where_length_less:
  "length (delete_where P rows) < length rows \<longleftrightarrow> (\<exists>r \<in> set rows. P r)"
  unfolding delete_where_def
  by (metis (mono_tags, lifting) filter_True length_filter_le length_filter_less
      nat_less_le)

lemma length_page: "length (page lim off rows) \<le> lim"
  by (simp add: page_def)

lemma set_page_subset: "set (page lim off rows) \<subseteq> set rows"
  by (auto simp: page_def dest!: in_set_takeD in_set_dropD)

lemma page_append: "page a off rows @ page b (off + a) rows = page (a + b) off rows"
  by (simp add: page_def take_add add.commute)

lemma page_all: "length rows \<le> lim \<Longrightarrow> page lim 0 rows = rows"
  by (simp add: page_def)

end
