(* ===== verification/Db.thy ===== *)
theory Db
  imports Models Tables
begin

text \<open>
  The database of \<open>migrations/*.sql\<close> and every statement of \<open>src/db.rs\<close>.  A table is the list of
  its rows; a statement maps the server's clock and the tables to its result and the tables it
  leaves, with the primary keys, the foreign keys to \<open>escrows\<close> and the \<open>NUMERIC(39, 0)\<close> bound of
  the schema checked where the server checks them.  A function of \<open>src/db.rs\<close> sends one
  statement over the pool: other tasks may write before the server runs it, and the connection may
  be lost before the server runs it or after, so that the caller sees an error for a statement
  that took effect.
\<close>

section \<open>Tables and pool\<close>

datatype db_error =
    ConnectionLost
  | UniqueViolation
  | ForeignKeyViolation
  | NumericOverflow
  | InvalidRowCount
  | RowNotFound

record tables =
  escrows :: "escrow_row list"
  milestones :: "milestone_row list"
  disputes :: "dispute_row list"
  webhooks :: "webhook_row list"
  indexer_cursor :: "(i64 \<times> string option) option"

text \<open>The schema just after the migrations ran: empty tables and the one cursor row.\<close>

definition migrated :: tables where
  "migrated =
    \<lparr>escrows = [], milestones = [], disputes = [], webhooks = [],
     indexer_cursor = Some (I64 0, None)\<rparr>"

datatype delivery = Healthy | LostBefore | LostAfter

text \<open>
  \<open>pending\<close> holds what happens around the statements still to be sent: how each is delivered, how
  many microseconds pass until the server runs it, and what the other tasks of the process do to
  the tables meanwhile.  Once it is used up, every statement is run at once and alone.
\<close>

type_synonym gap = "delivery \<times> nat \<times> (tables \<Rightarrow> tables)"

record pool =
  tabs :: tables
  pending :: "gap list"
  clock :: datetime

definition next_gap :: "'z pool_scheme \<Rightarrow> gap" where
  "next_gap p = (case pending p of [] \<Rightarrow> (Healthy, 0, id) | g # _ \<Rightarrow> g)"

type_synonym 'a stmt = "datetime \<Rightarrow> tables \<Rightarrow> db_error + 'a \<times> tables"

definition exec_sql :: "'a stmt \<Rightarrow> ('z pool_scheme, db_error, 'a) eff" where
  "exec_sql stmt p =
    (let (d, dt, others) = next_gap p;
         now = clock p + int dt;
         T0 = others (tabs p);
         p' = p\<lparr>tabs := T0, pending := tl (pending p), clock := now\<rparr>
     in case d of
          LostBefore \<Rightarrow> (Inl ConnectionLost, p')
        | Healthy \<Rightarrow>
            (case stmt now T0 of
               Inl e \<Rightarrow> (Inl e, p')
             | Inr (x, T) \<Rightarrow> (Inr x, p'\<lparr>tabs := T\<rparr>))
        | LostAfter \<Rightarrow>
            (case stmt now T0 of
               Inl e \<Rightarrow> (Inl ConnectionLost, p')
             | Inr (_, T) \<Rightarrow> (Inl ConnectionLost, p'\<lparr>tabs := T\<rparr>)))"

section \<open>Reads\<close>

record escrow_filter =
  f_client :: "string option"
  f_provider :: "string option"
  f_status :: "string option"
  f_limit :: i64
  f_offset :: i64

definition opt_match :: "string option \<Rightarrow> string \<Rightarrow> bool" where
  "opt_match pat v = (case pat of None \<Rightarrow> True | Some p \<Rightarrow> v = p)"

definition limit_offset :: "i64 \<Rightarrow> i64 \<Rightarrow> 'r list \<Rightarrow> db_error + 'r list" where
  "limit_offset lim off rows =
    (if lim < I64 0 \<or> off < I64 0 then Inl InvalidRowCount
     else Inr (page (nat (i64_int lim)) (nat (i64_int off)) rows))"

definition read_only :: "(tables \<Rightarrow> db_error + 'a) \<Rightarrow> 'a stmt" where
  "read_only q = (\<lambda>now T. bindE (q T) (\<lambda>x. Inr (x, T)))"

definition get_escrow :: "i64 \<Rightarrow> ('z pool_scheme, db_error, escrow_row option) eff" where
  "get_escrow k = exec_sql (read_only (\<lambda>T. Inr (find_by e_id k (escrows T))))"

definition list_milestones_query :: "i64 \<Rightarrow> tables \<Rightarrow> milestone_row list" where
  "list_milestones_query k T =
    sort_key m_milestone_id (filter (\<lambda>m. m_escrow_id m = k) (milestones T))"

definition list_milestones :: "i64 \<Rightarrow> ('z pool_scheme, db_error, milestone_row list) eff" where
  "list_milestones k = exec_sql (read_only (\<lambda>T. Inr (list_milestones_query k T)))"

definition matching_escrows :: "escrow_filter \<Rightarrow> tables \<Rightarrow> escrow_row list" where
  "matching_escrows flt T =
    rev (sort_key e_id
      (filter (\<lambda>e. opt_match (f_client flt) (e_client e) \<and>
                   opt_match (f_provider flt) (e_provider e) \<and>
                   opt_match (f_status flt) (e_status e)) (escrows T)))"

definition list_escrows :: "escrow_filter \<Rightarrow> ('z pool_scheme, db_error, escrow_row list) eff" where
  "list_escrows flt =
    exec_sql (read_only (\<lambda>T. limit_offset (f_limit flt) (f_offset flt) (matching_escrows flt T)))"

definition matching_disputes :: "string option \<Rightarrow> tables \<Rightarrow> dispute_row list" where
  "matching_disputes st T =
    rev (sort_key d_created_at (filter (\<lambda>d. opt_match st (d_status d)) (disputes T)))"

definition list_disputes ::
  "string option \<Rightarrow> i64 \<Rightarrow> i64 \<Rightarrow> ('z pool_scheme, db_error, dispute_row list) eff" where
  "list_disputes st lim off =
    exec_sql (read_only (\<lambda>T. limit_offset lim off (matching_disputes st T)))"

section \<open>Escrows\<close>

definition upsert_escrow_stmt ::
  "i64 \<Rightarrow> string \<Rightarrow> string \<Rightarrow> string \<Rightarrow> string \<Rightarrow> string \<Rightarrow> string \<Rightarrow> i64 \<Rightarrow> i64 \<Rightarrow> datetime \<Rightarrow>
   string option \<Rightarrow> string option \<Rightarrow> string option \<Rightarrow> unit stmt" where
  "upsert_escrow_stmt k contract_id client provider arbitrator token status ledger
     review_period chain_created_at title metadata_uri metadata_hash now T =
    (case find_by e_id k (escrows T) of
       None \<Rightarrow>
         Inr ((), T\<lparr>escrows := escrows T @
           [\<lparr>e_id = k, e_contract_id = contract_id, e_client = client, e_provider = provider,
             e_arbitrator = arbitrator, e_token = token, e_status = status,
             e_created_at = now, e_updated_at = now, e_updated_ledger = ledger,
             e_review_period = review_period, e_chain_created_at = Some chain_created_at,
             e_title = title, e_metadata_uri = metadata_uri, e_metadata_hash = metadata_hash\<rparr>]\<rparr>)
     | Some _ \<Rightarrow>
         Inr ((), T\<lparr>escrows := update_where (\<lambda>r. e_id r = k \<and> ledger \<ge> e_updated_ledger r)
           (\<lambda>r. r\<lparr>e_status := status, e_updated_at := now, e_updated_ledger := ledger\<rparr>)
           (escrows T)\<rparr>))"

definition upsert_escrow ::
  "i64 \<Rightarrow> string \<Rightarrow> string \<Rightarrow> string \<Rightarrow> string \<Rightarrow> string \<Rightarrow> string \<Rightarrow> i64 \<Rightarrow> i64 \<Rightarrow> datetime \<Rightarrow>
   string option \<Rightarrow> string option \<Rightarrow> string option \<Rightarrow> ('z pool_scheme, db_error, unit) eff" where
  "upsert_escrow k contract_id client provider arbitrator token status ledger
     review_period chain_created_at title metadata_uri metadata_hash =
    exec_sql (upsert_escrow_stmt k contract_id client provider arbitrator token status ledger
      review_period chain_created_at title metadata_uri metadata_hash)"

definition set_escrow_status_stmt :: "i64 \<Rightarrow> string \<Rightarrow> i64 \<Rightarrow> unit stmt" where
  "set_escrow_status_stmt k status ledger now T =
    Inr ((), T\<lparr>escrows := update_where (\<lambda>r. e_id r = k \<and> ledger \<ge> e_updated_ledger r)
      (\<lambda>r. r\<lparr>e_status := status, e_updated_at := now, e_updated_ledger := ledger\<rparr>)
      (escrows T)\<rparr>)"

definition set_escrow_status ::
  "i64 \<Rightarrow> string \<Rightarrow> i64 \<Rightarrow> ('z pool_scheme, db_error, unit) eff" where
  "set_escrow_status k status ledger = exec_sql (set_escrow_status_stmt k status ledger)"

section \<open>Milestones\<close>

abbreviation m_key :: "milestone_row \<Rightarrow> i64 \<times> i32" where
  "m_key m \<equiv> (m_escrow_id m, m_milestone_id m)"

definition escrow_exists :: "i64 \<Rightarrow> tables \<Rightarrow> bool" where
  "escrow_exists k T \<longleftrightarrow> find_by e_id k (escrows T) \<noteq> None"

definition fits_numeric_39 :: "int \<Rightarrow> bool" where
  "fits_numeric_39 n \<longleftrightarrow> \<bar>n\<bar> < 10 ^ 39"

definition upsert_milestone_stmt ::
  "i64 \<Rightarrow> i32 \<Rightarrow> string \<Rightarrow> int \<Rightarrow> string \<Rightarrow> datetime \<Rightarrow> unit stmt" where
  "upsert_milestone_stmt k mid description amount status deadline now T =
    (if \<not> fits_numeric_39 amount then Inl NumericOverflow
     else case find_by m_key (k, mid) (milestones T) of
       None \<Rightarrow>
         if escrow_exists k T then
           Inr ((), T\<lparr>milestones := milestones T @
             [\<lparr>m_escrow_id = k, m_milestone_id = mid, m_description = description,
               m_amount = amount, m_status = status, m_updated_at = now,
               m_deadline = Some deadline, m_submitted_at = None, m_evidence_uri = None,
               m_evidence_hash = None, m_released_via = None\<rparr>]\<rparr>)
         else Inl ForeignKeyViolation
     | Some _ \<Rightarrow>
         Inr ((), T\<lparr>milestones := update_where (\<lambda>m. m_key m = (k, mid))
           (\<lambda>m. m\<lparr>m_status := status, m_updated_at := now\<rparr>) (milestones T)\<rparr>))"

definition upsert_milestone ::
  "i64 \<Rightarrow> i32 \<Rightarrow> string \<Rightarrow> int \<Rightarrow> string \<Rightarrow> datetime \<Rightarrow> ('z pool_scheme, db_error, unit) eff" where
  "upsert_milestone k mid description amount status deadline =
    exec_sql (upsert_milestone_stmt k mid description amount status deadline)"

definition set_milestone_status_stmt :: "i64 \<Rightarrow> i32 \<Rightarrow> string \<Rightarrow> unit stmt" where
  "set_milestone_status_stmt k mid status now T =
    Inr ((), T\<lparr>milestones := update_where (\<lambda>m. m_key m = (k, mid))
      (\<lambda>m. m\<lparr>m_status := status, m_updated_at := now\<rparr>) (milestones T)\<rparr>)"

definition set_milestone_status ::
  "i64 \<Rightarrow> i32 \<Rightarrow> string \<Rightarrow> ('z pool_scheme, db_error, unit) eff" where
  "set_milestone_status k mid status = exec_sql (set_milestone_status_stmt k mid status)"

definition mark_milestone_submitted_stmt ::
  "i64 \<Rightarrow> i32 \<Rightarrow> string option \<Rightarrow> string option \<Rightarrow> datetime \<Rightarrow> unit stmt" where
  "mark_milestone_submitted_stmt k mid evidence_uri evidence_hash submitted_at now T =
    Inr ((), T\<lparr>milestones := update_where (\<lambda>m. m_key m = (k, mid))
      (\<lambda>m. m\<lparr>m_status := ''submitted'', m_evidence_uri := evidence_uri,
             m_evidence_hash := evidence_hash, m_submitted_at := Some submitted_at,
             m_updated_at := now\<rparr>) (milestones T)\<rparr>)"

definition mark_milestone_submitted ::
  "i64 \<Rightarrow> i32 \<Rightarrow> string option \<Rightarrow> string option \<Rightarrow> datetime \<Rightarrow>
   ('z pool_scheme, db_error, unit) eff" where
  "mark_milestone_submitted k mid evidence_uri evidence_hash submitted_at =
    exec_sql (mark_milestone_submitted_stmt k mid evidence_uri evidence_hash submitted_at)"

definition release_milestone_stmt :: "i64 \<Rightarrow> i32 \<Rightarrow> string \<Rightarrow> unit stmt" where
  "release_milestone_stmt k mid via now T =
    Inr ((), T\<lparr>milestones := update_where (\<lambda>m. m_key m = (k, mid))
      (\<lambda>m. m\<lparr>m_status := ''released'', m_released_via := Some via, m_updated_at := now\<rparr>)
      (milestones T)\<rparr>)"

definition release_milestone ::
  "i64 \<Rightarrow> i32 \<Rightarrow> string \<Rightarrow> ('z pool_scheme, db_error, unit) eff" where
  "release_milestone k mid via = exec_sql (release_milestone_stmt k mid via)"

section \<open>Disputes\<close>

abbreviation d_key :: "dispute_row \<Rightarrow> i64 \<times> i32" where
  "d_key d \<equiv> (d_escrow_id d, d_milestone_id d)"

definition insert_dispute_stmt :: "i64 \<Rightarrow> i32 \<Rightarrow> string \<Rightarrow> string \<Rightarrow> unit stmt" where
  "insert_dispute_stmt k mid raised_by reason now T =
    (case find_by d_key (k, mid) (disputes T) of
       Some _ \<Rightarrow> Inr ((), T)
     | None \<Rightarrow>
         if escrow_exists k T then
           Inr ((), T\<lparr>disputes := disputes T @
             [\<lparr>d_escrow_id = k, d_milestone_id = mid, d_raised_by = raised_by,
               d_reason = reason, d_status = ''open'', d_resolution_kind = None,
               d_resolution_provider_bps = None, d_created_at = now,
               d_resolved_at = None\<rparr>]\<rparr>)
         else Inl ForeignKeyViolation)"

definition insert_dispute ::
  "i64 \<Rightarrow> i32 \<Rightarrow> string \<Rightarrow> string \<Rightarrow> ('z pool_scheme, db_error, unit) eff" where
  "insert_dispute k mid raised_by reason = exec_sql (insert_dispute_stmt k mid raised_by reason)"

definition resolve_dispute_stmt :: "i64 \<Rightarrow> i32 \<Rightarrow> string \<Rightarrow> i32 option \<Rightarrow> unit stmt" where
  "resolve_dispute_stmt k mid kind bps now T =
    Inr ((), T\<lparr>disputes := update_where (\<lambda>d. d_key d = (k, mid))
      (\<lambda>d. d\<lparr>d_status := ''resolved'', d_resolution_kind := Some kind,
             d_resolution_provider_bps := bps, d_resolved_at := Some now\<rparr>) (disputes T)\<rparr>)"

definition resolve_dispute ::
  "i64 \<Rightarrow> i32 \<Rightarrow> string \<Rightarrow> i32 option \<Rightarrow> ('z pool_scheme, db_error, unit) eff" where
  "resolve_dispute k mid kind bps = exec_sql (resolve_dispute_stmt k mid kind bps)"

section \<open>Webhooks\<close>

definition insert_webhook_stmt ::
  "uuid \<Rightarrow> i64 \<Rightarrow> string \<Rightarrow> string \<Rightarrow> datetime \<Rightarrow> string \<Rightarrow> webhook_row stmt" where
  "insert_webhook_stmt k escrow_id owner_address url created_at secret now T =
    (let row = \<lparr>w_id = k, w_escrow_id = escrow_id, w_owner_address = owner_address,
                w_url = url, w_created_at = created_at, w_secret = secret\<rparr>
     in if find_by w_id k (webhooks T) \<noteq> None then Inl UniqueViolation
        else if \<not> escrow_exists escrow_id T then Inl ForeignKeyViolation
        else Inr (row, T\<lparr>webhooks := webhooks T @ [row]\<rparr>))"

text \<open>
  \<open>fresh_id\<close> and \<open>secret_bytes\<close> are what \<open>Uuid::new_v4\<close> and the thread's random generator gave;
  \<open>created_at\<close> is \<open>Utc::now()\<close> in the caller, before the statement is sent.
\<close>

definition insert_webhook ::
  "crates \<Rightarrow> uuid \<Rightarrow> bytes \<Rightarrow> i64 \<Rightarrow> string \<Rightarrow> string \<Rightarrow>
   ('z pool_scheme, db_error, webhook_row) eff" where
  "insert_webhook C fresh_id secret_bytes escrow_id owner_address url p =
    exec_sql (insert_webhook_stmt fresh_id escrow_id owner_address url (clock p)
      (hex_encode C secret_bytes)) p"

definition webhooks_of :: "i64 \<Rightarrow> tables \<Rightarrow> webhook_row list" where
  "webhooks_of escrow_id T = filter (\<lambda>w. w_escrow_id w = escrow_id) (webhooks T)"

definition list_webhooks_for_escrow ::
  "i64 \<Rightarrow> ('z pool_scheme, db_error, webhook_row list) eff" where
  "list_webhooks_for_escrow escrow_id =
    exec_sql (read_only (\<lambda>T. Inr (webhooks_of escrow_id T)))"

definition delete_webhook_stmt :: "uuid \<Rightarrow> string \<Rightarrow> bool stmt" where
  "delete_webhook_stmt k owner_address now T =
    (let kept = delete_where (\<lambda>w. w_id w = k \<and> w_owner_address w = owner_address) (webhooks T);
         rows_affected = length (webhooks T) - length kept
     in Inr (rows_affected > 0, T\<lparr>webhooks := kept\<rparr>))"

definition delete_webhook :: "uuid \<Rightarrow> string \<Rightarrow> ('z pool_scheme, db_error, bool) eff" where
  "delete_webhook k owner_address = exec_sql (delete_webhook_stmt k owner_address)"

section \<open>The indexer's cursor\<close>

definition get_cursor :: "('z pool_scheme, db_error, i64 \<times> string option) eff" where
  "get_cursor = exec_sql (read_only (\<lambda>T. ok_or RowNotFound (indexer_cursor T)))"

definition set_cursor_stmt :: "i64 \<Rightarrow> string \<Rightarrow> unit stmt" where
  "set_cursor_stmt last_ledger paging_token now T =
    Inr ((), T\<lparr>indexer_cursor :=
      map_option (\<lambda>_. (last_ledger, Some paging_token)) (indexer_cursor T)\<rparr>)"

definition set_cursor :: "i64 \<Rightarrow> string \<Rightarrow> ('z pool_scheme, db_error, unit) eff" where
  "set_cursor last_ledger paging_token = exec_sql (set_cursor_stmt last_ledger paging_token)"

end
