(* ===== verification/Writes.thy ===== *)
theory Writes
  imports Db
begin

text \<open>
  Every way this program changes the database, as one step relation on the tables:
  \<open>sql_write\<close> has one rule per writing statement of \<open>src/db.rs\<close>, with the arguments the callers in
  \<open>src/indexer/mod.rs\<close> and \<open>src/api/webhooks.rs\<close> can give it.  Both tasks of the process, the
  indexer and the HTTP handlers, are sequences of such steps, so what every step keeps holds under
  every interleaving of the two.  The contracts \<open>db_invariant\<close> and \<open>db_evolution\<close> state that
  argument once; they are interpreted on the schema invariant and on how rows may evolve.
\<close>

section \<open>Steps\<close>

definition party_of :: "string \<Rightarrow> escrow_row \<Rightarrow> bool" where
  "party_of a e \<longleftrightarrow> a = e_client e \<or> a = e_provider e \<or> a = e_arbitrator e"

inductive sql_write :: "tables \<Rightarrow> tables \<Rightarrow> bool" where
  upsert_escrow:
    "sql_write T T'" if
      "upsert_escrow_stmt k contract_id client provider arbitrator token ''created'' ledger
         review_period chain_created_at title metadata_uri metadata_hash now T = Inr (u, T')"
      "metadata_hash = None \<longleftrightarrow> metadata_uri = None"
| set_escrow_status:
    "sql_write T T'" if
      "set_escrow_status_stmt k (escrow_status_as_str st) ledger now T = Inr (u, T')"
| upsert_milestone:
    "sql_write T T'" if
      "upsert_milestone_stmt k mid description amount ''pending'' deadline now T = Inr (u, T')"
| set_milestone_status:
    "sql_write T T'" if
      "set_milestone_status_stmt k mid st now T = Inr (u, T')"
      "st = ''expired'' \<or> st = ''disputed'' \<or> st = ''resolved''"
| mark_milestone_submitted:
    "sql_write T T'" if
      "mark_milestone_submitted_stmt k mid uri hash at now T = Inr (u, T')"
      "hash = None \<longleftrightarrow> uri = None"
| release_milestone:
    "sql_write T T'" if
      "release_milestone_stmt k mid via now T = Inr (u, T')"
      "via = ''approved'' \<or> via = ''auto_release''"
| insert_dispute:
    "sql_write T T'" if
      "insert_dispute_stmt k mid raised_by reason now T = Inr (u, T')"
| resolve_dispute:
    "sql_write T T'" if
      "resolve_dispute_stmt k mid kind bps now T = Inr (u, T')"
      "kind = ''release'' \<and> bps = None \<or> kind = ''refund'' \<and> bps = None \<or>
       kind = ''split'' \<and> bps \<noteq> None"
| insert_webhook:
    "sql_write T T'" if
      "insert_webhook_stmt wid k owner url created_at secret now T = Inr (row, T')"
      "find_by e_id k (escrows T) = Some e" "party_of owner e"
| delete_webhook:
    "sql_write T T'" if
      "delete_webhook_stmt wid owner now T = Inr (b, T')"
| set_cursor:
    "sql_write T T'" if
      "set_cursor_stmt last_ledger token now T = Inr (u, T')"

abbreviation sql_writes :: "tables \<Rightarrow> tables \<Rightarrow> bool" where
  "sql_writes \<equiv> sql_write\<^sup>*\<^sup>*"

text \<open>
  The two tasks rely on each other: what happens between a task's statements is a sequence of
  such steps, and so is everything the task itself does.  A task also only consumes the
  \<open>pending\<close> gaps in order, and time does not run backwards.
\<close>

definition rely :: "'z pool_scheme \<Rightarrow> bool" where
  "rely p \<longleftrightarrow> (\<forall>(d, dt, others) \<in> set (pending p). \<forall>T. sql_writes T (others T))"

definition pool_writes :: "'z pool_scheme \<Rightarrow> 'z pool_scheme \<Rightarrow> bool" where
  "pool_writes p p' \<longleftrightarrow>
    (\<exists>n. pending p' = drop n (pending p)) \<and> clock p \<le> clock p' \<and>
    (rely p \<longrightarrow> sql_writes (tabs p) (tabs p'))"

lemmas stmt_defs =
  upsert_escrow_stmt_def set_escrow_status_stmt_def upsert_milestone_stmt_def
  set_milestone_status_stmt_def mark_milestone_submitted_stmt_def release_milestone_stmt_def
  insert_dispute_stmt_def resolve_dispute_stmt_def insert_webhook_stmt_def
  delete_webhook_stmt_def set_cursor_stmt_def

section \<open>What one statement over the pool does\<close>

lemma next_gap_rely: "rely p \<Longrightarrow> next_gap p = (d, dt, others) \<Longrightarrow> sql_writes T (others T)"
  by (auto simp: rely_def next_gap_def split: list.splits)

lemma rely_drop: "pending p' = drop n (pending p) \<Longrightarrow> rely p \<Longrightarrow> rely p'"
  by (auto simp: rely_def dest!: in_set_dropD)

lemma exec_sql_pending: "pending (snd (exec_sql stmt p)) = drop 1 (pending p)"
  by (auto simp: exec_sql_def Let_def drop_Suc split: prod.splits delivery.splits sum.splits)

lemma exec_sql_tabs:
  "rely p \<Longrightarrow> \<exists>T0. sql_writes (tabs p) T0 \<and>
    (tabs (snd (exec_sql stmt p)) = T0 \<or>
     (\<exists>now x. stmt now T0 = Inr (x, tabs (snd (exec_sql stmt p)))))"
  by (auto simp: exec_sql_def Let_def split: prod.splits delivery.splits sum.splits
      dest: next_gap_rely [of p _ _ _ "tabs p"])

lemma exec_sql_more [simp]: "pool.more (snd (exec_sql stmt p)) = pool.more p"
  by (auto simp: exec_sql_def Let_def split: prod.splits delivery.splits sum.splits)

lemma exec_sql_clock: "clock p \<le> clock (snd (exec_sql stmt p))"
  by (auto simp: exec_sql_def Let_def split: prod.splits delivery.splits sum.splits)

lemma exec_sql_InrD:
  assumes "exec_sql stmt p = (Inr x, p')"
  obtains d dt others now where
    "next_gap p = (d, dt, others)" "stmt now (others (tabs p)) = Inr (x, tabs p')" "now = clock p'"
  using assms
  by (fastforce simp: exec_sql_def Let_def split: prod.splits delivery.splits sum.splits)

lemma exec_sql_healthy:
  assumes "pending p = []"
  shows "exec_sql stmt p =
    (case stmt (clock p) (tabs p) of
       Inl e \<Rightarrow> (Inl e, p)
     | Inr (x, T) \<Rightarrow> (Inr x, p\<lparr>tabs := T\<rparr>))"
proof -
  have "p\<lparr>tabs := tabs p, pending := [], clock := clock p\<rparr> = p" using assms by simp
  then show ?thesis
    using assms by (simp add: exec_sql_def next_gap_def split: sum.splits)
qed

lemma exec_sql_healthy_read:
  "pending p = [] \<Longrightarrow> exec_sql (read_only q) p = (q (tabs p), p)"
  by (simp add: exec_sql_healthy read_only_def bindE_def split: sum.splits)

interpretation writes: evolution "pool_writes :: 'z pool_scheme \<Rightarrow> 'z pool_scheme \<Rightarrow> bool"
proof unfold_locales
  show "pool_writes w w" for w :: "'z pool_scheme"
    by (auto simp: pool_writes_def intro: exI [of _ 0])
  show "pool_writes u w" if "pool_writes u v" "pool_writes v w" for u v w :: "'z pool_scheme"
    using that unfolding pool_writes_def
    by (metis drop_drop order_trans rely_drop rtranclp_trans)
qed

lemma pool_writes_rely: "pool_writes p p' \<Longrightarrow> rely p \<Longrightarrow> rely p'"
  by (auto simp: pool_writes_def intro: rely_drop)

lemma pool_writes_quiet: "pool_writes p p' \<Longrightarrow> pending p = [] \<Longrightarrow> pending p' = []"
  by (auto simp: pool_writes_def)

lemma exec_sql_writes:
  assumes "\<And>now T x T'. rely p \<Longrightarrow> sql_writes (tabs p) T \<Longrightarrow> stmt now T = Inr (x, T') \<Longrightarrow> sql_writes T T'"
  shows "pool_writes p (snd (exec_sql stmt p))"
  unfolding pool_writes_def
  using exec_sql_tabs [of p stmt] exec_sql_pending [of stmt p] exec_sql_clock [of p stmt] assms
  by (metis rtranclp_trans)

lemma effects_exec_sql:
  assumes "\<And>now T x T'. stmt now T = Inr (x, T') \<Longrightarrow> sql_writes T T'"
  shows "effects pool_writes (exec_sql stmt)"
  by (rule effectsI, rule exec_sql_writes) (rule assms)

lemma effects_write:
  assumes "\<And>now T x T'. stmt now T = Inr (x, T') \<Longrightarrow> sql_write T T'"
  shows "effects pool_writes (exec_sql stmt)"
  by (rule effects_exec_sql) (blast dest: assms)

lemma effects_read_only: "effects pool_writes (exec_sql (read_only q))"
  by (rule effects_exec_sql) (auto simp: read_only_def bindE_Inr_iff)

lemma effects_db_reads [eff_intros]:
  "effects pool_writes (get_escrow k)"
  "effects pool_writes (list_milestones k)"
  "effects pool_writes (list_escrows flt)"
  "effects pool_writes (list_disputes st lim off)"
  "effects pool_writes (list_webhooks_for_escrow k)"
  "effects pool_writes get_cursor"
  by (simp_all add: get_escrow_def list_milestones_def list_escrows_def list_disputes_def
      list_webhooks_for_escrow_def get_cursor_def effects_read_only)

lemma effects_db_writes [eff_intros]:
  "(metadata_hash = None \<longleftrightarrow> metadata_uri = None) \<Longrightarrow>
   effects pool_writes (upsert_escrow k contract_id client provider arbitrator token ''created''
     ledger review_period chain_created_at title metadata_uri metadata_hash)"
  "effects pool_writes (set_escrow_status k (escrow_status_as_str s) ledger)"
  "effects pool_writes (upsert_milestone k mid description amount ''pending'' deadline)"
  "st = ''expired'' \<or> st = ''disputed'' \<or> st = ''resolved'' \<Longrightarrow>
   effects pool_writes (set_milestone_status k mid st)"
  "(hash = None \<longleftrightarrow> uri = None) \<Longrightarrow>
   effects pool_writes (mark_milestone_submitted k mid uri hash at)"
  "via = ''approved'' \<or> via = ''auto_release'' \<Longrightarrow>
   effects pool_writes (release_milestone k mid via)"
  "effects pool_writes (insert_dispute k mid raised_by reason)"
  "kind = ''release'' \<and> bps = None \<or> kind = ''refund'' \<and> bps = None \<or>
   kind = ''split'' \<and> bps \<noteq> None \<Longrightarrow> effects pool_writes (resolve_dispute k mid kind bps)"
  "effects pool_writes (delete_webhook wid owner)"
  "effects pool_writes (set_cursor last_ledger tok)"
  unfolding upsert_escrow_def set_escrow_status_def upsert_milestone_def
    set_milestone_status_def mark_milestone_submitted_def release_milestone_def
    insert_dispute_def resolve_dispute_def delete_webhook_def set_cursor_def
  by (rule effects_write, rule sql_write.intros; assumption)+

section \<open>The two contracts\<close>

locale db_invariant =
  fixes I :: "tables \<Rightarrow> bool"
  assumes step: "I T \<Longrightarrow> sql_write T T' \<Longrightarrow> I T'"
begin

lemma writes: "sql_writes T T' \<Longrightarrow> I T \<Longrightarrow> I T'"
  by (induction rule: rtranclp_induct) (auto intro: step)

lemma kept: "effects pool_writes m \<Longrightarrow> rely p \<Longrightarrow> I (tabs p) \<Longrightarrow> I (tabs (snd (m p)))"
  using effectsD [of pool_writes m p] by (auto simp: pool_writes_def intro: writes)

end

locale db_evolution =
  fixes E :: "tables \<Rightarrow> tables \<Rightarrow> bool"
  assumes evolves_refl: "E T T"
    and evolves_trans: "E T1 T2 \<Longrightarrow> E T2 T3 \<Longrightarrow> E T1 T3"
    and evolves_write: "sql_write T T' \<Longrightarrow> E T T'"
begin

sublocale from_state: db_invariant "E T0" for T0
  by unfold_locales (rule evolves_trans, assumption, rule evolves_write)

lemma evolves_writes: "sql_writes T T' \<Longrightarrow> E T T'"
  by (rule from_state.writes [OF _ evolves_refl])

lemma evolves_kept: "effects pool_writes m \<Longrightarrow> rely p \<Longrightarrow> E (tabs p) (tabs (snd (m p)))"
  by (rule from_state.kept [OF _ _ evolves_refl])

end

end
