(* ===== verification/Schema.thy ===== *)
theory Schema
  imports Writes
begin

text \<open>
  What the database always satisfies, whatever the two tasks of the process do and in whatever
  order: the keys and references of the schema and the vocabulary of every status column
  (\<open>schema_ok\<close>), and how a row that exists may still change (\<open>tables_evolve\<close>).
\<close>

section \<open>The schema invariant\<close>

definition known_escrow_status :: "string \<Rightarrow> bool" where
  "known_escrow_status s \<longleftrightarrow> (case escrow_status_from_str s of Inr _ \<Rightarrow> True | Inl _ \<Rightarrow> False)"

definition escrow_ok :: "escrow_row \<Rightarrow> bool" where
  "escrow_ok e \<longleftrightarrow>
    known_escrow_status (e_status e) \<and> (e_metadata_hash e = None \<longleftrightarrow> e_metadata_uri e = None)"

definition milestone_ok :: "milestone_row \<Rightarrow> bool" where
  "milestone_ok m \<longleftrightarrow>
    m_status m \<in> {''pending'', ''submitted'', ''released'', ''expired'', ''disputed'', ''resolved''} \<and>
    (m_status m = ''submitted'' \<longrightarrow> m_submitted_at m \<noteq> None) \<and>
    (m_status m = ''released'' \<longrightarrow> m_released_via m \<noteq> None) \<and>
    m_released_via m \<in> {None, Some ''approved'', Some ''auto_release''} \<and>
    (m_evidence_hash m = None \<longleftrightarrow> m_evidence_uri m = None) \<and>
    fits_numeric_39 (m_amount m)"

definition dispute_ok :: "dispute_row \<Rightarrow> bool" where
  "dispute_ok d \<longleftrightarrow>
    d_status d = ''open'' \<and> d_resolution_kind d = None \<and> d_resolution_provider_bps d = None \<and>
      d_resolved_at d = None \<or>
    d_status d = ''resolved'' \<and>
      d_resolution_kind d \<in> {Some ''release'', Some ''refund'', Some ''split''} \<and>
      (d_resolution_provider_bps d \<noteq> None \<longleftrightarrow> d_resolution_kind d = Some ''split'') \<and>
      d_resolved_at d \<noteq> None"

definition webhook_ok :: "tables \<Rightarrow> webhook_row \<Rightarrow> bool" where
  "webhook_ok T w \<longleftrightarrow>
    (case find_by e_id (w_escrow_id w) (escrows T) of
       None \<Rightarrow> False | Some e \<Rightarrow> party_of (w_owner_address w) e)"

definition cursor_ok :: "tables \<Rightarrow> bool" where
  "cursor_ok T \<longleftrightarrow>
    (case indexer_cursor T of
       None \<Rightarrow> False | Some (led, c) \<Rightarrow> c = None \<longrightarrow> led = I64 0)"

definition keys_ok :: "tables \<Rightarrow> bool" where
  "keys_ok T \<longleftrightarrow>
    distinct (map e_id (escrows T)) \<and> distinct (map m_key (milestones T)) \<and>
    distinct (map d_key (disputes T)) \<and> distinct (map w_id (webhooks T))"

definition references_ok :: "tables \<Rightarrow> bool" where
  "references_ok T \<longleftrightarrow>
    list_all (\<lambda>m. escrow_exists (m_escrow_id m) T) (milestones T) \<and>
    list_all (\<lambda>d. escrow_exists (d_escrow_id d) T) (disputes T) \<and>
    list_all (\<lambda>w. escrow_exists (w_escrow_id w) T) (webhooks T)"

definition rows_ok :: "tables \<Rightarrow> bool" where
  "rows_ok T \<longleftrightarrow>
    list_all escrow_ok (escrows T) \<and> list_all milestone_ok (milestones T) \<and>
    list_all dispute_ok (disputes T) \<and> list_all (webhook_ok T) (webhooks T)"

definition schema_ok :: "tables \<Rightarrow> bool" where
  "schema_ok T \<longleftrightarrow> keys_ok T \<and> references_ok T \<and> rows_ok T \<and> cursor_ok T"

section \<open>How rows evolve\<close>

definition escrow_evolves :: "escrow_row \<Rightarrow> escrow_row \<Rightarrow> bool" where
  "escrow_evolves e e' \<longleftrightarrow>
    e' = e\<lparr>e_status := e_status e', e_updated_at := e_updated_at e',
           e_updated_ledger := e_updated_ledger e'\<rparr> \<and>
    e_updated_ledger e \<le> e_updated_ledger e'"

definition milestone_evolves :: "milestone_row \<Rightarrow> milestone_row \<Rightarrow> bool" where
  "milestone_evolves m m' \<longleftrightarrow>
    m_escrow_id m' = m_escrow_id m \<and> m_milestone_id m' = m_milestone_id m \<and>
    m_description m' = m_description m \<and> m_amount m' = m_amount m \<and>
    m_deadline m' = m_deadline m \<and>
    (m_submitted_at m \<noteq> None \<longrightarrow> m_submitted_at m' \<noteq> None) \<and>
    (m_released_via m \<noteq> None \<longrightarrow> m_released_via m' \<noteq> None)"

definition dispute_evolves :: "dispute_row \<Rightarrow> dispute_row \<Rightarrow> bool" where
  "dispute_evolves d d' \<longleftrightarrow>
    d_escrow_id d' = d_escrow_id d \<and> d_milestone_id d' = d_milestone_id d \<and>
    d_raised_by d' = d_raised_by d \<and> d_reason d' = d_reason d \<and>
    d_created_at d' = d_created_at d \<and>
    (d_status d = ''resolved'' \<longrightarrow> d_status d' = ''resolved'')"

definition lookup_evolves :: "('k \<Rightarrow> 'r option) \<Rightarrow> ('k \<Rightarrow> 'r option) \<Rightarrow> ('r \<Rightarrow> 'r \<Rightarrow> bool) \<Rightarrow> bool"
where
  "lookup_evolves l l' E \<longleftrightarrow> (\<forall>k r. l k = Some r \<longrightarrow> (\<exists>r'. l' k = Some r' \<and> E r r'))"

definition tables_evolve :: "tables \<Rightarrow> tables \<Rightarrow> bool" where
  "tables_evolve T T' \<longleftrightarrow>
    lookup_evolves (\<lambda>k. find_by e_id k (escrows T)) (\<lambda>k. find_by e_id k (escrows T')) escrow_evolves \<and>
    lookup_evolves (\<lambda>k. find_by m_key k (milestones T)) (\<lambda>k. find_by m_key k (milestones T'))
      milestone_evolves \<and>
    lookup_evolves (\<lambda>k. find_by d_key k (disputes T)) (\<lambda>k. find_by d_key k (disputes T'))
      dispute_evolves"

section \<open>Every step keeps both\<close>

lemma lookup_evolves_refl: "(\<And>r. E r r) \<Longrightarrow> lookup_evolves l l E"
  by (auto simp: lookup_evolves_def)

lemma lookup_evolves_trans:
  "lookup_evolves l1 l2 E \<Longrightarrow> lookup_evolves l2 l3 E \<Longrightarrow>
   (\<And>a b c. E a b \<Longrightarrow> E b c \<Longrightarrow> E a c) \<Longrightarrow> lookup_evolves l1 l3 E"
  unfolding lookup_evolves_def by metis

lemma lookup_evolves_append:
  "(\<And>r. E r r) \<Longrightarrow>
   lookup_evolves (\<lambda>k. find_by key k rows) (\<lambda>k. find_by key k (rows @ [r])) E"
  by (auto simp: lookup_evolves_def)

lemma lookup_evolves_update_where:
  assumes "\<And>r. key (f r) = key r" "\<And>r. E r r" "\<And>r. P r \<Longrightarrow> E r (f r)"
  shows "lookup_evolves (\<lambda>k. find_by key k rows) (\<lambda>k. find_by key k (update_where P f rows)) E"
  using assms by (auto simp: lookup_evolves_def find_by_update_where)

lemma escrow_evolves_refl [simp]: "escrow_evolves e e"
  by (simp add: escrow_evolves_def)

lemma milestone_evolves_refl [simp]: "milestone_evolves m m"
  by (simp add: milestone_evolves_def)

lemma dispute_evolves_refl [simp]: "dispute_evolves d d"
  by (simp add: dispute_evolves_def)

lemma escrow_evolves_trans: "escrow_evolves a b \<Longrightarrow> escrow_evolves b c \<Longrightarrow> escrow_evolves a c"
  by (cases a; cases b; cases c) (auto simp: escrow_evolves_def)

lemma milestone_evolves_trans:
  "milestone_evolves a b \<Longrightarrow> milestone_evolves b c \<Longrightarrow> milestone_evolves a c"
  by (auto simp: milestone_evolves_def)

lemma dispute_evolves_trans:
  "dispute_evolves a b \<Longrightarrow> dispute_evolves b c \<Longrightarrow> dispute_evolves a c"
  by (auto simp: dispute_evolves_def)

lemmas evolves_rules =
  lookup_evolves_refl lookup_evolves_append lookup_evolves_update_where

lemma sql_write_evolves: "sql_write T T' \<Longrightarrow> tables_evolve T T'"
  by (induction rule: sql_write.induct)
    (auto simp: stmt_defs tables_evolve_def Let_def escrow_evolves_def milestone_evolves_def
      dispute_evolves_def simp del: find_by_append_one
      split: option.splits if_splits intro!: evolves_rules)

interpretation rows: db_evolution tables_evolve
proof unfold_locales
  show "tables_evolve T T" for T
    by (simp add: tables_evolve_def lookup_evolves_refl)
  show "tables_evolve T1 T3" if "tables_evolve T1 T2" "tables_evolve T2 T3" for T1 T2 T3
    using that unfolding tables_evolve_def
    by (blast intro: lookup_evolves_trans escrow_evolves_trans milestone_evolves_trans
        dispute_evolves_trans)
qed (rule sql_write_evolves)


lemma find_by_update_where_None [simp]:
  assumes "\<And>r. key (f r) = key r"
  shows "find_by key k (update_where P f rows) = None \<longleftrightarrow> find_by key k rows = None"
  by (simp add: find_by_update_where assms)

lemma keys_step: "sql_write T T' \<Longrightarrow> keys_ok T \<Longrightarrow> keys_ok T'"
  by (induction rule: sql_write.induct)
    (auto simp: stmt_defs keys_ok_def Let_def map_key_update_where find_by_None_iff
      distinct_delete_where split: option.splits if_splits)

lemma escrow_exists_evolves: "tables_evolve T T' \<Longrightarrow> escrow_exists k T \<Longrightarrow> escrow_exists k T'"
  by (fastforce simp: tables_evolve_def lookup_evolves_def escrow_exists_def)

lemma milestone_references:
  "sql_write T T' \<Longrightarrow> list_all (\<lambda>r. escrow_exists (m_escrow_id r) T) (milestones T) \<Longrightarrow>
    list_all (\<lambda>r. escrow_exists (m_escrow_id r) T) (milestones T')"
  by (induction rule: sql_write.induct)
    (auto simp: stmt_defs Let_def split: option.splits if_splits
      intro!: list_all_update_where list_all_delete_where)

lemma dispute_references:
  "sql_write T T' \<Longrightarrow> list_all (\<lambda>r. escrow_exists (d_escrow_id r) T) (disputes T) \<Longrightarrow>
    list_all (\<lambda>r. escrow_exists (d_escrow_id r) T) (disputes T')"
  by (induction rule: sql_write.induct)
    (auto simp: stmt_defs Let_def split: option.splits if_splits
      intro!: list_all_update_where list_all_delete_where)

lemma webhook_references:
  "sql_write T T' \<Longrightarrow> list_all (\<lambda>r. escrow_exists (w_escrow_id r) T) (webhooks T) \<Longrightarrow>
    list_all (\<lambda>r. escrow_exists (w_escrow_id r) T) (webhooks T')"
  by (induction rule: sql_write.induct)
    (auto simp: stmt_defs Let_def split: option.splits if_splits
      intro!: list_all_update_where list_all_delete_where)

lemma list_all_imp: "list_all P xs \<Longrightarrow> (\<And>x. P x \<Longrightarrow> Q x) \<Longrightarrow> list_all Q xs"
  by (auto simp: list_all_iff)

lemma references_step:
  assumes "sql_write T T'" "references_ok T"
  shows "references_ok T'"
  unfolding references_ok_def
  using assms(2) escrow_exists_evolves [OF sql_write_evolves [OF assms(1)]]
  by (auto simp: references_ok_def
      intro: list_all_imp [OF milestone_references [OF assms(1)]]
        list_all_imp [OF dispute_references [OF assms(1)]]
        list_all_imp [OF webhook_references [OF assms(1)]])

lemma cursor_step: "sql_write T T' \<Longrightarrow> cursor_ok T \<Longrightarrow> cursor_ok T'"
  by (induction rule: sql_write.induct)
    (auto simp: stmt_defs cursor_ok_def Let_def split: option.splits if_splits prod.splits)

lemma known_escrow_status_as_str [simp]: "known_escrow_status (escrow_status_as_str s)"
  by (simp add: known_escrow_status_def)

lemma known_escrow_status_created [simp]: "known_escrow_status ''created''"
  using known_escrow_status_as_str [of Created] by simp

lemma escrow_ok_status:
  "escrow_ok e \<Longrightarrow> known_escrow_status st \<Longrightarrow>
    escrow_ok (e\<lparr>e_status := st, e_updated_at := now, e_updated_ledger := l\<rparr>)"
  by (simp add: escrow_ok_def)

lemma milestone_ok_status:
  "milestone_ok m \<Longrightarrow> st \<in> {''pending'', ''expired'', ''disputed'', ''resolved''} \<Longrightarrow>
    milestone_ok (m\<lparr>m_status := st, m_updated_at := now\<rparr>)"
  by (auto simp: milestone_ok_def)

lemma milestone_ok_submitted:
  "milestone_ok m \<Longrightarrow> (hash = None \<longleftrightarrow> uri = None) \<Longrightarrow>
    milestone_ok (m\<lparr>m_status := ''submitted'', m_evidence_uri := uri, m_evidence_hash := hash,
      m_submitted_at := Some at, m_updated_at := now\<rparr>)"
  by (simp add: milestone_ok_def)

lemma milestone_ok_released:
  "milestone_ok m \<Longrightarrow> via = ''approved'' \<or> via = ''auto_release'' \<Longrightarrow>
    milestone_ok (m\<lparr>m_status := ''released'', m_released_via := Some via, m_updated_at := now\<rparr>)"
  by (auto simp: milestone_ok_def)

lemma dispute_ok_resolved:
  "kind = ''release'' \<and> bps = None \<or> kind = ''refund'' \<and> bps = None \<or>
     kind = ''split'' \<and> bps \<noteq> None \<Longrightarrow>
    dispute_ok (d\<lparr>d_status := ''resolved'', d_resolution_kind := Some kind,
      d_resolution_provider_bps := bps, d_resolved_at := Some now\<rparr>)"
  by (auto simp: dispute_ok_def)

lemmas row_ok_updates =
  escrow_ok_status milestone_ok_status milestone_ok_submitted milestone_ok_released
  dispute_ok_resolved

lemma escrow_rows_step:
  "sql_write T T' \<Longrightarrow> list_all escrow_ok (escrows T) \<Longrightarrow> list_all escrow_ok (escrows T')"
  by (induction rule: sql_write.induct)
    (auto simp: stmt_defs Let_def split: option.splits if_splits
      intro!: list_all_update_where row_ok_updates, simp_all add: escrow_ok_def)

lemma milestone_rows_step:
  "sql_write T T' \<Longrightarrow> list_all milestone_ok (milestones T) \<Longrightarrow> list_all milestone_ok (milestones T')"
  by (induction rule: sql_write.induct)
    (auto simp: stmt_defs Let_def split: option.splits if_splits
      intro!: list_all_update_where row_ok_updates, simp_all add: milestone_ok_def)

lemma dispute_rows_step:
  "sql_write T T' \<Longrightarrow> list_all dispute_ok (disputes T) \<Longrightarrow> list_all dispute_ok (disputes T')"
  by (induction rule: sql_write.induct)
    (auto simp: stmt_defs Let_def split: option.splits if_splits
      intro!: list_all_update_where row_ok_updates, simp_all add: dispute_ok_def)

lemma party_of_evolves: "escrow_evolves e e' \<Longrightarrow> party_of a e' \<longleftrightarrow> party_of a e"
  by (cases e; cases e') (auto simp: escrow_evolves_def party_of_def)

lemma webhook_ok_evolves: "tables_evolve T T' \<Longrightarrow> webhook_ok T w \<Longrightarrow> webhook_ok T' w"
  by (fastforce simp: webhook_ok_def tables_evolve_def lookup_evolves_def party_of_evolves
      split: option.splits)

lemma webhooks_written:
  "sql_write T T' \<Longrightarrow> list_all (webhook_ok T) (webhooks T) \<Longrightarrow> list_all (webhook_ok T) (webhooks T')"
  by (induction rule: sql_write.induct)
    (auto simp: stmt_defs webhook_ok_def Let_def split: option.splits if_splits
      intro!: list_all_delete_where)

lemma webhook_rows_step:
  "sql_write T T' \<Longrightarrow> list_all (webhook_ok T) (webhooks T) \<Longrightarrow> list_all (webhook_ok T') (webhooks T')"
  by (rule list_all_imp [OF webhooks_written], assumption+)
    (rule webhook_ok_evolves [OF sql_write_evolves])

lemma rows_step: "sql_write T T' \<Longrightarrow> rows_ok T \<Longrightarrow> rows_ok T'"
  unfolding rows_ok_def
  by (intro conjI; elim conjE)
    (erule (1) escrow_rows_step milestone_rows_step dispute_rows_step webhook_rows_step)+

interpretation schema: db_invariant schema_ok
  by unfold_locales
    (simp add: schema_ok_def keys_step references_step rows_step cursor_step)

lemma schema_migrated: "schema_ok migrated"
  by (simp add: schema_ok_def migrated_def keys_ok_def references_ok_def rows_ok_def cursor_ok_def)

end
