(* ===== verification/Decode.thy ===== *)
theory Decode
  imports Extern
begin

text \<open>
  \<open>src/indexer/decode.rs\<close>: from the XDR values of a contract event to the typed fields the
  indexer stores.  Every \<open>bail!\<close> and \<open>?\<close> is an \<open>Inl\<close> with the reason; the lemmas say exactly which
  values each decoder accepts and what number or text it gives.
\<close>

section \<open>Definitions\<close>

datatype decode_error =
    BadXdr string
  | UnsupportedAddress
  | Expected string
  | ExpectedMap
  | MissingField string
  | EmptyResolution
  | ResolutionNotSymbol
  | MissingBps
  | UnknownResolution string
  | TimestampOutOfRange u64

definition decode_scval_base64 :: "crates \<Rightarrow> string \<Rightarrow> decode_error + scval" where
  "decode_scval_base64 C b64 = ok_or (BadXdr b64) (scval_from_xdr_base64 C b64)"

fun sc_address_to_string :: "crates \<Rightarrow> scaddress \<Rightarrow> decode_error + string" where
  "sc_address_to_string C (ScAccount bs) = Inr (strkey_ed25519_to_string C bs)"
| "sc_address_to_string C (ScContract bs) = Inr (strkey_contract_to_string C bs)"
| "sc_address_to_string C (ScAddressOther _) = Inl UnsupportedAddress"

definition sc_val_to_address :: "crates \<Rightarrow> scval \<Rightarrow> decode_error + string" where
  "sc_val_to_address C v =
    (case v of ScAddress a \<Rightarrow> sc_address_to_string C a | _ \<Rightarrow> Inl (Expected ''Address''))"

definition sc_val_to_u32 :: "scval \<Rightarrow> decode_error + u32" where
  "sc_val_to_u32 v = (case v of ScU32 n \<Rightarrow> Inr n | _ \<Rightarrow> Inl (Expected ''U32''))"

definition sc_val_to_u64 :: "scval \<Rightarrow> decode_error + u64" where
  "sc_val_to_u64 v = (case v of ScU64 n \<Rightarrow> Inr n | _ \<Rightarrow> Inl (Expected ''U64''))"

text \<open>\<open>((hi as i128) << 64) | (lo as i128)\<close>: sign extension, shift, or.\<close>

fun i128_shl :: "i128 \<Rightarrow> nat \<Rightarrow> i128" where
  "i128_shl (I128 w) n = I128 (push_bit n w)"

fun i128_or :: "i128 \<Rightarrow> i128 \<Rightarrow> i128" where
  "i128_or (I128 v) (I128 w) = I128 (v OR w)"

definition sc_val_to_i128 :: "scval \<Rightarrow> decode_error + i128" where
  "sc_val_to_i128 v =
    (case v of
       ScI128 hi lo \<Rightarrow> Inr (i128_or (i128_shl (i64_as_i128 hi) 64) (u64_as_i128 lo))
     | _ \<Rightarrow> Inl (Expected ''I128''))"

definition sc_val_to_string :: "crates \<Rightarrow> scval \<Rightarrow> decode_error + string" where
  "sc_val_to_string C v =
    (case v of
       ScSymbol s \<Rightarrow> Inr (stringm_to_string C s)
     | ScString s \<Rightarrow> Inr (stringm_to_string C s)
     | _ \<Rightarrow> Inl (Expected ''Symbol or String''))"

definition sc_val_to_bytes_hex :: "crates \<Rightarrow> scval \<Rightarrow> decode_error + string" where
  "sc_val_to_bytes_hex C v =
    (case v of ScBytes bs \<Rightarrow> Inr (hex_encode C bs) | _ \<Rightarrow> Inl (Expected ''Bytes''))"

definition unix_seconds_to_datetime :: "crates \<Rightarrow> u64 \<Rightarrow> decode_error + datetime" where
  "unix_seconds_to_datetime C secs =
    ok_or (TimestampOutOfRange secs) (datetime_from_timestamp C (u64_as_i64 secs))"

definition empty_as_none :: "string \<Rightarrow> string option" where
  "empty_as_none s = (if s = [] then None else Some s)"

definition map_get :: "crates \<Rightarrow> scval \<Rightarrow> string \<Rightarrow> decode_error + scval" where
  "map_get C v field =
    (case v of
       ScMap (Some entries) \<Rightarrow>
         ok_or (MissingField field)
           (map_option snd
             (find (\<lambda>e. case fst e of ScSymbol s \<Rightarrow> stringm_to_string C s = field | _ \<Rightarrow> False)
               entries))
     | _ \<Rightarrow> Inl ExpectedMap)"

definition decode_resolution :: "crates \<Rightarrow> scval \<Rightarrow> decode_error + string \<times> i32 option" where
  "decode_resolution C v =
    (case v of
       ScVec (Some vs) \<Rightarrow>
         (case vs of
            [] \<Rightarrow> Inl EmptyResolution
          | variant # payload \<Rightarrow>
              (case variant of
                 ScSymbol symbol \<Rightarrow>
                   (let s = stringm_to_string C symbol in
                    if s = ''ReleaseToProvider'' then Inr (''release'', None)
                    else if s = ''RefundToClient'' then Inr (''refund'', None)
                    else if s = ''Split'' then
                      (case payload of
                         [] \<Rightarrow> Inl MissingBps
                       | bps_val # _ \<Rightarrow>
                           bindE (sc_val_to_u32 bps_val) (\<lambda>bps.
                           Inr (''split'', Some (u32_as_i32 bps))))
                    else Inl (UnknownResolution s))
               | _ \<Rightarrow> Inl ResolutionNotSymbol))
     | _ \<Rightarrow> Inl (Expected ''Vec''))"

record decoded_milestone =
  dm_id :: u32
  dm_description :: string
  dm_amount :: i128
  dm_deadline :: u64

definition decode_milestone :: "crates \<Rightarrow> scval \<Rightarrow> decode_error + decoded_milestone" where
  "decode_milestone C entry =
    bindE (bindE (map_get C entry ''id'') sc_val_to_u32) (\<lambda>mid.
    bindE (bindE (map_get C entry ''description'') (sc_val_to_string C)) (\<lambda>description.
    bindE (bindE (map_get C entry ''amount'') sc_val_to_i128) (\<lambda>amount.
    bindE (bindE (map_get C entry ''deadline'') sc_val_to_u64) (\<lambda>deadline.
    Inr \<lparr>dm_id = mid, dm_description = description, dm_amount = amount,
         dm_deadline = deadline\<rparr>))))"

definition decode_milestones :: "crates \<Rightarrow> scval \<Rightarrow> decode_error + decoded_milestone list" where
  "decode_milestones C v =
    (case v of
       ScVec (Some vs) \<Rightarrow> collectE (decode_milestone C) vs
     | _ \<Rightarrow> Inl (Expected ''Vec''))"

section \<open>What the decoders accept\<close>

lemma sc_val_to_u32_Inr [simp]: "sc_val_to_u32 v = Inr n \<longleftrightarrow> v = ScU32 n"
  by (auto simp: sc_val_to_u32_def split: scval.splits)

lemma sc_val_to_u64_Inr [simp]: "sc_val_to_u64 v = Inr n \<longleftrightarrow> v = ScU64 n"
  by (auto simp: sc_val_to_u64_def split: scval.splits)

lemma sc_val_to_address_Inr:
  "sc_val_to_address C v = Inr s \<longleftrightarrow>
    (\<exists>bs. v = ScAddress (ScAccount bs) \<and> s = strkey_ed25519_to_string C bs \<or>
          v = ScAddress (ScContract bs) \<and> s = strkey_contract_to_string C bs)"
  by (auto simp: sc_val_to_address_def split: scval.splits elim!: sc_address_to_string.elims)

lemma sc_val_to_string_Inr:
  "sc_val_to_string C v = Inr s \<longleftrightarrow>
    (\<exists>bs. (v = ScSymbol bs \<or> v = ScString bs) \<and> s = stringm_to_string C bs)"
  by (auto simp: sc_val_to_string_def split: scval.splits)

lemma sc_val_to_bytes_hex_Inr:
  "sc_val_to_bytes_hex C v = Inr s \<longleftrightarrow> (\<exists>bs. v = ScBytes bs \<and> s = hex_encode C bs)"
  by (auto simp: sc_val_to_bytes_hex_def split: scval.splits)

lemma decode_resolution_bps:
  "decode_resolution C v = Inr (kind, bps) \<Longrightarrow>
    kind = ''release'' \<and> bps = None \<or> kind = ''refund'' \<and> bps = None \<or>
    kind = ''split'' \<and> bps \<noteq> None"
  by (auto simp: decode_resolution_def Let_def bindE_Inr_iff
      split: scval.splits option.splits list.splits if_splits)

text \<open>
  The two halves do not overlap, so the \<open>or\<close> is a sum, and the number is the one the contract
  meant: \<open>hi * 2^64 + lo\<close> with a signed high half.
\<close>

lemma i128_of_parts:
  "i128_int (i128_or (i128_shl (i64_as_i128 hi) 64) (u64_as_i128 lo)) =
    i64_int hi * 2 ^ 64 + uint lo"
proof -
  obtain h where hi: "hi = I64 h" by (cases hi)
  let ?v = "push_bit 64 (scast h :: 128 word)" and ?w = "ucast lo :: 128 word"
  have disj: "?v AND ?w = 0"
    by (rule bit_eqI) (auto simp: bit_simps dest: bit_imp_le_length)
  have "?v OR ?w = ?v + ?w"
    using disj by (simp add: disjunctive_add_eq_or)
  also have "\<dots> = word_of_int (sint h * 2 ^ 64 + uint lo)"
    by (simp add: push_bit_eq_mult)
  finally have eq: "?v OR ?w = word_of_int (sint h * 2 ^ 64 + uint lo)" .
  have "- (2 ^ 63) \<le> sint h" "sint h < 2 ^ 63" using i64_int_bounds [of "I64 h"] by simp_all
  moreover obtain l where l: "uint lo = l" "0 \<le> l" "l < 2 ^ 64"
    using uint_lt2p [of lo] by simp
  ultimately have "- (2 ^ 127) \<le> sint h * 2 ^ 64 + l" "sint h * 2 ^ 64 + l < 2 ^ 127"
    by simp_all
  then have "sint (word_of_int (sint h * 2 ^ 64 + l) :: 128 word) = sint h * 2 ^ 64 + l"
    by (simp add: signed_of_int signed_take_bit_int_eq_self del: of_int_add of_int_mult)
  with eq show ?thesis
    by (simp add: hi i64_as_i128_def u64_as_i128_def l(1) del: of_int_add of_int_mult)
qed

end
