(* ===== verification/Serde.thy ===== *)
theory Serde
  imports Extern
begin

text \<open>
  What \<open>#[derive(Deserialize)]\<close> generates for the program's types, over a parsed JSON document or the
  pairs of a query string: decoders of the standard types, and the lookup of a struct's fields.  A
  decoder is \<open>None\<close> where serde reports an error.  The locale \<open>codec\<close> is the contract between a
  decoder and the form of the values it is meant to read; lists and optional values inherit it.
\<close>

section \<open>Standard types\<close>

definition de_string :: "json \<Rightarrow> string option" where
  "de_string j = (case j of JStr s \<Rightarrow> Some s | _ \<Rightarrow> None)"

definition de_bool :: "json \<Rightarrow> bool option" where
  "de_bool j = (case j of JBool b \<Rightarrow> Some b | _ \<Rightarrow> None)"

definition de_u32 :: "json \<Rightarrow> u32 option" where
  "de_u32 j =
    (case j of JInt n \<Rightarrow> if 0 \<le> n \<and> n < 2 ^ 32 then Some (word_of_int n) else None | _ \<Rightarrow> None)"

definition de_i64 :: "json \<Rightarrow> i64 option" where
  "de_i64 j =
    (case j of
       JInt n \<Rightarrow> if - (2 ^ 63) \<le> n \<and> n < 2 ^ 63 then Some (int_as_i64 n) else None
     | _ \<Rightarrow> None)"

text \<open>Chrono reads an instant from a string, with a parser of its own.\<close>

definition de_datetime :: "(string \<Rightarrow> datetime option) \<Rightarrow> json \<Rightarrow> datetime option" where
  "de_datetime parse_time j = Option.bind (de_string j) parse_time"

text \<open>\<open>Vec<T>\<close> decodes all elements or none; \<open>Option<T>\<close> takes \<open>null\<close> for \<open>None\<close>.\<close>

definition de_list :: "(json \<Rightarrow> 'a option) \<Rightarrow> json \<Rightarrow> 'a list option" where
  "de_list d j = (case j of JArr js \<Rightarrow> those (map d js) | _ \<Rightarrow> None)"

definition de_option :: "(json \<Rightarrow> 'a option) \<Rightarrow> json \<Rightarrow> 'a option option" where
  "de_option d j = (if j = JNull then Some None else map_option Some (d j))"

section \<open>Structs\<close>

text \<open>
  A struct is read from an object, or from an array with exactly one element per field in the order of
  the declaration.  Fields with other names are skipped, whatever they hold; a field of the struct
  that occurs twice is an error, and so is one that is missing, unless its type is an \<open>Option\<close>.
\<close>

definition struct_fields :: "string list \<Rightarrow> json \<Rightarrow> (string \<times> json) list option" where
  "struct_fields ks j =
    (case j of
       JObj fs \<Rightarrow> Some fs
     | JArr js \<Rightarrow> if length js = length ks then Some (zip ks js) else None
     | _ \<Rightarrow> None)"

definition occurrences :: "string \<Rightarrow> (string \<times> 'a) list \<Rightarrow> 'a list" where
  "occurrences k fs = map snd (filter (\<lambda>f. fst f = k) fs)"

definition required :: "string \<Rightarrow> ('a \<Rightarrow> 'b option) \<Rightarrow> (string \<times> 'a) list \<Rightarrow> 'b option" where
  "required k d fs = (case occurrences k fs of [j] \<Rightarrow> d j | _ \<Rightarrow> None)"

definition optional ::
  "string \<Rightarrow> ('a \<Rightarrow> 'b option option) \<Rightarrow> (string \<times> 'a) list \<Rightarrow> 'b option option" where
  "optional k d fs =
    (case occurrences k fs of [] \<Rightarrow> Some None | [j] \<Rightarrow> d j | _ \<Rightarrow> None)"

section \<open>Query strings\<close>

text \<open>
  \<open>serde_urlencoded\<close>: every value is a text, a present field of type \<open>Option<T>\<close> is \<open>Some\<close> of what
  \<open>T\<close>'s \<open>FromStr\<close> makes of it.  \<open>parse_i64\<close> is \<open>i64::from_str\<close>.
\<close>

definition form_option :: "(string \<Rightarrow> 'b option) \<Rightarrow> string \<Rightarrow> 'b option option" where
  "form_option parse s = map_option Some (parse s)"

definition parse_i64 :: "string \<Rightarrow> i64 option" where
  "parse_i64 s =
    (case s of
       [] \<Rightarrow> None
     | c # ds \<Rightarrow>
         if c = CHR ''-'' then
           (if ds \<noteq> [] \<and> list_all is_digit ds \<and> read_digits ds \<le> 2 ^ 63
            then Some (int_as_i64 (- int (read_digits ds))) else None)
         else map_option (\<lambda>n. int_as_i64 (int n)) (parse_unsigned 63 s))"

section \<open>Facts\<close>

lemma those_map_Some: "those (map (\<lambda>x. Some (f x)) xs) = Some (map f xs)"
  by (induction xs) simp_all

lemma those_Some: "those xs = Some ys \<longleftrightarrow> xs = map Some ys"
proof (induction xs arbitrary: ys)
  case (Cons x xs)
  then show ?case by (cases x; cases ys) auto
qed auto

lemma de_string_Some [simp]: "de_string j = Some s \<longleftrightarrow> j = JStr s"
  by (auto simp: de_string_def split: json.splits)

lemma de_list_Some: "de_list d j = Some ys \<longleftrightarrow> (\<exists>js. j = JArr js \<and> map d js = map Some ys)"
  by (auto simp: de_list_def those_Some split: json.splits)

lemma de_list_JArr: "de_list d (JArr js) = Some ys \<longleftrightarrow> list_all2 (\<lambda>j y. d j = Some y) js ys"
  by (auto simp: de_list_Some list_all2_conv_all_nth list_eq_iff_nth_eq)

lemma occurrences_append: "occurrences k (fs @ gs) = occurrences k fs @ occurrences k gs"
  by (simp add: occurrences_def)

lemma occurrences_Cons [simp]:
  "occurrences k ((k', j) # fs) = (if k' = k then j # occurrences k fs else occurrences k fs)"
  by (simp add: occurrences_def)

lemma occurrences_Nil [simp]: "occurrences k [] = []"
  by (simp add: occurrences_def)

lemma occurrences_absent: "k \<notin> fst ` set fs \<Longrightarrow> occurrences k fs = []"
  by (auto simp: occurrences_def filter_empty_conv)

text \<open>The order of an object's fields, and fields of other names, do not matter.\<close>

lemma occurrences_perm:
  "occurrences k fs = occurrences k gs \<Longrightarrow> required k d fs = required k d gs \<and>
    optional k d' fs = optional k d' gs"
  by (simp add: required_def optional_def)

lemma required_simps:
  "occurrences k fs = [j] \<Longrightarrow> required k d fs = d j"
  "occurrences k fs = [] \<Longrightarrow> required k d fs = None"
  "occurrences k fs = j # j' # js \<Longrightarrow> required k d fs = None"
  by (simp_all add: required_def)

lemma required_Some: "required k d fs = Some x \<longleftrightarrow> (\<exists>j. occurrences k fs = [j] \<and> d j = Some x)"
  by (auto simp: required_def split: list.splits)

lemma optional_Some:
  "optional k d fs = Some x \<longleftrightarrow>
    occurrences k fs = [] \<and> x = None \<or> (\<exists>j. occurrences k fs = [j] \<and> d j = Some x)"
  by (auto simp: optional_def split: list.splits)

section \<open>Codecs\<close>

text \<open>\<open>enc x\<close> is a form in which \<open>x\<close> arrives; \<open>dec\<close> reads it.\<close>

locale codec =
  fixes enc :: "'a \<Rightarrow> json" and dec :: "json \<Rightarrow> 'a option"
  assumes decodes: "dec (enc x) = Some x"
begin

lemma enc_inject: "enc x = enc y \<longleftrightarrow> x = y"
  by (metis decodes option.inject)

lemma list_decodes: "de_list dec (JArr (map enc xs)) = Some xs"
  using those_map_Some [of id xs] by (simp add: de_list_def decodes o_def)

lemma list_rejects: "dec j = None \<Longrightarrow> de_list dec (JArr (js @ j # ks)) = None"
  by (cases "those (map dec js @ None # map dec ks)")
    (auto simp: de_list_def those_Some append_eq_map_conv)

lemma required_decodes: "occurrences k fs = [enc x] \<Longrightarrow> required k dec fs = Some x"
  by (simp add: required_def decodes)

end

text \<open>An optional value needs an encoding that is not \<open>null\<close> itself.\<close>

locale value_codec = codec +
  assumes not_null: "enc x \<noteq> JNull"
begin

lemma option_decodes: "de_option dec (json_opt enc v) = Some v"
  by (cases v) (simp_all add: de_option_def json_opt_def decodes not_null)

lemma optional_decodes:
  "occurrences k fs = (case v of None \<Rightarrow> [] | Some x \<Rightarrow> [enc x]) \<Longrightarrow>
    optional k (de_option dec) fs = Some v"
  by (cases v) (simp_all add: optional_def de_option_def decodes not_null)

lemma null_is_none: "de_option dec JNull = Some None"
  by (simp add: de_option_def)

end

text \<open>Lists of codable values are codable.\<close>

locale list_codec = item: codec +
  fixes enc_list :: "'a list \<Rightarrow> json"
  assumes enc_list: "enc_list xs = JArr (map enc xs)"

sublocale list_codec \<subseteq> whole: value_codec enc_list "de_list dec"
  by unfold_locales (simp_all add: enc_list item.list_decodes)

interpretation string_codec: value_codec JStr de_string
  by unfold_locales simp_all

interpretation bool_codec: value_codec JBool de_bool
  by unfold_locales (simp_all add: de_bool_def)

interpretation u32_codec: value_codec "\<lambda>n. JInt (uint n)" de_u32
  by unfold_locales (use uint_lt2p [where 'a = 32] in \<open>simp_all add: de_u32_def\<close>)

interpretation i64_codec: value_codec "\<lambda>n. JInt (i64_int n)" de_i64
proof
  fix n
  have "int_as_i64 (i64_int n) = n"
    using i64_int_bounds [of n] by (simp add: i64_int_int_as_i64 flip: i64_int_inject)
  then show "de_i64 (JInt (i64_int n)) = Some n"
    using i64_int_bounds [of n] by (simp add: de_i64_def)
qed simp

interpretation strings_codec: list_codec JStr de_string "\<lambda>xs. JArr (map JStr xs)"
  by unfold_locales simp

text \<open>A printed \<open>i64\<close> is read back.\<close>

lemma parse_i64_show: "parse_i64 (show_int (i64_int n)) = Some n"
proof (cases "i64_int n < 0")
  case True
  have "int_as_i64 (- int (nat (- i64_int n))) = n"
    using True i64_int_bounds [of n] by (simp add: i64_int_int_as_i64 flip: i64_int_inject)
  moreover have "nat (- i64_int n) \<le> 2 ^ 63" using i64_int_bounds [of n] by simp
  ultimately show ?thesis
    using True show_nat_digits by (simp add: parse_i64_def show_int_def)
next
  case False
  obtain c ds where s: "show_nat (nat (i64_int n)) = c # ds"
    by (cases "show_nat (nat (i64_int n))") auto
  have "nat (i64_int n) < 2 ^ 63" using False i64_int_bounds [of n] by (simp add: nat_less_iff)
  from parse_unsigned_show [OF this] have p: "parse_unsigned 63 (c # ds) = Some (nat (i64_int n))"
    by (simp add: s)
  have "int_as_i64 (i64_int n) = n"
    using i64_int_bounds [of n] by (simp add: i64_int_int_as_i64 flip: i64_int_inject)
  then show ?thesis
    using False p is_digit_not_sign [OF show_nat_hd [OF s]]
    by (simp add: parse_i64_def show_int_def s)
qed

lemma parse_i64_rejects:
  "parse_i64 [] = None"
  "\<not> list_all is_digit ds \<Longrightarrow> parse_i64 (CHR ''-'' # ds) = None"
  by (simp_all add: parse_i64_def)

end
