(* ===== verification/Rpc.thy ===== *)
theory Rpc
  imports Serde
begin

text \<open>
  \<open>src/indexer/rpc.rs\<close>: the Soroban RPC client.  Posting a JSON body to a URL and getting a JSON
  document back is \<open>reqwest\<close>'s; the request bodies, the choice between a start ledger and a cursor,
  the decoding of the reply and the reading of a JSON-RPC reply are the source's own.
\<close>

section \<open>Replies\<close>

record rpc_event =
  ev_contract_id :: string
  ev_ledger :: u32
  ev_ledger_closed_at :: datetime
  ev_id :: string
  ev_topic :: "string list"
  ev_value :: string
  ev_in_successful_contract_call :: bool

record get_events_result =
  ger_events :: "rpc_event list"
  ger_latest_ledger :: u32
  ger_cursor :: "string option"

record json_rpc_error =
  err_code :: i64
  err_message :: string

record 'a json_rpc_response =
  resp_result :: "'a option"
  resp_error :: "json_rpc_error option"

record get_latest_ledger_result =
  glr_sequence :: u32

definition rpc_event_of_json :: "(string \<Rightarrow> datetime option) \<Rightarrow> json \<Rightarrow> rpc_event option" where
  "rpc_event_of_json parse_time j =
    Option.bind (struct_fields [''contractId'', ''ledger'', ''ledgerClosedAt'', ''id'', ''topic'',
      ''value'', ''inSuccessfulContractCall''] j) (\<lambda>fs.
    Option.bind (required ''contractId'' de_string fs) (\<lambda>contract_id.
    Option.bind (required ''ledger'' de_u32 fs) (\<lambda>ledger.
    Option.bind (required ''ledgerClosedAt'' (de_datetime parse_time) fs) (\<lambda>closed_at.
    Option.bind (required ''id'' de_string fs) (\<lambda>ident.
    Option.bind (required ''topic'' (de_list de_string) fs) (\<lambda>topic.
    Option.bind (required ''value'' de_string fs) (\<lambda>val.
    Option.bind (required ''inSuccessfulContractCall'' de_bool fs) (\<lambda>successful.
    Some \<lparr>ev_contract_id = contract_id, ev_ledger = ledger, ev_ledger_closed_at = closed_at,
          ev_id = ident, ev_topic = topic, ev_value = val,
          ev_in_successful_contract_call = successful\<rparr>))))))))"

definition get_events_result_of_json ::
  "(string \<Rightarrow> datetime option) \<Rightarrow> json \<Rightarrow> get_events_result option" where
  "get_events_result_of_json parse_time j =
    Option.bind (struct_fields [''events'', ''latestLedger'', ''cursor''] j) (\<lambda>fs.
    Option.bind (required ''events'' (de_list (rpc_event_of_json parse_time)) fs) (\<lambda>events.
    Option.bind (required ''latestLedger'' de_u32 fs) (\<lambda>latest.
    Option.bind (optional ''cursor'' (de_option de_string) fs) (\<lambda>cursor.
    Some \<lparr>ger_events = events, ger_latest_ledger = latest, ger_cursor = cursor\<rparr>))))"

definition get_latest_ledger_result_of_json :: "json \<Rightarrow> get_latest_ledger_result option" where
  "get_latest_ledger_result_of_json j =
    Option.bind (struct_fields [''sequence''] j) (\<lambda>fs.
    Option.bind (required ''sequence'' de_u32 fs) (\<lambda>n. Some \<lparr>glr_sequence = n\<rparr>))"

definition json_rpc_error_of_json :: "json \<Rightarrow> json_rpc_error option" where
  "json_rpc_error_of_json j =
    Option.bind (struct_fields [''code'', ''message''] j) (\<lambda>fs.
    Option.bind (required ''code'' de_i64 fs) (\<lambda>code.
    Option.bind (required ''message'' de_string fs) (\<lambda>message.
    Some \<lparr>err_code = code, err_message = message\<rparr>)))"

definition json_rpc_response_of_json ::
  "(json \<Rightarrow> 'a option) \<Rightarrow> json \<Rightarrow> 'a json_rpc_response option" where
  "json_rpc_response_of_json de_result j =
    Option.bind (struct_fields [''result'', ''error''] j) (\<lambda>fs.
    Option.bind (optional ''result'' (de_option de_result) fs) (\<lambda>res.
    Option.bind (optional ''error'' (de_option json_rpc_error_of_json) fs) (\<lambda>err.
    Some \<lparr>resp_result = res, resp_error = err\<rparr>)))"

section \<open>Calls\<close>

datatype transport_error = SendFailed | UnreadableBody

datatype rpc_error =
    RequestFailed string
  | ParseFailed string
  | SorobanError i64 string
  | NoResult string

text \<open>
  \<open>http_post\<close> sends a JSON body to a URL and gives the document that comes back: \<open>SendFailed\<close> if the
  request failed, \<open>UnreadableBody\<close> if the reply is no JSON.  \<open>parse_datetime\<close> is chrono's.
\<close>

record rpc_client =
  base_url :: string
  http_post :: "string \<Rightarrow> json \<Rightarrow> transport_error + json"
  parse_datetime :: "string \<Rightarrow> datetime option"

definition json_rpc_request :: "string \<Rightarrow> json \<Rightarrow> json" where
  "json_rpc_request meth params =
    JObj [(''jsonrpc'', JStr ''2.0''), (''id'', JInt 1), (''method'', JStr meth),
          (''params'', params)]"

record get_events_params =
  gp_start_ledger :: "u32 option"
  gp_contract_id :: string
  gp_cursor :: "string option"
  gp_limit :: u32

text \<open>A field with \<open>skip_serializing_if = "Option::is_none"\<close>.\<close>

definition optional_field :: "string \<Rightarrow> json option \<Rightarrow> (string \<times> json) list" where
  "optional_field k v = (case v of None \<Rightarrow> [] | Some j \<Rightarrow> [(k, j)])"

definition get_events_params_json :: "get_events_params \<Rightarrow> json" where
  "get_events_params_json p =
    JObj (optional_field ''startLedger'' (map_option (\<lambda>n. JInt (uint n)) (gp_start_ledger p)) @
      [(''filters'', JArr [JObj [(''type'', JStr ''contract''),
                                 (''contractIds'', JArr [JStr (gp_contract_id p)])]]),
       (''pagination'', JObj (optional_field ''cursor'' (map_option JStr (gp_cursor p)) @
                              [(''limit'', JInt (uint (gp_limit p)))]))])"

definition rpc_call ::
  "rpc_client \<Rightarrow> (json \<Rightarrow> 'a option) \<Rightarrow> string \<Rightarrow> json \<Rightarrow> rpc_error + 'a" where
  "rpc_call rpc de_result meth params =
    (case http_post rpc (base_url rpc) (json_rpc_request meth params) of
       Inl SendFailed \<Rightarrow> Inl (RequestFailed meth)
     | Inl UnreadableBody \<Rightarrow> Inl (ParseFailed meth)
     | Inr body \<Rightarrow>
         (case json_rpc_response_of_json de_result body of
            None \<Rightarrow> Inl (ParseFailed meth)
          | Some response \<Rightarrow>
              (case resp_error response of
                 Some err \<Rightarrow> Inl (SorobanError (err_code err) (err_message err))
               | None \<Rightarrow> ok_or (NoResult meth) (resp_result response))))"

definition events_request ::
  "string \<Rightarrow> u32 option \<Rightarrow> string option \<Rightarrow> u32 \<Rightarrow> get_events_params" where
  "events_request contract_id start_ledger cursor limit =
    \<lparr>gp_start_ledger = (if cursor \<noteq> None then None else start_ledger),
     gp_contract_id = contract_id, gp_cursor = cursor, gp_limit = limit\<rparr>"

definition get_events ::
  "rpc_client \<Rightarrow> string \<Rightarrow> u32 option \<Rightarrow> string option \<Rightarrow> u32 \<Rightarrow> rpc_error + get_events_result" where
  "get_events rpc contract_id start_ledger cursor limit =
    rpc_call rpc (get_events_result_of_json (parse_datetime rpc)) ''getEvents''
      (get_events_params_json (events_request contract_id start_ledger cursor limit))"

definition get_latest_ledger :: "rpc_client \<Rightarrow> rpc_error + u32" where
  "get_latest_ledger rpc =
    bindE (rpc_call rpc get_latest_ledger_result_of_json ''getLatestLedger'' (JObj [])) (\<lambda>result.
    Inr (glr_sequence result))"

section \<open>Facts\<close>

lemma rpc_call_Inr:
  "rpc_call rpc d meth params = Inr x \<longleftrightarrow>
    (\<exists>j r. http_post rpc (base_url rpc) (json_rpc_request meth params) = Inr j \<and>
      json_rpc_response_of_json d j = Some r \<and> resp_error r = None \<and> resp_result r = Some x)"
  by (auto simp: rpc_call_def split: sum.splits transport_error.splits option.splits)

lemma optional_field_simps [simp]:
  "optional_field k None = []"
  "optional_field k (Some j) = [(k, j)]"
  by (simp_all add: optional_field_def)

lemma json_field_startLedger:
  "json_field (get_events_params_json p) ''startLedger'' =
    map_option (\<lambda>n. JInt (uint n)) (gp_start_ledger p)"
  by (cases "gp_start_ledger p") (simp_all add: get_events_params_json_def)

lemma json_field_pagination:
  "json_field (get_events_params_json p) ''pagination'' =
    Some (JObj (optional_field ''cursor'' (map_option JStr (gp_cursor p)) @
      [(''limit'', JInt (uint (gp_limit p)))]))"
  by (cases "gp_start_ledger p") (simp_all add: get_events_params_json_def)

section \<open>Reading a reply\<close>

lemma de_u32_Some: "de_u32 j = Some n \<longleftrightarrow> j = JInt (uint n)"
  using u32_codec.decodes [of n] uint_lt2p [of n]
  by (auto simp: de_u32_def of_nat_nat take_bit_int_eq_self uint_word_of_int_eq
      split: json.splits if_splits)

lemma de_bool_Some: "de_bool j = Some b \<longleftrightarrow> j = JBool b"
  by (auto simp: de_bool_def split: json.splits)

lemma de_datetime_Some: "de_datetime p j = Some t \<longleftrightarrow> (\<exists>s. j = JStr s \<and> p s = Some t)"
  by (auto simp: de_datetime_def bind_eq_Some_conv)

lemma de_option_Some:
  "de_option d j = Some v \<longleftrightarrow> j = JNull \<and> v = None \<or> j \<noteq> JNull \<and> (\<exists>x. d j = Some x \<and> v = Some x)"
  by (auto simp: de_option_def)

lemmas de_Some = de_u32_Some de_bool_Some de_datetime_Some de_option_Some

text \<open>The fields of an object that carries an event, among any others and in any order.\<close>

definition event_fields ::
  "(string \<Rightarrow> datetime option) \<Rightarrow> (string \<times> json) list \<Rightarrow> rpc_event \<Rightarrow> bool" where
  "event_fields parse_time fs ev \<longleftrightarrow>
    occurrences ''contractId'' fs = [JStr (ev_contract_id ev)] \<and>
    occurrences ''ledger'' fs = [JInt (uint (ev_ledger ev))] \<and>
    (\<exists>s. occurrences ''ledgerClosedAt'' fs = [JStr s] \<and>
       parse_time s = Some (ev_ledger_closed_at ev)) \<and>
    occurrences ''id'' fs = [JStr (ev_id ev)] \<and>
    occurrences ''topic'' fs = [JArr (map JStr (ev_topic ev))] \<and>
    occurrences ''value'' fs = [JStr (ev_value ev)] \<and>
    occurrences ''inSuccessfulContractCall'' fs = [JBool (ev_in_successful_contract_call ev)]"

lemma de_strings_Some: "de_list de_string j = Some ss \<longleftrightarrow> j = JArr (map JStr ss)"
proof
  assume "de_list de_string j = Some ss"
  then obtain js where js: "j = JArr js" "map de_string js = map Some ss"
    by (auto simp: de_list_Some)
  from js(2) have "js = map JStr ss"
    by (induction js arbitrary: ss) (auto simp: map_eq_Cons_conv Cons_eq_map_conv)
  with js(1) show "j = JArr (map JStr ss)" by simp
qed (use strings_codec.whole.decodes [of ss] in simp)

lemma rpc_event_of_object:
  "rpc_event_of_json p (JObj fs) = Some ev \<longleftrightarrow> event_fields p fs ev"
  by (cases ev)
    (auto simp: rpc_event_of_json_def struct_fields_def bind_eq_Some_conv required_Some de_Some
      de_strings_Some event_fields_def)

lemma get_events_result_of_object:
  assumes "occurrences ''events'' fs = [JArr (map JObj es)]"
  shows "get_events_result_of_json p (JObj fs) = Some r \<longleftrightarrow>
    list_all2 (event_fields p) es (ger_events r) \<and>
    occurrences ''latestLedger'' fs = [JInt (uint (ger_latest_ledger r))] \<and>
    (case ger_cursor r of
       None \<Rightarrow> occurrences ''cursor'' fs = [] \<or> occurrences ''cursor'' fs = [JNull]
     | Some c \<Rightarrow> occurrences ''cursor'' fs = [JStr c])"
proof -
  have events: "de_list (rpc_event_of_json p) (JArr (map JObj es)) = Some evs \<longleftrightarrow>
      list_all2 (event_fields p) es evs" for evs
    by (simp add: de_list_JArr list.rel_map rpc_event_of_object)
  show ?thesis
    by (cases r)
      (auto simp: get_events_result_of_json_def struct_fields_def bind_eq_Some_conv required_Some
        optional_Some de_Some events assms split: option.splits)
qed

lemma get_events_of_object:
  assumes "http_post rpc (base_url rpc) (json_rpc_request ''getEvents''
      (get_events_params_json (events_request cid st c limit))) = Inr (JObj fs)"
    and "occurrences ''result'' fs = [JObj gs]"
    and "occurrences ''error'' fs = [] \<or> occurrences ''error'' fs = [JNull]"
  shows "get_events rpc cid st c limit = Inr r \<longleftrightarrow>
    get_events_result_of_json (parse_datetime rpc) (JObj gs) = Some r"
proof -
  let ?d = "get_events_result_of_json (parse_datetime rpc)"
  have err: "optional ''error'' (de_option json_rpc_error_of_json) fs = Some None"
    using assms(3) by (auto simp: optional_Some de_Some)
  have "optional ''result'' (de_option ?d) fs = map_option Some (?d (JObj gs))"
    using assms(2) by (simp add: optional_def de_option_def)
  then show ?thesis
    by (auto simp: get_events_def rpc_call_Inr assms(1) json_rpc_response_of_json_def err
        struct_fields_def bind_eq_Some_conv)
qed


end
