(* ===== verification/Delivery.thy ===== *)
theory Delivery
  imports Db
begin

text \<open>
  Webhook delivery, the last third of \<open>src/indexer/mod.rs\<close>: the signature and the requests that
  \<open>notify_webhooks\<close> spawns.  A spawned delivery is an entry of \<open>outbox\<close>; what the receiver answers
  is only logged, so a delivery ends there.
\<close>

record http_post =
  hp_url :: string
  hp_headers :: "(string \<times> string) list"
  hp_body :: bytes
  hp_timeout_secs :: nat

record iworld = pool +
  outbox :: "http_post list"

text \<open>The bytes the MAC is fed: the timestamp in decimal, a dot, the body.\<close>

definition signed_content :: "i64 \<Rightarrow> bytes \<Rightarrow> bytes" where
  "signed_content ts body = as_bytes (show_int (i64_int ts)) @ as_bytes ''.'' @ body"

definition sign_webhook_payload :: "crates \<Rightarrow> string \<Rightarrow> i64 \<Rightarrow> bytes \<Rightarrow> string" where
  "sign_webhook_payload C secret ts body =
    hex_encode C (hmac_sha256 C (as_bytes secret) (signed_content ts body))"

definition webhook_payload :: "i64 \<Rightarrow> string \<Rightarrow> json" where
  "webhook_payload escrow_id event =
    JObj [(''escrow_id'', JInt (i64_int escrow_id)), (''event'', JStr event)]"

definition webhook_post :: "crates \<Rightarrow> i64 \<Rightarrow> bytes \<Rightarrow> webhook_row \<Rightarrow> http_post" where
  "webhook_post C ts body w =
    \<lparr>hp_url = w_url w,
     hp_headers =
       [(''content-type'', ''application/json''),
        (''x-concord-timestamp'', show_int (i64_int ts)),
        (''x-concord-signature'', ''sha256='' @ sign_webhook_payload C (w_secret w) ts body)],
     hp_body = body,
     hp_timeout_secs = 10\<rparr>"

definition notify_webhooks :: "crates \<Rightarrow> i64 \<Rightarrow> string \<Rightarrow> ('z iworld_scheme, 'e, unit) eff" where
  "notify_webhooks C escrow_id event w =
    (case list_webhooks_for_escrow escrow_id w of
       (Inl _, w') \<Rightarrow> (Inr (), w')
     | (Inr ws, w') \<Rightarrow>
         (let body = json_to_vec C (webhook_payload escrow_id event);
              ts = timestamp (clock w')
          in (Inr (), w'\<lparr>outbox := outbox w' @ map (webhook_post C ts body) ws\<rparr>)))"

lemma notify_never_fails: "\<exists>w'. notify_webhooks C k event w = (Inr (), w')"
  by (auto simp: notify_webhooks_def Let_def split: prod.splits sum.splits)

text \<open>The signed bytes determine the timestamp and the body: a decimal number has no dot.\<close>

lemma signed_content_inject:
  "signed_content ts body = signed_content ts' body' \<longleftrightarrow> ts = ts' \<and> body = body'"
proof
  have nodot: "of_char (CHR ''.'') \<notin> set (as_bytes (show_int i))" for i
  proof
    assume "of_char (CHR ''.'') \<in> set (as_bytes (show_int i))"
    then obtain c where "c \<in> set (show_int i)" "(of_char (CHR ''.'') :: u8) = of_char c"
      by (auto simp: as_bytes_def)
    then have "CHR ''.'' \<in> set (show_int i)"
      by (metis char_of_char unat_of_char)
    then show False using show_int_no_dot by blast
  qed
  assume "signed_content ts body = signed_content ts' body'"
  then have "as_bytes (show_int (i64_int ts)) @ of_char (CHR ''.'') # body =
      as_bytes (show_int (i64_int ts')) @ of_char (CHR ''.'') # body'"
    by (simp add: signed_content_def as_bytes_def)
  from first_sep_unique [OF this nodot nodot] show "ts = ts' \<and> body = body'" by simp
qed simp

end
