(* ===== verification/Indexer.thy ===== *)
theory Indexer
  imports Schema Decode Rpc Delivery Config
begin

text \<open>
  The indexer of \<open>src/indexer/mod.rs\<close>: one poll of the RPC, the handling of one contract event,
  and the poll loop.  Each arm of the event match that decodes data has a definition of its own,
  in the order of its statements, so that an early return leaves the statements before it done.
\<close>

section \<open>One event\<close>

datatype indexer_error =
    IdxDecode decode_error
  | IdxDb db_error
  | IdxRpc rpc_error
  | NoTopics
  | MissingEscrowIdTopic

definition decoded :: "decode_error + 'a \<Rightarrow> ('w, indexer_error, 'a) eff" where
  "decoded r = lift (map_err IdxDecode r)"

definition db :: "('w, db_error, 'a) eff \<Rightarrow> ('w, indexer_error, 'a) eff" where
  "db m = map_errS IdxDb m"

definition field ::
  "crates \<Rightarrow> scval \<Rightarrow> string \<Rightarrow> (scval \<Rightarrow> decode_error + 'a) \<Rightarrow> decode_error + 'a" where
  "field C data name conv = bindE (map_get C data name) conv"

definition milestone_id_of :: "crates \<Rightarrow> scval \<Rightarrow> decode_error + i32" where
  "milestone_id_of C data =
    bindE (field C data ''milestone_id'' sc_val_to_u32) (\<lambda>n. Inr (u32_as_i32 n))"

text \<open>The hash that goes with a URI is read only when the URI is not empty.\<close>

definition hash_of ::
  "crates \<Rightarrow> scval \<Rightarrow> string \<Rightarrow> string option \<Rightarrow> decode_error + string option" where
  "hash_of C data name uri =
    (if uri \<noteq> None
     then bindE (field C data name (sc_val_to_bytes_hex C)) (\<lambda>h. Inr (Some h))
     else Inr None)"

definition insert_milestone ::
  "crates \<Rightarrow> i64 \<Rightarrow> decoded_milestone \<Rightarrow> ('z pool_scheme, indexer_error, unit) eff" where
  "insert_milestone C k m =
    bind (decoded (unix_seconds_to_datetime C (dm_deadline m))) (\<lambda>deadline.
    db (upsert_milestone k (u32_as_i32 (dm_id m)) (dm_description m) (i128_int (dm_amount m))
          ''pending'' deadline))"

text \<open>What \<open>escrow_created\<close> decodes before its first statement.\<close>

record created_fields =
  cf_client :: string
  cf_provider :: string
  cf_arbitrator :: string
  cf_token :: string
  cf_review_period :: i64
  cf_chain_created_at :: datetime
  cf_title :: "string option"
  cf_metadata_uri :: "string option"
  cf_metadata_hash :: "string option"

definition decode_created :: "crates \<Rightarrow> scval \<Rightarrow> decode_error + created_fields" where
  "decode_created C data =
    bindE (field C data ''client'' (sc_val_to_address C)) (\<lambda>client.
    bindE (field C data ''provider'' (sc_val_to_address C)) (\<lambda>provider.
    bindE (field C data ''arbitrator'' (sc_val_to_address C)) (\<lambda>arbitrator.
    bindE (field C data ''token'' (sc_val_to_address C)) (\<lambda>token.
    bindE (field C data ''review_period'' sc_val_to_u64) (\<lambda>review_period.
    bindE (bindE (field C data ''created_at'' sc_val_to_u64) (unix_seconds_to_datetime C))
      (\<lambda>chain_created_at.
    bindE (field C data ''title'' (sc_val_to_string C)) (\<lambda>title.
    bindE (field C data ''metadata_uri'' (sc_val_to_string C)) (\<lambda>uri.
    bindE (hash_of C data ''metadata_hash'' (empty_as_none uri)) (\<lambda>metadata_hash.
    Inr \<lparr>cf_client = client, cf_provider = provider, cf_arbitrator = arbitrator,
         cf_token = token, cf_review_period = u64_as_i64 review_period,
         cf_chain_created_at = chain_created_at, cf_title = empty_as_none title,
         cf_metadata_uri = empty_as_none uri, cf_metadata_hash = metadata_hash\<rparr>)))))))))"

definition on_escrow_created ::
  "crates \<Rightarrow> rpc_event \<Rightarrow> i64 \<Rightarrow> i64 \<Rightarrow> scval \<Rightarrow> ('z pool_scheme, indexer_error, unit) eff" where
  "on_escrow_created C ev k ledger data =
    bind (decoded (decode_created C data)) (\<lambda>f.
    bind (db (upsert_escrow k (ev_contract_id ev) (cf_client f) (cf_provider f)
      (cf_arbitrator f) (cf_token f) ''created'' ledger (cf_review_period f)
      (cf_chain_created_at f) (cf_title f) (cf_metadata_uri f) (cf_metadata_hash f))) (\<lambda>_.
    bind (decoded (field C data ''milestones'' (decode_milestones C))) (\<lambda>ms.
    for_each (insert_milestone C k) ms)))"

definition decode_submitted ::
  "crates \<Rightarrow> scval \<Rightarrow> decode_error + i32 \<times> string option \<times> string option" where
  "decode_submitted C data =
    bindE (milestone_id_of C data) (\<lambda>mid.
    bindE (field C data ''evidence_uri'' (sc_val_to_string C)) (\<lambda>uri.
    bindE (hash_of C data ''evidence_hash'' (empty_as_none uri)) (\<lambda>evidence_hash.
    Inr (mid, empty_as_none uri, evidence_hash))))"

definition on_milestone_submitted ::
  "crates \<Rightarrow> rpc_event \<Rightarrow> i64 \<Rightarrow> i64 \<Rightarrow> scval \<Rightarrow> ('z pool_scheme, indexer_error, unit) eff" where
  "on_milestone_submitted C ev k ledger data =
    bind (decoded (decode_submitted C data)) (\<lambda>(mid, evidence_uri, evidence_hash).
    bind (db (set_escrow_status k ''in_progress'' ledger)) (\<lambda>_.
    db (mark_milestone_submitted k mid evidence_uri evidence_hash (ev_ledger_closed_at ev))))"

definition on_milestone_released ::
  "crates \<Rightarrow> i64 \<Rightarrow> scval \<Rightarrow> string \<Rightarrow> ('z pool_scheme, indexer_error, unit) eff" where
  "on_milestone_released C k data via =
    bind (decoded (milestone_id_of C data)) (\<lambda>mid. db (release_milestone k mid via))"

definition on_milestone_expired ::
  "crates \<Rightarrow> i64 \<Rightarrow> scval \<Rightarrow> ('z pool_scheme, indexer_error, unit) eff" where
  "on_milestone_expired C k data =
    bind (decoded (milestone_id_of C data)) (\<lambda>mid.
    db (set_milestone_status k mid ''expired''))"

definition decode_raised :: "crates \<Rightarrow> scval \<Rightarrow> decode_error + i32 \<times> string \<times> string" where
  "decode_raised C data =
    bindE (milestone_id_of C data) (\<lambda>mid.
    bindE (field C data ''raised_by'' (sc_val_to_address C)) (\<lambda>raised_by.
    bindE (field C data ''reason'' (sc_val_to_string C)) (\<lambda>reason.
    Inr (mid, raised_by, reason))))"

definition on_dispute_raised ::
  "crates \<Rightarrow> i64 \<Rightarrow> scval \<Rightarrow> ('z pool_scheme, indexer_error, unit) eff" where
  "on_dispute_raised C k data =
    bind (decoded (decode_raised C data)) (\<lambda>(mid, raised_by, reason).
    bind (db (set_milestone_status k mid ''disputed'')) (\<lambda>_.
    db (insert_dispute k mid raised_by reason)))"

definition decode_resolved :: "crates \<Rightarrow> scval \<Rightarrow> decode_error + i32 \<times> string \<times> i32 option" where
  "decode_resolved C data =
    bindE (milestone_id_of C data) (\<lambda>mid.
    bindE (field C data ''resolution'' (decode_resolution C)) (\<lambda>(kind, bps).
    Inr (mid, kind, bps)))"

definition on_dispute_resolved ::
  "crates \<Rightarrow> i64 \<Rightarrow> scval \<Rightarrow> ('z pool_scheme, indexer_error, unit) eff" where
  "on_dispute_resolved C k data =
    bind (decoded (decode_resolved C data)) (\<lambda>(mid, kind, bps).
    bind (db (set_milestone_status k mid ''resolved'')) (\<lambda>_.
    db (resolve_dispute k mid kind bps)))"

text \<open>The match on the event's name.  The result says whether the name was recognized.\<close>

definition dispatch ::
  "crates \<Rightarrow> rpc_event \<Rightarrow> string \<Rightarrow> i64 \<Rightarrow> i64 \<Rightarrow> scval \<Rightarrow> ('z pool_scheme, indexer_error, bool) eff"
where
  "dispatch C ev name k ledger data =
    (let done = (\<lambda>m. bind m (\<lambda>_. ret True)) in
     if name = ''escrow_created'' then done (on_escrow_created C ev k ledger data)
     else if name = ''escrow_funded'' then done (db (set_escrow_status k ''funded'' ledger))
     else if name = ''milestone_submitted'' then done (on_milestone_submitted C ev k ledger data)
     else if name = ''milestone_approved'' then done (on_milestone_released C k data ''approved'')
     else if name = ''milestone_auto_released'' then
       done (on_milestone_released C k data ''auto_release'')
     else if name = ''milestone_expired'' then done (on_milestone_expired C k data)
     else if name = ''escrow_cancelled'' then
       done (db (set_escrow_status k ''cancelled'' ledger))
     else if name = ''escrow_mutually_cancelled'' then
       done (db (set_escrow_status k ''cancelled'' ledger))
     else if name = ''escrow_completed'' then
       done (db (set_escrow_status k ''completed'' ledger))
     else if name = ''dispute_raised'' then done (on_dispute_raised C k data)
     else if name = ''dispute_resolved'' then done (on_dispute_resolved C k data)
     else ret False)"

text \<open>The event's name, escrow and data: what is decoded before the match.\<close>

definition event_header :: "crates \<Rightarrow> rpc_event \<Rightarrow> indexer_error + string \<times> i64 \<times> scval" where
  "event_header C ev =
    bindE (map_err IdxDecode (collectE (decode_scval_base64 C) (ev_topic ev))) (\<lambda>topics.
    bindE (map_err IdxDecode (decode_scval_base64 C (ev_value ev))) (\<lambda>data.
    bindE (case topics of [] \<Rightarrow> Inl NoTopics | t # _ \<Rightarrow> map_err IdxDecode (sc_val_to_string C t)) (\<lambda>name.
    bindE (case topics of _ # t # _ \<Rightarrow> map_err IdxDecode (sc_val_to_u64 t)
                        | _ \<Rightarrow> Inl MissingEscrowIdTopic) (\<lambda>escrow_id.
    Inr (name, u64_as_i64 escrow_id, data)))))"

definition process_event :: "crates \<Rightarrow> rpc_event \<Rightarrow> ('z iworld_scheme, indexer_error, unit) eff" where
  "process_event C ev =
    bind (lift (event_header C ev)) (\<lambda>(name, k, data).
    bind (dispatch C ev name k (u32_as_i64 (ev_ledger ev)) data) (\<lambda>recognized.
    if recognized then notify_webhooks C k name else ret ()))"

section \<open>One poll\<close>

definition PAGE_LIMIT :: u32 where "PAGE_LIMIT = 100"
definition BOOTSTRAP_LOOKBACK_LEDGERS :: u32 where "BOOTSTRAP_LOOKBACK_LEDGERS = 17280"

definition saturating_sub :: "u32 \<Rightarrow> u32 \<Rightarrow> u32" where
  "saturating_sub a b = (if a < b then 0 else a - b)"

text \<open>
  The loop over a page: a failed event is logged and counted like the others; an event of an
  unsuccessful contract call is passed over and not counted.
\<close>

fun process_events :: "crates \<Rightarrow> rpc_event list \<Rightarrow> 'z iworld_scheme \<Rightarrow> nat \<times> 'z iworld_scheme" where
  "process_events C [] w = (0, w)"
| "process_events C (ev # evs) w =
    (if \<not> ev_in_successful_contract_call ev then process_events C evs w
     else (let (n, w') = process_events C evs (snd (process_event C ev w)) in (Suc n, w')))"

definition next_cursor :: "get_events_result \<Rightarrow> string option" where
  "next_cursor result =
    (case ger_cursor result of
       Some c \<Rightarrow> Some c
     | None \<Rightarrow> if ger_events result = [] then None else Some (ev_id (last (ger_events result))))"

definition start_ledger_for ::
  "rpc_client \<Rightarrow> i64 \<Rightarrow> string option \<Rightarrow> indexer_error + u32 option" where
  "start_ledger_for rpc last_ledger last_cursor =
    (if last_cursor = None \<and> last_ledger = I64 0 then
       bindE (map_err IdxRpc (get_latest_ledger rpc)) (\<lambda>latest.
       Inr (Some (max (saturating_sub latest BOOTSTRAP_LOOKBACK_LEDGERS) 1)))
     else Inr None)"

text \<open>The first half of a poll, up to the page of events, and the whole.\<close>

definition fetch_page ::
  "rpc_client \<Rightarrow> config \<Rightarrow> ('z pool_scheme, indexer_error, get_events_result) eff" where
  "fetch_page rpc cfg =
    bind (db get_cursor) (\<lambda>(last_ledger, last_cursor).
    bind (lift (start_ledger_for rpc last_ledger last_cursor)) (\<lambda>start_ledger.
    lift (map_err IdxRpc
      (get_events rpc (escrow_contract_id cfg) start_ledger last_cursor PAGE_LIMIT))))"

definition advance_cursor :: "get_events_result \<Rightarrow> ('z pool_scheme, indexer_error, unit) eff" where
  "advance_cursor result =
    (case next_cursor result of
       None \<Rightarrow> ret ()
     | Some cursor \<Rightarrow> db (set_cursor (u32_as_i64 (ger_latest_ledger result)) cursor))"

definition poll_once ::
  "crates \<Rightarrow> rpc_client \<Rightarrow> config \<Rightarrow> ('z iworld_scheme, indexer_error, nat) eff" where
  "poll_once C rpc cfg =
    bind (fetch_page rpc cfg) (\<lambda>result.
    bind (\<lambda>w. let (n, w') = process_events C (ger_events result) w in (Inr n, w')) (\<lambda>processed.
    bind (advance_cursor result) (\<lambda>_.
    ret processed)))"

section \<open>The poll loop\<close>

text \<open>
  \<open>run\<close> never returns; after as many polls as there are elements in \<open>rpcs\<close>, one per poll with the
  network as it is then, the state is \<open>run_polls\<close>.  A failed poll is logged and retried after
  the same sleep.
\<close>

definition sleep :: "u64 \<Rightarrow> 'z pool_scheme \<Rightarrow> 'z pool_scheme" where
  "sleep secs w = w\<lparr>clock := clock w + micros (uint secs)\<rparr>"

fun run_polls :: "crates \<Rightarrow> config \<Rightarrow> rpc_client list \<Rightarrow> 'z iworld_scheme \<Rightarrow> 'z iworld_scheme" where
  "run_polls C cfg [] w = w"
| "run_polls C cfg (rpc # rpcs) w =
    run_polls C cfg rpcs
      (sleep (indexer_poll_interval_secs cfg) (snd (poll_once C rpc cfg w)))"

section \<open>What the decoders promise the statements\<close>

lemma hash_of_None_iff: "hash_of C data name uri = Inr h \<Longrightarrow> h = None \<longleftrightarrow> uri = None"
  by (auto simp: hash_of_def bindE_Inr_iff split: if_splits)

lemma decode_created_hash:
  "decode_created C data = Inr f \<Longrightarrow> cf_metadata_hash f = None \<longleftrightarrow> cf_metadata_uri f = None"
  by (auto simp: decode_created_def bindE_Inr_iff dest: hash_of_None_iff)

lemma decode_submitted_hash:
  "decode_submitted C data = Inr (mid, uri, hash) \<Longrightarrow> hash = None \<longleftrightarrow> uri = None"
  by (auto simp: decode_submitted_def bindE_Inr_iff dest: hash_of_None_iff)

lemma decode_resolved_bps:
  "decode_resolved C data = Inr (mid, kind, bps) \<Longrightarrow>
    kind = ''release'' \<and> bps = None \<or> kind = ''refund'' \<and> bps = None \<or>
    kind = ''split'' \<and> bps \<noteq> None"
  by (auto simp: decode_resolved_def field_def bindE_Inr_iff dest: decode_resolution_bps)

section \<open>What handling an event may change\<close>

text \<open>
  A reflexive and transitive relation on the state that every statement of an event's handling
  keeps is kept by the handling of the event, whichever arm runs and however it ends.  The
  assumptions give each statement the arguments the arms can give it.
\<close>

locale event_effects = evolution R for R :: "'z pool_scheme \<Rightarrow> 'z pool_scheme \<Rightarrow> bool" +
  assumes upsert_escrow_kept:
      "(metadata_hash = None \<longleftrightarrow> metadata_uri = None) \<Longrightarrow>
       effects R (upsert_escrow k contract_id client provider arbitrator token ''created''
         ledger review_period chain_created_at title metadata_uri metadata_hash)"
    and set_escrow_status_kept: "effects R (set_escrow_status k (escrow_status_as_str st) ledger)"
    and upsert_milestone_kept:
      "effects R (upsert_milestone k mid description amount ''pending'' deadline)"
    and set_milestone_status_kept:
      "ms = ''expired'' \<or> ms = ''disputed'' \<or> ms = ''resolved'' \<Longrightarrow>
       effects R (set_milestone_status k mid ms)"
    and mark_milestone_submitted_kept:
      "(hash = None \<longleftrightarrow> uri = None) \<Longrightarrow> effects R (mark_milestone_submitted k mid uri hash t)"
    and release_milestone_kept:
      "via = ''approved'' \<or> via = ''auto_release'' \<Longrightarrow> effects R (release_milestone k mid via)"
    and insert_dispute_kept: "effects R (insert_dispute k mid raised_by reason)"
    and resolve_dispute_kept:
      "kind = ''release'' \<and> bps = None \<or> kind = ''refund'' \<and> bps = None \<or>
       kind = ''split'' \<and> bps \<noteq> None \<Longrightarrow> effects R (resolve_dispute k mid kind bps)"
begin

lemma db_effects: "effects R m \<Longrightarrow> effects R (db m)"
  by (simp add: db_def effects_map_errS)

lemma decoded_effects:
  assumes "\<And>x. r = Inr x \<Longrightarrow> effects R (f x)"
  shows "effects R (bind (decoded r) f)"
proof
  fix w
  show "R w (snd (bind (decoded r) f w))"
    using effectsD [OF assms, of _ w]
    by (cases r) (auto simp: decoded_def run_bind run_lift refl)
qed

lemmas statements_kept =
  upsert_escrow_kept upsert_milestone_kept set_milestone_status_kept
  mark_milestone_submitted_kept release_milestone_kept insert_dispute_kept resolve_dispute_kept
  set_escrow_status_kept [of _ Funded, simplified] set_escrow_status_kept [of _ InProgress, simplified]
  set_escrow_status_kept [of _ Completed, simplified] set_escrow_status_kept [of _ Cancelled, simplified]

lemma insert_milestone_effects: "effects R (insert_milestone C k m)"
  unfolding insert_milestone_def by (intro decoded_effects db_effects statements_kept)

lemma escrow_created_effects: "effects R (on_escrow_created C ev k ledger data)"
  unfolding on_escrow_created_def
  by (intro decoded_effects effects_bind db_effects statements_kept effects_for_each
      insert_milestone_effects) (rule decode_created_hash)

lemma milestone_submitted_effects: "effects R (on_milestone_submitted C ev k ledger data)"
  unfolding on_milestone_submitted_def
  by (intro decoded_effects)
    (auto split: prod.splits intro!: effects_bind db_effects statements_kept
      dest: decode_submitted_hash)

lemma milestone_released_effects:
  "via = ''approved'' \<or> via = ''auto_release'' \<Longrightarrow> effects R (on_milestone_released C k data via)"
  unfolding on_milestone_released_def by (intro decoded_effects db_effects statements_kept)

lemma milestone_expired_effects: "effects R (on_milestone_expired C k data)"
  unfolding on_milestone_expired_def
  by (intro decoded_effects db_effects statements_kept) simp

lemma dispute_raised_effects: "effects R (on_dispute_raised C k data)"
  unfolding on_dispute_raised_def
  by (intro decoded_effects)
    (auto split: prod.splits intro!: effects_bind db_effects statements_kept)

lemma dispute_resolved_effects: "effects R (on_dispute_resolved C k data)"
  unfolding on_dispute_resolved_def
  by (intro decoded_effects)
    (auto split: prod.splits intro!: effects_bind db_effects statements_kept
      dest: decode_resolved_bps)

lemma dispatch_effects: "effects R (dispatch C ev name k ledger data)"
  unfolding dispatch_def Let_def
  by (auto intro!: effects_bind effects_ret db_effects statements_kept escrow_created_effects
      milestone_submitted_effects milestone_released_effects milestone_expired_effects
      dispute_raised_effects dispute_resolved_effects)

end

text \<open>The same with the deliveries: the relation must allow the outbox to change.\<close>

locale delivery_effects = event_effects R
  for R :: "'z iworld_scheme \<Rightarrow> 'z iworld_scheme \<Rightarrow> bool" +
  assumes list_webhooks_kept: "effects R (list_webhooks_for_escrow k)"
    and outbox_free: "R w w' \<Longrightarrow> R w (w'\<lparr>outbox := ob\<rparr>)"
begin

lemma notify_webhooks_effects: "effects R (notify_webhooks C k event)"
proof
  fix w
  show "R w (snd (notify_webhooks C k event w))"
    using effectsD [OF list_webhooks_kept, of w k]
    by (auto simp: notify_webhooks_def Let_def outbox_free split: prod.splits sum.splits)
qed

lemma process_event_effects: "effects R (process_event C ev)"
  unfolding process_event_def
  by (intro effects_bind effects_lift)
    (auto intro!: effects_bind effects_ret dispatch_effects notify_webhooks_effects
      split: prod.splits)

lemma process_events_effects: "R w (snd (process_events C evs w))"
proof (induction evs arbitrary: w)
  case Nil
  then show ?case by (simp add: refl)
next
  case (Cons ev evs)
  have "R w (snd (process_event C ev w))"
    by (rule effectsD [OF process_event_effects])
  from trans [OF this Cons.IH] show ?case
    using Cons.IH by (simp add: case_prod_unfold Let_def)
qed

end

section \<open>Everything the indexer writes is a step\<close>

interpretation event_writes: event_effects "pool_writes :: 'z pool_scheme \<Rightarrow> 'z pool_scheme \<Rightarrow> bool"
  by unfold_locales (rule effects_db_writes; assumption)+

interpretation delivery_writes:
  delivery_effects "pool_writes :: 'z iworld_scheme \<Rightarrow> 'z iworld_scheme \<Rightarrow> bool"
  by unfold_locales (rule effects_db_reads, auto simp: pool_writes_def rely_def)

lemmas effects_process_event [eff_intros] = delivery_writes.process_event_effects

lemma effects_db [eff_intros]: "effects pool_writes m \<Longrightarrow> effects pool_writes (db m)"
  by (rule event_writes.db_effects)

lemma effects_fetch_page [eff_intros]: "effects pool_writes (fetch_page rpc cfg)"
  unfolding fetch_page_def
  by (intro writes.effects_bind eff_intros)
    (auto intro!: writes.effects_bind writes.effects_lift split: prod.splits)

lemma effects_advance_cursor [eff_intros]: "effects pool_writes (advance_cursor result)"
  unfolding advance_cursor_def
  by (auto intro!: writes.effects_ret eff_intros split: option.splits)

lemma effects_poll_once [eff_intros]: "effects pool_writes (poll_once C rpc cfg)"
  unfolding poll_once_def
  by (intro writes.effects_bind eff_intros writes.effects_ret)
    (simp add: effects_def case_prod_unfold Let_def delivery_writes.process_events_effects)

lemma writes_run_polls: "pool_writes w (run_polls C cfg rpcs w)"
proof (induction rpcs arbitrary: w)
  case Nil
  then show ?case by (simp add: writes.refl)
next
  case (Cons rpc rpcs)
  have "pool_writes w (snd (poll_once C rpc cfg w))"
    by (rule effectsD [OF effects_poll_once])
  moreover have "pool_writes v (sleep secs v)" for v :: "'z iworld_scheme" and secs
    by (auto simp: pool_writes_def rely_def sleep_def micros_def intro: exI [of _ 0])
  ultimately show ?case
    using Cons.IH writes.trans by (metis run_polls.simps(2))
qed

end
