(* ===== verification/Runs.thy ===== *)
theory Runs
  imports Indexer
begin

text \<open>
  The indexer on a quiet connection (no statement lost, no other task writing): every statement
  and every arm of the event match in closed form.
\<close>

named_theorems quiet_simps

lemma run_decoded [eff_simps]: "decoded r w = (map_err IdxDecode r, w)"
  by (simp add: decoded_def eff_simps)

lemma run_db [eff_simps]: "db m w = (case m w of (r, w') \<Rightarrow> (map_err IdxDb r, w'))"
  by (simp add: db_def eff_simps)

lemma quiet_set_escrow_status [quiet_simps]:
  "pending w = [] \<Longrightarrow> set_escrow_status k st ledger w =
    (Inr (), w\<lparr>tabs := (tabs w)\<lparr>escrows :=
      update_where (\<lambda>r. e_id r = k \<and> ledger \<ge> e_updated_ledger r)
        (\<lambda>r. r\<lparr>e_status := st, e_updated_at := clock w, e_updated_ledger := ledger\<rparr>)
        (escrows (tabs w))\<rparr>\<rparr>)"
  by (simp add: set_escrow_status_def exec_sql_healthy set_escrow_status_stmt_def)

lemma quiet_set_milestone_status [quiet_simps]:
  "pending w = [] \<Longrightarrow> set_milestone_status k mid st w =
    (Inr (), w\<lparr>tabs := (tabs w)\<lparr>milestones :=
      update_where (\<lambda>m. m_key m = (k, mid)) (\<lambda>m. m\<lparr>m_status := st, m_updated_at := clock w\<rparr>)
        (milestones (tabs w))\<rparr>\<rparr>)"
  by (simp add: set_milestone_status_def exec_sql_healthy set_milestone_status_stmt_def)

lemma quiet_mark_milestone_submitted [quiet_simps]:
  "pending w = [] \<Longrightarrow> mark_milestone_submitted k mid uri hash at w =
    (Inr (), w\<lparr>tabs := (tabs w)\<lparr>milestones :=
      update_where (\<lambda>m. m_key m = (k, mid))
        (\<lambda>m. m\<lparr>m_status := ''submitted'', m_evidence_uri := uri, m_evidence_hash := hash,
               m_submitted_at := Some at, m_updated_at := clock w\<rparr>)
        (milestones (tabs w))\<rparr>\<rparr>)"
  by (simp add: mark_milestone_submitted_def exec_sql_healthy mark_milestone_submitted_stmt_def)

lemma quiet_release_milestone [quiet_simps]:
  "pending w = [] \<Longrightarrow> release_milestone k mid via w =
    (Inr (), w\<lparr>tabs := (tabs w)\<lparr>milestones :=
      update_where (\<lambda>m. m_key m = (k, mid))
        (\<lambda>m. m\<lparr>m_status := ''released'', m_released_via := Some via, m_updated_at := clock w\<rparr>)
        (milestones (tabs w))\<rparr>\<rparr>)"
  by (simp add: release_milestone_def exec_sql_healthy release_milestone_stmt_def)

lemma quiet_resolve_dispute [quiet_simps]:
  "pending w = [] \<Longrightarrow> resolve_dispute k mid kind bps w =
    (Inr (), w\<lparr>tabs := (tabs w)\<lparr>disputes :=
      update_where (\<lambda>d. d_key d = (k, mid))
        (\<lambda>d. d\<lparr>d_status := ''resolved'', d_resolution_kind := Some kind,
               d_resolution_provider_bps := bps, d_resolved_at := Some (clock w)\<rparr>)
        (disputes (tabs w))\<rparr>\<rparr>)"
  by (simp add: resolve_dispute_def exec_sql_healthy resolve_dispute_stmt_def)

lemma quiet_list_webhooks [quiet_simps]:
  "pending w = [] \<Longrightarrow> list_webhooks_for_escrow k w = (Inr (webhooks_of k (tabs w)), w)"
  by (simp add: list_webhooks_for_escrow_def exec_sql_healthy_read)

lemma quiet_get_cursor [quiet_simps]:
  "pending w = [] \<Longrightarrow> get_cursor w = (ok_or RowNotFound (indexer_cursor (tabs w)), w)"
  by (simp add: get_cursor_def exec_sql_healthy_read)

lemma quiet_set_cursor [quiet_simps]:
  "pending w = [] \<Longrightarrow> set_cursor l c w =
    (Inr (), w\<lparr>tabs := (tabs w)\<lparr>indexer_cursor :=
      map_option (\<lambda>_. (l, Some c)) (indexer_cursor (tabs w))\<rparr>\<rparr>)"
  by (simp add: set_cursor_def exec_sql_healthy set_cursor_stmt_def)

lemma quiet_upsert_milestone:
  "pending w = [] \<Longrightarrow> upsert_milestone k mid description amount st deadline w =
    (case upsert_milestone_stmt k mid description amount st deadline (clock w) (tabs w) of
       Inl e \<Rightarrow> (Inl e, w) | Inr (u, T) \<Rightarrow> (Inr u, w\<lparr>tabs := T\<rparr>))"
  by (simp add: upsert_milestone_def exec_sql_healthy split: sum.splits)

lemma quiet_upsert_escrow:
  "pending w = [] \<Longrightarrow>
   upsert_escrow k cid client provider arbitrator tok st ledger rp cc title uri hash w =
    (case upsert_escrow_stmt k cid client provider arbitrator tok st ledger rp cc title uri hash
            (clock w) (tabs w) of
       Inl e \<Rightarrow> (Inl e, w) | Inr (u, T) \<Rightarrow> (Inr u, w\<lparr>tabs := T\<rparr>))"
  by (simp add: upsert_escrow_def exec_sql_healthy split: sum.splits)

lemma quiet_insert_dispute:
  "pending w = [] \<Longrightarrow> insert_dispute k mid raised_by reason w =
    (case insert_dispute_stmt k mid raised_by reason (clock w) (tabs w) of
       Inl e \<Rightarrow> (Inl e, w) | Inr (u, T) \<Rightarrow> (Inr u, w\<lparr>tabs := T\<rparr>))"
  by (simp add: insert_dispute_def exec_sql_healthy split: sum.splits)

text \<open>An escrow row, whichever arm of the upsert ran, is there afterwards: the upsert never fails.\<close>

lemma upsert_escrow_stmt_total:
  "\<exists>T'. upsert_escrow_stmt k cid client provider arbitrator tok st ledger rp cc title uri hash
     now T = Inr ((), T') \<and> escrow_exists k T' \<and> milestones T' = milestones T \<and>
     disputes T' = disputes T \<and> webhooks T' = webhooks T \<and> indexer_cursor T' = indexer_cursor T"
  by (cases "find_by e_id k (escrows T)")
    (simp_all add: upsert_escrow_stmt_def escrow_exists_def find_by_update_where)

section \<open>Which step each event is\<close>

text \<open>The deliveries \<open>notify_webhooks\<close> spawns on a quiet connection.\<close>

definition deliveries :: "crates \<Rightarrow> datetime \<Rightarrow> tables \<Rightarrow> i64 \<Rightarrow> string \<Rightarrow> http_post list" where
  "deliveries C now T k name =
    map (webhook_post C (timestamp now) (json_to_vec C (webhook_payload k name))) (webhooks_of k T)"

lemma quiet_notify_webhooks [quiet_simps]:
  "pending w = [] \<Longrightarrow> notify_webhooks C k name w =
    (Inr (), w\<lparr>outbox := outbox w @ deliveries C (clock w) (tabs w) k name\<rparr>)"
  by (simp add: notify_webhooks_def quiet_simps deliveries_def Let_def)

lemma quiet_kept:
  "effects pool_writes m \<Longrightarrow> pending w = [] \<Longrightarrow> pending (snd (m w)) = []"
  using effectsD [of pool_writes m w] pool_writes_quiet by blast

lemma process_event_header_error:
  "event_header C ev = Inl e \<Longrightarrow> process_event C ev w = (Inl e, w)"
  by (simp add: process_event_def eff_simps)

lemma process_event_dispatch:
  "event_header C ev = Inr (name, k, data) \<Longrightarrow> process_event C ev w =
    (case dispatch C ev name k (u32_as_i64 (ev_ledger ev)) data w of
       (Inl e, w') \<Rightarrow> (Inl e, w')
     | (Inr True, w') \<Rightarrow> notify_webhooks C k name w'
     | (Inr False, w') \<Rightarrow> (Inr (), w'))"
  by (auto simp: process_event_def eff_simps split: prod.splits sum.splits bool.splits)

lemma notify_tabs: "pending w = [] \<Longrightarrow> tabs (snd (notify_webhooks C k name w)) = tabs w"
  by (simp add: quiet_simps)

lemma process_event_tabs:
  assumes "event_header C ev = Inr (name, k, data)" "pending w = []"
  shows "tabs (snd (process_event C ev w)) =
    tabs (snd (dispatch C ev name k (u32_as_i64 (ev_ledger ev)) data w))"
proof -
  obtain r w' where d: "dispatch C ev name k (u32_as_i64 (ev_ledger ev)) data w = (r, w')"
    by fastforce
  have "pending w' = []"
    using quiet_kept [OF event_writes.dispatch_effects assms(2), of C ev name k "u32_as_i64 (ev_ledger ev)" data]
    by (simp add: d)
  then show ?thesis
    by (auto simp: process_event_dispatch [OF assms(1)] d notify_tabs
        split: sum.splits bool.splits)
qed

lemma snd_bind_ret [simp]: "snd (bind m (\<lambda>_. ret x) w) = snd (m w)"
  by (simp add: eff_simps split: prod.splits sum.splits)

lemma snd_db [simp]: "snd (db m w) = snd (m w)"
  by (simp add: run_db split: prod.splits)

lemma snd_bind_decoded:
  "snd (bind (decoded r) f w) = (case r of Inl _ \<Rightarrow> w | Inr x \<Rightarrow> snd (f x w))"
  by (simp add: eff_simps split: sum.splits)

text \<open>The tables an arm leaves alone.\<close>

lemma upsert_milestone_stmt_frame:
  "upsert_milestone_stmt k mid description amount st deadline now T = Inr (u, T') \<Longrightarrow>
    escrows T' = escrows T \<and> disputes T' = disputes T \<and> webhooks T' = webhooks T \<and>
    indexer_cursor T' = indexer_cursor T"
  by (auto simp: upsert_milestone_stmt_def split: option.splits if_splits)

lemma insert_milestone_frame:
  assumes "pending w = []"
  shows "escrows (tabs (snd (insert_milestone C k m w))) = escrows (tabs w) \<and>
    disputes (tabs (snd (insert_milestone C k m w))) = disputes (tabs w) \<and>
    webhooks (tabs (snd (insert_milestone C k m w))) = webhooks (tabs w)"
  using assms
  by (auto simp: insert_milestone_def snd_bind_decoded quiet_upsert_milestone
      split: sum.splits dest: upsert_milestone_stmt_frame)

lemma snd_for_each_Cons:
  "snd (for_each f (x # xs) w) =
    (case f x w of (Inl _, w') \<Rightarrow> w' | (Inr _, w') \<Rightarrow> snd (for_each f xs w'))"
  by (simp add: eff_simps split: prod.splits sum.splits)

lemma insert_milestones_frame:
  "pending w = [] \<Longrightarrow>
    escrows (tabs (snd (for_each (insert_milestone C k) ms w))) = escrows (tabs w) \<and>
    disputes (tabs (snd (for_each (insert_milestone C k) ms w))) = disputes (tabs w) \<and>
    webhooks (tabs (snd (for_each (insert_milestone C k) ms w))) = webhooks (tabs w)"
proof (induction ms arbitrary: w)
  case Nil
  then show ?case by (simp add: eff_simps)
next
  case (Cons m ms)
  obtain r w' where step: "insert_milestone C k m w = (r, w')" by fastforce
  have "pending w' = []"
    using quiet_kept [OF event_writes.insert_milestone_effects Cons.prems, of C k m] step by simp
  with Cons.IH [of w'] insert_milestone_frame [OF Cons.prems, of C k m] show ?case
    by (cases r) (simp_all add: snd_for_each_Cons step del: for_each.simps)
qed

lemma snd_on_escrow_created:
  assumes "pending w = []" "decode_created C data = Inr f"
  obtains ms T where
    "upsert_escrow_stmt k (ev_contract_id ev) (cf_client f) (cf_provider f) (cf_arbitrator f)
      (cf_token f) ''created'' ledger (cf_review_period f) (cf_chain_created_at f) (cf_title f)
      (cf_metadata_uri f) (cf_metadata_hash f) (clock w) (tabs w) = Inr ((), T)"
    "snd (on_escrow_created C ev k ledger data w) =
      snd (for_each (insert_milestone C k) ms (w\<lparr>tabs := T\<rparr>))"
proof -
  obtain T where T: "upsert_escrow_stmt k (ev_contract_id ev) (cf_client f) (cf_provider f)
      (cf_arbitrator f) (cf_token f) ''created'' ledger (cf_review_period f)
      (cf_chain_created_at f) (cf_title f) (cf_metadata_uri f) (cf_metadata_hash f)
      (clock w) (tabs w) = Inr ((), T)"
    using upsert_escrow_stmt_total by blast
  let ?ms = "case field C data ''milestones'' (decode_milestones C) of Inl _ \<Rightarrow> [] | Inr ms \<Rightarrow> ms"
  have "snd (on_escrow_created C ev k ledger data w) =
      snd (for_each (insert_milestone C k) ?ms (w\<lparr>tabs := T\<rparr>))"
    by (simp add: on_escrow_created_def eff_simps run_decoded run_db assms T quiet_upsert_escrow
        split: sum.splits)
  with T show ?thesis by (rule that)
qed

text \<open>The names the match recognizes.\<close>

definition event_names :: "string list" where
  "event_names =
    [''escrow_created'', ''escrow_funded'', ''milestone_submitted'', ''milestone_approved'',
     ''milestone_auto_released'', ''milestone_expired'', ''escrow_cancelled'',
     ''escrow_mutually_cancelled'', ''escrow_completed'', ''dispute_raised'', ''dispute_resolved'']"

lemma event_name_cases:
  obtains (created) "name = ''escrow_created''" | (funded) "name = ''escrow_funded''"
    | (submitted) "name = ''milestone_submitted''" | (approved) "name = ''milestone_approved''"
    | (auto_released) "name = ''milestone_auto_released''"
    | (expired) "name = ''milestone_expired''" | (cancelled) "name = ''escrow_cancelled''"
    | (mutually_cancelled) "name = ''escrow_mutually_cancelled''"
    | (completed) "name = ''escrow_completed''" | (raised) "name = ''dispute_raised''"
    | (resolved) "name = ''dispute_resolved''" | (other) "name \<notin> set event_names"
  unfolding event_names_def by fastforce

lemma dispatch_arm:
  "dispatch C ev ''escrow_created'' k ledger data =
    bind (on_escrow_created C ev k ledger data) (\<lambda>_. ret True)"
  "dispatch C ev ''escrow_funded'' k ledger data =
    bind (db (set_escrow_status k ''funded'' ledger)) (\<lambda>_. ret True)"
  "dispatch C ev ''milestone_submitted'' k ledger data =
    bind (on_milestone_submitted C ev k ledger data) (\<lambda>_. ret True)"
  "dispatch C ev ''milestone_approved'' k ledger data =
    bind (on_milestone_released C k data ''approved'') (\<lambda>_. ret True)"
  "dispatch C ev ''milestone_auto_released'' k ledger data =
    bind (on_milestone_released C k data ''auto_release'') (\<lambda>_. ret True)"
  "dispatch C ev ''milestone_expired'' k ledger data =
    bind (on_milestone_expired C k data) (\<lambda>_. ret True)"
  "dispatch C ev ''escrow_cancelled'' k ledger data =
    bind (db (set_escrow_status k ''cancelled'' ledger)) (\<lambda>_. ret True)"
  "dispatch C ev ''escrow_mutually_cancelled'' k ledger data =
    bind (db (set_escrow_status k ''cancelled'' ledger)) (\<lambda>_. ret True)"
  "dispatch C ev ''escrow_completed'' k ledger data =
    bind (db (set_escrow_status k ''completed'' ledger)) (\<lambda>_. ret True)"
  "dispatch C ev ''dispute_raised'' k ledger data =
    bind (on_dispute_raised C k data) (\<lambda>_. ret True)"
  "dispatch C ev ''dispute_resolved'' k ledger data =
    bind (on_dispute_resolved C k data) (\<lambda>_. ret True)"
  "name \<notin> set event_names \<Longrightarrow> dispatch C ev name k ledger data = ret False"
  by (simp_all add: dispatch_def event_names_def)

text \<open>The loop over a page is the fold of the handling of its successful events.\<close>

lemma process_events_fold:
  "snd (process_events C evs w) =
    fold (\<lambda>ev w. snd (process_event C ev w)) (filter ev_in_successful_contract_call evs) w"
  by (induction evs arbitrary: w) (simp_all add: case_prod_unfold Let_def)

lemma process_events_count:
  "fst (process_events C evs w) = length (filter ev_in_successful_contract_call evs)"
  by (induction evs arbitrary: w) (simp_all add: case_prod_unfold Let_def)

end
