(* ===== verification/Samples.thy ===== *)
theory Samples
  imports Decode Rpc
begin

text \<open>
  One concrete instance of the crates, for the closed examples that accompany the theorems: a
  readable codec in place of XDR and strkey, hexadecimal, and a timestamp conversion with the range
  of \<open>chrono\<close>.  Nothing else depends on it.
\<close>

definition hex_digit :: "nat \<Rightarrow> char" where
  "hex_digit n = (if n < 10 then char_of (48 + n) else char_of (87 + n))"

text \<open>What \<open>hex::encode\<close> is documented to give.\<close>

definition lower_hex :: "bytes \<Rightarrow> string" where
  "lower_hex bs = concat (map (\<lambda>b. [hex_digit (unat b div 16), hex_digit (unat b mod 16)]) bs)"

definition sym :: "string \<Rightarrow> scval" where
  "sym s = ScSymbol (as_bytes s)"

definition text_val :: "string \<Rightarrow> scval" where
  "text_val s = ScString (as_bytes s)"

definition sample_milestone :: "u32 \<Rightarrow> u64 \<Rightarrow> scval" where
  "sample_milestone n deadline = ScMap (Some
    [(sym ''id'', ScU32 n), (sym ''description'', text_val ''Design''),
     (sym ''amount'', ScI128 (I64 0) 400), (sym ''deadline'', ScU64 deadline)])"

definition sample_created :: "scval \<Rightarrow> scval" where
  "sample_created ms = ScMap (Some
    [(sym ''client'', ScAddress (ScAccount (as_bytes ''GC''))),
     (sym ''provider'', ScAddress (ScAccount (as_bytes ''GP''))),
     (sym ''arbitrator'', ScAddress (ScAccount (as_bytes ''GA''))),
     (sym ''token'', ScAddress (ScContract (as_bytes ''CT''))),
     (sym ''review_period'', ScU64 604800), (sym ''created_at'', ScU64 1700000000),
     (sym ''title'', text_val ''Site''), (sym ''metadata_uri'', text_val ''''),
     (sym ''milestones'', ms)])"

definition sample_values :: "(string \<times> scval) list" where
  "sample_values =
    [(''void'', ScOther 0),
     (''created'', sample_created (ScVec (Some [sample_milestone 0 1700000000]))),
     (''endless'', sample_created (ScVec (Some
        [sample_milestone 0 1700000000, sample_milestone 1 0x8000000000000000]))),
     (''milestone'', ScMap (Some [(sym ''milestone_id'', ScU32 0)])),
     (''submitted'', ScMap (Some [(sym ''milestone_id'', ScU32 0),
        (sym ''evidence_uri'', text_val '''')])),
     (''raised'', ScMap (Some [(sym ''milestone_id'', ScU32 0),
        (sym ''raised_by'', ScAddress (ScAccount (as_bytes ''GC''))),
        (sym ''reason'', text_val ''late'')])),
     (''resolved'', ScMap (Some [(sym ''milestone_id'', ScU32 0),
        (sym ''resolution'', ScVec (Some [sym ''Split'', ScU32 6000]))])),
     (''escrow 1'', ScU64 1), (''escrow 2'', ScU64 2)]"

definition sample_from_xdr :: "string \<Rightarrow> scval option" where
  "sample_from_xdr s =
    (case map_of sample_values s of
       Some v \<Rightarrow> Some v
     | None \<Rightarrow> (case s of c # r \<Rightarrow> if c = CHR ''$'' then Some (sym r) else None | [] \<Rightarrow> None))"

definition sample_from_timestamp :: "i64 \<Rightarrow> datetime option" where
  "sample_from_timestamp s =
    (if -8334601228800 \<le> i64_int s \<and> i64_int s \<le> 8210266876799
     then Some (micros (i64_int s)) else None)"

definition sample_crates :: crates where
  "sample_crates =
    \<lparr>scval_from_xdr_base64 = sample_from_xdr, stringm_to_string = chars_of,
     strkey_ed25519_to_string = chars_of, strkey_contract_to_string = chars_of,
     datetime_from_timestamp = sample_from_timestamp, hex_encode = lower_hex,
     hmac_sha256 = (\<lambda>key msg. take 32 (key @ msg)), json_to_vec = (\<lambda>j. as_bytes ''{}'')\<rparr>"

definition sample_event :: "string \<Rightarrow> string \<Rightarrow> string \<Rightarrow> u32 \<Rightarrow> rpc_event" where
  "sample_event name escrow value ledger =
    \<lparr>ev_contract_id = ''CESCROW'', ev_ledger = ledger, ev_ledger_closed_at = 1000000,
     ev_id = name, ev_topic = [CHR ''$'' # name, escrow], ev_value = value,
     ev_in_successful_contract_call = True\<rparr>"

text \<open>The fields in which an event arrives, with one the client does not read.\<close>

definition sample_event_fields :: "rpc_event \<Rightarrow> (string \<times> json) list" where
  "sample_event_fields ev =
    [(''type'', JStr ''contract''), (''ledger'', JInt (uint (ev_ledger ev))),
     (''ledgerClosedAt'', JStr ''1970-01-01T00:00:01Z''),
     (''contractId'', JStr (ev_contract_id ev)), (''id'', JStr (ev_id ev)),
     (''inSuccessfulContractCall'', JBool (ev_in_successful_contract_call ev)),
     (''topic'', JArr (map JStr (ev_topic ev))), (''value'', JStr (ev_value ev))]"

definition sample_parse_time :: "string \<Rightarrow> datetime option" where
  "sample_parse_time = [''1970-01-01T00:00:01Z'' \<mapsto> 1000000]"

lemma sample_event_fields_read:
  "ev_ledger_closed_at ev = 1000000 \<Longrightarrow>
    event_fields sample_parse_time (sample_event_fields ev) ev"
  by (simp add: sample_event_fields_def event_fields_def sample_parse_time_def)

lemmas sample_defs =
  sample_crates_def sample_from_xdr_def sample_values_def sample_event_def sample_created_def
  sample_milestone_def sample_from_timestamp_def sym_def text_val_def

end
