(* ===== verification/Convergence.thy ===== *)
theory Convergence
  imports Runs Samples
begin

text \<open>
  The status of an escrow as a register stamped with the ledger that wrote it.  Every statement
  that sets it is guarded by the ledger, so the register only moves forward, and what it holds in
  the end depends on the set of events, not on their order or on how often each was handled.  The
  argument is made once, in \<open>ledger_register\<close>, and interpreted on the handling of events.
\<close>

section \<open>The contract\<close>

locale ledger_register =
  fixes ok :: "'s \<Rightarrow> bool"
    and view :: "'s \<Rightarrow> 'k \<Rightarrow> ('v \<times> 'l::linorder) option"
    and step :: "'u \<Rightarrow> 's \<Rightarrow> 's"
    and effect :: "'u \<Rightarrow> ('k \<times> 'v \<times> 'l) option"
  assumes ok_step: "ok s \<Longrightarrow> ok (step u s)"
    and view_step: "ok s \<Longrightarrow> view s k = Some (v0, l0) \<Longrightarrow>
      view (step u s) k =
        (case effect u of
           Some (k', v, l) \<Rightarrow> if k' = k \<and> l0 \<le> l then Some (v, l) else Some (v0, l0)
         | None \<Rightarrow> Some (v0, l0))"
begin

lemma ok_fold: "ok s \<Longrightarrow> ok (fold step us s)"
  by (induction us arbitrary: s) (auto intro: ok_step)

text \<open>What the register holds after a run: an update no other update is ahead of.\<close>

lemma view_fold:
  assumes "ok s" "view s k = Some (v0, l0)"
  shows "\<exists>v l. view (fold step us s) k = Some (v, l) \<and> l0 \<le> l \<and>
    (\<forall>u v' l'. u \<in> set us \<longrightarrow> effect u = Some (k, v', l') \<longrightarrow> l' \<le> l) \<and>
    ((\<exists>u \<in> set us. effect u = Some (k, v, l)) \<or>
     (v, l) = (v0, l0) \<and> (\<forall>u v' l'. u \<in> set us \<longrightarrow> effect u = Some (k, v', l') \<longrightarrow> l' < l0))"
  using assms
proof (induction us arbitrary: s v0 l0)
  case Nil
  then show ?case by simp
next
  case (Cons u us)
  note step = view_step [OF Cons.prems, of u] and ok1 = ok_step [OF Cons.prems(1), of u]
  show ?case
  proof (cases "\<exists>v l. effect u = Some (k, v, l) \<and> l0 \<le> l")
    case True
    then obtain v1 l1 where u: "effect u = Some (k, v1, l1)" "l0 \<le> l1" by blast
    then have "view (step u s) k = Some (v1, l1)" using step by simp
    from Cons.IH [OF ok1 this] u show ?thesis
      by (fastforce intro: order_trans)
  next
    case False
    then have "view (step u s) k = Some (v0, l0)"
      using step by (auto split: option.splits)
    from Cons.IH [OF ok1 this] False show ?thesis
      by (fastforce simp: not_le intro: order_trans less_imp_le)
  qed
qed

theorem stamp_grows:
  "ok s \<Longrightarrow> view s k = Some (v0, l0) \<Longrightarrow>
    \<exists>v l. view (fold step us s) k = Some (v, l) \<and> l0 \<le> l"
  using view_fold by blast

text \<open>
  Two runs over the same updates, in any order and with any repetition, agree when no two
  updates of the key carry the same stamp with different values.
\<close>

theorem runs_converge:
  assumes "ok s" "view s k = Some (v0, l0)" "set us = set us'"
    and "\<And>u u' v v' l. u \<in> set us \<Longrightarrow> u' \<in> set us \<Longrightarrow>
      effect u = Some (k, v, l) \<Longrightarrow> effect u' = Some (k, v', l) \<Longrightarrow> v = v'"
  shows "view (fold step us s) k = view (fold step us' s) k"
proof -
  obtain v l where a: "view (fold step us s) k = Some (v, l)" "l0 \<le> l"
      "\<forall>u v' l'. u \<in> set us \<longrightarrow> effect u = Some (k, v', l') \<longrightarrow> l' \<le> l"
      "(\<exists>u \<in> set us. effect u = Some (k, v, l)) \<or>
       (v, l) = (v0, l0) \<and> (\<forall>u v' l'. u \<in> set us \<longrightarrow> effect u = Some (k, v', l') \<longrightarrow> l' < l0)"
    using view_fold [OF assms(1,2), of us] by blast
  obtain v' l' where b: "view (fold step us' s) k = Some (v', l')" "l0 \<le> l'"
      "\<forall>u v'' l''. u \<in> set us \<longrightarrow> effect u = Some (k, v'', l'') \<longrightarrow> l'' \<le> l'"
      "(\<exists>u \<in> set us. effect u = Some (k, v', l')) \<or>
       (v', l') = (v0, l0) \<and> (\<forall>u v' l'. u \<in> set us \<longrightarrow> effect u = Some (k, v', l') \<longrightarrow> l' < l0)"
    using view_fold [OF assms(1,2), of us'] assms(3) by metis
  have "(v, l) = (v', l')"
    using a(2-4) b(2-4) assms(4) by (metis leD order.antisym prod.inject)
  with a(1) b(1) show ?thesis by simp
qed

end

section \<open>The status register of the database\<close>

definition escrow_stamp :: "tables \<Rightarrow> i64 \<Rightarrow> (string \<times> i64) option" where
  "escrow_stamp T k =
    map_option (\<lambda>e. (e_status e, e_updated_ledger e)) (find_by e_id k (escrows T))"

text \<open>The status an event of this name writes: \<open>None\<close> for the names and data that write none.\<close>

definition status_written :: "crates \<Rightarrow> string \<Rightarrow> scval \<Rightarrow> string option" where
  "status_written C name data =
    (if name = ''escrow_created'' then
       (case decode_created C data of Inl _ \<Rightarrow> None | Inr _ \<Rightarrow> Some ''created'')
     else if name = ''escrow_funded'' then Some ''funded''
     else if name = ''milestone_submitted'' then
       (case decode_submitted C data of Inl _ \<Rightarrow> None | Inr _ \<Rightarrow> Some ''in_progress'')
     else if name = ''escrow_cancelled'' \<or> name = ''escrow_mutually_cancelled'' then
       Some ''cancelled''
     else if name = ''escrow_completed'' then Some ''completed''
     else None)"

definition status_update :: "crates \<Rightarrow> rpc_event \<Rightarrow> (i64 \<times> string \<times> i64) option" where
  "status_update C ev =
    (case event_header C ev of
       Inl _ \<Rightarrow> None
     | Inr (name, k, data) \<Rightarrow>
         map_option (\<lambda>st. (k, st, u32_as_i64 (ev_ledger ev))) (status_written C name data))"

lemma escrow_stamp_cong: "escrows T = escrows T' \<Longrightarrow> escrow_stamp T = escrow_stamp T'"
  by (simp add: escrow_stamp_def fun_eq_iff)

text \<open>The one guarded update both escrow statements make on an existing row.\<close>

lemma escrow_stamp_update:
  "find_by e_id k (update_where (\<lambda>r. e_id r = k' \<and> ledger \<ge> e_updated_ledger r)
      (\<lambda>r. r\<lparr>e_status := st, e_updated_at := now, e_updated_ledger := ledger\<rparr>) rows) =
    map_option (\<lambda>r. if k = k' \<and> ledger \<ge> e_updated_ledger r
      then r\<lparr>e_status := st, e_updated_at := now, e_updated_ledger := ledger\<rparr> else r)
    (find_by e_id k rows)"
  by (cases "find_by e_id k rows") (auto simp: find_by_update_where dest: find_by_SomeD)

lemma escrow_stamp_guarded:
  assumes "escrow_stamp T k' = Some (v0, l0)"
    and "escrows T' = update_where (\<lambda>r. e_id r = k \<and> ledger \<ge> e_updated_ledger r)
      (\<lambda>r. r\<lparr>e_status := st, e_updated_at := now, e_updated_ledger := ledger\<rparr>) (escrows T)"
  shows "escrow_stamp T' k' = (if k = k' \<and> l0 \<le> ledger then Some (st, ledger) else Some (v0, l0))"
  using assms by (auto simp: escrow_stamp_def escrow_stamp_update)

lemma escrow_stamp_upsert:
  assumes "escrow_stamp T k' = Some (v0, l0)"
    and "upsert_escrow_stmt k cid client provider arbitrator tok st ledger rp cc title uri hash
      now T = Inr (u, T')"
  shows "escrow_stamp T' k' = (if k = k' \<and> l0 \<le> ledger then Some (st, ledger) else Some (v0, l0))"
proof (cases "find_by e_id k (escrows T)")
  case None
  then show ?thesis
    using assms by (auto simp: escrow_stamp_def upsert_escrow_stmt_def)
next
  case (Some e)
  then show ?thesis
    using assms by (intro escrow_stamp_guarded [OF assms(1)]) (auto simp: upsert_escrow_stmt_def)
qed

lemma escrow_stamp_set_status:
  assumes "pending w = []" "escrow_stamp (tabs w) k' = Some (v0, l0)"
  shows "escrow_stamp (tabs (snd (set_escrow_status k st ledger w))) k' =
    (if k = k' \<and> l0 \<le> ledger then Some (st, ledger) else Some (v0, l0))"
  by (rule escrow_stamp_guarded [OF assms(2)]) (simp add: quiet_simps assms(1))

lemma escrow_stamp_created:
  assumes "pending w = []" "escrow_stamp (tabs w) k' = Some (v0, l0)"
  shows "escrow_stamp (tabs (snd (on_escrow_created C ev k ledger data w))) k' =
    (case decode_created C data of
       Inl _ \<Rightarrow> Some (v0, l0)
     | Inr _ \<Rightarrow> if k = k' \<and> l0 \<le> ledger then Some (''created'', ledger) else Some (v0, l0))"
proof (cases "decode_created C data")
  case (Inl e)
  then show ?thesis using assms by (simp add: on_escrow_created_def snd_bind_decoded)
next
  case (Inr f)
  obtain ms T where up: "upsert_escrow_stmt k (ev_contract_id ev) (cf_client f) (cf_provider f)
      (cf_arbitrator f) (cf_token f) ''created'' ledger (cf_review_period f)
      (cf_chain_created_at f) (cf_title f) (cf_metadata_uri f) (cf_metadata_hash f)
      (clock w) (tabs w) = Inr ((), T)"
    and run: "snd (on_escrow_created C ev k ledger data w) =
      snd (for_each (insert_milestone C k) ms (w\<lparr>tabs := T\<rparr>))"
    by (rule snd_on_escrow_created [OF assms(1) Inr])
  have "escrow_stamp (tabs (snd (on_escrow_created C ev k ledger data w))) = escrow_stamp T"
    by (rule escrow_stamp_cong)
      (use insert_milestones_frame [of "w\<lparr>tabs := T\<rparr>" C k ms] assms(1) in \<open>simp add: run\<close>)
  then show ?thesis using escrow_stamp_upsert [OF assms(2) up] Inr by simp
qed

lemma escrow_stamp_submitted:
  assumes "pending w = []" "escrow_stamp (tabs w) k' = Some (v0, l0)"
  shows "escrow_stamp (tabs (snd (on_milestone_submitted C ev k ledger data w))) k' =
    (case decode_submitted C data of
       Inl _ \<Rightarrow> Some (v0, l0)
     | Inr _ \<Rightarrow> if k = k' \<and> l0 \<le> ledger then Some (''in_progress'', ledger) else Some (v0, l0))"
proof (cases "decode_submitted C data")
  case (Inl e)
  then show ?thesis using assms by (simp add: on_milestone_submitted_def snd_bind_decoded)
next
  case (Inr f)
  obtain mid uri hash where f: "f = (mid, uri, hash)" by (cases f)
  have "escrows (tabs (snd (on_milestone_submitted C ev k ledger data w))) =
      escrows (tabs (snd (set_escrow_status k ''in_progress'' ledger w)))"
    by (simp add: on_milestone_submitted_def run_bind run_decoded run_db Inr f
        quiet_set_escrow_status [OF assms(1)] quiet_mark_milestone_submitted assms(1))
  from escrow_stamp_cong [OF this] Inr assms show ?thesis
    by (simp add: escrow_stamp_set_status)
qed

lemma escrows_kept_by_arms:
  assumes "pending w = []"
  shows "escrows (tabs (snd (on_milestone_released C k data via w))) = escrows (tabs w)"
    and "escrows (tabs (snd (on_milestone_expired C k data w))) = escrows (tabs w)"
    and "escrows (tabs (snd (on_dispute_raised C k data w))) = escrows (tabs w)"
    and "escrows (tabs (snd (on_dispute_resolved C k data w))) = escrows (tabs w)"
  using assms
  by (simp_all add: on_milestone_released_def on_milestone_expired_def on_dispute_raised_def
      on_dispute_resolved_def eff_simps run_decoded run_db quiet_simps quiet_insert_dispute
      insert_dispute_stmt_def split: sum.splits prod.splits option.splits)

lemma dispatch_stamp:
  assumes "pending w = []" "escrow_stamp (tabs w) k' = Some (v0, l0)"
  shows "escrow_stamp (tabs (snd (dispatch C ev name k ledger data w))) k' =
    (case status_written C name data of
       Some st \<Rightarrow> if k = k' \<and> l0 \<le> ledger then Some (st, ledger) else Some (v0, l0)
     | None \<Rightarrow> Some (v0, l0))"
proof (cases name rule: event_name_cases)
  case other
  then show ?thesis
    using assms by (simp add: dispatch_arm status_written_def run_ret event_names_def)
qed (use assms in \<open>simp_all add: dispatch_arm status_written_def escrow_stamp_created
      escrow_stamp_submitted escrow_stamp_set_status
      escrow_stamp_cong [OF escrows_kept_by_arms(1)] escrow_stamp_cong [OF escrows_kept_by_arms(2)]
      escrow_stamp_cong [OF escrows_kept_by_arms(3)] escrow_stamp_cong [OF escrows_kept_by_arms(4)]
      split: sum.splits\<close>)

lemma process_event_stamp:
  assumes "pending w = []" "escrow_stamp (tabs w) k = Some (v0, l0)"
  shows "escrow_stamp (tabs (snd (process_event C ev w))) k =
    (case status_update C ev of
       Some (k', v, l) \<Rightarrow> if k' = k \<and> l0 \<le> l then Some (v, l) else Some (v0, l0)
     | None \<Rightarrow> Some (v0, l0))"
proof (cases "event_header C ev")
  case (Inl e)
  then show ?thesis
    using assms by (simp add: process_event_header_error status_update_def)
next
  case (Inr h)
  obtain name k' data where h: "h = (name, k', data)" by (cases h)
  show ?thesis
    using Inr assms
    by (simp add: h process_event_tabs dispatch_stamp status_update_def split: option.splits)
qed

interpretation stamps: ledger_register "\<lambda>w :: 'z iworld_scheme. pending w = []"
  "\<lambda>w. escrow_stamp (tabs w)" "\<lambda>ev w. snd (process_event C ev w)" "status_update C" for C
  by unfold_locales (auto simp: quiet_kept [OF effects_process_event] process_event_stamp)

section \<open>Properties\<close>

text \<open>
  C8: The status that an escrow with a row ends up with does not depend on the order in which its
  events are handled, nor on how often each one is: on a quiet connection, two pages over the same set
  of events leave the same status and ledger, provided no two events of that escrow in one ledger
  write different statuses.
\<close>

theorem escrow_status_order_independent:
  assumes "pending w = []" and "escrow_stamp (tabs w) k \<noteq> None" and "set evs = set evs'"
    and "\<And>ev ev' st st' l. ev \<in> set evs \<Longrightarrow> ev' \<in> set evs \<Longrightarrow>
      status_update C ev = Some (k, st, l) \<Longrightarrow> status_update C ev' = Some (k, st', l) \<Longrightarrow> st = st'"
  shows "escrow_stamp (tabs (snd (process_events C evs w))) k =
    escrow_stamp (tabs (snd (process_events C evs' w))) k"
proof -
  obtain st l where "escrow_stamp (tabs w) k = Some (st, l)" using assms(2) by auto
  then show ?thesis
    unfolding process_events_fold using assms
    by (intro stamps.runs_converge) auto
qed

definition sample_world :: iworld where
  "sample_world =
    \<lparr>tabs = migrated\<lparr>escrows :=
       [\<lparr>e_id = I64 1, e_contract_id = ''CESCROW'', e_client = ''GC'', e_provider = ''GP'',
         e_arbitrator = ''GA'', e_token = ''CT'', e_status = ''created'', e_created_at = 0,
         e_updated_at = 0, e_updated_ledger = I64 5, e_review_period = I64 0,
         e_chain_created_at = None, e_title = None, e_metadata_uri = None,
         e_metadata_hash = None\<rparr>]\<rparr>,
     pending = [], clock = 0, outbox = []\<rparr>"

definition sample_page :: "rpc_event list" where
  "sample_page =
    [sample_event ''escrow_funded'' ''escrow 1'' ''void'' 6,
     sample_event ''escrow_completed'' ''escrow 1'' ''void'' 9]"

lemma sample_page_updates:
  "map (status_update sample_crates) sample_page =
    [Some (I64 1, ''funded'', I64 6), Some (I64 1, ''completed'', I64 9)]"
  by (simp add: sample_page_def status_update_def status_written_def event_header_def sample_defs
      decode_scval_base64_def sc_val_to_string_def sc_val_to_u64_def u64_as_i64_def u32_as_i64_def)

theorem escrow_status_order_independent_witness:
  "escrow_stamp (tabs (snd (process_events sample_crates sample_page sample_world))) (I64 1) =
    escrow_stamp (tabs (snd (process_events sample_crates (rev sample_page) sample_world))) (I64 1)"
proof (rule escrow_status_order_independent)
  show "pending sample_world = []" by (simp add: sample_world_def)
  show "escrow_stamp (tabs sample_world) (I64 1) \<noteq> None"
    by (simp add: sample_world_def escrow_stamp_def find_by_def)
  show "set sample_page = set (rev sample_page)" by simp
  show "st = st'" if "ev \<in> set sample_page" "ev' \<in> set sample_page"
      "status_update sample_crates ev = Some (I64 1, st, l)"
      "status_update sample_crates ev' = Some (I64 1, st', l)" for ev ev' st st' l
    using that sample_page_updates by (auto simp: sample_page_def)
qed

end
