(* ===== verification/Lifecycle.thy ===== *)
theory Lifecycle
  imports Convergence
begin

text \<open>
  What one contract event does to the database, arm by arm: the rows a new escrow leaves, how a
  milestone and its dispute move, and what is left when an event cannot be handled.
\<close>

section \<open>A new escrow\<close>

definition new_escrow_row :: "rpc_event \<Rightarrow> i64 \<Rightarrow> created_fields \<Rightarrow> datetime \<Rightarrow> escrow_row" where
  "new_escrow_row ev k f now =
    \<lparr>e_id = k, e_contract_id = ev_contract_id ev, e_client = cf_client f,
     e_provider = cf_provider f, e_arbitrator = cf_arbitrator f, e_token = cf_token f,
     e_status = ''created'', e_created_at = now, e_updated_at = now,
     e_updated_ledger = u32_as_i64 (ev_ledger ev), e_review_period = cf_review_period f,
     e_chain_created_at = Some (cf_chain_created_at f), e_title = cf_title f,
     e_metadata_uri = cf_metadata_uri f, e_metadata_hash = cf_metadata_hash f\<rparr>"

definition new_milestone_row ::
  "i64 \<Rightarrow> datetime \<Rightarrow> decoded_milestone \<Rightarrow> datetime \<Rightarrow> milestone_row" where
  "new_milestone_row k now m deadline =
    \<lparr>m_escrow_id = k, m_milestone_id = u32_as_i32 (dm_id m), m_description = dm_description m,
     m_amount = i128_int (dm_amount m), m_status = ''pending'', m_updated_at = now,
     m_deadline = Some deadline, m_submitted_at = None, m_evidence_uri = None,
     m_evidence_hash = None, m_released_via = None\<rparr>"

text \<open>Every amount a contract can report fits the \<open>NUMERIC(39, 0)\<close> column.\<close>

lemma i128_fits_numeric: "fits_numeric_39 (i128_int a)"
proof -
  have "\<bar>i128_int a\<bar> \<le> 2 ^ 127" using i128_int_bounds [of a] by simp
  also have "(2::int) ^ 127 < 10 ^ 39" by simp
  finally show ?thesis by (simp add: fits_numeric_39_def)
qed

lemma insert_milestone_new:
  assumes "pending w = []" "escrow_exists k (tabs w)"
    and "unix_seconds_to_datetime C (dm_deadline m) = Inr deadline"
    and "find_by m_key (k, u32_as_i32 (dm_id m)) (milestones (tabs w)) = None"
  shows "insert_milestone C k m w =
    (Inr (), w\<lparr>tabs := (tabs w)\<lparr>milestones :=
      milestones (tabs w) @ [new_milestone_row k (clock w) m deadline]\<rparr>\<rparr>)"
  using assms
  by (simp add: insert_milestone_def eff_simps run_decoded run_db quiet_upsert_milestone
      upsert_milestone_stmt_def i128_fits_numeric new_milestone_row_def)

abbreviation deadlines_of :: "crates \<Rightarrow> decoded_milestone list \<Rightarrow> datetime list \<Rightarrow> bool" where
  "deadlines_of C ms ds \<equiv>
    list_all2 (\<lambda>m d. unix_seconds_to_datetime C (dm_deadline m) = Inr d) ms ds"

lemma insert_milestones_new:
  assumes "deadlines_of C ms ds" "pending w = []" "escrow_exists k (tabs w)"
    and "distinct (map dm_id ms)"
    and "\<And>m. m \<in> set ms \<Longrightarrow>
      find_by m_key (k, u32_as_i32 (dm_id m)) (milestones (tabs w)) = None"
  shows "for_each (insert_milestone C k) (ms @ rest) w =
    for_each (insert_milestone C k) rest (w\<lparr>tabs := (tabs w)\<lparr>milestones :=
      milestones (tabs w) @ map2 (new_milestone_row k (clock w)) ms ds\<rparr>\<rparr>)"
  using assms
proof (induction ms ds arbitrary: w rule: list_all2_induct)
  case Nil
  then show ?case by simp
next
  case (Cons m ms d ds)
  let ?w = "w\<lparr>tabs := (tabs w)\<lparr>milestones :=
    milestones (tabs w) @ [new_milestone_row k (clock w) m d]\<rparr>\<rparr>"
  have first: "insert_milestone C k m w = (Inr (), ?w)"
    using Cons by (intro insert_milestone_new) auto
  have "for_each (insert_milestone C k) (ms @ rest) ?w =
    for_each (insert_milestone C k) rest (?w\<lparr>tabs := (tabs ?w)\<lparr>milestones :=
      milestones (tabs ?w) @ map2 (new_milestone_row k (clock ?w)) ms ds\<rparr>\<rparr>)"
    using Cons.prems
    by (intro Cons.IH) (auto simp: escrow_exists_def new_milestone_row_def)
  with first show ?case by (simp add: run_bind)
qed

text \<open>What a complete schema says of an escrow that has no row: nothing refers to it.\<close>

lemma no_escrow_no_milestone:
  assumes "schema_ok T" "\<not> escrow_exists k T"
  shows "find_by m_key (k, mid) (milestones T) = None" "webhooks_of k T = []"
    "find_by d_key (k, mid) (disputes T) = None"
  using assms
  by (auto simp: schema_ok_def references_ok_def find_by_None_iff list_all_iff webhooks_of_def
      filter_empty_conv)

lemma on_escrow_created_new:
  assumes "pending w = []" "\<not> escrow_exists k (tabs w)" "decode_created C data = Inr f"
  shows "on_escrow_created C ev k (u32_as_i64 (ev_ledger ev)) data w =
    bind (decoded (field C data ''milestones'' (decode_milestones C)))
      (\<lambda>ms. for_each (insert_milestone C k) ms)
      (w\<lparr>tabs := (tabs w)\<lparr>escrows := escrows (tabs w) @ [new_escrow_row ev k f (clock w)]\<rparr>\<rparr>)"
  using assms
  by (simp add: on_escrow_created_def eff_simps run_decoded run_db quiet_upsert_escrow
      upsert_escrow_stmt_def escrow_exists_def new_escrow_row_def)

lemma escrow_exists_new [simp]:
  "escrow_exists k (T\<lparr>escrows := escrows T @ [new_escrow_row ev k f now]\<rparr>)"
  by (simp add: escrow_exists_def new_escrow_row_def split: option.split)

text \<open>
  C12: A new escrow is indexed whole.  On a quiet connection an \<open>escrow_created\<close> event of an
  unknown escrow, whose data decode and whose milestones have distinct ids and representable
  deadlines, adds exactly one escrow row and one pending milestone row per milestone, in order,
  and changes nothing else: no delivery is sent, since no webhook can exist for it yet.
\<close>

theorem escrow_created_indexed:
  assumes "pending w = []" "schema_ok (tabs w)" "\<not> escrow_exists k (tabs w)"
    and "event_header C ev = Inr (''escrow_created'', k, data)" "decode_created C data = Inr f"
    and "field C data ''milestones'' (decode_milestones C) = Inr ms" "distinct (map dm_id ms)"
    and "deadlines_of C ms ds"
  shows "process_event C ev w =
    (Inr (), w\<lparr>tabs := (tabs w)\<lparr>
       escrows := escrows (tabs w) @ [new_escrow_row ev k f (clock w)],
       milestones := milestones (tabs w) @ map2 (new_milestone_row k (clock w)) ms ds\<rparr>\<rparr>)"
proof -
  let ?w = "w\<lparr>tabs := (tabs w)\<lparr>
    escrows := escrows (tabs w) @ [new_escrow_row ev k f (clock w)]\<rparr>\<rparr>"
  have "for_each (insert_milestone C k) (ms @ []) ?w =
      for_each (insert_milestone C k) [] (?w\<lparr>tabs := (tabs ?w)\<lparr>milestones :=
        milestones (tabs ?w) @ map2 (new_milestone_row k (clock ?w)) ms ds\<rparr>\<rparr>)"
    using assms no_escrow_no_milestone(1) [OF assms(2,3)] by (intro insert_milestones_new) simp_all
  then show ?thesis
    using assms no_escrow_no_milestone(2) [OF assms(2,3)]
    by (simp add: process_event_dispatch dispatch_arm on_escrow_created_new eff_simps run_decoded
        quiet_simps deliveries_def webhooks_of_def)
qed

text \<open>
  C19: An \<open>escrow_created\<close> event is not indexed atomically.  When one of its milestones has a deadline
  that is no date, the event fails, but the escrow row and the milestones before that one stay:
  each statement is committed on its own.
\<close>

theorem escrow_created_partial:
  assumes "pending w = []" "schema_ok (tabs w)" "\<not> escrow_exists k (tabs w)"
    and "event_header C ev = Inr (''escrow_created'', k, data)" "decode_created C data = Inr f"
    and "field C data ''milestones'' (decode_milestones C) = Inr (ms @ m # rest)"
    and "distinct (map dm_id ms)" "deadlines_of C ms ds"
    and "unix_seconds_to_datetime C (dm_deadline m) = Inl e"
  shows "process_event C ev w =
    (Inl (IdxDecode e), w\<lparr>tabs := (tabs w)\<lparr>
       escrows := escrows (tabs w) @ [new_escrow_row ev k f (clock w)],
       milestones := milestones (tabs w) @ map2 (new_milestone_row k (clock w)) ms ds\<rparr>\<rparr>)"
proof -
  let ?w = "w\<lparr>tabs := (tabs w)\<lparr>
    escrows := escrows (tabs w) @ [new_escrow_row ev k f (clock w)]\<rparr>\<rparr>"
  have "for_each (insert_milestone C k) (ms @ m # rest) ?w =
      for_each (insert_milestone C k) (m # rest) (?w\<lparr>tabs := (tabs ?w)\<lparr>milestones :=
        milestones (tabs ?w) @ map2 (new_milestone_row k (clock ?w)) ms ds\<rparr>\<rparr>)"
    using assms no_escrow_no_milestone(1) [OF assms(2,3)] by (intro insert_milestones_new) simp_all
  then show ?thesis
    using assms
    by (simp add: process_event_dispatch dispatch_arm on_escrow_created_new eff_simps run_decoded
        insert_milestone_def)
qed

section \<open>Disputes\<close>

lemma process_event_quiet:
  assumes "event_header C ev = Inr (name, k, data)" "pending w' = []"
    and "dispatch C ev name k (u32_as_i64 (ev_ledger ev)) data w = (Inr True, w')"
  shows "process_event C ev w =
    (Inr (), w'\<lparr>outbox := outbox w' @ deliveries C (clock w') (tabs w') k name\<rparr>)"
  using assms by (simp add: process_event_dispatch quiet_simps)

definition open_dispute :: "i64 \<Rightarrow> i32 \<Rightarrow> string \<Rightarrow> string \<Rightarrow> datetime \<Rightarrow> dispute_row" where
  "open_dispute k mid raised_by reason now =
    \<lparr>d_escrow_id = k, d_milestone_id = mid, d_raised_by = raised_by, d_reason = reason,
     d_status = ''open'', d_resolution_kind = None, d_resolution_provider_bps = None,
     d_created_at = now, d_resolved_at = None\<rparr>"

definition settle ::
  "string \<Rightarrow> i32 option \<Rightarrow> datetime \<Rightarrow> dispute_row \<Rightarrow> dispute_row" where
  "settle kind bps now d =
    d\<lparr>d_status := ''resolved'', d_resolution_kind := Some kind,
      d_resolution_provider_bps := bps, d_resolved_at := Some now\<rparr>"

lemma d_key_open_dispute [simp]:
  "d_escrow_id (open_dispute k mid raised_by reason now) = k"
  "d_milestone_id (open_dispute k mid raised_by reason now) = mid"
  by (simp_all add: open_dispute_def)

lemma d_key_settle [simp]:
  "d_escrow_id (settle kind bps now d) = d_escrow_id d"
  "d_milestone_id (settle kind bps now d) = d_milestone_id d"
  by (simp_all add: settle_def)

definition set_m_status :: "i64 \<Rightarrow> i32 \<Rightarrow> string \<Rightarrow> datetime \<Rightarrow> milestone_row list \<Rightarrow> milestone_row list"
where
  "set_m_status k mid st now ms =
    update_where (\<lambda>m. m_key m = (k, mid)) (\<lambda>m. m\<lparr>m_status := st, m_updated_at := now\<rparr>) ms"

lemma find_set_m_status [simp]:
  "find_by m_key (k, mid) (set_m_status k mid st now ms) =
    map_option (\<lambda>m. m\<lparr>m_status := st, m_updated_at := now\<rparr>) (find_by m_key (k, mid) ms)"
  by (cases "find_by m_key (k, mid) ms")
    (auto simp: set_m_status_def find_by_update_where dest: find_by_SomeD)

lemma process_dispute_raised:
  assumes "event_header C ev = Inr (''dispute_raised'', k, data)" "pending w = []"
    and "decode_raised C data = Inr (mid, raised_by, reason)" "escrow_exists k (tabs w)"
  obtains ob where "process_event C ev w = (Inr (), w\<lparr>tabs := (tabs w)\<lparr>
     milestones := set_m_status k mid ''disputed'' (clock w) (milestones (tabs w)),
     disputes := (case find_by d_key (k, mid) (disputes (tabs w)) of
        Some _ \<Rightarrow> disputes (tabs w)
      | None \<Rightarrow> disputes (tabs w) @ [open_dispute k mid raised_by reason (clock w)])\<rparr>,
     outbox := ob\<rparr>)"
proof (cases "find_by d_key (k, mid) (disputes (tabs w))")
  case None
  have "dispatch C ev ''dispute_raised'' k (u32_as_i64 (ev_ledger ev)) data w =
    (Inr True, w\<lparr>tabs := (tabs w)\<lparr>
       milestones := set_m_status k mid ''disputed'' (clock w) (milestones (tabs w)),
       disputes := disputes (tabs w) @ [open_dispute k mid raised_by reason (clock w)]\<rparr>\<rparr>)"
    using None assms(2-4)
    by (simp add: dispatch_arm on_dispute_raised_def eff_simps run_decoded run_db quiet_simps
        quiet_insert_dispute insert_dispute_stmt_def set_m_status_def open_dispute_def
        escrow_exists_def)
  from process_event_quiet [OF assms(1) _ this] None that show ?thesis
    by (simp add: assms(2))
next
  case (Some d)
  have "dispatch C ev ''dispute_raised'' k (u32_as_i64 (ev_ledger ev)) data w =
    (Inr True, w\<lparr>tabs := (tabs w)\<lparr>
       milestones := set_m_status k mid ''disputed'' (clock w) (milestones (tabs w)),
       disputes := disputes (tabs w)\<rparr>\<rparr>)"
    using Some assms(2-4)
    by (simp add: dispatch_arm on_dispute_raised_def eff_simps run_decoded run_db quiet_simps
        quiet_insert_dispute insert_dispute_stmt_def set_m_status_def)
  from process_event_quiet [OF assms(1) _ this] Some that show ?thesis
    by (simp add: assms(2))
qed

lemma process_dispute_resolved:
  assumes "event_header C ev = Inr (''dispute_resolved'', k, data)" "pending w = []"
    and "decode_resolved C data = Inr (mid, kind, bps)"
  obtains ob where "process_event C ev w = (Inr (), w\<lparr>tabs := (tabs w)\<lparr>
     milestones := set_m_status k mid ''resolved'' (clock w) (milestones (tabs w)),
     disputes := update_where (\<lambda>d. d_key d = (k, mid)) (settle kind bps (clock w))
       (disputes (tabs w))\<rparr>, outbox := ob\<rparr>)"
proof -
  have "dispatch C ev ''dispute_resolved'' k (u32_as_i64 (ev_ledger ev)) data w =
    (Inr True, w\<lparr>tabs := (tabs w)\<lparr>
       milestones := set_m_status k mid ''resolved'' (clock w) (milestones (tabs w)),
       disputes := update_where (\<lambda>d. d_key d = (k, mid)) (settle kind bps (clock w))
         (disputes (tabs w))\<rparr>\<rparr>)"
    using assms(2,3)
    by (simp add: dispatch_arm on_dispute_resolved_def eff_simps run_decoded run_db quiet_simps
        set_m_status_def settle_def [abs_def])
  from process_event_quiet [OF assms(1) _ this] that show ?thesis
    by (simp add: assms(2))
qed

text \<open>
  C17: The life of a dispute.  Over a milestone that has none, a \<open>dispute_raised\<close> event followed by a
  \<open>dispute_resolved\<close> event leaves one dispute row with the address and the reason of the first
  and the resolution of the second, and the milestone's status is \<open>resolved\<close>.
\<close>

theorem dispute_raised_and_resolved:
  assumes "pending w = []" "escrow_exists k (tabs w)"
    and "find_by d_key (k, mid) (disputes (tabs w)) = None"
    and "find_by m_key (k, mid) (milestones (tabs w)) = Some m"
    and "event_header C ev = Inr (''dispute_raised'', k, data)"
    and "decode_raised C data = Inr (mid, raised_by, reason)"
    and "event_header C ev' = Inr (''dispute_resolved'', k, data')"
    and "decode_resolved C data' = Inr (mid, kind, bps)"
    and "ev_in_successful_contract_call ev" "ev_in_successful_contract_call ev'"
  shows "find_by d_key (k, mid) (disputes (tabs (snd (process_events C [ev, ev'] w)))) =
      Some (settle kind bps (clock w) (open_dispute k mid raised_by reason (clock w))) \<and>
    map_option m_status (find_by m_key (k, mid)
      (milestones (tabs (snd (process_events C [ev, ev'] w))))) = Some ''resolved''"
proof -
  obtain ob where 1: "process_event C ev w = (Inr (), w\<lparr>tabs := (tabs w)\<lparr>
     milestones := set_m_status k mid ''disputed'' (clock w) (milestones (tabs w)),
     disputes := disputes (tabs w) @ [open_dispute k mid raised_by reason (clock w)]\<rparr>,
     outbox := ob\<rparr>)" (is "_ = (_, ?w)")
    using process_dispute_raised [OF assms(5,1,6,2)] assms(3) by auto
  have "pending ?w = []" using assms(1) by simp
  from process_dispute_resolved [OF assms(7) this assms(8)] obtain ob' where
    2: "process_event C ev' ?w = (Inr (), ?w\<lparr>tabs := (tabs ?w)\<lparr>
     milestones := set_m_status k mid ''resolved'' (clock ?w) (milestones (tabs ?w)),
     disputes := update_where (\<lambda>d. d_key d = (k, mid)) (settle kind bps (clock ?w))
       (disputes (tabs ?w))\<rparr>, outbox := ob'\<rparr>)" by blast
  show ?thesis
    using assms(3,4)
    by (simp add: process_events_fold assms(9,10) 1 2 find_by_update_where
        del: process_events.simps update_where_append)
qed

text \<open>
  C18: A milestone has one dispute row for good.  When a milestone that already has a dispute, open or
  resolved, is disputed again, the event succeeds and the milestone is marked \<open>disputed\<close>, but the
  table of disputes is left as it was: the new address and reason are lost, and a resolved dispute
  stays resolved, so the new one is not among the open disputes.
\<close>

theorem dispute_raised_again_dropped:
  assumes "pending w = []" "escrow_exists k (tabs w)"
    and "find_by d_key (k, mid) (disputes (tabs w)) = Some d"
    and "find_by m_key (k, mid) (milestones (tabs w)) = Some m"
    and "event_header C ev = Inr (''dispute_raised'', k, data)"
    and "decode_raised C data = Inr (mid, raised_by, reason)"
  shows "\<exists>w'. process_event C ev w = (Inr (), w') \<and> disputes (tabs w') = disputes (tabs w) \<and>
    map_option m_status (find_by m_key (k, mid) (milestones (tabs w'))) = Some ''disputed''"
proof -
  obtain ob where "process_event C ev w = (Inr (), w\<lparr>tabs := (tabs w)\<lparr>
     milestones := set_m_status k mid ''disputed'' (clock w) (milestones (tabs w)),
     disputes := disputes (tabs w)\<rparr>, outbox := ob\<rparr>)"
    using process_dispute_raised [OF assms(5,1,6,2)] assms(3) by auto
  then show ?thesis
    using assms(4) by simp
qed

section \<open>Events that cannot be handled\<close>

lemma set_milestone_status_no_escrow:
  assumes "pending w = []" "schema_ok (tabs w)" "\<not> escrow_exists k (tabs w)"
  shows "set_milestone_status k mid st w = (Inr (), w)"
proof -
  have "\<not> (m_key m = (k, mid))" if "m \<in> set (milestones (tabs w))" for m
    using no_escrow_no_milestone(1) [OF assms(2,3)] that by (auto simp: find_by_None_iff)
  then show ?thesis by (simp add: quiet_simps assms(1))
qed

lemma notify_no_error: "notify_webhooks C k name w \<noteq> (Inl e, w')"
  by (auto simp: notify_webhooks_def Let_def split: prod.splits sum.splits)

lemma on_dispute_raised_fails:
  assumes "pending w = []" "schema_ok (tabs w)" "on_dispute_raised C k data w = (Inl e, w')"
  shows "w' = w"
proof (cases "decode_raised C data")
  case (Inl d)
  then show ?thesis using assms(3) by (simp add: on_dispute_raised_def eff_simps run_decoded)
next
  case (Inr r)
  obtain mid raised_by reason where r: "r = (mid, raised_by, reason)" by (cases r)
  show ?thesis
  proof (cases "escrow_exists k (tabs w)")
    case True
    then have "fst (on_dispute_raised C k data w) = Inr ()"
      by (simp add: on_dispute_raised_def eff_simps run_decoded run_db Inr r quiet_simps assms(1)
          quiet_insert_dispute insert_dispute_stmt_def escrow_exists_def split: option.splits)
    then show ?thesis using assms(3) by simp
  next
    case False
    then show ?thesis
      using assms(3) no_escrow_no_milestone(3) [OF assms(2) False, of mid]
      by (simp add: on_dispute_raised_def eff_simps run_decoded run_db Inr r assms(1,2)
          set_milestone_status_no_escrow quiet_insert_dispute insert_dispute_stmt_def)
  qed
qed

text \<open>
  C13: Every other kind of event is handled atomically while the connection holds: on a quiet
  connection, over tables that satisfy the schema, an event that is not an \<open>escrow_created\<close> and whose
  handling fails, in its decoding or at the database, has changed nothing at all, neither a row nor a
  delivery, although some arms send two statements.  A connection lost between the two leaves the
  first.
\<close>

theorem other_events_atomic:
  assumes "pending w = []" "schema_ok (tabs w)" "process_event C ev w = (Inl e, w')"
    and "\<And>k data. event_header C ev \<noteq> Inr (''escrow_created'', k, data)"
  shows "w' = w"
proof (cases "event_header C ev")
  case (Inl d)
  then show ?thesis using assms(3) by (simp add: process_event_header_error)
next
  case (Inr h)
  obtain name k data where h: "event_header C ev = Inr (name, k, data)" using Inr by (cases h) auto
  let ?m = "dispatch C ev name k (u32_as_i64 (ev_ledger ev)) data"
  have run: "?m w = (Inl e, w')"
    using assms(3)
    by (auto simp: process_event_dispatch [OF h] notify_no_error
        split: prod.splits sum.splits bool.splits)
  show ?thesis
    using run assms(4) h
    by (cases name rule: event_name_cases)
      (auto simp: dispatch_arm eff_simps run_decoded run_db quiet_simps assms(1,2)
        on_milestone_submitted_def on_milestone_released_def on_milestone_expired_def
        on_dispute_resolved_def split: sum.splits prod.splits
        dest: on_dispute_raised_fails [OF assms(1,2)])
qed

section \<open>Examples\<close>

lemmas decode_defs =
  decode_scval_base64_def sc_val_to_string_def sc_val_to_u64_def sc_val_to_u32_def
  sc_val_to_i128_def sc_val_to_address_def sc_val_to_bytes_hex_def empty_as_none_def map_get_def
  unix_seconds_to_datetime_def decode_milestone_def decode_milestones_def decode_resolution_def
  field_def hash_of_def milestone_id_of_def

lemma sample_world_schema: "schema_ok (tabs sample_world)"
  using known_escrow_status_created
  by (simp add: sample_world_def migrated_def schema_ok_def keys_ok_def references_ok_def
      rows_ok_def cursor_ok_def escrow_ok_def)

lemma sample_world_pending: "pending sample_world = []"
  by (simp add: sample_world_def)

definition sample_fields :: created_fields where
  "sample_fields =
    \<lparr>cf_client = ''GC'', cf_provider = ''GP'', cf_arbitrator = ''GA'', cf_token = ''CT'',
     cf_review_period = I64 604800, cf_chain_created_at = 1700000000000000,
     cf_title = Some ''Site'', cf_metadata_uri = None, cf_metadata_hash = None\<rparr>"

lemma sample_created_decodes: "decode_created sample_crates (sample_created ms) = Inr sample_fields"
  by (simp add: decode_created_def sample_defs decode_defs sample_fields_def u64_as_i64_def micros_def)

lemma sample_milestones_field:
  "field sample_crates (sample_created ms) ''milestones'' (decode_milestones sample_crates) =
    decode_milestones sample_crates ms"
  by (simp add: field_def map_get_def sample_created_def sample_crates_def sym_def)

definition sample_decoded_milestone :: "u32 \<Rightarrow> u64 \<Rightarrow> decoded_milestone" where
  "sample_decoded_milestone n deadline =
    \<lparr>dm_id = n, dm_description = ''Design'', dm_amount = I128 400, dm_deadline = deadline\<rparr>"

lemma sample_milestone_decodes:
  "decode_milestone sample_crates (sample_milestone n deadline) =
    Inr (sample_decoded_milestone n deadline)"
  by (simp add: sample_defs decode_defs sample_decoded_milestone_def i64_as_i128_def u64_as_i128_def)

lemma sample_created_header:
  "event_header sample_crates (sample_event ''escrow_created'' ''escrow 2'' ''created'' 7) =
    Inr (''escrow_created'', I64 2, sample_created (ScVec (Some [sample_milestone 0 1700000000])))"
  "event_header sample_crates (sample_event ''escrow_created'' ''escrow 2'' ''endless'' 7) =
    Inr (''escrow_created'', I64 2, sample_created (ScVec (Some
      [sample_milestone 0 1700000000, sample_milestone 1 0x8000000000000000])))"
  by (simp_all add: event_header_def decode_scval_base64_def sc_val_to_string_def
      sc_val_to_u64_def u64_as_i64_def sample_event_def sample_crates_def sample_from_xdr_def
      sample_values_def sym_def)

lemma sample_deadlines:
  "unix_seconds_to_datetime sample_crates 1700000000 = Inr 1700000000000000"
  "unix_seconds_to_datetime sample_crates 0x8000000000000000 =
    Inl (TimestampOutOfRange 0x8000000000000000)"
  by (simp_all add: unix_seconds_to_datetime_def sample_crates_def sample_from_timestamp_def
      u64_as_i64_def micros_def)

lemma sample_world_no_escrow_2: "\<not> escrow_exists (I64 2) (tabs sample_world)"
  by (simp add: sample_world_def escrow_exists_def find_by_def)

theorem escrow_created_indexed_witness:
  "process_event sample_crates (sample_event ''escrow_created'' ''escrow 2'' ''created'' 7)
     sample_world =
    (Inr (), sample_world\<lparr>tabs := (tabs sample_world)\<lparr>
       escrows := escrows (tabs sample_world) @
         [new_escrow_row (sample_event ''escrow_created'' ''escrow 2'' ''created'' 7) (I64 2)
            sample_fields (clock sample_world)],
       milestones := milestones (tabs sample_world) @
         map2 (new_milestone_row (I64 2) (clock sample_world))
           [sample_decoded_milestone 0 1700000000] [1700000000000000]\<rparr>\<rparr>)"
  by (rule escrow_created_indexed [OF sample_world_pending sample_world_schema
        sample_world_no_escrow_2 sample_created_header(1) sample_created_decodes])
    (simp_all add: sample_milestones_field decode_milestones_def sample_milestone_decodes
      sample_deadlines sample_decoded_milestone_def)

theorem escrow_created_partial_witness:
  "process_event sample_crates (sample_event ''escrow_created'' ''escrow 2'' ''endless'' 7)
     sample_world =
    (Inl (IdxDecode (TimestampOutOfRange 0x8000000000000000)),
     sample_world\<lparr>tabs := (tabs sample_world)\<lparr>
       escrows := escrows (tabs sample_world) @
         [new_escrow_row (sample_event ''escrow_created'' ''escrow 2'' ''endless'' 7) (I64 2)
            sample_fields (clock sample_world)],
       milestones := milestones (tabs sample_world) @
         map2 (new_milestone_row (I64 2) (clock sample_world))
           [sample_decoded_milestone 0 1700000000] [1700000000000000]\<rparr>\<rparr>)"
  by (rule escrow_created_partial [OF sample_world_pending sample_world_schema
        sample_world_no_escrow_2 sample_created_header(2) sample_created_decodes,
        where m = "sample_decoded_milestone 1 0x8000000000000000" and rest = "[]"])
    (simp_all add: sample_milestones_field decode_milestones_def sample_milestone_decodes
      sample_deadlines sample_decoded_milestone_def)

definition sample_milestone_row :: milestone_row where
  "sample_milestone_row =
    new_milestone_row (I64 1) 0 (sample_decoded_milestone 0 1700000000) 1700000000000000"

definition sample_dispute_row :: dispute_row where
  "sample_dispute_row = settle ''refund'' None 5 (open_dispute (I64 1) (I32 0) ''GP'' ''first'' 3)"

definition sample_busy_world :: "dispute_row list \<Rightarrow> iworld" where
  "sample_busy_world ds = sample_world\<lparr>tabs := (tabs sample_world)\<lparr>
    milestones := [sample_milestone_row], disputes := ds\<rparr>\<rparr>"

lemma sample_busy_world_simps:
  "pending (sample_busy_world ds) = []" "escrow_exists (I64 1) (tabs (sample_busy_world ds))"
  "find_by m_key (I64 1, I32 0) (milestones (tabs (sample_busy_world ds))) =
    Some sample_milestone_row"
  "disputes (tabs (sample_busy_world ds)) = ds"
  by (simp_all add: sample_busy_world_def sample_world_def escrow_exists_def find_by_def
      sample_milestone_row_def new_milestone_row_def sample_decoded_milestone_def u32_as_i32_def)

definition sample_raised :: "string \<Rightarrow> rpc_event" where
  "sample_raised escrow = sample_event ''dispute_raised'' escrow ''raised'' 8"

definition sample_resolved :: rpc_event where
  "sample_resolved = sample_event ''dispute_resolved'' ''escrow 1'' ''resolved'' 9"

definition sample_raised_data :: scval where
  "sample_raised_data = ScMap (Some [(sym ''milestone_id'', ScU32 0),
    (sym ''raised_by'', ScAddress (ScAccount (as_bytes ''GC''))),
    (sym ''reason'', text_val ''late'')])"

definition sample_resolved_data :: scval where
  "sample_resolved_data = ScMap (Some [(sym ''milestone_id'', ScU32 0),
    (sym ''resolution'', ScVec (Some [sym ''Split'', ScU32 6000]))])"

lemma sample_dispute_headers:
  "event_header sample_crates (sample_raised ''escrow 1'') =
    Inr (''dispute_raised'', I64 1, sample_raised_data)"
  "event_header sample_crates (sample_raised ''escrow 2'') =
    Inr (''dispute_raised'', I64 2, sample_raised_data)"
  "event_header sample_crates sample_resolved =
    Inr (''dispute_resolved'', I64 1, sample_resolved_data)"
  by (simp_all add: event_header_def decode_scval_base64_def sc_val_to_string_def
      sc_val_to_u64_def u64_as_i64_def sample_event_def sample_crates_def sample_from_xdr_def
      sample_values_def sym_def sample_raised_def sample_resolved_def sample_raised_data_def
      sample_resolved_data_def)

lemma sample_dispute_decodes:
  "decode_raised sample_crates sample_raised_data = Inr (I32 0, ''GC'', ''late'')"
  "decode_resolved sample_crates sample_resolved_data = Inr (I32 0, ''split'', Some (I32 6000))"
  by (simp_all add: decode_raised_def decode_resolved_def decode_defs sample_raised_data_def
      sample_resolved_data_def sample_crates_def sym_def text_val_def u32_as_i32_def)

theorem dispute_raised_and_resolved_witness:
  "find_by d_key (I64 1, I32 0) (disputes (tabs (snd (process_events sample_crates
      [sample_raised ''escrow 1'', sample_resolved] (sample_busy_world []))))) =
    Some (settle ''split'' (Some (I32 6000)) (clock (sample_busy_world []))
      (open_dispute (I64 1) (I32 0) ''GC'' ''late'' (clock (sample_busy_world [])))) \<and>
   map_option m_status (find_by m_key (I64 1, I32 0) (milestones (tabs (snd (process_events
      sample_crates [sample_raised ''escrow 1'', sample_resolved] (sample_busy_world [])))))) =
    Some ''resolved''"
  by (rule dispute_raised_and_resolved [OF sample_busy_world_simps(1,2) _
        sample_busy_world_simps(3) sample_dispute_headers(1) sample_dispute_decodes(1)
        sample_dispute_headers(3) sample_dispute_decodes(2)])
    (simp_all add: sample_busy_world_simps sample_raised_def sample_resolved_def sample_event_def)

theorem dispute_raised_again_dropped_witness:
  "\<exists>w'. process_event sample_crates (sample_raised ''escrow 1'')
      (sample_busy_world [sample_dispute_row]) = (Inr (), w') \<and>
    disputes (tabs w') = disputes (tabs (sample_busy_world [sample_dispute_row])) \<and>
    map_option m_status (find_by m_key (I64 1, I32 0) (milestones (tabs w'))) = Some ''disputed''"
  by (rule dispute_raised_again_dropped [OF sample_busy_world_simps(1,2) _
        sample_busy_world_simps(3) sample_dispute_headers(1) sample_dispute_decodes(1),
        where d = sample_dispute_row])
    (simp add: sample_busy_world_simps find_by_def sample_dispute_row_def)

theorem other_events_atomic_witness:
  "snd (process_event sample_crates (sample_raised ''escrow 2'') sample_world) = sample_world"
proof -
  have "fst (process_event sample_crates (sample_raised ''escrow 2'') sample_world) =
      Inl (IdxDb ForeignKeyViolation)"
    using set_milestone_status_no_escrow [OF sample_world_pending sample_world_schema
        sample_world_no_escrow_2]
      no_escrow_no_milestone(3) [OF sample_world_schema sample_world_no_escrow_2]
    by (simp add: process_event_dispatch [OF sample_dispute_headers(2)] dispatch_arm
        on_dispute_raised_def eff_simps run_decoded run_db sample_dispute_decodes
        quiet_insert_dispute sample_world_pending insert_dispute_stmt_def sample_world_no_escrow_2)
  then have "process_event sample_crates (sample_raised ''escrow 2'') sample_world =
      (Inl (IdxDb ForeignKeyViolation),
       snd (process_event sample_crates (sample_raised ''escrow 2'') sample_world))"
    by (metis prod.collapse)
  from other_events_atomic [OF sample_world_pending sample_world_schema this] show ?thesis
    by (simp add: sample_dispute_headers)
qed

end
