(* ===== verification/Register.thy ===== *)
theory Register
  imports Lifecycle
begin

text \<open>
  The abstract machine behind the escrow statuses: one register per escrow holding a status and the
  ledger that wrote it.  Handling an event is one step of that machine, and handling a page is a run
  of it, whatever else the statements write.
\<close>

section \<open>The abstract machine\<close>

type_synonym status_register = "i64 \<Rightarrow> (string \<times> i64) option"

text \<open>
  Only an \<open>escrow_created\<close> event makes a register; any event that writes a status moves a register
  that exists, unless the register was written in a later ledger.
\<close>

definition creates :: "crates \<Rightarrow> rpc_event \<Rightarrow> bool" where
  "creates C ev \<longleftrightarrow>
    (case event_header C ev of Inl _ \<Rightarrow> False | Inr (name, _, _) \<Rightarrow> name = ''escrow_created'')"

definition advance :: "crates \<Rightarrow> rpc_event \<Rightarrow> status_register \<Rightarrow> status_register" where
  "advance C ev reg =
    (case status_update C ev of
       None \<Rightarrow> reg
     | Some (k, st, l) \<Rightarrow>
         (case reg k of
            None \<Rightarrow> if creates C ev then reg(k \<mapsto> (st, l)) else reg
          | Some (st0, l0) \<Rightarrow> if l0 \<le> l then reg(k \<mapsto> (st, l)) else reg))"

section \<open>Rows that do not exist yet\<close>

lemma escrow_stamp_None: "escrow_stamp T k = None \<longleftrightarrow> find_by e_id k (escrows T) = None"
  by (simp add: escrow_stamp_def)

lemma set_escrow_status_no_row:
  assumes "pending w = []" "escrow_stamp (tabs w) k' = None"
  shows "escrow_stamp (tabs (snd (set_escrow_status k st ledger w))) k' = None"
  using assms by (simp add: quiet_simps escrow_stamp_def escrow_stamp_update)

lemma upsert_escrow_no_row:
  assumes "escrow_stamp T k' = None"
    and "upsert_escrow_stmt k cid client provider arbitrator tok st ledger rp cc title uri hash
      now T = Inr (u, T')"
  shows "escrow_stamp T' k' = (if k' = k then Some (st, ledger) else None)"
  using assms
  by (auto simp: upsert_escrow_stmt_def escrow_stamp_def escrow_stamp_update
      split: option.splits)

lemma created_no_row:
  assumes "pending w = []" "escrow_stamp (tabs w) k' = None"
  shows "escrow_stamp (tabs (snd (on_escrow_created C ev k ledger data w))) k' =
    (case decode_created C data of
       Inl _ \<Rightarrow> None | Inr _ \<Rightarrow> if k' = k then Some (''created'', ledger) else None)"
proof (cases "decode_created C data")
  case (Inl e)
  then show ?thesis using assms by (simp add: on_escrow_created_def snd_bind_decoded)
next
  case (Inr f)
  obtain ms T where up: "upsert_escrow_stmt k (ev_contract_id ev) (cf_client f) (cf_provider f)
      (cf_arbitrator f) (cf_token f) ''created'' ledger (cf_review_period f)
      (cf_chain_created_at f) (cf_title f) (cf_metadata_uri f) (cf_metadata_hash f)
      (clock w) (tabs w) = Inr ((), T)"
    and run: "snd (on_escrow_created C ev k ledger data w) =
      snd (for_each (insert_milestone C k) ms (w\<lparr>tabs := T\<rparr>))"
    by (rule snd_on_escrow_created [OF assms(1) Inr])
  have "escrow_stamp (tabs (snd (on_escrow_created C ev k ledger data w))) = escrow_stamp T"
    by (rule escrow_stamp_cong)
      (use insert_milestones_frame [of "w\<lparr>tabs := T\<rparr>" C k ms] assms(1) in \<open>simp add: run\<close>)
  then show ?thesis using upsert_escrow_no_row [OF assms(2) up] Inr by simp
qed

lemma submitted_no_row:
  assumes "pending w = []" "escrow_stamp (tabs w) k' = None"
  shows "escrow_stamp (tabs (snd (on_milestone_submitted C ev k ledger data w))) k' = None"
proof (cases "decode_submitted C data")
  case (Inl e)
  then show ?thesis using assms by (simp add: on_milestone_submitted_def snd_bind_decoded)
next
  case (Inr f)
  obtain mid uri hash where f: "f = (mid, uri, hash)" by (cases f)
  have "escrows (tabs (snd (on_milestone_submitted C ev k ledger data w))) =
      escrows (tabs (snd (set_escrow_status k ''in_progress'' ledger w)))"
    by (simp add: on_milestone_submitted_def run_bind run_decoded run_db Inr f
        quiet_set_escrow_status [OF assms(1)] quiet_mark_milestone_submitted assms(1))
  from escrow_stamp_cong [OF this] assms show ?thesis by (simp add: set_escrow_status_no_row)
qed

lemma dispatch_no_row:
  assumes "pending w = []" "escrow_stamp (tabs w) k' = None"
  shows "escrow_stamp (tabs (snd (dispatch C ev name k ledger data w))) k' =
    (if name = ''escrow_created'' \<and> k' = k
     then map_option (\<lambda>st. (st, ledger)) (status_written C name data) else None)"
proof (cases name rule: event_name_cases)
  case other
  then show ?thesis
    using assms by (simp add: dispatch_arm run_ret event_names_def)
qed (use assms in \<open>simp_all add: dispatch_arm status_written_def created_no_row
      submitted_no_row set_escrow_status_no_row
      escrow_stamp_cong [OF escrows_kept_by_arms(1)] escrow_stamp_cong [OF escrows_kept_by_arms(2)]
      escrow_stamp_cong [OF escrows_kept_by_arms(3)] escrow_stamp_cong [OF escrows_kept_by_arms(4)]
      split: sum.splits\<close>)

section \<open>The simulation\<close>

lemma process_event_advances:
  assumes "pending w = []"
  shows "escrow_stamp (tabs (snd (process_event C ev w))) = advance C ev (escrow_stamp (tabs w))"
proof
  fix k'
  show "escrow_stamp (tabs (snd (process_event C ev w))) k' =
    advance C ev (escrow_stamp (tabs w)) k'"
  proof (cases "escrow_stamp (tabs w) k'")
    case (Some sl)
    obtain st0 l0 where sl: "sl = (st0, l0)" by (cases sl)
    show ?thesis
      using process_event_stamp [OF assms, of k' st0 l0 C ev] Some
      by (auto simp: sl advance_def split: option.splits)
  next
    case None
    show ?thesis
    proof (cases "event_header C ev")
      case (Inl e)
      then show ?thesis
        using None by (simp add: process_event_header_error advance_def status_update_def)
    next
      case (Inr h)
      obtain name k data where h: "h = (name, k, data)" by (cases h)
      show ?thesis
        using Inr None
        by (auto simp: h process_event_tabs assms dispatch_no_row advance_def status_update_def
            creates_def split: option.splits)
    qed
  qed
qed

text \<open>
  C3: The indexer refines the status machine.  On a quiet connection, the statuses and ledgers the database
  holds after a page of events are those of the abstract machine run over the page's successful events
  from the statuses it held before, for every escrow, new ones included.
\<close>

theorem indexer_refines_status_machine:
  assumes "pending w = []"
  shows "escrow_stamp (tabs (snd (process_events C evs w))) =
    fold (advance C) (filter ev_in_successful_contract_call evs) (escrow_stamp (tabs w))"
proof -
  have "escrow_stamp (tabs (fold (\<lambda>ev w. snd (process_event C ev w)) us w)) =
      fold (advance C) us (escrow_stamp (tabs w))" for us
    using assms
  proof (induction us arbitrary: w)
    case (Cons u us)
    have "pending (snd (process_event C u w)) = []"
      by (rule quiet_kept [OF effects_process_event Cons.prems])
    with Cons show ?case by (simp add: process_event_advances)
  qed simp
  then show ?thesis by (simp add: process_events_fold)
qed

theorem indexer_refines_status_machine_witness:
  "escrow_stamp (tabs (snd (process_events sample_crates sample_page sample_world))) =
    fold (advance sample_crates) (filter ev_in_successful_contract_call sample_page)
      (escrow_stamp (tabs sample_world))"
  by (rule indexer_refines_status_machine [OF sample_world_pending])

end
