(* ===== verification/Plans.thy ===== *)
theory Plans
  imports Register
begin

text \<open>
  What an event asks of the database, as data: \<open>writes_of\<close> lists the statements that handling the event
  sends, in order, from the event alone.  \<open>process_event\<close> in \<open>src/indexer/mod.rs\<close> is the sending of
  that list up to the first statement that fails, on any connection, followed by the notification.
\<close>

datatype db_write =
    UpsertEscrow rpc_event i64 created_fields
  | SetEscrowStatus i64 string i64
  | UpsertMilestone i64 decoded_milestone datetime
  | SetMilestoneStatus i64 i32 string
  | MarkSubmitted i64 i32 "string option" "string option" datetime
  | ReleaseMilestone i64 i32 string
  | InsertDispute i64 i32 string string
  | ResolveDispute i64 i32 string "i32 option"

fun write_stmt :: "db_write \<Rightarrow> unit stmt" where
  "write_stmt (UpsertEscrow ev k f) =
    upsert_escrow_stmt k (ev_contract_id ev) (cf_client f) (cf_provider f) (cf_arbitrator f)
      (cf_token f) ''created'' (u32_as_i64 (ev_ledger ev)) (cf_review_period f)
      (cf_chain_created_at f) (cf_title f) (cf_metadata_uri f) (cf_metadata_hash f)"
| "write_stmt (SetEscrowStatus k st ledger) = set_escrow_status_stmt k st ledger"
| "write_stmt (UpsertMilestone k m deadline) =
    upsert_milestone_stmt k (u32_as_i32 (dm_id m)) (dm_description m) (i128_int (dm_amount m))
      ''pending'' deadline"
| "write_stmt (SetMilestoneStatus k mid st) = set_milestone_status_stmt k mid st"
| "write_stmt (MarkSubmitted k mid uri h at) = mark_milestone_submitted_stmt k mid uri h at"
| "write_stmt (ReleaseMilestone k mid via) = release_milestone_stmt k mid via"
| "write_stmt (InsertDispute k mid raised_by reason) = insert_dispute_stmt k mid raised_by reason"
| "write_stmt (ResolveDispute k mid kind bps) = resolve_dispute_stmt k mid kind bps"

definition send :: "db_write \<Rightarrow> ('z pool_scheme, db_error, unit) eff" where
  "send x = exec_sql (write_stmt x)"

section \<open>The list of an event\<close>

fun on_ok :: "'e + 'a \<Rightarrow> ('a \<Rightarrow> 'b list) \<Rightarrow> 'b list" where
  "on_ok (Inl e) f = []"
| "on_ok (Inr x) f = f x"

definition readable_deadline :: "crates \<Rightarrow> decoded_milestone \<Rightarrow> bool" where
  "readable_deadline C m =
    (case unix_seconds_to_datetime C (dm_deadline m) of Inl _ \<Rightarrow> False | Inr _ \<Rightarrow> True)"

text \<open>The milestones before the first one whose deadline is no date.\<close>

definition milestone_writes :: "crates \<Rightarrow> i64 \<Rightarrow> decoded_milestone list \<Rightarrow> db_write list" where
  "milestone_writes C k ms =
    map (\<lambda>m. UpsertMilestone k m (projr (unix_seconds_to_datetime C (dm_deadline m))))
      (takeWhile (readable_deadline C) ms)"

definition created_writes :: "crates \<Rightarrow> rpc_event \<Rightarrow> i64 \<Rightarrow> scval \<Rightarrow> db_write list" where
  "created_writes C ev k data =
    on_ok (decode_created C data) (\<lambda>f. UpsertEscrow ev k f #
      on_ok (field C data ''milestones'' (decode_milestones C)) (milestone_writes C k))"

definition arm_writes :: "crates \<Rightarrow> rpc_event \<Rightarrow> string \<Rightarrow> i64 \<Rightarrow> scval \<Rightarrow> db_write list" where
  "arm_writes C ev name k data =
    (let ledger = u32_as_i64 (ev_ledger ev);
         of_milestone = (\<lambda>w. on_ok (milestone_id_of C data) (\<lambda>mid. [w mid])) in
     if name = ''escrow_created'' then created_writes C ev k data
     else if name = ''escrow_funded'' then [SetEscrowStatus k ''funded'' ledger]
     else if name = ''milestone_submitted'' then
       on_ok (decode_submitted C data) (\<lambda>(mid, uri, h).
         [SetEscrowStatus k ''in_progress'' ledger,
          MarkSubmitted k mid uri h (ev_ledger_closed_at ev)])
     else if name = ''milestone_approved'' then of_milestone (\<lambda>mid. ReleaseMilestone k mid ''approved'')
     else if name = ''milestone_auto_released'' then
       of_milestone (\<lambda>mid. ReleaseMilestone k mid ''auto_release'')
     else if name = ''milestone_expired'' then
       of_milestone (\<lambda>mid. SetMilestoneStatus k mid ''expired'')
     else if name = ''escrow_cancelled'' \<or> name = ''escrow_mutually_cancelled'' then
       [SetEscrowStatus k ''cancelled'' ledger]
     else if name = ''escrow_completed'' then [SetEscrowStatus k ''completed'' ledger]
     else if name = ''dispute_raised'' then
       on_ok (decode_raised C data) (\<lambda>(mid, raised_by, reason).
         [SetMilestoneStatus k mid ''disputed'', InsertDispute k mid raised_by reason])
     else if name = ''dispute_resolved'' then
       on_ok (decode_resolved C data) (\<lambda>(mid, kind, bps).
         [SetMilestoneStatus k mid ''resolved'', ResolveDispute k mid kind bps])
     else [])"

definition writes_of :: "crates \<Rightarrow> rpc_event \<Rightarrow> db_write list" where
  "writes_of C ev = on_ok (event_header C ev) (\<lambda>(name, k, data). arm_writes C ev name k data)"

section \<open>Handling an event is sending its list\<close>

lemma sends:
  "upsert_escrow k (ev_contract_id ev) (cf_client f) (cf_provider f) (cf_arbitrator f) (cf_token f)
    ''created'' (u32_as_i64 (ev_ledger ev)) (cf_review_period f) (cf_chain_created_at f)
    (cf_title f) (cf_metadata_uri f) (cf_metadata_hash f) = send (UpsertEscrow ev k f)"
  "set_escrow_status k st ledger = send (SetEscrowStatus k st ledger)"
  "upsert_milestone k (u32_as_i32 (dm_id m)) (dm_description m) (i128_int (dm_amount m))
    ''pending'' deadline = send (UpsertMilestone k m deadline)"
  "set_milestone_status k mid st = send (SetMilestoneStatus k mid st)"
  "mark_milestone_submitted k mid uri h at = send (MarkSubmitted k mid uri h at)"
  "release_milestone k mid via = send (ReleaseMilestone k mid via)"
  "insert_dispute k mid raised_by reason = send (InsertDispute k mid raised_by reason)"
  "resolve_dispute k mid kind bps = send (ResolveDispute k mid kind bps)"
  by (simp_all add: send_def upsert_escrow_def set_escrow_status_def upsert_milestone_def
      set_milestone_status_def mark_milestone_submitted_def release_milestone_def
      insert_dispute_def resolve_dispute_def)

lemma snd_send_Cons:
  "snd (for_each send (x # xs) w) =
    (case send x w of (Inl _, w') \<Rightarrow> w' | (Inr _, w') \<Rightarrow> snd (for_each send xs w'))"
  by (rule snd_for_each_Cons)

lemma insert_milestones_sends:
  "snd (for_each (insert_milestone C k) ms w) = snd (for_each send (milestone_writes C k ms) w)"
proof (induction ms arbitrary: w)
  case Nil
  then show ?case by (simp add: milestone_writes_def eff_simps)
next
  case (Cons m ms)
  show ?case
  proof (cases "unix_seconds_to_datetime C (dm_deadline m)")
    case (Inl e)
    then show ?thesis
      by (simp add: milestone_writes_def readable_deadline_def insert_milestone_def eff_simps
          run_decoded)
  next
    case (Inr d)
    obtain r w' where "send (UpsertMilestone k m d) w = (r, w')" by fastforce
    then show ?thesis
      using Cons.IH by (cases r) (simp_all add: milestone_writes_def readable_deadline_def
          insert_milestone_def eff_simps run_decoded run_db sends Inr)
  qed
qed

lemma dispatch_sends:
  "snd (dispatch C ev name k (u32_as_i64 (ev_ledger ev)) data w) =
    snd (for_each send (arm_writes C ev name k data) w)"
proof (cases name rule: event_name_cases)
  case created
  then show ?thesis
    by (cases "decode_created C data"; cases "field C data ''milestones'' (decode_milestones C)")
      (simp_all add: dispatch_arm on_escrow_created_def arm_writes_def created_writes_def
        snd_bind_decoded run_bind run_decoded run_db run_ret run_fail sends insert_milestones_sends [symmetric]
        split: prod.splits sum.splits)
next
  case other
  then show ?thesis by (simp add: dispatch_arm arm_writes_def event_names_def eff_simps)
qed (cases "decode_submitted C data"; cases "milestone_id_of C data"; cases "decode_raised C data";
    cases "decode_resolved C data";
    auto simp: dispatch_arm arm_writes_def Let_def on_milestone_submitted_def sends
      on_milestone_released_def on_milestone_expired_def on_dispute_raised_def
      on_dispute_resolved_def eff_simps run_decoded run_db split: prod.splits sum.splits)+

end
