(* ===== verification/Overwrites.thy ===== *)
theory Overwrites
  imports Plans
begin

text \<open>
  A row as its history of writes.  Every write of the indexer either makes a row or overwrites some of
  its columns by values of its own; the contract \<open>overwriting\<close> says what follows for a sequence of
  such writes that is carried out again after any part of it was carried out before.  It is
  interpreted on the rows of \<open>escrows\<close>, \<open>milestones\<close> and \<open>disputes\<close>.
\<close>

section \<open>The contract\<close>

text \<open>One write to a row: the row it makes where there is none, if it makes one, and its patch.\<close>

fun put :: "('p \<Rightarrow> 'r \<Rightarrow> 'r) \<Rightarrow> 'r option \<times> 'p \<Rightarrow> 'r option \<Rightarrow> 'r option" where
  "put app (fresh, p) None = fresh"
| "put app (fresh, p) (Some r) = Some (app p r)"

text \<open>Any of the writes of a set, any number of times, in any order.\<close>

definition written ::
  "('p \<Rightarrow> 'r \<Rightarrow> 'r) \<Rightarrow> ('r option \<times> 'p) set \<Rightarrow> 'r option \<Rightarrow> 'r option \<Rightarrow> bool" where
  "written app us = (\<lambda>x y. \<exists>u \<in> us. y = put app u x)\<^sup>*\<^sup>*"

lemma written_refl [simp]: "written app us x x"
  by (simp add: written_def)

lemma written_trans: "written app us x y \<Longrightarrow> written app us y z \<Longrightarrow> written app us x z"
  unfolding written_def by (rule rtranclp_trans)

lemma written_put: "u \<in> us \<Longrightarrow> written app us x (put app u x)"
  unfolding written_def by blast

lemma written_list: "set vs \<subseteq> us \<Longrightarrow> written app us x (fold (put app) vs x)"
proof (induction vs arbitrary: x)
  case (Cons v vs)
  from Cons.prems have "written app us x (put app v x)" by (intro written_put) simp
  moreover from Cons.prems have "written app us (put app v x) (fold (put app) vs (put app v x))"
    by (intro Cons.IH) simp
  ultimately show ?case by (simp add: written_trans)
qed simp

lemma put_keeps: "x \<noteq> None \<Longrightarrow> put app u x \<noteq> None"
  by (cases x; cases u) simp_all

lemma written_keeps: "written app us x y \<Longrightarrow> x \<noteq> None \<Longrightarrow> y \<noteq> None"
  unfolding written_def by (induction rule: rtranclp_induct) (auto simp: put_keeps)

text \<open>
  The row a sequence of writes makes is made by its first write, with the values that write's patch
  would give it.
\<close>

definition makes_first :: "('p \<Rightarrow> 'r \<Rightarrow> 'r) \<Rightarrow> ('r option \<times> 'p) list \<Rightarrow> bool" where
  "makes_first app us \<longleftrightarrow>
    (\<forall>r p. (Some r, p) \<in> set us \<longrightarrow> (\<exists>q. hd us = (Some r, q) \<and> app q r = r))"

locale overwriting =
  fixes app :: "'p \<Rightarrow> 'r \<Rightarrow> 'r"
    and comp :: "'p \<Rightarrow> 'p \<Rightarrow> 'p"
  assumes app_comp: "app q (app p r) = app (comp p q) r"
    and app_again: "app p (app p r) = app p r"
    and app_covers: "app p (app q (app p r)) = app p (app q r)"
begin

lemma fold_app: "ps \<noteq> [] \<Longrightarrow> \<exists>p. \<forall>r. fold app ps r = app p r"
proof (induction ps)
  case (Cons p ps)
  then show ?case by (cases "ps = []") (auto simp: app_comp)
qed simp

lemma fold_app_absorbs:
  assumes "p \<in> set ps"
  shows "fold app ps (app p r) = fold app ps r"
proof -
  obtain xs ys where ps: "ps = xs @ p # ys" using assms by (auto simp: in_set_conv_decomp)
  have "app p (fold app xs (app p r)) = app p (fold app xs r)"
    using fold_app [of xs] app_covers app_again by (cases "xs = []") auto
  then show ?thesis by (simp add: ps)
qed

lemma fold_put_Some: "fold (put app) us (Some r) = Some (fold app (map snd us) r)"
  by (induction us arbitrary: r) (auto simp: split_paired_all)

lemma fold_put_None: "\<forall>u \<in> set us. fst u = None \<Longrightarrow> fold (put app) us None = None"
proof (induction us)
  case (Cons u us)
  then show ?case by (cases u) simp
qed simp

lemma put_absorbed:
  assumes "makes_first app us" "u \<in> set us"
  shows "fold (put app) us (put app u x) = fold (put app) us x"
proof (cases x)
  case (Some r)
  then show ?thesis
    using fold_app_absorbs [of "snd u" "map snd us" r] assms(2)
    by (cases u) (simp add: fold_put_Some rev_image_eqI)
next
  case None
  show ?thesis
  proof (cases "fst u")
    case None
    with \<open>x = None\<close> show ?thesis by (cases u) simp
  next
    case (Some r)
    then have "(Some r, snd u) \<in> set us" using assms(2) by (metis prod.collapse)
    then obtain q where q: "hd us = (Some r, q)" "app q r = r"
      using assms(1) unfolding makes_first_def by blast
    obtain rest where us: "us = (Some r, q) # rest"
      using q(1) assms(2) by (cases us) auto
    have "put app u None = Some r" using Some by (cases u) simp
    then show ?thesis
      using q(2) by (simp add: \<open>x = None\<close> us fold_put_Some)
  qed
qed

text \<open>Whatever part of the writes happened before, carrying them all out gives the same row.\<close>

theorem writes_repair:
  assumes "makes_first app us" "written app (set us) x y"
  shows "fold (put app) us y = fold (put app) us x"
  using assms(2) unfolding written_def
  by (induction rule: rtranclp_induct) (auto simp: put_absorbed [OF assms(1)])

end

end
