(* ===== verification/Replay.thy ===== *)
theory Replay
  imports Overwrites
begin

text \<open>
  Handling a page again.  The cursor is written after the events of a page, and every statement is committed
  on its own, so a lost connection or a restart in between makes the indexer handle events a second
  time, after some part of their statements (\<open>poll_once\<close> in \<open>src/indexer/mod.rs\<close>).  The rows end up as
  if nothing had been lost.
\<close>

section \<open>Rows without the database's clock\<close>

text \<open>The columns that \<open>now()\<close> fills depend on when a statement ran, and are left out.\<close>

definition escrow_untimed :: "escrow_row \<Rightarrow> escrow_row" where
  "escrow_untimed e = e\<lparr>e_created_at := 0, e_updated_at := 0\<rparr>"

definition milestone_untimed :: "milestone_row \<Rightarrow> milestone_row" where
  "milestone_untimed m = m\<lparr>m_updated_at := 0\<rparr>"

definition dispute_untimed :: "dispute_row \<Rightarrow> dispute_row" where
  "dispute_untimed d =
    d\<lparr>d_created_at := 0, d_resolved_at := map_option (\<lambda>_. 0) (d_resolved_at d)\<rparr>"

definition escrow_at :: "i64 \<Rightarrow> tables \<Rightarrow> escrow_row option" where
  "escrow_at k T = map_option escrow_untimed (find_by e_id k (escrows T))"

definition milestone_at :: "i64 \<times> i32 \<Rightarrow> tables \<Rightarrow> milestone_row option" where
  "milestone_at km T = map_option milestone_untimed (find_by m_key km (milestones T))"

definition dispute_at :: "i64 \<times> i32 \<Rightarrow> tables \<Rightarrow> dispute_row option" where
  "dispute_at km T = map_option dispute_untimed (find_by d_key km (disputes T))"

definition settled ::
  "tables \<Rightarrow> (i64 \<Rightarrow> escrow_row option) \<times> (i64 \<times> i32 \<Rightarrow> milestone_row option) \<times>
    (i64 \<times> i32 \<Rightarrow> dispute_row option)" where
  "settled T = (\<lambda>k. escrow_at k T, \<lambda>km. milestone_at km T, \<lambda>km. dispute_at km T)"

lemma escrow_exists_at: "escrow_exists k T \<longleftrightarrow> escrow_at k T \<noteq> None"
  by (simp add: escrow_exists_def escrow_at_def)

text \<open>The patches: a stamped status, the columns of a milestone, a resolution.\<close>

definition patch_escrow :: "string \<times> i64 \<Rightarrow> escrow_row \<Rightarrow> escrow_row" where
  "patch_escrow = (\<lambda>(st, l) e. if e_updated_ledger e \<le> l
     then e\<lparr>e_status := st, e_updated_ledger := l\<rparr> else e)"

definition later :: "string \<times> i64 \<Rightarrow> string \<times> i64 \<Rightarrow> string \<times> i64" where
  "later p q = (if snd p \<le> snd q then q else p)"

definition or_old :: "'a option \<Rightarrow> 'a option \<Rightarrow> 'a option" where
  "or_old new old = (case new of None \<Rightarrow> old | Some x \<Rightarrow> Some x)"

type_synonym milestone_patch =
  "string \<times> (string option \<times> string option \<times> datetime) option \<times> string option"

definition patch_milestone :: "milestone_patch \<Rightarrow> milestone_row \<Rightarrow> milestone_row" where
  "patch_milestone = (\<lambda>(st, evidence, via) m.
     m\<lparr>m_status := st,
       m_submitted_at := (case evidence of None \<Rightarrow> m_submitted_at m | Some (_, _, at) \<Rightarrow> Some at),
       m_evidence_uri := (case evidence of None \<Rightarrow> m_evidence_uri m | Some (uri, _, _) \<Rightarrow> uri),
       m_evidence_hash := (case evidence of None \<Rightarrow> m_evidence_hash m | Some (_, h, _) \<Rightarrow> h),
       m_released_via := or_old via (m_released_via m)\<rparr>)"

definition then_milestone :: "milestone_patch \<Rightarrow> milestone_patch \<Rightarrow> milestone_patch" where
  "then_milestone p q =
    (fst q, or_old (fst (snd q)) (fst (snd p)), or_old (snd (snd q)) (snd (snd p)))"

definition patch_dispute :: "(string \<times> i32 option) option \<Rightarrow> dispute_row \<Rightarrow> dispute_row" where
  "patch_dispute p d =
    (case p of None \<Rightarrow> d | Some (kind, bps) \<Rightarrow> dispute_untimed (settle kind bps 0 d))"

interpretation escrow_patches: overwriting patch_escrow later
  by unfold_locales (auto simp: patch_escrow_def later_def)

interpretation milestone_patches: overwriting patch_milestone then_milestone
  by unfold_locales
    (auto simp: patch_milestone_def then_milestone_def or_old_def split: option.splits)

interpretation dispute_patches: overwriting patch_dispute "\<lambda>p q. or_old q p"
  by unfold_locales
    (auto simp: patch_dispute_def or_old_def dispute_untimed_def settle_def split: option.splits)

section \<open>What a statement writes to a row\<close>

fun escrow_puts :: "i64 \<Rightarrow> db_write \<Rightarrow> (escrow_row option \<times> string \<times> i64) list" where
  "escrow_puts k (UpsertEscrow ev k' f) =
    (if k' = k
     then [(Some (escrow_untimed (new_escrow_row ev k f 0)), ''created'', u32_as_i64 (ev_ledger ev))]
     else [])"
| "escrow_puts k (SetEscrowStatus k' st ledger) = (if k' = k then [(None, st, ledger)] else [])"
| "escrow_puts k _ = []"

text \<open>A row that refers to an escrow is made only if the escrow is known.\<close>

fun milestone_puts ::
  "bool \<Rightarrow> i64 \<times> i32 \<Rightarrow> db_write \<Rightarrow> (milestone_row option \<times> milestone_patch) list" where
  "milestone_puts known km (UpsertMilestone k m deadline) =
    (if (k, u32_as_i32 (dm_id m)) = km
     then [(if known then Some (milestone_untimed (new_milestone_row k 0 m deadline)) else None,
            ''pending'', None, None)]
     else [])"
| "milestone_puts known km (SetMilestoneStatus k mid st) =
    (if (k, mid) = km then [(None, st, None, None)] else [])"
| "milestone_puts known km (MarkSubmitted k mid uri h at) =
    (if (k, mid) = km then [(None, ''submitted'', Some (uri, h, at), None)] else [])"
| "milestone_puts known km (ReleaseMilestone k mid via) =
    (if (k, mid) = km then [(None, ''released'', None, Some via)] else [])"
| "milestone_puts known km _ = []"

fun dispute_puts ::
  "bool \<Rightarrow> i64 \<times> i32 \<Rightarrow> db_write \<Rightarrow> (dispute_row option \<times> (string \<times> i32 option) option) list" where
  "dispute_puts known km (InsertDispute k mid raised_by reason) =
    (if (k, mid) = km
     then [(if known then Some (dispute_untimed (open_dispute k mid raised_by reason 0)) else None,
            None)]
     else [])"
| "dispute_puts known km (ResolveDispute k mid kind bps) =
    (if (k, mid) = km then [(None, Some (kind, bps))] else [])"
| "dispute_puts known km _ = []"

lemma escrow_at_update:
  "map_option escrow_untimed (find_by e_id k
      (update_where (\<lambda>r. e_id r = k' \<and> ledger \<ge> e_updated_ledger r)
        (\<lambda>r. r\<lparr>e_status := st, e_updated_at := now, e_updated_ledger := ledger\<rparr>) rows)) =
    (if k' = k then put patch_escrow (None, st, ledger)
      (map_option escrow_untimed (find_by e_id k rows))
     else map_option escrow_untimed (find_by e_id k rows))"
  by (cases "find_by e_id k rows")
    (auto simp: escrow_stamp_update patch_escrow_def escrow_untimed_def)

lemma milestone_at_update:
  assumes "\<And>m. milestone_untimed (f m) = patch_milestone p (milestone_untimed m)"
    and "\<And>m. m_key (f m) = m_key m"
  shows "map_option milestone_untimed (find_by m_key km
      (update_where (\<lambda>m. m_key m = (k, mid)) f rows)) =
    (if (k, mid) = km then put patch_milestone (None, p)
       (map_option milestone_untimed (find_by m_key km rows))
     else map_option milestone_untimed (find_by m_key km rows))"
  by (cases "find_by m_key km rows")
    (auto simp: find_by_update_where [of m_key f, OF assms(2)] assms(1) dest: find_by_SomeD)

lemma dispute_at_update:
  "map_option dispute_untimed (find_by d_key km
      (update_where (\<lambda>d. d_key d = (k, mid)) (settle kind bps now) rows)) =
    (if (k, mid) = km then put patch_dispute (None, Some (kind, bps))
       (map_option dispute_untimed (find_by d_key km rows))
     else map_option dispute_untimed (find_by d_key km rows))"
  by (cases "find_by d_key km rows")
    (auto simp: find_by_update_where patch_dispute_def dispute_untimed_def settle_def
      dest: find_by_SomeD)

text \<open>The tables after a statement that was sent and executed; a failing one changes nothing.\<close>

definition after :: "datetime \<Rightarrow> db_write \<Rightarrow> tables \<Rightarrow> tables" where
  "after now x T = (case write_stmt x now T of Inl _ \<Rightarrow> T | Inr (_, T') \<Rightarrow> T')"

lemma escrow_at_after:
  "escrow_at k (after now x T) = fold (put patch_escrow) (escrow_puts k x) (escrow_at k T)"
proof (cases x)
  case (UpsertEscrow ev k' f)
  show ?thesis
  proof (cases "find_by e_id k' (escrows T)")
    case None
    then show ?thesis
      by (auto simp: UpsertEscrow after_def upsert_escrow_stmt_def escrow_at_def
          new_escrow_row_def escrow_untimed_def split: option.splits)
  next
    case (Some e)
    then show ?thesis
      by (auto simp: UpsertEscrow after_def upsert_escrow_stmt_def escrow_at_def escrow_at_update)
  qed
qed (auto simp: after_def stmt_defs escrow_at_def escrow_at_update
    split: option.splits sum.splits if_splits)

lemma escrow_exists_after:
  "escrow_exists k (after now x T) \<longleftrightarrow> escrow_exists k T \<or> (\<exists>ev f. x = UpsertEscrow ev k f)"
proof (cases x)
  case (UpsertEscrow ev k' f)
  then show ?thesis
    by (cases "escrow_at k T") (auto simp: escrow_exists_at escrow_at_after)
next
  case (SetEscrowStatus k' st ledger)
  then show ?thesis
    by (cases "escrow_at k T") (auto simp: escrow_exists_at escrow_at_after)
qed (simp_all add: escrow_exists_at escrow_at_after)

lemma rows_after:
  "milestones (after now (SetMilestoneStatus k mid st) T) =
    update_where (\<lambda>m. m_key m = (k, mid)) (\<lambda>m. m\<lparr>m_status := st, m_updated_at := now\<rparr>) (milestones T)"
  "milestones (after now (MarkSubmitted k mid uri h at) T) =
    update_where (\<lambda>m. m_key m = (k, mid))
      (\<lambda>m. m\<lparr>m_status := ''submitted'', m_evidence_uri := uri, m_evidence_hash := h,
             m_submitted_at := Some at, m_updated_at := now\<rparr>) (milestones T)"
  "milestones (after now (ReleaseMilestone k mid via) T) =
    update_where (\<lambda>m. m_key m = (k, mid))
      (\<lambda>m. m\<lparr>m_status := ''released'', m_released_via := Some via, m_updated_at := now\<rparr>)
      (milestones T)"
  "milestones (after now (UpsertMilestone k m deadline) T) =
    (case find_by m_key (k, u32_as_i32 (dm_id m)) (milestones T) of
       None \<Rightarrow> if escrow_exists k T then milestones T @ [new_milestone_row k now m deadline]
         else milestones T
     | Some _ \<Rightarrow> update_where (\<lambda>r. m_key r = (k, u32_as_i32 (dm_id m)))
         (\<lambda>r. r\<lparr>m_status := ''pending'', m_updated_at := now\<rparr>) (milestones T))"
  "milestones (after now (UpsertEscrow ev k f) T) = milestones T"
  "milestones (after now (SetEscrowStatus k st ledger) T) = milestones T"
  "milestones (after now (InsertDispute k mid raised_by reason) T) = milestones T"
  "milestones (after now (ResolveDispute k mid kind bps) T) = milestones T"
  "disputes (after now (InsertDispute k mid raised_by reason) T) =
    (case find_by d_key (k, mid) (disputes T) of
       None \<Rightarrow> if escrow_exists k T then disputes T @ [open_dispute k mid raised_by reason now]
         else disputes T
     | Some _ \<Rightarrow> disputes T)"
  "disputes (after now (ResolveDispute k mid kind bps) T) =
    update_where (\<lambda>d. d_key d = (k, mid)) (settle kind bps now) (disputes T)"
  by (simp_all add: after_def stmt_defs i128_fits_numeric new_milestone_row_def open_dispute_def
      settle_def [abs_def] split: option.splits)

lemma milestone_at_after:
  assumes "escrow_exists (fst km) T = known"
  shows "milestone_at km (after now x T) =
    fold (put patch_milestone) (milestone_puts known km x) (milestone_at km T)"
proof (cases x)
  case (UpsertMilestone k m deadline)
  let ?key = "(k, u32_as_i32 (dm_id m))"
  show ?thesis
  proof (cases "find_by m_key ?key (milestones T)")
    case None
    then show ?thesis
      using assms by (auto simp: UpsertMilestone milestone_at_def rows_after milestone_untimed_def
          new_milestone_row_def split: option.splits)
  next
    case (Some r)
    have "milestones (after now x T) = update_where (\<lambda>r. m_key r = ?key)
        (\<lambda>r. r\<lparr>m_status := ''pending'', m_updated_at := now\<rparr>) (milestones T)"
      by (simp add: UpsertMilestone rows_after Some)
    then have "milestone_at km (after now x T) =
      (if ?key = km then put patch_milestone (None, ''pending'', None, None) (milestone_at km T)
       else milestone_at km T)"
      unfolding milestone_at_def
      by (simp only:, intro milestone_at_update)
        (simp_all add: milestone_untimed_def patch_milestone_def or_old_def)
    then show ?thesis using Some by (auto simp: UpsertMilestone milestone_at_def)
  qed
next
  case (SetMilestoneStatus k mid st)
  show ?thesis
    unfolding milestone_at_def SetMilestoneStatus rows_after
    by (subst milestone_at_update)
      (auto simp: milestone_untimed_def patch_milestone_def or_old_def)
next
  case (MarkSubmitted k mid uri h at)
  show ?thesis
    unfolding milestone_at_def MarkSubmitted rows_after
    by (subst milestone_at_update)
      (auto simp: milestone_untimed_def patch_milestone_def or_old_def)
next
  case (ReleaseMilestone k mid via)
  show ?thesis
    unfolding milestone_at_def ReleaseMilestone rows_after
    by (subst milestone_at_update)
      (auto simp: milestone_untimed_def patch_milestone_def or_old_def)
qed (simp_all add: milestone_at_def rows_after)

lemma dispute_at_after:
  assumes "escrow_exists (fst km) T = known"
  shows "dispute_at km (after now x T) =
    fold (put patch_dispute) (dispute_puts known km x) (dispute_at km T)"
proof (cases x)
  case (InsertDispute k mid raised_by reason)
  then show ?thesis
    using assms by (auto simp: dispute_at_def rows_after dispute_untimed_def open_dispute_def
        patch_dispute_def split: option.splits)
next
  case (ResolveDispute k mid kind bps)
  show ?thesis
    unfolding dispute_at_def ResolveDispute rows_after by (subst dispute_at_update) simp
qed (auto simp: dispute_at_def after_def stmt_defs split: option.splits sum.splits if_splits)

section \<open>The statements of a page\<close>

text \<open>
  On a quiet connection an event leaves what its statements leave one after the other: none fails before
  the last, since a milestone is inserted after its escrow.
\<close>

abbreviation handle :: "crates \<Rightarrow> rpc_event \<Rightarrow> 'z iworld_scheme \<Rightarrow> 'z iworld_scheme" where
  "handle C ev w \<equiv> snd (process_event C ev w)"

fun steady_writes :: "db_write list \<Rightarrow> tables \<Rightarrow> bool" where
  "steady_writes [] T = True"
| "steady_writes (x # xs) T =
    (xs = [] \<or> (\<forall>now. (\<exists>T'. write_stmt x now T = Inr ((), T')) \<and> steady_writes xs (after now x T)))"

lemma quiet_send:
  "pending w = [] \<Longrightarrow> send x w =
    (case write_stmt x (clock w) (tabs w) of Inl e \<Rightarrow> (Inl e, w) | Inr (u, T) \<Rightarrow> (Inr u, w\<lparr>tabs := T\<rparr>))"
  by (simp add: send_def exec_sql_healthy)

lemma quiet_sends:
  assumes "pending w = []" "steady_writes xs (tabs w)"
  shows "snd (for_each send xs w) = w\<lparr>tabs := fold (after (clock w)) xs (tabs w)\<rparr>"
  using assms
proof (induction xs arbitrary: w)
  case Nil
  then show ?case by (simp add: eff_simps)
next
  case (Cons x xs)
  show ?case
  proof (cases "write_stmt x (clock w) (tabs w)")
    case (Inl e)
    then have "xs = []" using Cons.prems(2) by (auto dest: spec [of _ "clock w"])
    with Inl Cons.prems(1) show ?thesis
      by (simp add: snd_send_Cons quiet_send after_def del: for_each.simps)
  next
    case (Inr r)
    then obtain T where T: "write_stmt x (clock w) (tabs w) = Inr ((), T)" by (cases r) auto
    then have "after (clock w) x (tabs w) = T" by (simp add: after_def)
    moreover have "steady_writes xs T"
      using Cons.prems(2) calculation by (cases xs) (auto simp del: steady_writes.simps(2)
          simp: steady_writes.simps(2) [of x])
    ultimately show ?thesis
      using Cons.IH [of "w\<lparr>tabs := T\<rparr>"] Cons.prems(1)
      by (simp add: snd_send_Cons quiet_send T del: for_each.simps)
  qed
qed

lemma upserts_steady:
  "escrow_exists k T \<Longrightarrow> steady_writes (milestone_writes C k ms) T"
  unfolding milestone_writes_def
proof (induction "takeWhile (readable_deadline C) ms" arbitrary: T ms)
  case Nil
  then show ?case by simp
next
  case (Cons m ms')
  have ok: "\<exists>T'. upsert_milestone_stmt k mid d (i128_int a) st dl now T = Inr ((), T')" for mid d a st dl now
    using Cons.prems by (simp add: upsert_milestone_stmt_def i128_fits_numeric split: option.split)
  have "ms' = takeWhile (readable_deadline C) (tl ms)"
    using Cons.hyps(2) by (cases ms) (auto split: if_splits)
  then show ?case
    using Cons.hyps(1) [of "tl ms"] Cons.prems ok
    by (simp add: Cons.hyps(2) [symmetric] escrow_exists_after)
qed

lemma writes_steady: "steady_writes (writes_of C ev) T"
proof (cases "event_header C ev")
  case (Inl e)
  then show ?thesis by (simp add: writes_of_def)
next
  case (Inr h)
  obtain name k data where h: "event_header C ev = Inr (name, k, data)" using Inr by (cases h) auto
  have created: "steady_writes (created_writes C ev k data) T"
    by (cases "decode_created C data"; cases "field C data ''milestones'' (decode_milestones C)")
      (auto simp: created_writes_def escrow_exists_after upsert_escrow_stmt_def
        intro!: upserts_steady split: option.split)
  show ?thesis
    by (cases name rule: event_name_cases; cases "decode_submitted C data";
        cases "milestone_id_of C data"; cases "decode_raised C data"; cases "decode_resolved C data")
      (auto simp: writes_of_def h arm_writes_def Let_def created stmt_defs event_names_def)
qed

lemma handle_tabs:
  assumes "pending w = []"
  shows "tabs (handle C ev w) = fold (after (clock w)) (writes_of C ev) (tabs w)"
proof (cases "event_header C ev")
  case (Inl e)
  then show ?thesis by (simp add: process_event_header_error writes_of_def)
next
  case (Inr h)
  obtain name k data where h: "event_header C ev = Inr (name, k, data)" using Inr by (cases h) auto
  show ?thesis
    using quiet_sends [OF assms writes_steady, of C ev]
    by (simp add: process_event_tabs [OF h assms] dispatch_sends writes_of_def h)
qed

section \<open>Pages whose rows are made first\<close>

datatype table_row = EscrowRow i64 | MilestoneRow i64 i32 | DisputeRow i64 i32

text \<open>The row a statement may insert, and the rows it depends on or changes.\<close>

fun inserts :: "db_write \<Rightarrow> table_row option" where
  "inserts (UpsertEscrow ev k f) = Some (EscrowRow k)"
| "inserts (UpsertMilestone k m deadline) = Some (MilestoneRow k (u32_as_i32 (dm_id m)))"
| "inserts (InsertDispute k mid raised_by reason) = Some (DisputeRow k mid)"
| "inserts _ = None"

fun uses :: "db_write \<Rightarrow> table_row list" where
  "uses (UpsertEscrow ev k f) = [EscrowRow k]"
| "uses (SetEscrowStatus k st ledger) = [EscrowRow k]"
| "uses (UpsertMilestone k m deadline) = [EscrowRow k, MilestoneRow k (u32_as_i32 (dm_id m))]"
| "uses (SetMilestoneStatus k mid st) = [EscrowRow k, MilestoneRow k mid]"
| "uses (MarkSubmitted k mid uri h at) = [EscrowRow k, MilestoneRow k mid]"
| "uses (ReleaseMilestone k mid via) = [EscrowRow k, MilestoneRow k mid]"
| "uses (InsertDispute k mid raised_by reason) = [EscrowRow k, DisputeRow k mid]"
| "uses (ResolveDispute k mid kind bps) = [EscrowRow k, DisputeRow k mid]"

text \<open>No statement inserts a row that an earlier one already used: the order a contract keeps.\<close>

fun orderly :: "db_write list \<Rightarrow> bool" where
  "orderly [] = True"
| "orderly (x # xs) =
    (list_all (\<lambda>y. case inserts y of None \<Rightarrow> True | Some r \<Rightarrow> r \<notin> set (uses x)) xs \<and> orderly xs)"

lemma orderly_earlier:
  "orderly (xs @ y # ys) \<Longrightarrow> inserts y = Some r \<Longrightarrow> x \<in> set xs \<Longrightarrow> r \<notin> set (uses x)"
  by (induction xs) auto

definition known :: "i64 \<Rightarrow> db_write list \<Rightarrow> tables \<Rightarrow> bool" where
  "known k us T \<longleftrightarrow> escrow_exists k T \<or> (\<exists>ev f. UpsertEscrow ev k f \<in> set us)"

locale row_history = overwriting app comp
  for app :: "'p \<Rightarrow> 'r \<Rightarrow> 'r" and comp :: "'p \<Rightarrow> 'p \<Rightarrow> 'p" +
  fixes k :: i64
    and row :: table_row
    and view :: "tables \<Rightarrow> 'r option"
    and puts :: "bool \<Rightarrow> db_write \<Rightarrow> ('r option \<times> 'p) list"
  assumes view_after: "view (after now x T) = fold (put app) (puts (escrow_exists k T) x) (view T)"
    and only_its_escrow: "EscrowRow k \<notin> set (uses x) \<Longrightarrow> puts b x = []"
    and only_its_row: "row \<notin> set (uses x) \<Longrightarrow> puts b x = []"
    and makes: "(Some r, p) \<in> set (puts b x) \<Longrightarrow>
      inserts x = Some row \<and> puts b x = [(Some r, p)] \<and> app p r = r"
    and upsert_puts: "puts b (UpsertEscrow ev k f) = puts b' (UpsertEscrow ev k f)"
    and unknown_puts: "puts False x = puts True x \<or>
      map snd (puts False x) = map snd (puts True x) \<and> (\<forall>u \<in> set (puts False x). fst u = None)"
begin

lemma makes_first_puts:
  assumes "orderly us"
  shows "makes_first app (concat (map (puts b) us))"
  unfolding makes_first_def
proof (intro allI impI)
  fix r p assume "(Some r, p) \<in> set (concat (map (puts b) us))"
  then obtain y where y: "y \<in> set us" "(Some r, p) \<in> set (puts b y)" by auto
  then obtain xs ys where us: "us = xs @ y # ys" by (auto simp: in_set_conv_decomp)
  have "puts b x = []" if "x \<in> set xs" for x
    using orderly_earlier [of xs y ys row x] assms us that makes [OF y(2)] only_its_row by auto
  then have "concat (map (puts b) us) = puts b y @ concat (map (puts b) ys)"
    by (simp add: us)
  then show "\<exists>q. hd (concat (map (puts b) us)) = (Some r, q) \<and> app q r = r"
    using makes [OF y(2)] by simp
qed

lemma view_page:
  assumes "orderly us"
  shows "view (fold (after now) us T) =
    fold (put app) (concat (map (puts (known k us T)) us)) (view T)"
  using assms
proof (induction us arbitrary: T)
  case (Cons x us)
  have tail: "known k us (after now x T) = known k (x # us) T"
    by (auto simp: known_def escrow_exists_after)
  have "puts (escrow_exists k T) x = puts (known k (x # us) T) x"
  proof (cases "escrow_exists k T = known k (x # us) T")
    case False
    then obtain ev f where "x = UpsertEscrow ev k f \<or> UpsertEscrow ev k f \<in> set us"
      by (auto simp: known_def)
    then show ?thesis
    proof
      assume "x = UpsertEscrow ev k f"
      then show ?thesis by (simp add: upsert_puts)
    next
      assume "UpsertEscrow ev k f \<in> set us"
      then have "EscrowRow k \<notin> set (uses x)"
        using Cons.prems by (fastforce simp: list_all_iff)
      then show ?thesis by (simp add: only_its_escrow)
    qed
  qed simp
  then show ?case using Cons by (simp add: view_after tail)
qed simp

text \<open>One statement of the page, carried out or failed, writes at most what the page writes.\<close>

lemma view_part:
  assumes "x \<in> set us"
  shows "written app (set (concat (map (puts (known k us T)) us))) (view T) (view (after now x T))"
proof -
  have sub: "set (puts (known k us T) x) \<subseteq> set (concat (map (puts (known k us T)) us))"
    using assms by auto
  have "view (after now x T) = fold (put app) (puts (known k us T) x) (view T) \<or>
      view (after now x T) = view T"
  proof (cases "escrow_exists k T = known k us T")
    case False
    then have b: "\<not> escrow_exists k T" "known k us T" by (auto simp: known_def)
    consider "puts False x = puts True x"
      | "map snd (puts False x) = map snd (puts True x)" "\<forall>u \<in> set (puts False x). fst u = None"
      using unknown_puts [of x] by blast
    then show ?thesis
    proof cases
      case 2
      then show ?thesis
        by (cases "view T") (simp_all add: view_after b fold_put_None fold_put_Some)
    qed (simp add: view_after b)
  qed (simp add: view_after)
  then show ?thesis using written_list [OF sub] by auto
qed

theorem page_repaired:
  assumes "orderly us" "known k us T' = known k us T"
    and "written app (set (concat (map (puts (known k us T)) us))) (view T) (view T')"
  shows "view (fold (after now') us T') = view (fold (after now) us T)"
  using writes_repair [OF makes_first_puts [OF assms(1)] assms(3)]
  by (simp add: view_page [OF assms(1)] assms(2))

end

interpretation escrow_rows:
  row_history patch_escrow later k "EscrowRow k" "escrow_at k" "\<lambda>_. escrow_puts k" for k
proof unfold_locales
  show "inserts x = Some (EscrowRow k) \<and> escrow_puts k x = [(Some r, p)] \<and> patch_escrow p r = r"
    if "(Some r, p) \<in> set (escrow_puts k x)" for x r p
    using that by (cases x)
      (auto simp: patch_escrow_def escrow_untimed_def new_escrow_row_def split: if_splits)
  show "escrow_puts k x = []" if "EscrowRow k \<notin> set (uses x)" for x
    using that by (cases x) auto
qed (simp_all add: escrow_at_after)

interpretation milestone_rows:
  row_history patch_milestone then_milestone "fst km" "MilestoneRow (fst km) (snd km)"
    "milestone_at km" "\<lambda>b. milestone_puts b km" for km
proof unfold_locales
  show "inserts x = Some (MilestoneRow (fst km) (snd km)) \<and> milestone_puts b km x = [(Some r, p)] \<and>
      patch_milestone p r = r"
    if "(Some r, p) \<in> set (milestone_puts b km x)" for x r p b
    using that by (cases x) (auto simp: patch_milestone_def or_old_def milestone_untimed_def
        new_milestone_row_def split: if_splits)
  show "milestone_puts b km x = []" if "EscrowRow (fst km) \<notin> set (uses x)" for x b
    using that by (cases x) auto
  show "milestone_puts b km x = []" if "MilestoneRow (fst km) (snd km) \<notin> set (uses x)" for x b
    using that by (cases x) auto
  show "milestone_puts False km x = milestone_puts True km x \<or>
      map snd (milestone_puts False km x) = map snd (milestone_puts True km x) \<and>
      (\<forall>u \<in> set (milestone_puts False km x). fst u = None)" for x
    by (cases x) auto
qed (simp_all add: milestone_at_after)

interpretation dispute_rows:
  row_history patch_dispute "\<lambda>p q. or_old q p" "fst km" "DisputeRow (fst km) (snd km)"
    "dispute_at km" "\<lambda>b. dispute_puts b km" for km
proof unfold_locales
  show "inserts x = Some (DisputeRow (fst km) (snd km)) \<and> dispute_puts b km x = [(Some r, p)] \<and>
      patch_dispute p r = r"
    if "(Some r, p) \<in> set (dispute_puts b km x)" for x r p b
    using that by (cases x) (auto simp: patch_dispute_def split: if_splits)
  show "dispute_puts b km x = []" if "EscrowRow (fst km) \<notin> set (uses x)" for x b
    using that by (cases x) auto
  show "dispute_puts b km x = []" if "DisputeRow (fst km) (snd km) \<notin> set (uses x)" for x b
    using that by (cases x) auto
  show "dispute_puts False km x = dispute_puts True km x \<or>
      map snd (dispute_puts False km x) = map snd (dispute_puts True km x) \<and>
      (\<forall>u \<in> set (dispute_puts False km x). fst u = None)" for x
    by (cases x) auto
qed (simp_all add: dispute_at_after)

section \<open>What is left when statements are lost\<close>

text \<open>From one state of the tables to another by some of the writes of a page, in any order.\<close>

definition partly :: "db_write list \<Rightarrow> tables \<Rightarrow> tables \<Rightarrow> bool" where
  "partly us T T' \<longleftrightarrow>
    (\<forall>k. known k us T' = known k us T \<and>
      written patch_escrow (set (concat (map (escrow_puts k) us))) (escrow_at k T) (escrow_at k T')) \<and>
    (\<forall>km.
      written patch_milestone (set (concat (map (milestone_puts (known (fst km) us T) km) us)))
        (milestone_at km T) (milestone_at km T') \<and>
      written patch_dispute (set (concat (map (dispute_puts (known (fst km) us T) km) us)))
        (dispute_at km T) (dispute_at km T'))"

lemma partly_refl: "partly us T T"
  by (simp add: partly_def)

lemma partly_trans:
  assumes "partly us T1 T2" "partly us T2 T3"
  shows "partly us T1 T3"
proof -
  have known: "known k us T2 = known k us T1" for k using assms(1) by (simp add: partly_def)
  show ?thesis
    using assms unfolding partly_def known by (blast intro: written_trans)
qed

lemma partly_after: "x \<in> set us \<Longrightarrow> partly us T (after now x T)"
  unfolding partly_def
  by (intro conjI allI escrow_rows.view_part milestone_rows.view_part dispute_rows.view_part)
    (auto simp: known_def escrow_exists_after)

lemma tables_repaired:
  assumes "orderly us" "partly us T T'"
  shows "settled (fold (after now') us T') = settled (fold (after now) us T)"
  unfolding settled_def prod.inject fun_eq_iff
  by (intro conjI allI escrow_rows.page_repaired milestone_rows.page_repaired
      dispute_rows.page_repaired; use assms in \<open>simp only: partly_def\<close>)

text \<open>The statements of a page, in order.\<close>

definition page_writes :: "crates \<Rightarrow> rpc_event list \<Rightarrow> db_write list" where
  "page_writes C evs = concat (map (writes_of C) (filter ev_in_successful_contract_call evs))"

text \<open>
  What happens around the statements: any of them may be lost, before or after the server ran it, and the
  other task may write, but not the tables the indexer fills.
\<close>

definition undisturbed :: "gap list \<Rightarrow> bool" where
  "undisturbed gaps \<longleftrightarrow>
    (\<forall>(d, dt, others) \<in> set gaps. \<forall>T. escrows (others T) = escrows T \<and>
      milestones (others T) = milestones T \<and> disputes (others T) = disputes T)"

definition moves :: "db_write list \<Rightarrow> 'z pool_scheme \<Rightarrow> 'z pool_scheme \<Rightarrow> bool" where
  "moves us p p' \<longleftrightarrow>
    (undisturbed (pending p) \<longrightarrow> undisturbed (pending p') \<and> partly us (tabs p) (tabs p'))"

interpretation moves: evolution "moves us :: 'z pool_scheme \<Rightarrow> 'z pool_scheme \<Rightarrow> bool" for us
  by unfold_locales (auto simp: moves_def partly_refl intro: partly_trans)

lemma partly_same:
  "escrows T' = escrows T \<Longrightarrow> milestones T' = milestones T \<Longrightarrow> disputes T' = disputes T \<Longrightarrow>
    partly us T T'"
  by (simp add: partly_def known_def escrow_exists_def escrow_at_def milestone_at_def dispute_at_def)

lemma undisturbed_gap:
  assumes "undisturbed (pending p)" "next_gap p = (d, dt, others)"
  shows "partly us T (others T)" "undisturbed (tl (pending p))"
proof -
  have "escrows (others T) = escrows T \<and> milestones (others T) = milestones T \<and>
      disputes (others T) = disputes T"
    using assms by (auto simp: next_gap_def undisturbed_def split: list.splits)
  then show "partly us T (others T)" by (intro partly_same) auto
  show "undisturbed (tl (pending p))"
    using assms(1) by (cases "pending p") (auto simp: undisturbed_def)
qed

lemma effects_moves:
  assumes "\<And>now T x T'. stmt now T = Inr (x, T') \<Longrightarrow> partly us T T'"
  shows "effects (moves us) (exec_sql stmt)"
proof
  fix p :: "'z pool_scheme"
  obtain d dt others where gap: "next_gap p = (d, dt, others)" by (cases "next_gap p")
  show "moves us p (snd (exec_sql stmt p))"
    unfolding moves_def
  proof
    assume un: "undisturbed (pending p)"
    note first = undisturbed_gap(1) [OF un gap, of us "tabs p"]
    show "undisturbed (pending (snd (exec_sql stmt p))) \<and>
        partly us (tabs p) (tabs (snd (exec_sql stmt p)))"
      using undisturbed_gap(2) [OF un gap] first partly_trans [OF first assms]
      by (auto simp: exec_sql_def gap Let_def split: delivery.splits sum.splits)
  qed
qed

lemma effects_send:
  assumes "x \<in> set us"
  shows "effects (moves us) (send x)"
  unfolding send_def
proof (rule effects_moves)
  fix now T u T' assume "write_stmt x now T = Inr (u, T')"
  then have "after now x T = T'" by (simp add: after_def)
  with partly_after [OF assms, of T now] show "partly us T T'" by simp
qed

lemma notify_moves: "effects (moves us) (notify_webhooks C k name)"
proof
  fix w :: "'z iworld_scheme"
  have "effects (moves us) (list_webhooks_for_escrow k :: ('z iworld_ext pool_scheme, _, _) eff)"
    unfolding list_webhooks_for_escrow_def
    by (rule effects_moves) (auto simp: read_only_def bindE_Inr_iff partly_refl)
  from effectsD [OF this, of w] show "moves us w (snd (notify_webhooks C k name w))"
    by (auto simp: notify_webhooks_def Let_def moves_def split: prod.splits sum.splits)
qed

lemma process_event_moves:
  assumes "set (writes_of C ev) \<subseteq> set us"
  shows "effects (moves us) (process_event C ev :: ('z iworld_scheme, _, _) eff)"
proof
  fix w :: "'z iworld_scheme"
  show "moves us w (snd (process_event C ev w))"
  proof (cases "event_header C ev")
    case (Inl e)
    then show ?thesis by (simp add: process_event_header_error moves.refl)
  next
    case (Inr h)
    obtain name k data where h: "event_header C ev = Inr (name, k, data)" using Inr by (cases h) auto
    obtain r w1 where d: "dispatch C ev name k (u32_as_i64 (ev_ledger ev)) data w = (r, w1)"
      by fastforce
    have "effects (moves us) (for_each send (arm_writes C ev name k data))"
      using assms by (intro moves.effects_for_each effects_send) (auto simp: writes_of_def h)
    from effectsD [OF this, of w] have first: "moves us w w1"
      using dispatch_sends [of C ev name k data w] d by simp
    have second: "moves us w (snd (notify_webhooks C k name w1))"
      using effectsD [OF notify_moves] by (rule moves.trans [OF first])
    show ?thesis
    proof (cases "r = Inr True")
      case True
      then show ?thesis using second by (simp add: process_event_dispatch [OF h] d)
    next
      case False
      then have "snd (process_event C ev w) = w1"
        by (cases r) (auto simp: process_event_dispatch [OF h] d split: bool.splits)
      then show ?thesis using first by simp
    qed
  qed
qed

lemma events_move:
  fixes w :: "'z iworld_scheme"
  assumes "\<And>ev. ev \<in> set evs \<Longrightarrow> ev_in_successful_contract_call ev \<Longrightarrow>
    set (writes_of C ev) \<subseteq> set us"
  shows "moves us w (snd (process_events C evs w))"
proof -
  have run: "moves us w (fold (handle C) evs w)"
    if "\<And>ev. ev \<in> set evs \<Longrightarrow> set (writes_of C ev) \<subseteq> set us" for evs and w :: "'z iworld_scheme"
    using that
  proof (induction evs arbitrary: w)
    case (Cons ev evs)
    have "moves us w (handle C ev w)"
      using Cons.prems by (intro effectsD [OF process_event_moves]) simp
    then show ?case using Cons by (simp add: moves.trans)
  qed (simp add: moves.refl)
  show ?thesis
    unfolding process_events_fold by (rule run) (use assms in auto)
qed

lemma page_moves:
  fixes w :: "'z iworld_scheme"
  shows "moves (page_writes C evs) w (snd (process_events C evs w))"
  by (rule events_move) (auto simp: page_writes_def)

text \<open>A quiet connection stays quiet, and no time passes while a page is handled on it.\<close>

definition still :: "'z pool_scheme \<Rightarrow> 'z pool_scheme \<Rightarrow> bool" where
  "still w w' \<longleftrightarrow> (pending w = [] \<longrightarrow> pending w' = [] \<and> clock w' = clock w)"

lemma effects_still: "effects still (exec_sql stmt)"
  by (rule effectsI) (auto simp: still_def exec_sql_healthy split: sum.splits)

interpretation still_frame:
  delivery_effects "still :: 'z iworld_scheme \<Rightarrow> 'z iworld_scheme \<Rightarrow> bool"
  by unfold_locales
    (auto simp: upsert_escrow_def set_escrow_status_def upsert_milestone_def
      set_milestone_status_def mark_milestone_submitted_def release_milestone_def
      insert_dispute_def resolve_dispute_def list_webhooks_for_escrow_def effects_still,
      auto simp: still_def)

lemma page_tabs:
  assumes "pending w = []"
  shows "tabs (snd (process_events C evs w)) = fold (after (clock w)) (page_writes C evs) (tabs w)"
proof -
  have "tabs (fold (handle C) evs w) =
      fold (after (clock w)) (concat (map (writes_of C) evs)) (tabs w)" for evs
    using assms
  proof (induction evs arbitrary: w)
    case (Cons ev evs)
    have "pending (handle C ev w) = [] \<and> clock (handle C ev w) = clock w"
      using effectsD [OF still_frame.process_event_effects, of w C ev] Cons.prems
      by (simp add: still_def)
    then show ?case using Cons by (simp add: handle_tabs)
  qed simp
  then show ?thesis by (simp add: process_events_fold page_writes_def)
qed

section \<open>Properties\<close>

text \<open>An attempt at a page, on a connection that does what \<open>gaps\<close> says.\<close>

definition attempt :: "crates \<Rightarrow> rpc_event list \<Rightarrow> gap list \<Rightarrow> 'z iworld_scheme \<Rightarrow> 'z iworld_scheme" where
  "attempt C evs gaps w = snd (process_events C evs (w\<lparr>pending := gaps\<rparr>))"

lemma attempts_partly:
  "list_all undisturbed attempts \<Longrightarrow>
    partly (page_writes C evs) (tabs w) (tabs (fold (attempt C evs) attempts w))"
proof (induction attempts arbitrary: w)
  case (Cons gaps attempts)
  have "partly (page_writes C evs) (tabs w) (tabs (attempt C evs gaps w))"
    using page_moves [of C evs "w\<lparr>pending := gaps\<rparr>"] Cons.prems
    by (simp add: moves_def attempt_def)
  then show ?case using Cons by (auto intro: partly_trans)
qed (simp add: partly_refl)

text \<open>
  Losing statements does no lasting harm.  Let a page be attempted any number of times, on connections
  that lose any statements before or after the server runs them (a crash loses all that follow),
  while the other task writes webhooks; handling the page once more on a quiet connection then leaves
  every escrow, milestone and dispute row as handling it once on a quiet connection would have, but
  for the columns filled by the database's clock.  The page must be orderly: nothing inserts a row
  that an earlier statement of the page already used.
\<close>

theorem retries_repair:
  assumes "orderly (page_writes C evs)" "list_all undisturbed attempts"
  shows "settled (tabs (attempt C evs [] (fold (attempt C evs) attempts w))) =
    settled (tabs (attempt C evs [] w))"
  using tables_repaired [OF assms(1) attempts_partly [OF assms(2)]]
  by (simp add: attempt_def page_tabs)

section \<open>Examples\<close>

definition sample_dispute_page :: "rpc_event list" where
  "sample_dispute_page =
    [sample_event ''escrow_created'' ''escrow 2'' ''created'' 7, sample_raised ''escrow 2'']"

lemma sample_dispute_page_writes:
  "page_writes sample_crates sample_dispute_page =
    [UpsertEscrow (sample_event ''escrow_created'' ''escrow 2'' ''created'' 7) (I64 2) sample_fields,
     UpsertMilestone (I64 2) (sample_decoded_milestone 0 1700000000) 1700000000000000,
     SetMilestoneStatus (I64 2) (I32 0) ''disputed'',
     InsertDispute (I64 2) (I32 0) ''GC'' ''late'']"
  by (simp add: page_writes_def sample_dispute_page_def writes_of_def sample_created_header(1)
      sample_dispute_headers(2) arm_writes_def created_writes_def sample_created_decodes
      sample_milestones_field decode_milestones_def sample_milestone_decodes milestone_writes_def
      readable_deadline_def sample_decoded_milestone_def sample_deadlines sample_dispute_decodes(1)
      Let_def)
    (simp add: sample_event_def sample_raised_def)

definition sample_losses :: "gap list list" where
  "sample_losses = [[(Healthy, 0, id), (LostBefore, 3, id)], [(LostAfter, 0, id)]]"

theorem retries_repair_witness:
  "settled (tabs (attempt sample_crates sample_dispute_page []
      (fold (attempt sample_crates sample_dispute_page) sample_losses sample_world))) =
    settled (tabs (attempt sample_crates sample_dispute_page [] sample_world))"
proof (rule retries_repair)
  show "orderly (page_writes sample_crates sample_dispute_page)"
    by (simp add: sample_dispute_page_writes)
  show "list_all undisturbed sample_losses"
    by (simp add: sample_losses_def undisturbed_def)
qed

end
