(* ===== verification/Notify.thy ===== *)
theory Notify
  imports Lifecycle
begin

text \<open>
  Who is told about an event, and what a receiver can check.  The statements of an event's handling
  leave everything but the pool alone, an instance of \<open>event_effects\<close>, so what is added to the
  outbox is what \<open>notify_webhooks\<close> adds.
\<close>

section \<open>Only notification sends\<close>

definition keeps_more :: "'z pool_scheme \<Rightarrow> 'z pool_scheme \<Rightarrow> bool" where
  "keeps_more p p' \<longleftrightarrow> pool.more p' = pool.more p"

lemma effects_keeps_more [eff_intros]: "effects keeps_more (exec_sql stmt)"
  by (rule effectsI) (simp add: keeps_more_def)

interpretation event_frame: event_effects "keeps_more :: 'z pool_scheme \<Rightarrow> 'z pool_scheme \<Rightarrow> bool"
  by unfold_locales
    (auto simp: keeps_more_def upsert_escrow_def set_escrow_status_def upsert_milestone_def
      set_milestone_status_def mark_milestone_submitted_def release_milestone_def
      insert_dispute_def resolve_dispute_def effects_def)

lemma dispatch_outbox:
  assumes "dispatch C ev name k ledger data w = (r, w')"
  shows "outbox w' = outbox w"
proof -
  have "pool.more w' = pool.more w"
    using effectsD [OF event_frame.dispatch_effects, of w C ev name k ledger data] assms
    by (simp add: keeps_more_def)
  then show ?thesis by (cases w; cases w') simp
qed

lemma dispatch_True_name:
  "dispatch C ev name k ledger data w = (Inr True, w') \<Longrightarrow> name \<in> set event_names"
  by (rule ccontr) (simp add: dispatch_arm run_ret)

lemma dispatch_known_name:
  "dispatch C ev name k ledger data w = (Inr b, w') \<Longrightarrow> name \<in> set event_names \<Longrightarrow> b"
  by (cases name rule: event_name_cases)
    (auto simp: dispatch_arm run_bind run_ret split: prod.splits sum.splits)

text \<open>What the statement that reads the webhooks returns: the rows of a state other tasks reached.\<close>

lemma list_webhooks_read:
  assumes "list_webhooks_for_escrow k w = (Inr ws, w')" "rely w"
  shows "ws = webhooks_of k (tabs w')" "sql_writes (tabs w) (tabs w')"
proof -
  show "ws = webhooks_of k (tabs w')"
    using assms(1) unfolding list_webhooks_for_escrow_def
    by (elim exec_sql_InrD) (auto simp: read_only_def)
  show "sql_writes (tabs w) (tabs w')"
    using effectsD [OF effects_db_reads(5), of w k] assms
    by (simp add: pool_writes_def)
qed

lemma notify_outbox:
  assumes "notify_webhooks C k name w = (r, w')"
  shows "outbox w' = outbox w \<or>
    (\<exists>ws w1. list_webhooks_for_escrow k w = (Inr ws, w1) \<and> tabs w' = tabs w1 \<and>
      clock w' = clock w1 \<and> outbox w' = outbox w @
        map (webhook_post C (timestamp (clock w')) (json_to_vec C (webhook_payload k name))) ws)"
proof -
  obtain r1 w1 where l: "list_webhooks_for_escrow k w = (r1, w1)" by fastforce
  have "pool.more w1 = pool.more w"
    using l exec_sql_more [of _ w] by (metis list_webhooks_for_escrow_def snd_conv)
  then have "outbox w1 = outbox w" by (cases w; cases w1) simp
  then show ?thesis
    using assms l by (auto simp: notify_webhooks_def Let_def split: sum.splits)
qed

section \<open>Properties\<close>

text \<open>The row a delivery was made for, and what its receiver can check with that row's secret.\<close>

definition delivered_for :: "crates \<Rightarrow> i64 \<Rightarrow> string \<Rightarrow> i64 \<Rightarrow> webhook_row \<Rightarrow> http_post \<Rightarrow> bool" where
  "delivered_for C k name ts wh post \<longleftrightarrow>
    w_escrow_id wh = k \<and> hp_url post = w_url wh \<and>
    hp_body post = json_to_vec C (webhook_payload k name) \<and>
    map_of (hp_headers post) ''x-concord-timestamp'' = Some (show_int (i64_int ts)) \<and>
    map_of (hp_headers post) ''x-concord-signature'' =
      Some (''sha256='' @ hex_encode C (hmac_sha256 C (as_bytes (w_secret wh))
        (signed_content ts (hp_body post))))"

lemma delivered_for_post:
  "w_escrow_id wh = k \<Longrightarrow>
   delivered_for C k name ts wh (webhook_post C ts (json_to_vec C (webhook_payload k name)) wh)"
  by (simp add: delivered_for_def webhook_post_def sign_webhook_payload_def)

text \<open>What \<open>notify_webhooks\<close> sends goes, one request each, to the rows of the escrow.\<close>

lemma notify_delivers:
  assumes "rely w" "notify_webhooks C k name w = (r, w')"
  shows "r = Inr () \<and> (outbox w' = outbox w \<or> (\<exists>posts. outbox w' = outbox w @ posts \<and>
    list_all2 (delivered_for C k name (timestamp (clock w'))) (webhooks_of k (tabs w')) posts))"
proof -
  have "r = Inr ()" using assms(2) by (cases r) (auto simp: notify_no_error)
  moreover from notify_outbox [OF assms(2)]
  have "outbox w' = outbox w \<or> (\<exists>posts. outbox w' = outbox w @ posts \<and>
    list_all2 (delivered_for C k name (timestamp (clock w'))) (webhooks_of k (tabs w')) posts)"
  proof
    assume "\<exists>ws w1. list_webhooks_for_escrow k w = (Inr ws, w1) \<and> tabs w' = tabs w1 \<and>
      clock w' = clock w1 \<and> outbox w' = outbox w @
        map (webhook_post C (timestamp (clock w')) (json_to_vec C (webhook_payload k name))) ws"
    then obtain ws w1 where ws: "list_webhooks_for_escrow k w = (Inr ws, w1)" "tabs w' = tabs w1"
        "outbox w' = outbox w @
          map (webhook_post C (timestamp (clock w')) (json_to_vec C (webhook_payload k name))) ws"
      by blast
    have "ws = webhooks_of k (tabs w')" using list_webhooks_read [OF ws(1) assms(1)] ws(2) by simp
    then show ?thesis
      using ws(3) by (auto simp: list_all2_map2 webhooks_of_def delivered_for_post
          intro!: list.rel_refl_strong)
  qed simp
  ultimately show ?thesis by blast
qed

lemma webhook_party:
  assumes "schema_ok T" "wh \<in> set (webhooks T)"
  obtains e where "find_by e_id (w_escrow_id wh) (escrows T) = Some e"
    "party_of (w_owner_address wh) e"
  using assms by (auto simp: schema_ok_def rows_ok_def list_all_iff webhook_ok_def
      split: option.splits)

text \<open>
  C10: Who is notified.  Whatever the other task does meanwhile and whichever statements are lost, handling
  an event of escrow \<open>k\<close> sends nothing unless it succeeds and its name is one the indexer knows;
  what it sends then goes to rows of the webhooks table registered for \<open>k\<close> by an address that is a
  party of \<open>k\<close>, one request per row, each signed with that row's own secret over the timestamp it
  carries and the exact body.
\<close>

theorem notifies_parties_only:
  assumes "rely w" "schema_ok (tabs w)" "event_header C ev = Inr (name, k, data)"
    and "process_event C ev w = (r, w')"
  shows "\<exists>posts. outbox w' = outbox w @ posts \<and>
    (posts \<noteq> [] \<longrightarrow> r = Inr () \<and> name \<in> set event_names) \<and>
    (posts \<noteq> [] \<longrightarrow> list_all2 (delivered_for C k name (timestamp (clock w')))
      (webhooks_of k (tabs w')) posts) \<and>
    (\<forall>wh \<in> set (webhooks_of k (tabs w')). \<exists>e.
      find_by e_id k (escrows (tabs w')) = Some e \<and> party_of (w_owner_address wh) e)"
proof -
  have ok': "schema_ok (tabs w')"
    using schema.kept [OF effects_process_event assms(1,2), of C ev] assms(4) by simp
  have parties: "\<exists>e. find_by e_id k (escrows (tabs w')) = Some e \<and> party_of (w_owner_address wh) e"
    if "wh \<in> set (webhooks_of k (tabs w'))" for wh
    using webhook_party [OF ok', of wh] that by (auto simp: webhooks_of_def)
  obtain rd w1 where d: "dispatch C ev name k (u32_as_i64 (ev_ledger ev)) data w = (rd, w1)"
    by fastforce
  have ob: "outbox w1 = outbox w" by (rule dispatch_outbox [OF d])
  have rely1: "rely w1"
    using pool_writes_rely [OF effectsD [OF event_writes.dispatch_effects] assms(1)] d
    by (metis snd_conv)
  show ?thesis
  proof (cases "rd = Inr True")
    case True
    have n: "notify_webhooks C k name w1 = (r, w')"
      using assms(4) by (simp add: process_event_dispatch [OF assms(3)] d True)
    show ?thesis
      using notify_delivers [OF rely1 n] ob parties dispatch_True_name d True by auto
  next
    case False
    then have "outbox w' = outbox w"
      using assms(4) ob by (auto simp: process_event_dispatch [OF assms(3)] d
          split: sum.splits bool.splits)
    then show ?thesis using parties by auto
  qed
qed

text \<open>
  C33: Every webhook of the escrow is told, once.  On a quiet connection an event with a known name that is
  handled without error sends one request per webhook registered for the escrow at that moment, in the
  order of the rows, with the body that names the escrow and the event; an event that fails, or whose
  name is not known, sends none.
\<close>

theorem notifies_every_webhook:
  assumes "pending w = []" "event_header C ev = Inr (name, k, data)"
    and "process_event C ev w = (r, w')"
  shows "outbox w' = outbox w @
    (if r = Inr () \<and> name \<in> set event_names
     then map (webhook_post C (timestamp (clock w'))
       (json_to_vec C (webhook_payload k name))) (webhooks_of k (tabs w'))
     else [])"
proof -
  obtain rd w1 where d: "dispatch C ev name k (u32_as_i64 (ev_ledger ev)) data w = (rd, w1)"
    by fastforce
  have ob: "outbox w1 = outbox w" by (rule dispatch_outbox [OF d])
  have "pending w1 = []"
    using quiet_kept [OF event_writes.dispatch_effects assms(1)] d by (metis snd_conv)
  moreover have known: "b \<longleftrightarrow> name \<in> set event_names" if "rd = Inr b" for b
    using d that
    by (cases b) (auto dest: dispatch_True_name dispatch_known_name)
  ultimately show ?thesis
    using assms(3) ob known
    by (cases rd) (auto simp: process_event_dispatch [OF assms(2)] d quiet_simps deliveries_def
        split: bool.splits)
qed

section \<open>Examples\<close>

definition sample_hooked_world :: iworld where
  "sample_hooked_world = sample_world\<lparr>tabs := (tabs sample_world)\<lparr>webhooks :=
    [\<lparr>w_id = 7, w_escrow_id = I64 1, w_owner_address = ''GP'', w_url = ''https://p.example'',
      w_created_at = 0, w_secret = ''s3cret''\<rparr>]\<rparr>\<rparr>"

definition sample_funded :: rpc_event where
  "sample_funded = sample_event ''escrow_funded'' ''escrow 1'' ''void'' 6"

lemma sample_funded_header:
  "event_header sample_crates sample_funded = Inr (''escrow_funded'', I64 1, ScOther 0)"
  by (simp add: event_header_def decode_scval_base64_def sc_val_to_string_def sc_val_to_u64_def
      u64_as_i64_def sample_funded_def sample_event_def sample_crates_def sample_from_xdr_def
      sample_values_def sym_def)

lemma sample_hooked_world_pending: "pending sample_hooked_world = []"
  by (simp add: sample_hooked_world_def sample_world_def)

lemma sample_hooked_world_schema: "schema_ok (tabs sample_hooked_world)"
  using sample_world_schema
  by (simp add: sample_hooked_world_def sample_world_def migrated_def schema_ok_def keys_ok_def
      references_ok_def rows_ok_def cursor_ok_def webhook_ok_def escrow_exists_def find_by_def
      party_of_def)

lemma sample_funded_run:
  "process_event sample_crates sample_funded sample_hooked_world =
    (Inr (), snd (process_event sample_crates sample_funded sample_hooked_world))"
  by (simp add: process_event_dispatch [OF sample_funded_header] dispatch_arm eff_simps run_db
      quiet_simps sample_hooked_world_pending)

theorem notifies_parties_only_witness:
  "\<exists>posts. outbox (snd (process_event sample_crates sample_funded sample_hooked_world)) =
      outbox sample_hooked_world @ posts"
  using notifies_parties_only [OF _ sample_hooked_world_schema sample_funded_header
      sample_funded_run] sample_hooked_world_pending
  by (auto simp: rely_def)

theorem notifies_every_webhook_witness:
  "length (outbox (snd (process_event sample_crates sample_funded sample_hooked_world))) = 1"
  using notifies_every_webhook [OF sample_hooked_world_pending sample_funded_header
      sample_funded_run]
  by (simp add: process_event_dispatch [OF sample_funded_header] dispatch_arm eff_simps run_db
      quiet_simps sample_hooked_world_pending event_names_def)
    (simp add: sample_hooked_world_def sample_world_def webhooks_of_def)

end
