(* ===== verification/Feed.thy ===== *)
theory Feed
  imports Notify
begin

text \<open>
  The indexer as a consumer of the contract's event log: the cursor in the database is its position,
  a poll handles the events it fetched and moves the position behind them, and a run of polls
  handles a stretch of the log in order, leaving nothing out and repeating nothing.  The
  database answers every statement here and no other task moves the cursor; the network may fail
  at any poll.
\<close>

section \<open>The cursor under the handling of events\<close>

definition steady :: "'z pool_scheme \<Rightarrow> bool" where
  "steady p \<longleftrightarrow> (\<forall>(d, dt, others) \<in> set (pending p).
    d = Healthy \<and> (\<forall>T. indexer_cursor (others T) = indexer_cursor T))"

definition keeps_cursor :: "'z pool_scheme \<Rightarrow> 'z pool_scheme \<Rightarrow> bool" where
  "keeps_cursor p p' \<longleftrightarrow>
    (steady p \<longrightarrow> steady p' \<and> indexer_cursor (tabs p') = indexer_cursor (tabs p))"

lemma steady_drop: "pending p' = drop n (pending p) \<Longrightarrow> steady p \<Longrightarrow> steady p'"
  by (auto simp: steady_def dest!: in_set_dropD)

lemma steady_quiet [simp]: "pending p = [] \<Longrightarrow> steady p"
  by (simp add: steady_def)

lemma steady_next_gap:
  "steady p \<Longrightarrow> next_gap p = (d, dt, others) \<Longrightarrow>
    d = Healthy \<and> indexer_cursor (others T) = indexer_cursor T"
  by (auto simp: steady_def next_gap_def split: list.splits)

lemma exec_sql_steady: "steady p \<Longrightarrow> steady (snd (exec_sql stmt p))"
  by (rule steady_drop [OF exec_sql_pending])

lemma effects_keeps_cursor:
  assumes "\<And>now T x T'. stmt now T = Inr (x, T') \<Longrightarrow> indexer_cursor T' = indexer_cursor T"
  shows "effects keeps_cursor (exec_sql stmt)"
proof
  fix p :: "'z pool_scheme"
  obtain d dt others where g: "next_gap p = (d, dt, others)" by (cases "next_gap p")
  have "indexer_cursor (tabs (snd (exec_sql stmt p))) = indexer_cursor (tabs p)" if "steady p"
    using steady_next_gap [OF that g]
    by (auto simp: exec_sql_def g Let_def split: sum.splits dest: assms)
  then show "keeps_cursor p (snd (exec_sql stmt p))"
    by (simp add: keeps_cursor_def exec_sql_steady)
qed

lemma stmts_keep_cursor:
  "upsert_escrow_stmt k cid cl pr ar tk st led rp cc ti ur ha now T = Inr (u, T') \<Longrightarrow>
     indexer_cursor T' = indexer_cursor T"
  "set_escrow_status_stmt k st led now T = Inr (u, T') \<Longrightarrow> indexer_cursor T' = indexer_cursor T"
  "upsert_milestone_stmt k mid de am st dl now T = Inr (u, T') \<Longrightarrow>
     indexer_cursor T' = indexer_cursor T"
  "set_milestone_status_stmt k mid st now T = Inr (u, T') \<Longrightarrow>
     indexer_cursor T' = indexer_cursor T"
  "mark_milestone_submitted_stmt k mid uri hash t now T = Inr (u, T') \<Longrightarrow>
     indexer_cursor T' = indexer_cursor T"
  "release_milestone_stmt k mid via now T = Inr (u, T') \<Longrightarrow> indexer_cursor T' = indexer_cursor T"
  "insert_dispute_stmt k mid rb re now T = Inr (u, T') \<Longrightarrow> indexer_cursor T' = indexer_cursor T"
  "resolve_dispute_stmt k mid ki bp now T = Inr (u, T') \<Longrightarrow>
     indexer_cursor T' = indexer_cursor T"
  "read_only q now T = Inr (x, T') \<Longrightarrow> indexer_cursor T' = indexer_cursor T"
  by (auto simp: stmt_defs read_only_def bindE_Inr_iff split: option.splits if_splits)

interpretation cursor_frame:
  delivery_effects "keeps_cursor :: 'z iworld_scheme \<Rightarrow> 'z iworld_scheme \<Rightarrow> bool"
proof unfold_locales
  show "keeps_cursor u w" if "keeps_cursor u v" "keeps_cursor v w" for u v w :: "'z iworld_scheme"
    using that by (simp add: keeps_cursor_def)
  show "keeps_cursor w (w'\<lparr>outbox := ob\<rparr>)" if "keeps_cursor w w'" for w w' :: "'z iworld_scheme" and ob
    using that by (simp add: keeps_cursor_def steady_def)
qed (auto simp: keeps_cursor_def [of w w for w] upsert_escrow_def set_escrow_status_def
    upsert_milestone_def set_milestone_status_def mark_milestone_submitted_def
    release_milestone_def insert_dispute_def resolve_dispute_def list_webhooks_for_escrow_def
    intro!: effects_keeps_cursor dest: stmts_keep_cursor)

section \<open>Handling a stretch of the log\<close>

text \<open>
  \<open>idle\<close> is what a poll does beside handling events: at most one statement, which may move the
  cursor, and time passing.  \<open>handles C evs w w'\<close> says that from \<open>w\<close> to \<open>w'\<close> exactly the events
  \<open>evs\<close> were handled, each once and in this order, with only idling in between.
\<close>

definition idle :: "'z iworld_scheme \<Rightarrow> 'z iworld_scheme \<Rightarrow> bool" where
  "idle w w' \<longleftrightarrow> outbox w' = outbox w \<and> clock w \<le> clock w' \<and>
    (\<exists>n c. n \<le> 1 \<and> pending w' = drop n (pending w) \<and>
      tabs w' = (fold (\<lambda>(d, dt, others). others) (take n (pending w)) (tabs w))
        \<lparr>indexer_cursor := c\<rparr>)"

inductive handles ::
  "crates \<Rightarrow> rpc_event list \<Rightarrow> 'z iworld_scheme \<Rightarrow> 'z iworld_scheme \<Rightarrow> bool" for C where
  none: "handles C [] w w"
| one: "handles C evs w w' \<Longrightarrow> handles C (evs @ [ev]) w (snd (process_event C ev w'))"
| pause: "handles C evs w w' \<Longrightarrow> idle w' w'' \<Longrightarrow> handles C evs w w''"

lemma handles_append:
  "handles C vs v w \<Longrightarrow> handles C us u v \<Longrightarrow> handles C (us @ vs) u w"
proof (induction rule: handles.induct)
  case (one evs w w' ev)
  then show ?case using handles.one [of C "us @ evs"] by simp
qed (auto intro: handles.pause)

lemma handles_process_events:
  "handles C (filter ev_in_successful_contract_call evs) w (snd (process_events C evs w))"
proof (induction evs arbitrary: w)
  case Nil
  then show ?case by (simp add: handles.none)
next
  case (Cons ev evs)
  show ?case
  proof (cases "ev_in_successful_contract_call ev")
    case True
    have "handles C [ev] w (snd (process_event C ev w))"
      using handles.one [OF handles.none, of C ev w] by simp
    from handles_append [OF Cons.IH this] True show ?thesis
      by (simp add: case_prod_unfold Let_def)
  qed (use Cons.IH in simp)
qed

lemma idle_pool_more: "pool.more w' = pool.more w \<Longrightarrow> outbox w' = outbox (w :: 'z iworld_scheme)"
  by (cases w; cases w') simp

lemma sleep_idle: "idle w (sleep secs w)"
proof -
  have "tabs w = (tabs w)\<lparr>indexer_cursor := indexer_cursor (tabs w)\<rparr>" by simp
  then show ?thesis
    by (auto simp: idle_def sleep_def micros_def intro!: exI [of _ 0] exI [of _ "indexer_cursor (tabs w)"])
qed

lemma exec_sql_idle:
  fixes w :: "'z iworld_scheme"
  assumes "\<And>now T x T'. stmt now T = Inr (x, T') \<Longrightarrow> \<exists>c. T' = T\<lparr>indexer_cursor := c\<rparr>"
  shows "idle w (snd (exec_sql stmt w))"
proof -
  let ?w = "snd (exec_sql stmt w)"
  obtain d dt others where g: "next_gap w = (d, dt, others)" by (cases "next_gap w")
  have "others (tabs w) = fold (\<lambda>(d, dt, others). others) (take 1 (pending w)) (tabs w)"
    using g by (auto simp: next_gap_def split: list.splits)
  moreover have "\<exists>c. tabs ?w = (others (tabs w))\<lparr>indexer_cursor := c\<rparr>"
    using assms
    by (auto simp: exec_sql_def g Let_def split: delivery.splits sum.splits
        intro: exI [of _ "indexer_cursor (others (tabs w))"])
  ultimately show ?thesis
    using exec_sql_pending [of stmt w] exec_sql_clock [of w stmt] idle_pool_more [of ?w w]
    by (auto simp: idle_def intro!: exI [of _ "1 :: nat"])
qed

lemma cursor_same: "\<exists>c. T = T\<lparr>indexer_cursor := c\<rparr>"
  by (rule exI [of _ "indexer_cursor T"]) simp

lemma get_cursor_steady:
  fixes w :: "'z iworld_scheme"
  assumes "steady w" "indexer_cursor (tabs w) = Some cur"
  obtains w' where "get_cursor w = (Inr cur, w')" "steady w'" "idle w w'"
    "indexer_cursor (tabs w') = Some cur"
proof -
  let ?w = "snd (get_cursor w)"
  obtain d dt others where g: "next_gap w = (d, dt, others)" by (cases "next_gap w")
  have "get_cursor w = (Inr cur, ?w)"
    using steady_next_gap [OF assms(1) g] assms(2)
    by (simp add: get_cursor_def exec_sql_def g Let_def read_only_def)
  moreover have "idle w ?w"
    unfolding get_cursor_def by (rule exec_sql_idle)
      (auto simp: read_only_def bindE_Inr_iff intro: cursor_same)
  moreover have "keeps_cursor w ?w"
    unfolding get_cursor_def
    by (rule effectsD, rule effects_keeps_cursor) (auto dest: stmts_keep_cursor)
  ultimately show ?thesis using that assms by (simp add: keeps_cursor_def)
qed

lemma set_cursor_steady:
  fixes w :: "'z iworld_scheme"
  assumes "steady w" "indexer_cursor (tabs w) \<noteq> None"
  obtains w' where "set_cursor l c w = (Inr (), w')" "steady w'" "idle w w'"
    "indexer_cursor (tabs w') = Some (l, Some c)"
proof -
  let ?w = "snd (set_cursor l c w)"
  obtain d dt others where g: "next_gap w = (d, dt, others)" by (cases "next_gap w")
  have "set_cursor l c w = (Inr (), ?w)" "indexer_cursor (tabs ?w) = Some (l, Some c)"
    using steady_next_gap [OF assms(1) g, of "tabs w"] assms(2)
    by (auto simp: set_cursor_def exec_sql_def g Let_def set_cursor_stmt_def)
  moreover have "idle w ?w"
    unfolding set_cursor_def by (rule exec_sql_idle) (auto simp: set_cursor_stmt_def)
  moreover have "steady ?w"
    unfolding set_cursor_def by (rule exec_sql_steady [OF assms(1)])
  ultimately show ?thesis using that by simp
qed

section \<open>Polls\<close>

text \<open>
  What the RPC documents of \<open>getEvents\<close>: a cursor stands for a position in the contract's log (\<open>pos\<close>),
  a page asked for with a cursor is a stretch of the log from that position on, and the cursor to
  go on with stands for the position behind the page.  A call may also fail.
\<close>

definition serves ::
  "config \<Rightarrow> (string \<Rightarrow> nat option) \<Rightarrow> rpc_event list \<Rightarrow> rpc_client \<Rightarrow> bool" where
  "serves cfg pos log rpc \<longleftrightarrow>
    (\<forall>c n r. pos c = Some n \<longrightarrow>
      get_events rpc (escrow_contract_id cfg) None (Some c) PAGE_LIMIT = Inr r \<longrightarrow>
      ger_events r = take (length (ger_events r)) (drop n log) \<and>
      (case next_cursor r of
         None \<Rightarrow> ger_events r = []
       | Some c' \<Rightarrow> pos c' = Some (n + length (ger_events r))))"

definition started :: "(string \<Rightarrow> nat option) \<Rightarrow> nat \<Rightarrow> tables \<Rightarrow> bool" where
  "started pos n T \<longleftrightarrow> (\<exists>l c. indexer_cursor T = Some (l, Some c) \<and> pos c = Some n)"

lemma fetch_page_started:
  fixes w :: "'z iworld_scheme"
  assumes "steady w" "indexer_cursor (tabs w) = Some (l, Some c)"
  obtains w1 where
    "fetch_page rpc cfg w = (map_err IdxRpc
       (get_events rpc (escrow_contract_id cfg) None (Some c) PAGE_LIMIT), w1)"
    "steady w1" "idle w w1" "indexer_cursor (tabs w1) = Some (l, Some c)"
proof -
  obtain w1 where "get_cursor w = (Inr (l, Some c), w1)" "steady w1" "idle w w1"
      "indexer_cursor (tabs w1) = Some (l, Some c)"
    using get_cursor_steady [OF assms] .
  then show ?thesis
    by (intro that) (simp_all add: fetch_page_def run_bind run_db run_lift start_ledger_for_def)
qed

lemma poll_once_error:
  "fetch_page rpc cfg w = (Inl e, w1) \<Longrightarrow> poll_once C rpc cfg w = (Inl e, w1)"
  by (simp add: poll_once_def run_bind)

lemma poll_once_page:
  "fetch_page rpc cfg w = (Inr r, w1) \<Longrightarrow>
    snd (poll_once C rpc cfg w) = snd (advance_cursor r (snd (process_events C (ger_events r) w1)))"
  by (auto simp: poll_once_def run_bind run_ret case_prod_unfold Let_def split: sum.splits)

lemma poll_page:
  assumes "steady w" "indexer_cursor (tabs w) = Some (l, Some c)"
    and "get_events rpc (escrow_contract_id cfg) None (Some c) PAGE_LIMIT = Inr r"
  shows "handles C (filter ev_in_successful_contract_call (ger_events r)) w
      (snd (poll_once C rpc cfg w)) \<and> steady (snd (poll_once C rpc cfg w)) \<and>
    indexer_cursor (tabs (snd (poll_once C rpc cfg w))) =
      (case next_cursor r of
         None \<Rightarrow> Some (l, Some c)
       | Some c' \<Rightarrow> Some (u32_as_i64 (ger_latest_ledger r), Some c'))"
proof -
  obtain w1 where f: "fetch_page rpc cfg w = (Inr r, w1)" and w1: "steady w1" "idle w w1"
      "indexer_cursor (tabs w1) = Some (l, Some c)"
    using fetch_page_started [OF assms(1,2), of rpc cfg] assms(3) by auto
  let ?w2 = "snd (process_events C (ger_events r) w1)"
  have w2: "steady ?w2" "indexer_cursor (tabs ?w2) = Some (l, Some c)"
    using cursor_frame.process_events_effects [of w1 C "ger_events r"] w1
    by (simp_all add: keeps_cursor_def)
  have h1: "handles C [] w w1" by (rule handles.pause [OF handles.none w1(2)])
  have h2: "handles C (filter ev_in_successful_contract_call (ger_events r)) w ?w2"
    using handles_append [OF handles_process_events h1] by simp
  show ?thesis
  proof (cases "next_cursor r")
    case None
    then show ?thesis
      using h2 w2 by (simp add: poll_once_page [OF f] advance_cursor_def run_ret)
  next
    case (Some c')
    obtain w3 where "set_cursor (u32_as_i64 (ger_latest_ledger r)) c' ?w2 = (Inr (), w3)" "steady w3"
        "idle ?w2 w3"
        "indexer_cursor (tabs w3) = Some (u32_as_i64 (ger_latest_ledger r), Some c')"
      using set_cursor_steady [OF w2(1)] w2(2) by (metis option.distinct(1))
    then show ?thesis
      using handles.pause [OF h2] Some
      by (simp add: poll_once_page [OF f] advance_cursor_def run_db)
  qed
qed

text \<open>How many events the poll after cursor \<open>c\<close> brings.\<close>

definition fetched :: "rpc_client \<Rightarrow> config \<Rightarrow> string \<Rightarrow> nat" where
  "fetched rpc cfg c =
    (case get_events rpc (escrow_contract_id cfg) None (Some c) PAGE_LIMIT of
       Inl _ \<Rightarrow> 0 | Inr r \<Rightarrow> length (ger_events r))"

lemma poll_serves:
  assumes "serves cfg pos log rpc" "steady w"
    and c: "indexer_cursor (tabs w) = Some (l, Some c)" "pos c = Some n"
  shows "fetched rpc cfg c \<le> length log - n \<and>
    handles C (filter ev_in_successful_contract_call (take (fetched rpc cfg c) (drop n log))) w
      (snd (poll_once C rpc cfg w)) \<and>
    steady (snd (poll_once C rpc cfg w)) \<and>
    started pos (n + fetched rpc cfg c) (tabs (snd (poll_once C rpc cfg w)))"
proof (cases "get_events rpc (escrow_contract_id cfg) None (Some c) PAGE_LIMIT")
  case (Inl e)
  obtain w1 where "fetch_page rpc cfg w = (Inl (IdxRpc e), w1)" "steady w1" "idle w w1"
      "indexer_cursor (tabs w1) = Some (l, Some c)"
    using fetch_page_started [OF assms(2) c(1), of rpc cfg] Inl by auto
  with c Inl handles.pause [OF handles.none, of w w1 C] show ?thesis
    by (auto simp: poll_once_error started_def fetched_def)
next
  case (Inr r)
  let ?m = "length (ger_events r)"
  have page: "ger_events r = take ?m (drop n log)"
    and cur: "case next_cursor r of None \<Rightarrow> ger_events r = [] | Some c' \<Rightarrow> pos c' = Some (n + ?m)"
    using assms(1) c(2) Inr by (auto simp: serves_def)
  have le: "?m \<le> length log - n" using arg_cong [OF page, of length] by simp
  note poll = poll_page [OF assms(2) c(1) Inr, of C]
  have "started pos (n + ?m) (tabs (snd (poll_once C rpc cfg w)))"
    using poll cur c(2) by (auto simp: started_def split: option.splits)
  with poll page le Inr show ?thesis by (simp add: fetched_def)
qed

lemma sleep_keeps: "steady (sleep secs w) = steady w" "tabs (sleep secs w) = tabs w"
  by (simp_all add: sleep_def steady_def)

lemma polls_handle:
  assumes "list_all (serves cfg pos log) rpcs" "steady w" "started pos n (tabs w)"
  shows "\<exists>m. m \<le> length log - n \<and>
    handles C (filter ev_in_successful_contract_call (take m (drop n log))) w
      (run_polls C cfg rpcs w) \<and>
    started pos (n + m) (tabs (run_polls C cfg rpcs w))"
  using assms
proof (induction rpcs arbitrary: w n)
  case Nil
  then show ?case by (intro exI [of _ 0]) (simp add: handles.none)
next
  case (Cons rpc rpcs)
  let ?w1 = "sleep (indexer_poll_interval_secs cfg) (snd (poll_once C rpc cfg w))"
  obtain l c where c: "indexer_cursor (tabs w) = Some (l, Some c)" "pos c = Some n"
    using Cons.prems(3) by (auto simp: started_def)
  obtain m where m: "m \<le> length log - n"
      "handles C (filter ev_in_successful_contract_call (take m (drop n log))) w
         (snd (poll_once C rpc cfg w))"
      "steady (snd (poll_once C rpc cfg w))" "started pos (n + m) (tabs (snd (poll_once C rpc cfg w)))"
    using poll_serves [of cfg pos log rpc w l c n C] c Cons.prems by auto
  obtain m' where m': "m' \<le> length log - (n + m)"
      "handles C (filter ev_in_successful_contract_call (take m' (drop (n + m) log))) ?w1
         (run_polls C cfg rpcs ?w1)"
      "started pos (n + m + m') (tabs (run_polls C cfg rpcs ?w1))"
    using Cons.IH [of ?w1 "n + m"] Cons.prems m by (auto simp: sleep_keeps)
  have "handles C (filter ev_in_successful_contract_call (take m (drop n log)) @
      filter ev_in_successful_contract_call (take m' (drop (n + m) log))) w
      (run_polls C cfg rpcs ?w1)"
    by (rule handles_append [OF m'(2) handles.pause [OF m(2) sleep_idle]])
  moreover have "take (m + m') (drop n log) = take m (drop n log) @ take m' (drop (n + m) log)"
    by (simp only: take_add drop_drop add.commute [of m n])
  ultimately show ?case
    using m(1) m'(1,3) by (intro exI [of _ "m + m'"]) (simp add: add.assoc)
qed

section \<open>Properties\<close>

text \<open>
  C2: Exactly once and in order, as long as the database answers.  Suppose every statement is executed
  and no other task moves the cursor, whatever else it writes (\<open>steady\<close>), and the network serves the
  contract's log.  From a cursor that stands at position \<open>n\<close> of the log, any number of polls, of which
  any may fail at the network, then handles a stretch of the log that starts at \<open>n\<close>: the successful
  events of that stretch, each once and in the log's order, none left out; and the cursor then stands
  behind the stretch.  What a database that does not answer can do is the subject of \<open>Recovery\<close>.
\<close>

theorem polls_exactly_once:
  assumes "list_all (serves cfg pos log) rpcs" "steady w" "started pos n (tabs w)"
  shows "\<exists>m. m \<le> length log - n \<and>
    handles C (filter ev_in_successful_contract_call (take m (drop n log))) w
      (run_polls C cfg rpcs w) \<and>
    started pos (n + m) (tabs (run_polls C cfg rpcs w))"
  using assms by (rule polls_handle)

text \<open>A network that answers every poll with a full page, or with all that is left.\<close>

definition answers ::
  "config \<Rightarrow> (string \<Rightarrow> nat option) \<Rightarrow> rpc_event list \<Rightarrow> rpc_client \<Rightarrow> bool" where
  "answers cfg pos log rpc \<longleftrightarrow>
    (\<forall>c n. pos c = Some n \<longrightarrow>
      (case get_events rpc (escrow_contract_id cfg) None (Some c) PAGE_LIMIT of
         Inl _ \<Rightarrow> False
       | Inr r \<Rightarrow> length (ger_events r) = min (unat PAGE_LIMIT) (length log - n)))"

lemma answersD:
  assumes "answers cfg pos log rpc" "pos c = Some n"
  shows "\<exists>r. get_events rpc (escrow_contract_id cfg) None (Some c) PAGE_LIMIT = Inr r \<and>
    length (ger_events r) = min (unat PAGE_LIMIT) (length log - n)"
proof -
  have "case get_events rpc (escrow_contract_id cfg) None (Some c) PAGE_LIMIT of
      Inl _ \<Rightarrow> False | Inr r \<Rightarrow> length (ger_events r) = min (unat PAGE_LIMIT) (length log - n)"
    using assms by (simp add: answers_def)
  then show ?thesis by (simp split: sum.split_asm)
qed

text \<open>
  C14: The indexer catches up.  Suppose the database executes every statement, no other task moves the
  cursor, and the network answers every poll with a full page or all that is left.  From a cursor at
  position \<open>n\<close>, after as many polls as the log has pages of 100 events from \<open>n\<close> on, every successful
  event from \<open>n\<close> on has been handled, once and in order, and the cursor stands at the end of the log.
\<close>

theorem polls_catch_up:
  assumes "list_all (serves cfg pos log) rpcs" "list_all (answers cfg pos log) rpcs"
    and "steady w" "started pos n (tabs w)" "n \<le> length log"
    and "length log - n \<le> unat PAGE_LIMIT * length rpcs"
  shows "handles C (filter ev_in_successful_contract_call (drop n log)) w
      (run_polls C cfg rpcs w) \<and>
    started pos (length log) (tabs (run_polls C cfg rpcs w))"
  using assms
proof (induction rpcs arbitrary: w n)
  case Nil
  then show ?case by (simp add: handles.none)
next
  case (Cons rpc rpcs)
  let ?w1 = "sleep (indexer_poll_interval_secs cfg) (snd (poll_once C rpc cfg w))"
  obtain l c where c: "indexer_cursor (tabs w) = Some (l, Some c)" "pos c = Some n"
    using Cons.prems(4) by (auto simp: started_def)
  obtain r where r: "get_events rpc (escrow_contract_id cfg) None (Some c) PAGE_LIMIT = Inr r"
      "length (ger_events r) = min (unat PAGE_LIMIT) (length log - n)"
    using answersD [of cfg pos log rpc c n] Cons.prems(2) c(2) by auto
  obtain m where m: "m \<le> length log - n"
      "handles C (filter ev_in_successful_contract_call (take m (drop n log))) w
         (snd (poll_once C rpc cfg w))"
      "steady (snd (poll_once C rpc cfg w))" "started pos (n + m) (tabs (snd (poll_once C rpc cfg w)))"
      "m = min (unat PAGE_LIMIT) (length log - n)"
    using poll_serves [of cfg pos log rpc w l c n C] c Cons.prems(1,3) r by (auto simp: fetched_def)
  have rest: "handles C (filter ev_in_successful_contract_call (drop (n + m) log)) ?w1
      (run_polls C cfg rpcs ?w1) \<and> started pos (length log) (tabs (run_polls C cfg rpcs ?w1))"
    using Cons.prems m by (intro Cons.IH) (auto simp: sleep_keeps min_def split: if_splits)
  have "handles C (filter ev_in_successful_contract_call (take m (drop n log)) @
      filter ev_in_successful_contract_call (drop (n + m) log)) w (run_polls C cfg rpcs ?w1)"
    by (rule handles_append [OF conjunct1 [OF rest] handles.pause [OF m(2) sleep_idle]])
  moreover have "take m (drop n log) @ drop (n + m) log = drop n log"
    by (metis append_take_drop_id drop_drop add.commute)
  ultimately show ?case
    using rest by (simp flip: filter_append)
qed

text \<open>A \<open>getEvents\<close> request names a positive start ledger or a cursor, and never both.\<close>

definition request_cursor :: "json \<Rightarrow> json option" where
  "request_cursor params =
    Option.bind (json_field params ''pagination'') (\<lambda>p. json_field p ''cursor'')"

definition well_formed_request :: "json \<Rightarrow> bool" where
  "well_formed_request params \<longleftrightarrow>
    (case (json_field params ''startLedger'', request_cursor params) of
       (Some (JInt s), None) \<Rightarrow> 1 \<le> s
     | (None, Some (JStr c)) \<Rightarrow> True
     | _ \<Rightarrow> False)"

lemma request_cursor_events:
  "request_cursor (get_events_params_json p) = map_option JStr (gp_cursor p)"
  by (cases "gp_cursor p") (simp_all add: request_cursor_def json_field_pagination)

definition well_formed_body :: "json \<Rightarrow> bool" where
  "well_formed_body body \<longleftrightarrow>
    body = json_rpc_request ''getLatestLedger'' (JObj []) \<or>
    (\<exists>params. body = json_rpc_request ''getEvents'' params \<and> well_formed_request params)"

lemma well_formed_events_request:
  assumes "c = None \<Longrightarrow> start \<noteq> None \<and> 1 \<le> uint (the start)"
  shows "well_formed_request (get_events_params_json (events_request contract start c limit))"
  using assms
  by (cases c) (auto simp: well_formed_request_def json_field_startLedger request_cursor_events
      events_request_def)

lemma well_formed_events_body:
  "(c = None \<Longrightarrow> start \<noteq> None \<and> 1 \<le> uint (the start)) \<Longrightarrow>
    well_formed_body (json_rpc_request ''getEvents''
      (get_events_params_json (events_request contract start c limit)))"
  using well_formed_events_request by (auto simp: well_formed_body_def)

lemma start_ledger_positive:
  "start_ledger_for rpc l c = Inr start \<Longrightarrow> (c = None \<Longrightarrow> l = I64 0) \<Longrightarrow>
    (c = None \<longrightarrow> start \<noteq> None \<and> 1 \<le> uint (the start))"
proof -
  have "1 \<le> uint (max s (1 :: u32))" for s by (simp add: max_def word_le_def)
  then show "start_ledger_for rpc l c = Inr start \<Longrightarrow> (c = None \<Longrightarrow> l = I64 0) \<Longrightarrow>
      (c = None \<longrightarrow> start \<noteq> None \<and> 1 \<le> uint (the start))"
    by (auto simp: start_ledger_for_def bindE_Inr_iff)
qed

lemma get_cursor_read:
  assumes "get_cursor w = (Inr (l, c), w')" "rely w" "schema_ok (tabs w)"
  shows "c = None \<longrightarrow> l = I64 0"
proof -
  have "indexer_cursor (tabs w') = Some (l, c)"
    using assms(1) unfolding get_cursor_def
    by (elim exec_sql_InrD) (auto simp: read_only_def bindE_Inr_iff)
  moreover have "schema_ok (tabs w')"
    using schema.kept [OF effects_db_reads(6) assms(2,3)] assms(1) by simp
  ultimately show ?thesis by (auto simp: schema_ok_def cursor_ok_def)
qed

text \<open>
  C21: Well-formed requests only.  In every state the database can be in, a poll depends on the RPC
  only through its answers to \<open>getLatestLedger\<close> and to \<open>getEvents\<close> requests that name either a start
  ledger of at least 1 or a cursor, and never both: two servers that agree on those requests cannot
  be told apart.
\<close>

theorem poll_requests_well_formed:
  assumes "rely w" "schema_ok (tabs w)" "base_url rpc' = base_url rpc"
    and "parse_datetime rpc' = parse_datetime rpc"
    and "\<And>body. well_formed_body body \<Longrightarrow>
      http_post rpc' (base_url rpc) body = http_post rpc (base_url rpc) body"
  shows "poll_once C rpc' cfg w = poll_once C rpc cfg w"
proof -
  have "get_latest_ledger rpc' = get_latest_ledger rpc"
    using assms(3,5) by (simp add: get_latest_ledger_def rpc_call_def well_formed_body_def)
  then have start: "start_ledger_for rpc' l c = start_ledger_for rpc l c" for l c
    by (simp add: start_ledger_for_def)
  have same: "get_events rpc' cid st c limit = get_events rpc cid st c limit"
    if "c = None \<Longrightarrow> st \<noteq> None \<and> 1 \<le> uint (the st)" for cid st c limit
    using assms(5) [OF well_formed_events_body [of c st cid limit]] that
    by (simp add: get_events_def rpc_call_def assms(3,4))
  have "fetch_page rpc' cfg w = fetch_page rpc cfg w"
  proof (cases "get_cursor w")
    case (Pair r w1)
    show ?thesis
    proof (cases r)
      case (Inr lc)
      obtain l c where lc: "lc = (l, c)" by (cases lc)
      have "c = None \<longrightarrow> l = I64 0" using get_cursor_read [OF _ assms(1,2)] Pair Inr lc by blast
      then have "get_events rpc' cid st c limit = get_events rpc cid st c limit"
        if "start_ledger_for rpc l c = Inr st" for cid st limit
        using start_ledger_positive [OF that] same by blast
      then show ?thesis
        by (auto simp: fetch_page_def run_bind run_db run_lift Pair Inr lc start split: sum.splits)
    qed (simp add: fetch_page_def run_bind run_db Pair)
  qed
  then show ?thesis by (simp add: poll_once_def run_bind)
qed

text \<open>
  The first poll.  While the database holds no cursor, a poll asks for the events from a start ledger
  that lies 17280 ledgers behind the latest one, and not below 1.
\<close>

theorem first_poll_bootstraps:
  assumes "pending w = []" "indexer_cursor (tabs w) = Some (I64 0, None)"
    and "get_latest_ledger rpc = Inr latest"
  shows "\<exists>s. uint s = max (uint latest - 17280) 1 \<and>
    fst (fetch_page rpc cfg w) =
      map_err IdxRpc (get_events rpc (escrow_contract_id cfg) (Some s) None PAGE_LIMIT)"
proof -
  let ?s = "max (saturating_sub latest BOOTSTRAP_LOOKBACK_LEDGERS) 1"
  have "uint (saturating_sub latest BOOTSTRAP_LOOKBACK_LEDGERS) = max (uint latest - 17280) 0"
    by (auto simp: saturating_sub_def BOOTSTRAP_LOOKBACK_LEDGERS_def word_less_def uint_sub_if'
        word_le_def max_def)
  then have "uint ?s = max (uint latest - 17280) 1"
    by (auto simp: max_def word_le_def)
  moreover have "fst (fetch_page rpc cfg w) =
      map_err IdxRpc (get_events rpc (escrow_contract_id cfg) (Some ?s) None PAGE_LIMIT)"
    using assms by (simp add: fetch_page_def run_bind run_db run_lift quiet_get_cursor
        start_ledger_for_def)
  ultimately show ?thesis by blast
qed

section \<open>Examples\<close>

definition sample_config :: config where
  "sample_config =
    \<lparr>database_url = ''postgres://db'', jwt_secret = ''jwt'', soroban_rpc_url = ''https://rpc'',
     escrow_contract_id = ''CESCROW'', port = 8080, indexer_poll_interval_secs = 5\<rparr>"

text \<open>A network with two events: the cursor \<open>start\<close> stands before them, \<open>end\<close> behind them.\<close>

definition sample_pos :: "string \<Rightarrow> nat option" where
  "sample_pos = [''start'' \<mapsto> 0, ''end'' \<mapsto> 2]"

definition sample_result :: "rpc_event list \<Rightarrow> (string \<times> json) list" where
  "sample_result evs =
    [(''events'', JArr (map JObj (map sample_event_fields evs))), (''cursor'', JStr ''end''),
     (''latestLedger'', JInt 20000), (''oldestLedger'', JInt 1)]"

definition sample_rpc :: rpc_client where
  "sample_rpc =
    \<lparr>base_url = ''https://rpc'',
     http_post = (\<lambda>url body. Inr (JObj
       [(''jsonrpc'', JStr ''2.0''), (''id'', JInt 1), (''result'', JObj
          (if body = json_rpc_request ''getLatestLedger'' (JObj [])
           then [(''id'', JStr ''feed''), (''sequence'', JInt 20000)]
           else sample_result
             (if body = json_rpc_request ''getEvents'' (get_events_params_json
                (events_request ''CESCROW'' None (Some ''start'') PAGE_LIMIT))
              then sample_page else [])))])),
     parse_datetime = sample_parse_time\<rparr>"

lemma sample_events_read:
  "list_all (\<lambda>ev. ev_ledger_closed_at ev = 1000000) evs \<Longrightarrow>
    list_all2 (event_fields sample_parse_time) (map sample_event_fields evs) evs"
  by (auto simp: list.rel_map list_all_iff intro!: list.rel_refl_strong sample_event_fields_read)

lemma sample_result_read:
  assumes "list_all (\<lambda>ev. ev_ledger_closed_at ev = 1000000) evs"
  shows "get_events_result_of_json sample_parse_time (JObj (sample_result evs)) =
    Some \<lparr>ger_events = evs, ger_latest_ledger = 20000, ger_cursor = Some ''end''\<rparr>"
  by (subst get_events_result_of_object [of _ "map sample_event_fields evs"])
    (simp_all add: sample_result_def sample_events_read [OF assms])

lemma sample_page_closed: "list_all (\<lambda>ev. ev_ledger_closed_at ev = 1000000) sample_page"
  by (simp add: sample_page_def sample_event_def)

lemma sample_rpc_events:
  "get_events sample_rpc ''CESCROW'' None (Some c) PAGE_LIMIT = Inr
    \<lparr>ger_events = (if c = ''start'' then sample_page else []), ger_latest_ledger = 20000,
     ger_cursor = Some ''end''\<rparr>"
proof (rule get_events_of_object [THEN iffD2])
  let ?evs = "if c = ''start'' then sample_page else []"
  show "http_post sample_rpc (base_url sample_rpc) (json_rpc_request ''getEvents''
      (get_events_params_json (events_request ''CESCROW'' None (Some c) PAGE_LIMIT))) =
    Inr (JObj [(''jsonrpc'', JStr ''2.0''), (''id'', JInt 1),
      (''result'', JObj (sample_result ?evs))])"
    by (simp add: sample_rpc_def json_rpc_request_def get_events_params_json_def events_request_def)
  show "get_events_result_of_json (parse_datetime sample_rpc) (JObj (sample_result ?evs)) =
      Some \<lparr>ger_events = ?evs, ger_latest_ledger = 20000, ger_cursor = Some ''end''\<rparr>"
    using sample_result_read [of ?evs] sample_page_closed by (simp add: sample_rpc_def)
qed simp_all


lemma sample_rpc_latest: "get_latest_ledger sample_rpc = Inr 20000"
  by (simp add: get_latest_ledger_def rpc_call_def sample_rpc_def json_rpc_response_of_json_def
      struct_fields_def optional_def required_def de_option_def get_latest_ledger_result_of_json_def
      de_u32_def)

lemma sample_rpc_serves: "serves sample_config sample_pos sample_page sample_rpc"
  by (auto simp: serves_def sample_config_def sample_rpc_events sample_pos_def next_cursor_def
      sample_page_def split: if_splits)

lemma unat_PAGE_LIMIT: "unat PAGE_LIMIT = 100"
  by (simp add: PAGE_LIMIT_def)

lemma sample_page_length: "length sample_page = 2"
  by (simp add: sample_page_def)

lemma sample_rpc_answers: "answers sample_config sample_pos sample_page sample_rpc"
  by (auto simp: answers_def sample_config_def sample_rpc_events sample_pos_def
      sample_page_def unat_PAGE_LIMIT split: if_splits)

definition sample_feed_world :: iworld where
  "sample_feed_world =
    sample_world\<lparr>tabs := (tabs sample_world)\<lparr>indexer_cursor := Some (I64 5, Some ''start'')\<rparr>\<rparr>"

lemma sample_feed_world_started:
  "steady sample_feed_world" "started sample_pos 0 (tabs sample_feed_world)"
  by (simp_all add: sample_feed_world_def sample_world_def steady_def started_def sample_pos_def)

theorem polls_exactly_once_witness:
  "\<exists>m. m \<le> length sample_page - 0 \<and>
    handles sample_crates
      (filter ev_in_successful_contract_call (take m (drop 0 sample_page))) sample_feed_world
      (run_polls sample_crates sample_config [sample_rpc, sample_rpc] sample_feed_world) \<and>
    started sample_pos (0 + m)
      (tabs (run_polls sample_crates sample_config [sample_rpc, sample_rpc] sample_feed_world))"
  by (rule polls_exactly_once [OF _ sample_feed_world_started])
    (simp add: sample_rpc_serves)

theorem polls_catch_up_witness:
  "handles sample_crates (filter ev_in_successful_contract_call (drop 0 sample_page))
     sample_feed_world (run_polls sample_crates sample_config [sample_rpc] sample_feed_world) \<and>
   started sample_pos (length sample_page)
     (tabs (run_polls sample_crates sample_config [sample_rpc] sample_feed_world))"
  by (rule polls_catch_up [OF _ _ sample_feed_world_started])
    (simp_all add: sample_rpc_serves sample_rpc_answers sample_page_length unat_PAGE_LIMIT)

theorem poll_requests_well_formed_witness:
  "poll_once sample_crates (sample_rpc\<lparr>http_post := (\<lambda>url body.
      if well_formed_body body then http_post sample_rpc url body else Inl SendFailed)\<rparr>)
      sample_config sample_world =
    poll_once sample_crates sample_rpc sample_config sample_world"
proof (rule poll_requests_well_formed [OF _ sample_world_schema])
  show "rely sample_world" by (simp add: rely_def sample_world_pending)
qed simp_all

theorem first_poll_bootstraps_witness:
  "\<exists>s. uint s = max (uint (20000 :: u32) - 17280) 1 \<and>
    fst (fetch_page sample_rpc sample_config sample_world) =
      map_err IdxRpc (get_events sample_rpc (escrow_contract_id sample_config) (Some s) None
        PAGE_LIMIT)"
  by (rule first_poll_bootstraps [OF sample_world_pending])
    (simp_all add: sample_world_def migrated_def sample_rpc_latest)

end
