(* ===== verification/Recovery.thy ===== *)
theory Recovery
  imports Replay Feed
begin

text \<open>
  Whole polls on a bad connection.  A poll that is cut short before it moved the cursor is made good by
  the next one, which fetches the page again; an event whose statement is lost in a poll that does
  move the cursor is never handled again.
\<close>

section \<open>An event that is lost\<close>

lemma send_lost:
  "pending w = [(LostBefore, dt, id)] \<Longrightarrow>
    send x w = (Inl ConnectionLost, w\<lparr>pending := [], clock := clock w + int dt\<rparr>)"
  by (simp add: send_def exec_sql_def next_gap_def Let_def)

lemma process_event_lost:
  assumes "pending w = [(LostBefore, dt, id)]" "writes_of C ev \<noteq> []"
  shows "tabs (snd (process_event C ev w)) = tabs w \<and> pending (snd (process_event C ev w)) = []"
proof -
  obtain name k data where h: "event_header C ev = Inr (name, k, data)"
    using assms(2) by (cases "event_header C ev") (auto simp: writes_of_def)
  obtain x xs where xs: "arm_writes C ev name k data = x # xs"
    using assms(2) by (cases "arm_writes C ev name k data") (auto simp: writes_of_def h)
  obtain r w1 where d: "dispatch C ev name k (u32_as_i64 (ev_ledger ev)) data w = (r, w1)"
    by fastforce
  have w1: "w1 = w\<lparr>pending := [], clock := clock w + int dt\<rparr>"
    using dispatch_sends [of C ev name k data w]
    by (simp add: d xs run_bind send_lost [OF assms(1)])
  show ?thesis
    by (cases r) (auto simp: process_event_dispatch [OF h] d w1 quiet_notify_webhooks
        split: bool.splits)
qed

lemma handles_stamp:
  assumes "handles C evs w w'" "pending w = []" "escrow_stamp (tabs w) k = Some (v, l)"
    and "\<And>ev st led. ev \<in> set evs \<Longrightarrow> status_update C ev \<noteq> Some (k, st, led)"
  shows "pending w' = [] \<and> escrow_stamp (tabs w') k = Some (v, l)"
  using assms
proof (induction rule: handles.induct)
  case (one evs w w' ev)
  then have w': "pending w' = []" "escrow_stamp (tabs w') k = Some (v, l)" by auto
  have "status_update C ev \<noteq> Some (k, st, led)" for st led using one.prems(3) by simp
  then show ?case
    using process_event_stamp [OF w', of C ev] quiet_kept [OF effects_process_event w'(1)]
    by (auto split: option.splits)
next
  case (pause evs w w' w'')
  then show ?case by (auto simp: idle_def escrow_stamp_def)
qed simp

text \<open>
  C20: A lost event stays lost.  If the connection loses the first statement in the handling of a
  page's first event and then works again, the poll still moves the cursor behind the page.  However
  many polls follow, an escrow that has a row keeps the status and ledger it had, provided no other
  event of the page and no event of the log behind it sets that status: the lost event is not handled
  again.
\<close>

theorem lost_event_stays_lost:
  assumes "pending w = [(Healthy, 0, id), (LostBefore, dt, id)]"
    and "indexer_cursor (tabs w) = Some (l, Some c)"
    and "get_events rpc (escrow_contract_id cfg) None (Some c) PAGE_LIMIT = Inr r"
    and "ger_events r = ev # vs" "ev_in_successful_contract_call ev" "writes_of C ev \<noteq> []"
    and "next_cursor r = Some c'" "pos c' = Some n" "list_all (serves cfg pos log) rpcs"
    and "escrow_stamp (tabs w) k \<noteq> None"
    and "\<And>ev' st led. ev' \<in> set vs \<union> set (drop n log) \<Longrightarrow>
      status_update C ev' \<noteq> Some (k, st, led)"
  shows "indexer_cursor (tabs (snd (poll_once C rpc cfg w))) =
      Some (u32_as_i64 (ger_latest_ledger r), Some c') \<and>
    escrow_stamp (tabs (run_polls C cfg (rpc # rpcs) w)) k = escrow_stamp (tabs w) k"
proof -
  obtain v led where stamp: "escrow_stamp (tabs w) k = Some (v, led)" using assms(10) by auto
  let ?w1 = "w\<lparr>pending := [(LostBefore, dt, id)]\<rparr>"
  have "get_cursor w = (Inr (l, Some c), ?w1)"
    using assms(1,2) by (simp add: get_cursor_def exec_sql_def next_gap_def read_only_def)
  then have fetch: "fetch_page rpc cfg w = (Inr r, ?w1)"
    using assms(3) by (simp add: fetch_page_def run_bind run_db run_lift start_ledger_for_def)
  define w2 where "w2 = snd (process_event C ev ?w1)"
  have w2: "tabs w2 = tabs w" "pending w2 = []"
    using process_event_lost [of ?w1 dt C ev] assms(6) by (simp_all add: w2_def)
  define w3 where "w3 = snd (process_events C vs w2)"
  have "handles C (filter ev_in_successful_contract_call vs) w2 w3"
    unfolding w3_def by (rule handles_process_events)
  from handles_stamp [OF this w2(2), of k v led] have
    w3: "pending w3 = []" "escrow_stamp (tabs w3) k = Some (v, led)"
    using assms(11) by (auto simp: w2(1) stamp)
  have "snd (process_events C (ger_events r) ?w1) = w3"
    using assms(5) by (simp add: assms(4) w3_def w2_def case_prod_unfold Let_def)
  then have poll: "snd (poll_once C rpc cfg w) = snd (advance_cursor r w3)"
    by (simp add: poll_once_page [OF fetch])
  have "keeps_cursor w2 w3"
    unfolding w3_def by (rule cursor_frame.process_events_effects)
  then have "indexer_cursor (tabs w3) = Some (l, Some c)"
    using w2 assms(2) by (simp add: keeps_cursor_def)
  then have w4: "pending (snd (poll_once C rpc cfg w)) = []"
      "escrow_stamp (tabs (snd (poll_once C rpc cfg w))) k = Some (v, led)"
      "indexer_cursor (tabs (snd (poll_once C rpc cfg w))) =
        Some (u32_as_i64 (ger_latest_ledger r), Some c')"
      "started pos n (tabs (snd (poll_once C rpc cfg w)))"
    using w3 assms(7,8)
    by (simp_all add: poll advance_cursor_def run_db quiet_simps started_def escrow_stamp_def)
  let ?w5 = "sleep (indexer_poll_interval_secs cfg) (snd (poll_once C rpc cfg w))"
  obtain m where "handles C (filter ev_in_successful_contract_call (take m (drop n log))) ?w5
      (run_polls C cfg rpcs ?w5)"
    using polls_handle [OF assms(9), of ?w5 n C] w4 by (auto simp: sleep_keeps)
  from handles_stamp [OF this, of k v led] show ?thesis
    using w4 assms(11) by (auto simp: sleep_def stamp dest: in_set_takeD)
qed

section \<open>Polls that are cut short\<close>

text \<open>A poll on a connection that does what \<open>gaps\<close> says, beside a task that writes webhooks only.\<close>

definition poll_on ::
  "crates \<Rightarrow> config \<Rightarrow> rpc_client \<times> gap list \<Rightarrow> 'z iworld_scheme \<Rightarrow> 'z iworld_scheme" where
  "poll_on C cfg = (\<lambda>(rpc, gaps) w. snd (poll_once C rpc cfg (w\<lparr>pending := gaps\<rparr>)))"

definition webhooks_only :: "gap list \<Rightarrow> bool" where
  "webhooks_only gaps \<longleftrightarrow> undisturbed gaps \<and>
    (\<forall>(d, dt, others) \<in> set gaps. \<forall>T. indexer_cursor (others T) = indexer_cursor T)"

lemma webhooks_only_cursor:
  "webhooks_only (pending p) \<Longrightarrow> next_gap p = (d, dt, others) \<Longrightarrow>
    indexer_cursor (others T) = indexer_cursor T"
  by (auto simp: webhooks_only_def next_gap_def split: list.splits)

lemma fetch_page_moves:
  "effects (moves us) (fetch_page rpc cfg :: ('z iworld_scheme, _, _) eff)"
proof -
  have "effects (moves us) (db get_cursor :: ('z iworld_scheme, _, _) eff)"
    unfolding db_def get_cursor_def
    by (intro moves.effects_map_errS effects_moves)
      (auto simp: read_only_def bindE_Inr_iff partly_refl)
  then show ?thesis
    unfolding fetch_page_def
    by (auto intro!: moves.effects_bind moves.effects_lift split: prod.split)
qed

lemma advance_cursor_moves:
  "effects (moves us) (advance_cursor r :: ('z iworld_scheme, _, _) eff)"
proof -
  have "effects (moves us) (db (set_cursor l c) :: ('z iworld_scheme, _, _) eff)" for l c
    unfolding db_def set_cursor_def
    by (intro moves.effects_map_errS effects_moves)
      (auto simp: set_cursor_stmt_def intro!: partly_same)
  then show ?thesis
    unfolding advance_cursor_def by (auto intro: moves.effects_ret split: option.split)
qed

text \<open>What a poll fetches depends on the cursor only.\<close>

lemma fetch_page_at:
  assumes "fetch_page rpc cfg w = (Inr r, w1)" "webhooks_only (pending w)"
    and "indexer_cursor (tabs w) = Some (l, Some c)"
  shows "get_events rpc (escrow_contract_id cfg) None (Some c) PAGE_LIMIT = Inr r"
proof -
  obtain lc w2 where g: "get_cursor w = (Inr lc, w2)"
    using assms(1) by (cases "get_cursor w") (auto simp: fetch_page_def run_bind run_db split: sum.splits)
  obtain d dt others where gap: "next_gap w = (d, dt, others)" by (cases "next_gap w")
  have "lc = (l, Some c)"
    using g webhooks_only_cursor [OF assms(2) gap, of "tabs w"] assms(3)
    unfolding get_cursor_def by (elim exec_sql_InrD) (auto simp: gap read_only_def bindE_Inr_iff)
  with assms(1) show ?thesis
    by (auto simp: fetch_page_def run_bind run_db run_lift g start_ledger_for_def)
qed

lemma poll_on_partly:
  fixes w :: "'z iworld_scheme"
  assumes "serves cfg pos log rpc" "webhooks_only gaps" "fetched rpc cfg c \<le> m"
    and "indexer_cursor (tabs w) = Some (l, Some c)" "pos c = Some n"
  shows "partly (page_writes C (take m (drop n log))) (tabs w) (tabs (poll_on C cfg (rpc, gaps) w))"
proof -
  let ?us = "page_writes C (take m (drop n log))" and ?w = "w\<lparr>pending := gaps\<rparr>"
  obtain res w1 where f: "fetch_page rpc cfg ?w = (res, w1)" by fastforce
  have first: "moves ?us ?w w1" using effectsD [OF fetch_page_moves, of ?us ?w rpc cfg] f by simp
  have "moves ?us ?w (poll_on C cfg (rpc, gaps) w)"
  proof (cases res)
    case (Inl e)
    then show ?thesis using first f by (simp add: poll_on_def poll_once_error)
  next
    case (Inr r)
    have r: "get_events rpc (escrow_contract_id cfg) None (Some c) PAGE_LIMIT = Inr r"
      by (rule fetch_page_at [where w = ?w]) (use f Inr assms(2,4) in simp_all)
    then have page: "ger_events r = take (length (ger_events r)) (drop n log)"
        "length (ger_events r) \<le> m"
      using assms(1,3,5) by (auto simp: serves_def fetched_def)
    have "set (ger_events r) \<subseteq> set (take m (drop n log))"
      using set_take_subset_set_take [OF page(2), of "drop n log"] page(1) by simp
    then have second: "moves ?us w1 (snd (process_events C (ger_events r) w1))"
      by (intro events_move) (auto simp: page_writes_def)
    show ?thesis
      unfolding poll_on_def using f Inr
      by (simp add: poll_once_page)
        (rule moves.trans [OF moves.trans [OF first second] effectsD [OF advance_cursor_moves]])
  qed
  then show ?thesis
    using assms(2) by (simp add: moves_def webhooks_only_def)
qed

text \<open>The polls leave the cursor where it is.\<close>

fun stuck :: "crates \<Rightarrow> config \<Rightarrow> (rpc_client \<times> gap list) list \<Rightarrow> 'z iworld_scheme \<Rightarrow> bool" where
  "stuck C cfg [] w = True"
| "stuck C cfg (x # xs) w =
    (indexer_cursor (tabs (poll_on C cfg x w)) = indexer_cursor (tabs w) \<and>
     stuck C cfg xs (poll_on C cfg x w))"

lemma stuck_partly:
  assumes "list_all (\<lambda>(rpc, gaps). serves cfg pos log rpc \<and> webhooks_only gaps \<and>
      fetched rpc cfg c \<le> m) polls"
    and "stuck C cfg polls w" "indexer_cursor (tabs w) = Some (l, Some c)" "pos c = Some n"
  shows "partly (page_writes C (take m (drop n log))) (tabs w)
      (tabs (fold (poll_on C cfg) polls w)) \<and>
    indexer_cursor (tabs (fold (poll_on C cfg) polls w)) = Some (l, Some c)"
  using assms(1-3)
proof (induction polls arbitrary: w)
  case (Cons x polls)
  obtain rpc gaps where x: "x = (rpc, gaps)" by (cases x)
  have "partly (page_writes C (take m (drop n log))) (tabs w) (tabs (poll_on C cfg x w))"
    unfolding x
    by (rule poll_on_partly [where pos = pos and c = c])
      (use Cons.prems assms(4) in \<open>simp_all add: x\<close>)
  with Cons show ?case by (auto intro: partly_trans)
qed (simp add: partly_refl)

lemma quiet_poll_tabs:
  fixes w :: "'z iworld_scheme"
  assumes "indexer_cursor (tabs w) = Some (l, Some c)"
    and "get_events rpc (escrow_contract_id cfg) None (Some c) PAGE_LIMIT = Inr r"
  shows "\<exists>cur. tabs (poll_on C cfg (rpc, []) w) =
    (fold (after (clock w)) (page_writes C (ger_events r)) (tabs w))\<lparr>indexer_cursor := cur\<rparr>"
proof -
  let ?w = "w\<lparr>pending := []\<rparr>"
  have "fetch_page rpc cfg ?w = (Inr r, ?w)"
    using assms by (simp add: fetch_page_def run_bind run_db run_lift quiet_simps
        start_ledger_for_def)
  then have poll: "poll_on C cfg (rpc, []) w =
      snd (advance_cursor r (snd (process_events C (ger_events r) ?w)))"
    by (simp add: poll_on_def poll_once_page)
  have quiet: "pending (snd (process_events C (ger_events r) ?w)) = []"
    using quiet_kept [OF effects_process_event] still_frame.process_events_effects [of ?w]
    by (simp add: still_def)
  have "\<exists>cur. tabs (snd (advance_cursor r v)) = (tabs v)\<lparr>indexer_cursor := cur\<rparr>"
    if "pending v = []" for v :: "'z iworld_scheme"
    using that by (auto simp: advance_cursor_def run_ret run_db quiet_simps split: option.split)
      (metis tables.surjective tables.update_convs(5))
  from this [OF quiet] show ?thesis
    by (simp add: poll page_tabs)
qed

lemma settled_cursor: "settled (T\<lparr>indexer_cursor := cur\<rparr>) = settled T"
  by (simp add: settled_def escrow_at_def [abs_def] milestone_at_def [abs_def]
      dispute_at_def [abs_def])

text \<open>
  C4: Polls that were cut short are made good.  Let any number of polls run on connections that lose
  any statements before or after the server runs them, beside a task that writes webhooks, and none
  of them get as far as moving the cursor.  The next poll on a good connection then leaves every
  escrow, milestone and dispute row as if it had been the only one, but for the columns filled by the
  database's clock, provided that its page is at least as long as theirs and orderly: no statement of
  the page inserts a row that an earlier statement of the page already used, as where a dispute is
  raised a second time over one milestone.
\<close>

theorem interrupted_polls_repaired:
  assumes "list_all (\<lambda>(rpc', gaps). serves cfg pos log rpc' \<and> webhooks_only gaps \<and>
      fetched rpc' cfg c \<le> length (ger_events r)) polls"
    and "stuck C cfg polls w" "indexer_cursor (tabs w) = Some (l, Some c)" "pos c = Some n"
    and "serves cfg pos log rpc"
    and "get_events rpc (escrow_contract_id cfg) None (Some c) PAGE_LIMIT = Inr r"
    and "orderly (page_writes C (ger_events r))"
  shows "settled (tabs (poll_on C cfg (rpc, []) (fold (poll_on C cfg) polls w))) =
    settled (tabs (poll_on C cfg (rpc, []) w))"
proof -
  let ?w = "fold (poll_on C cfg) polls w"
  have page: "take (length (ger_events r)) (drop n log) = ger_events r"
    using assms(4-6) by (auto simp: serves_def)
  have w: "partly (page_writes C (ger_events r)) (tabs w) (tabs ?w)"
      "indexer_cursor (tabs ?w) = Some (l, Some c)"
    using stuck_partly [OF assms(1-4)] by (simp_all add: page)
  obtain cur where "tabs (poll_on C cfg (rpc, []) w) =
      (fold (after (clock w)) (page_writes C (ger_events r)) (tabs w))\<lparr>indexer_cursor := cur\<rparr>"
    using quiet_poll_tabs [OF assms(3,6)] by blast
  moreover obtain cur' where "tabs (poll_on C cfg (rpc, []) ?w) =
      (fold (after (clock ?w)) (page_writes C (ger_events r)) (tabs ?w))\<lparr>indexer_cursor := cur'\<rparr>"
    using quiet_poll_tabs [OF w(2) assms(6)] by blast
  ultimately show ?thesis
    using tables_repaired [OF assms(7) w(1)] by (simp add: settled_cursor)
qed

section \<open>Examples\<close>

text \<open>A log with one event, and a network that serves it.\<close>

definition sample_place :: "string \<Rightarrow> nat option" where
  "sample_place = [''start'' \<mapsto> 0, ''end'' \<mapsto> 1]"

definition sample_short_rpc :: rpc_client where
  "sample_short_rpc = sample_rpc\<lparr>http_post := (\<lambda>url body. Inr (JObj
     [(''result'', JObj (sample_result
        (if body = json_rpc_request ''getEvents'' (get_events_params_json
           (events_request ''CESCROW'' None (Some ''start'') PAGE_LIMIT))
         then [sample_funded] else [])))]))\<rparr>"

lemma sample_short_rpc_events:
  "get_events sample_short_rpc ''CESCROW'' None (Some c) PAGE_LIMIT = Inr
    \<lparr>ger_events = (if c = ''start'' then [sample_funded] else []), ger_latest_ledger = 20000,
     ger_cursor = Some ''end''\<rparr>"
proof (rule get_events_of_object [THEN iffD2])
  let ?evs = "if c = ''start'' then [sample_funded] else []"
  show "http_post sample_short_rpc (base_url sample_short_rpc) (json_rpc_request ''getEvents''
      (get_events_params_json (events_request ''CESCROW'' None (Some c) PAGE_LIMIT))) =
    Inr (JObj [(''result'', JObj (sample_result ?evs))])"
    by (simp add: sample_short_rpc_def json_rpc_request_def get_events_params_json_def
        events_request_def)
  show "get_events_result_of_json (parse_datetime sample_short_rpc) (JObj (sample_result ?evs)) =
      Some \<lparr>ger_events = ?evs, ger_latest_ledger = 20000, ger_cursor = Some ''end''\<rparr>"
    using sample_result_read [of ?evs]
    by (simp add: sample_short_rpc_def sample_rpc_def sample_funded_def sample_event_def)
qed simp_all

lemma sample_short_rpc_serves:
  "serves sample_config sample_place [sample_funded] sample_short_rpc"
  by (auto simp: serves_def sample_config_def sample_short_rpc_events sample_place_def
      next_cursor_def split: if_splits)

lemma sample_funded_writes:
  "writes_of sample_crates sample_funded = [SetEscrowStatus (I64 1) ''funded'' (I64 6)]"
  by (simp add: writes_of_def sample_funded_header arm_writes_def)
    (simp add: sample_funded_def sample_event_def u32_as_i64_def)

lemma sample_feed_cursor: "indexer_cursor (tabs sample_feed_world) = Some (I64 5, Some ''start'')"
  by (simp add: sample_feed_world_def)

theorem lost_event_stays_lost_witness:
  "indexer_cursor (tabs (snd (poll_once sample_crates sample_short_rpc sample_config
      (sample_feed_world\<lparr>pending := [(Healthy, 0, id), (LostBefore, 3, id)]\<rparr>)))) =
      Some (u32_as_i64 (ger_latest_ledger \<lparr>ger_events = [sample_funded],
        ger_latest_ledger = 20000, ger_cursor = Some ''end''\<rparr>), Some ''end'') \<and>
    escrow_stamp (tabs (run_polls sample_crates sample_config [sample_short_rpc, sample_short_rpc]
      (sample_feed_world\<lparr>pending := [(Healthy, 0, id), (LostBefore, 3, id)]\<rparr>))) (I64 1) =
    escrow_stamp (tabs (sample_feed_world\<lparr>pending := [(Healthy, 0, id), (LostBefore, 3, id)]\<rparr>))
      (I64 1)"
proof (rule lost_event_stays_lost [where ev = sample_funded and vs = "[]"])
  show "get_events sample_short_rpc (escrow_contract_id sample_config) None (Some ''start'')
      PAGE_LIMIT = Inr \<lparr>ger_events = [sample_funded], ger_latest_ledger = 20000,
        ger_cursor = Some ''end''\<rparr>"
    by (simp add: sample_config_def sample_short_rpc_events)
  show "list_all (serves sample_config sample_place [sample_funded]) [sample_short_rpc]"
    by (simp add: sample_short_rpc_serves)
  show "sample_place ''end'' = Some 1" by (simp add: sample_place_def)
  show "escrow_stamp (tabs (sample_feed_world\<lparr>pending := [(Healthy, 0, id), (LostBefore, 3, id)]\<rparr>))
      (I64 1) \<noteq> None"
    by (simp add: sample_feed_world_def sample_world_def escrow_stamp_def find_by_def)
  show "ev_in_successful_contract_call sample_funded"
    by (simp add: sample_funded_def sample_event_def)
qed (simp_all add: sample_feed_cursor sample_funded_writes next_cursor_def)

definition sample_cut_short :: "(rpc_client \<times> gap list) list" where
  "sample_cut_short = [(sample_short_rpc, [(LostBefore, 0, id)]),
     (sample_short_rpc, [(Healthy, 0, id), (LostAfter, 3, id), (LostBefore, 0, id)])]"

lemma sample_stuck: "stuck sample_crates sample_config sample_cut_short sample_feed_world"
proof -
  let ?w = "sample_feed_world\<lparr>pending := []\<rparr>"
  have 1: "poll_on sample_crates sample_config (sample_short_rpc, [(LostBefore, 0, id)])
      sample_feed_world = ?w"
    by (simp add: poll_on_def poll_once_def fetch_page_def run_bind run_db get_cursor_def
        exec_sql_def Let_def next_gap_def sample_feed_world_def sample_world_def)
  have ev: "ev_in_successful_contract_call sample_funded"
    by (simp add: sample_funded_def sample_event_def)
  have "indexer_cursor (tabs (poll_on sample_crates sample_config (sample_short_rpc,
      [(Healthy, 0, id), (LostAfter, 3, id), (LostBefore, 0, id)]) ?w)) =
    Some (I64 5, Some ''start'')"
    by (simp add: poll_on_def poll_once_def fetch_page_def run_bind run_db run_lift get_cursor_def
        exec_sql_def Let_def next_gap_def sample_feed_cursor read_only_def start_ledger_for_def
        sample_short_rpc_events sample_config_def ev process_event_dispatch [OF sample_funded_header]
        dispatch_arm set_escrow_status_def set_escrow_status_stmt_def advance_cursor_def
        next_cursor_def set_cursor_def)
  then show ?thesis by (simp add: sample_cut_short_def 1 sample_feed_cursor)
qed

theorem interrupted_polls_repaired_witness:
  "settled (tabs (poll_on sample_crates sample_config (sample_short_rpc, [])
      (fold (poll_on sample_crates sample_config) sample_cut_short sample_feed_world))) =
    settled (tabs (poll_on sample_crates sample_config (sample_short_rpc, []) sample_feed_world))"
proof (rule interrupted_polls_repaired)
  let ?r = "\<lparr>ger_events = [sample_funded], ger_latest_ledger = 20000, ger_cursor = Some ''end''\<rparr>"
  show "get_events sample_short_rpc (escrow_contract_id sample_config) None (Some ''start'')
      PAGE_LIMIT = Inr ?r"
    by (simp add: sample_config_def sample_short_rpc_events)
  show "list_all (\<lambda>(rpc', gaps). serves sample_config sample_place [sample_funded] rpc' \<and>
      webhooks_only gaps \<and> fetched rpc' sample_config ''start'' \<le> length (ger_events ?r))
    sample_cut_short"
    by (simp add: sample_cut_short_def sample_short_rpc_serves webhooks_only_def undisturbed_def
        fetched_def)
      (simp add: sample_config_def sample_short_rpc_events)
  show "orderly (page_writes sample_crates (ger_events ?r))"
    by (simp add: page_writes_def sample_funded_writes)
  show "sample_place ''start'' = Some 0" by (simp add: sample_place_def)
qed (simp_all add: sample_stuck sample_feed_cursor sample_short_rpc_serves)

end
