(* ===== verification/Errors.thy ===== *)
theory Errors
  imports Db
begin

text \<open>
  \<open>src/error.rs\<close>: the API's error type and the HTTP response it becomes.  The two variants that
  wrap another error answer with a fixed text.
\<close>

datatype app_error =
    NotFound
  | BadRequest string
  | Unauthorized string
  | Forbidden string
  | Database db_error
  | Internal string

text \<open>The status and the message of each variant, with the \<open>#[error(...)]\<close> text of the first four.\<close>

definition into_response :: "app_error \<Rightarrow> nat \<times> json" where
  "into_response e =
    (let (status, message) =
       (case e of
          NotFound \<Rightarrow> (404, ''not found'')
        | BadRequest m \<Rightarrow> (400, ''bad request: '' @ m)
        | Unauthorized m \<Rightarrow> (401, ''unauthorized: '' @ m)
        | Forbidden m \<Rightarrow> (403, ''forbidden: '' @ m)
        | Database _ \<Rightarrow> (500, ''internal server error'')
        | Internal _ \<Rightarrow> (500, ''internal server error''))
     in (status, JObj [(''error'', JStr message)]))"

text \<open>A handler's database call followed by \<open>?\<close>.\<close>

definition query :: "('w, db_error, 'a) eff \<Rightarrow> ('w, app_error, 'a) eff" where
  "query m = map_errS Database m"

end
