(* ===== verification/Auth.thy ===== *)
theory Auth
  imports Errors
begin

text \<open>
  \<open>src/auth.rs\<close> and \<open>src/api/auth.rs\<close>: wallet challenges, signature verification, tokens, the
  bearer extractor, and the two handlers that use them.  Key parsing, ed25519, base64 and the
  token codec are the crates' own and parameters here; the challenge store is the source's.
\<close>

section \<open>The crates\<close>

record claims =
  claims_sub :: string
  claims_exp :: u64

text \<open>
  \<open>jwt_decode\<close> takes the time at which the expiry is checked, the secret and the token;
  \<open>jwt_encode\<close> the secret and the claims, \<open>Inl\<close> for its error.
\<close>

record 'vk auth_crates =
  public_key_from_string :: "string \<Rightarrow> bytes option"
  verifying_key_from_bytes :: "bytes \<Rightarrow> 'vk option"
  ed25519_verify :: "'vk \<Rightarrow> bytes \<Rightarrow> bytes \<Rightarrow> bool"
  base64_decode :: "string \<Rightarrow> bytes option"
  jwt_encode :: "bytes \<Rightarrow> claims \<Rightarrow> string + string"
  jwt_decode :: "datetime \<Rightarrow> bytes \<Rightarrow> string \<Rightarrow> claims option"

section \<open>Challenges\<close>

definition CHALLENGE_TTL_SECS :: int where "CHALLENGE_TTL_SECS = 300"
definition JWT_TTL_SECS :: int where "JWT_TTL_SECS = 3600"

type_synonym challenge_store = "string \<rightharpoonup> string \<times> datetime"

definition new_store :: challenge_store where
  "new_store = Map.empty"

text \<open>\<open>nonce_bytes\<close> is what the random generator filled the buffer with.\<close>

definition issue ::
  "crates \<Rightarrow> bytes \<Rightarrow> datetime \<Rightarrow> string \<Rightarrow> challenge_store \<Rightarrow> string \<times> challenge_store" where
  "issue C nonce_bytes now address st =
    (let nonce = hex_encode C nonce_bytes;
         expires_at = now + micros CHALLENGE_TTL_SECS
     in (nonce, st(address \<mapsto> (nonce, expires_at))))"

definition verify_and_consume ::
  "datetime \<Rightarrow> string \<Rightarrow> string \<Rightarrow> challenge_store \<Rightarrow> bool \<times> challenge_store" where
  "verify_and_consume now address nonce st =
    (case st address of
       Some (expected_nonce, expires_at) \<Rightarrow>
         (if expires_at > now then expected_nonce = nonce else False, st(address := None))
     | None \<Rightarrow> (False, st(address := None)))"

definition challenge_message :: "string \<Rightarrow> bytes" where
  "challenge_message nonce = as_bytes (''Concord auth challenge: '' @ nonce)"

definition verify_wallet_signature ::
  "'vk auth_crates \<Rightarrow> string \<Rightarrow> bytes \<Rightarrow> bytes \<Rightarrow> app_error + unit" where
  "verify_wallet_signature A address message signature =
    bindE (ok_or (BadRequest ''invalid Stellar address'')
      (public_key_from_string A address)) (\<lambda>public_key.
    bindE (ok_or (BadRequest ''invalid public key'')
      (verifying_key_from_bytes A public_key)) (\<lambda>verifying_key.
    bindE (if length signature = 64 then Inr signature
           else Inl (BadRequest ''signature must be 64 bytes'')) (\<lambda>sig.
    if ed25519_verify A verifying_key message sig then Inr ()
    else Inl (Unauthorized ''signature verification failed''))))"

section \<open>Tokens\<close>

definition issue_jwt ::
  "'vk auth_crates \<Rightarrow> string \<Rightarrow> datetime \<Rightarrow> string \<Rightarrow> app_error + string" where
  "issue_jwt A secret now address =
    map_err Internal (jwt_encode A (as_bytes secret)
      \<lparr>claims_sub = address,
       claims_exp = i64_as_usize (timestamp (now + micros JWT_TTL_SECS))\<rparr>)"

definition verify_jwt ::
  "'vk auth_crates \<Rightarrow> string \<Rightarrow> datetime \<Rightarrow> string \<Rightarrow> app_error + string" where
  "verify_jwt A secret now tok =
    bindE (ok_or (Unauthorized ''invalid or expired token'')
      (jwt_decode A now (as_bytes secret) tok)) (\<lambda>claims.
    Inr (claims_sub claims))"

text \<open>The \<open>AuthUser\<close> extractor; \<open>None\<close> is a missing or malformed bearer header.\<close>

definition auth_user ::
  "'vk auth_crates \<Rightarrow> string \<Rightarrow> datetime \<Rightarrow> string option \<Rightarrow> app_error + string" where
  "auth_user A secret now bearer =
    bindE (ok_or (Unauthorized ''missing bearer token'') bearer) (\<lambda>tok.
    verify_jwt A secret now tok)"

section \<open>Handlers\<close>

record challenge_response =
  cr_nonce :: string
  cr_message :: string

text \<open>
  \<open>POST /auth/challenge\<close>.  \<open>None\<close> is the panic of \<open>String::from_utf8(...).unwrap()\<close>.
\<close>

definition challenge ::
  "crates \<Rightarrow> 'vk auth_crates \<Rightarrow> bytes \<Rightarrow> datetime \<Rightarrow> string \<Rightarrow> challenge_store \<Rightarrow>
   (app_error + challenge_response) option \<times> challenge_store" where
  "challenge C A nonce_bytes now address st =
    (if public_key_from_string A address = None then
       (Some (Inl (BadRequest ''invalid Stellar address'')), st)
     else
       (let (nonce, st') = issue C nonce_bytes now address st in
        (case from_utf8 (challenge_message nonce) of
           None \<Rightarrow> (None, st')
         | Some message \<Rightarrow> (Some (Inr \<lparr>cr_nonce = nonce, cr_message = message\<rparr>), st'))))"

text \<open>
  \<open>POST /auth/verify\<close>.  The challenge is consumed at \<open>now\<close>, before the signature is looked at;
  the token is issued at \<open>now'\<close>.
\<close>

definition verify ::
  "'vk auth_crates \<Rightarrow> string \<Rightarrow> datetime \<Rightarrow> datetime \<Rightarrow> string \<Rightarrow> string \<Rightarrow> string \<Rightarrow> challenge_store \<Rightarrow>
   (app_error + string) \<times> challenge_store" where
  "verify A secret now now' address nonce signature_b64 st =
    (let (ok, st') = verify_and_consume now address nonce st in
     if \<not> ok then
       (Inl (Unauthorized ''challenge not found, already used, or expired''), st')
     else
       (bindE (ok_or (BadRequest ''signature must be base64-encoded'')
          (base64_decode A signature_b64)) (\<lambda>signature.
        bindE (verify_wallet_signature A address (challenge_message nonce) signature) (\<lambda>_.
        issue_jwt A secret now' address)), st'))"

end
