(* ===== verification/Api.thy ===== *)
theory Api
  imports Auth Schema
begin

text \<open>
  The HTTP handlers of \<open>src/api/escrows.rs\<close>, \<open>disputes.rs\<close> and \<open>webhooks.rs\<close>, after axum has
  parsed the path, the query and the body, and, for the webhook handlers, the bearer token was
  checked.  A handler returns its error or the value it serializes.
\<close>

section \<open>Reads\<close>

record list_query =
  q_client :: "string option"
  q_provider :: "string option"
  q_status :: "string option"
  q_limit :: "i64 option"
  q_offset :: "i64 option"

definition unwrap_or :: "'a \<Rightarrow> 'a option \<Rightarrow> 'a" where
  "unwrap_or d v = (case v of None \<Rightarrow> d | Some x \<Rightarrow> x)"

definition clamp :: "i64 \<Rightarrow> i64 \<Rightarrow> i64 \<Rightarrow> i64" where
  "clamp lo hi x = (if x < lo then lo else if hi < x then hi else x)"

definition page_limit :: "i64 option \<Rightarrow> i64" where
  "page_limit v = clamp (I64 1) (I64 200) (unwrap_or (I64 50) v)"

definition page_offset :: "i64 option \<Rightarrow> i64" where
  "page_offset v = max (unwrap_or (I64 0) v) (I64 0)"

definition get_escrow_handler :: "i64 \<Rightarrow> ('z pool_scheme, app_error, escrow_detail) eff" where
  "get_escrow_handler k =
    bind (query (get_escrow k)) (\<lambda>found.
    bind (lift (ok_or NotFound found)) (\<lambda>escrow.
    bind (query (list_milestones k)) (\<lambda>ms.
    ret \<lparr>ed_escrow = escrow, ed_milestones = ms\<rparr>)))"

definition escrow_status_param :: "string option \<Rightarrow> app_error + string option" where
  "escrow_status_param v =
    (case v of
       None \<Rightarrow> Inr None
     | Some s \<Rightarrow>
         (case escrow_status_from_str s of
            Inl _ \<Rightarrow> Inl (BadRequest (''invalid status: '' @ s))
          | Inr st \<Rightarrow> Inr (Some (escrow_status_as_str st))))"

definition list_escrows_handler ::
  "list_query \<Rightarrow> ('z pool_scheme, app_error, escrow_row list) eff" where
  "list_escrows_handler q =
    bind (lift (escrow_status_param (q_status q))) (\<lambda>status.
    query (list_escrows
      \<lparr>f_client = q_client q, f_provider = q_provider q, f_status = status,
       f_limit = page_limit (q_limit q), f_offset = page_offset (q_offset q)\<rparr>))"

definition dispute_status_param :: "string option \<Rightarrow> app_error + string option" where
  "dispute_status_param v =
    (case v of
       None \<Rightarrow> Inr (Some (dispute_status_as_str Open))
     | Some s \<Rightarrow>
         if s = ''all'' then Inr None
         else (case dispute_status_from_str s of
                 Inl _ \<Rightarrow> Inl (BadRequest (''invalid status: '' @ s))
               | Inr st \<Rightarrow> Inr (Some (dispute_status_as_str st))))"

definition list_disputes_handler ::
  "string option \<Rightarrow> i64 option \<Rightarrow> i64 option \<Rightarrow> ('z pool_scheme, app_error, dispute_row list) eff" where
  "list_disputes_handler status limit offset =
    bind (lift (dispute_status_param status)) (\<lambda>st.
    query (list_disputes st (page_limit limit) (page_offset offset)))"

section \<open>Webhooks\<close>

definition starts_with :: "string \<Rightarrow> string \<Rightarrow> bool" where
  "starts_with pre s \<longleftrightarrow> take (length pre) s = pre"

definition register_webhook ::
  "crates \<Rightarrow> uuid \<Rightarrow> bytes \<Rightarrow> string \<Rightarrow> i64 \<Rightarrow> string \<Rightarrow>
   ('z pool_scheme, app_error, webhook_created) eff" where
  "register_webhook C fresh_id secret_bytes address escrow_id url =
    (if \<not> starts_with ''https://'' url \<and> \<not> starts_with ''http://'' url then
       fail (BadRequest ''url must be http(s)'')
     else
       bind (query (get_escrow escrow_id)) (\<lambda>found.
       bind (lift (ok_or NotFound found)) (\<lambda>escrow.
       if address \<noteq> e_client escrow \<and> address \<noteq> e_provider escrow \<and>
          address \<noteq> e_arbitrator escrow then
         fail (Forbidden
           ''only the escrow's client, provider, or arbitrator may register a webhook'')
       else
         bind (query (insert_webhook C fresh_id secret_bytes escrow_id address url)) (\<lambda>webhook.
         ret (webhook_created_from webhook)))))"

definition list_webhooks ::
  "string \<Rightarrow> i64 \<Rightarrow> ('z pool_scheme, app_error, webhook_row list) eff" where
  "list_webhooks address escrow_id =
    bind (query (list_webhooks_for_escrow escrow_id)) (\<lambda>ws.
    ret (filter (\<lambda>w. w_owner_address w = address) ws))"

definition delete_webhook_handler ::
  "string \<Rightarrow> i64 \<Rightarrow> uuid \<Rightarrow> ('z pool_scheme, app_error, unit) eff" where
  "delete_webhook_handler address escrow_id webhook_id =
    bind (query (delete_webhook webhook_id address)) (\<lambda>deleted.
    if \<not> deleted then fail NotFound else ret ())"

section \<open>Everything the handlers write is a step\<close>

lemma effects_query [eff_intros]: "effects pool_writes m \<Longrightarrow> effects pool_writes (query m)"
  by (simp add: query_def writes.effects_map_errS)

lemma effects_get_escrow_handler [eff_intros]: "effects pool_writes (get_escrow_handler k)"
  unfolding get_escrow_handler_def
  by (intro writes.effects_bind writes.effects_lift writes.effects_ret eff_intros)

lemma effects_list_escrows_handler [eff_intros]: "effects pool_writes (list_escrows_handler q)"
  unfolding list_escrows_handler_def
  by (intro writes.effects_bind writes.effects_lift eff_intros)

lemma effects_list_disputes_handler [eff_intros]:
  "effects pool_writes (list_disputes_handler st lim off)"
  unfolding list_disputes_handler_def
  by (intro writes.effects_bind writes.effects_lift eff_intros)

lemma effects_list_webhooks [eff_intros]: "effects pool_writes (list_webhooks address k)"
  unfolding list_webhooks_def
  by (intro writes.effects_bind writes.effects_ret eff_intros)

lemma effects_delete_webhook_handler [eff_intros]:
  "effects pool_writes (delete_webhook_handler address k wid)"
  unfolding delete_webhook_handler_def
  by (auto intro!: writes.effects_bind writes.effects_ret writes.effects_fail eff_intros)

text \<open>
  Between the check and the insert other tasks may write, but the parties of an escrow never
  change, so the check still holds when the row is inserted.
\<close>

lemma party_stable:
  assumes "sql_writes T T'" "find_by e_id k (escrows T) = Some e" "party_of a e"
  obtains e' where "find_by e_id k (escrows T') = Some e'" "party_of a e'"
  using rows.evolves_writes [OF assms(1)] assms(2,3)
  by (auto simp: tables_evolve_def lookup_evolves_def party_of_evolves)
    (metis party_of_evolves)

lemma insert_webhook_writes:
  assumes "find_by e_id k (escrows (tabs p)) = Some e" "party_of owner e"
  shows "pool_writes p (snd (insert_webhook C wid bs k owner url p))"
  unfolding insert_webhook_def
proof (rule exec_sql_writes)
  fix now T x T'
  assume w: "sql_writes (tabs p) T"
    and ins: "insert_webhook_stmt wid k owner url (clock p) (hex_encode C bs) now T = Inr (x, T')"
  obtain e' where "find_by e_id k (escrows T) = Some e'" "party_of owner e'"
    using party_stable [OF w assms] by blast
  with ins show "sql_writes T T'" by (blast intro: sql_write.insert_webhook)
qed

lemma get_escrow_found:
  assumes "get_escrow k p = (Inr (Some e), p')"
  shows "find_by e_id k (escrows (tabs p')) = Some e"
  using assms unfolding get_escrow_def
  by (elim exec_sql_InrD) (auto simp: read_only_def)

lemma effects_register_webhook [eff_intros]:
  "effects pool_writes (register_webhook C wid bs address k url)"
proof
  fix p :: "'z pool_scheme"
  obtain r p1 where get: "get_escrow k p = (r, p1)" by fastforce
  have step1: "pool_writes p p1"
    using effectsD [OF effects_db_reads(1), of p k] get by simp
  show "pool_writes p (snd (register_webhook C wid bs address k url p))"
  proof (cases "\<exists>e. r = Inr (Some e) \<and> party_of address e")
    case True
    then obtain e where e: "r = Inr (Some e)" "party_of address e" by blast
    have "pool_writes p1 (snd (insert_webhook C wid bs k address url p1))"
      using insert_webhook_writes [OF get_escrow_found] get e by blast
    from writes.trans [OF step1 this] show ?thesis
      using e by (auto simp: register_webhook_def query_def get eff_simps party_of_def
          writes.refl split: prod.splits sum.splits)
  next
    case False
    then show ?thesis
      using step1 by (auto simp: register_webhook_def query_def get eff_simps party_of_def
          writes.refl ok_or_def split: prod.splits sum.splits option.splits)
  qed
qed

end
