(* ===== verification/Requests.thy ===== *)
theory Requests
  imports Serde Api
begin

text \<open>
  What the endpoints take in: the request bodies of \<open>src/api/auth.rs\<close> and \<open>webhooks.rs\<close>, the query
  strings of \<open>escrows.rs\<close> and \<open>disputes.rs\<close>, and the path parameters, as axum's \<open>Json\<close>, \<open>Query\<close> and
  \<open>Path\<close> extract them with the derived decoders.  Reading the bytes of a request as JSON, as the
  pairs of a query or as the captures of a path is axum's, the fields of \<open>web\<close>.
\<close>

section \<open>Bodies and queries\<close>

record challenge_request =
  creq_address :: string

record verify_request =
  vreq_address :: string
  vreq_nonce :: string
  vreq_signature :: string

record register_webhook_request =
  wreq_url :: string

record list_disputes_query =
  dq_status :: "string option"
  dq_limit :: "i64 option"
  dq_offset :: "i64 option"

definition challenge_request_of_json :: "json \<Rightarrow> challenge_request option" where
  "challenge_request_of_json j =
    Option.bind (struct_fields [''address''] j) (\<lambda>fs.
    Option.bind (required ''address'' de_string fs) (\<lambda>address. Some \<lparr>creq_address = address\<rparr>))"

definition verify_request_of_json :: "json \<Rightarrow> verify_request option" where
  "verify_request_of_json j =
    Option.bind (struct_fields [''address'', ''nonce'', ''signature''] j) (\<lambda>fs.
    Option.bind (required ''address'' de_string fs) (\<lambda>address.
    Option.bind (required ''nonce'' de_string fs) (\<lambda>nonce.
    Option.bind (required ''signature'' de_string fs) (\<lambda>sig.
    Some \<lparr>vreq_address = address, vreq_nonce = nonce, vreq_signature = sig\<rparr>))))"

definition register_webhook_request_of_json :: "json \<Rightarrow> register_webhook_request option" where
  "register_webhook_request_of_json j =
    Option.bind (struct_fields [''url''] j) (\<lambda>fs.
    Option.bind (required ''url'' de_string fs) (\<lambda>url. Some \<lparr>wreq_url = url\<rparr>))"

definition list_query_of_pairs :: "(string \<times> string) list \<Rightarrow> list_query option" where
  "list_query_of_pairs ps =
    Option.bind (optional ''client'' (form_option Some) ps) (\<lambda>client.
    Option.bind (optional ''provider'' (form_option Some) ps) (\<lambda>provider.
    Option.bind (optional ''status'' (form_option Some) ps) (\<lambda>status.
    Option.bind (optional ''limit'' (form_option parse_i64) ps) (\<lambda>limit.
    Option.bind (optional ''offset'' (form_option parse_i64) ps) (\<lambda>offset.
    Some \<lparr>q_client = client, q_provider = provider, q_status = status, q_limit = limit,
          q_offset = offset\<rparr>)))))"

definition list_disputes_query_of_pairs ::
  "(string \<times> string) list \<Rightarrow> list_disputes_query option" where
  "list_disputes_query_of_pairs ps =
    Option.bind (optional ''status'' (form_option Some) ps) (\<lambda>status.
    Option.bind (optional ''limit'' (form_option parse_i64) ps) (\<lambda>limit.
    Option.bind (optional ''offset'' (form_option parse_i64) ps) (\<lambda>offset.
    Some \<lparr>dq_status = status, dq_limit = limit, dq_offset = offset\<rparr>)))"

section \<open>Extractors\<close>

type_synonym response = "nat \<times> json"
type_synonym path_params = "(string \<times> string) list"

datatype http_method = GET | POST | DELETE | OtherMethod string

text \<open>What the CORS layer is built from.\<close>

datatype allowed = AnyValue | OnlyValues "string list"

record cors_layer =
  allow_methods :: "http_method list"
  allow_headers :: allowed
  allow_origin :: allowed

text \<open>
  \<open>match_path\<close> finds the template of the table that matches a path, with the parameters it captures;
  \<open>body_json\<close> gives the document of a request's body, or axum's answer if the content type is not
  JSON, the body cannot be read or is no JSON; \<open>uuid_from_string\<close> is the \<open>uuid\<close> crate's parser; \<open>intercept\<close> is
  the answer of a CORS layer that does not pass a request on, a preflight.  The
  text of an answer that is not JSON is left out: its body is \<open>JNull\<close>.
\<close>

record 'raw web =
  match_path :: "string list \<Rightarrow> string \<Rightarrow> (string \<times> path_params) option"
  bearer_of :: "'raw \<Rightarrow> string option"
  percent_decode :: "string \<Rightarrow> string option"
  uuid_from_string :: "string \<Rightarrow> uuid option"
  query_pairs :: "'raw \<Rightarrow> (string \<times> string) list"
  body_json :: "'raw \<Rightarrow> response + json"
  intercept :: "cors_layer \<Rightarrow> http_method \<Rightarrow> 'raw \<Rightarrow> response option"

definition extract_json :: "(json \<Rightarrow> 'a option) \<Rightarrow> 'raw web \<Rightarrow> 'raw \<Rightarrow> response + 'a" where
  "extract_json d X raw = bindE (body_json X raw) (\<lambda>j. ok_or (422, JNull) (d j))"

definition extract_query ::
  "((string \<times> string) list \<Rightarrow> 'a option) \<Rightarrow> 'raw web \<Rightarrow> 'raw \<Rightarrow> response + 'a" where
  "extract_query d X raw = ok_or (400, JNull) (d (query_pairs X raw))"

definition path_values :: "'raw web \<Rightarrow> path_params \<Rightarrow> response + string list" where
  "path_values X ps = ok_or (400, JNull) (those (map (\<lambda>p. percent_decode X (snd p)) ps))"

text \<open>\<open>Path<i64>\<close> and \<open>Path<(i64, Uuid)>\<close>; another number of parameters is a server error.\<close>

definition path_id :: "'raw web \<Rightarrow> path_params \<Rightarrow> response + i64" where
  "path_id X ps =
    bindE (path_values X ps) (\<lambda>vs.
    case vs of [v] \<Rightarrow> ok_or (400, JNull) (parse_i64 v) | _ \<Rightarrow> Inl (500, JNull))"

definition path_ids :: "'raw web \<Rightarrow> path_params \<Rightarrow> response + i64 \<times> uuid" where
  "path_ids X ps =
    bindE (path_values X ps) (\<lambda>vs.
    case vs of
      [v, u] \<Rightarrow>
        bindE (ok_or (400, JNull) (parse_i64 v)) (\<lambda>k.
        bindE (ok_or (400, JNull) (uuid_from_string X u)) (\<lambda>wid. Inr (k, wid)))
    | _ \<Rightarrow> Inl (500, JNull))"

definition query_escrows :: "'raw web \<Rightarrow> 'raw \<Rightarrow> response + list_query" where
  "query_escrows = extract_query list_query_of_pairs"

definition query_disputes :: "'raw web \<Rightarrow> 'raw \<Rightarrow> response + list_disputes_query" where
  "query_disputes = extract_query list_disputes_query_of_pairs"

definition body_challenge :: "'raw web \<Rightarrow> 'raw \<Rightarrow> response + challenge_request" where
  "body_challenge = extract_json challenge_request_of_json"

definition body_verify :: "'raw web \<Rightarrow> 'raw \<Rightarrow> response + verify_request" where
  "body_verify = extract_json verify_request_of_json"

definition body_webhook :: "'raw web \<Rightarrow> 'raw \<Rightarrow> response + register_webhook_request" where
  "body_webhook = extract_json register_webhook_request_of_json"

lemmas extractor_defs =
  query_escrows_def query_disputes_def body_challenge_def body_verify_def body_webhook_def
  extract_json_def extract_query_def

section \<open>Facts\<close>

lemma form_option_Some [simp]: "form_option p s = Some v \<longleftrightarrow> (\<exists>x. p s = Some x \<and> v = Some x)"
  by (auto simp: form_option_def)

text \<open>A parameter of a query: absent, or there once with a text that its type parses.\<close>

definition param ::
  "(string \<times> string) list \<Rightarrow> string \<Rightarrow> (string \<Rightarrow> 'a option) \<Rightarrow> 'a option \<Rightarrow> bool" where
  "param ps k parse v \<longleftrightarrow>
    (case v of
       None \<Rightarrow> occurrences k ps = []
     | Some x \<Rightarrow> \<exists>s. occurrences k ps = [s] \<and> parse s = Some x)"

lemma optional_param: "optional k (form_option parse) ps = Some v \<longleftrightarrow> param ps k parse v"
  by (auto simp: optional_Some param_def split: option.splits)

lemma list_query_of_pairs_Some:
  "list_query_of_pairs ps = Some q \<longleftrightarrow>
    param ps ''client'' Some (q_client q) \<and> param ps ''provider'' Some (q_provider q) \<and>
    param ps ''status'' Some (q_status q) \<and> param ps ''limit'' parse_i64 (q_limit q) \<and>
    param ps ''offset'' parse_i64 (q_offset q)"
  by (cases q) (auto simp: list_query_of_pairs_def bind_eq_Some_conv optional_param)

lemma list_disputes_query_of_pairs_Some:
  "list_disputes_query_of_pairs ps = Some q \<longleftrightarrow>
    param ps ''status'' Some (dq_status q) \<and> param ps ''limit'' parse_i64 (dq_limit q) \<and>
    param ps ''offset'' parse_i64 (dq_offset q)"
  by (cases q) (auto simp: list_disputes_query_of_pairs_def bind_eq_Some_conv optional_param)

lemma challenge_request_of_object:
  "challenge_request_of_json (JObj fs) = Some r \<longleftrightarrow>
    occurrences ''address'' fs = [JStr (creq_address r)]"
  by (cases r) (auto simp: challenge_request_of_json_def struct_fields_def bind_eq_Some_conv
      required_Some)

lemma verify_request_of_object:
  "verify_request_of_json (JObj fs) = Some r \<longleftrightarrow>
    occurrences ''address'' fs = [JStr (vreq_address r)] \<and>
    occurrences ''nonce'' fs = [JStr (vreq_nonce r)] \<and>
    occurrences ''signature'' fs = [JStr (vreq_signature r)]"
  by (cases r) (auto simp: verify_request_of_json_def struct_fields_def bind_eq_Some_conv
      required_Some)

lemma register_webhook_request_of_object:
  "register_webhook_request_of_json (JObj fs) = Some r \<longleftrightarrow>
    occurrences ''url'' fs = [JStr (wreq_url r)]"
  by (cases r) (auto simp: register_webhook_request_of_json_def struct_fields_def
      bind_eq_Some_conv required_Some)

text \<open>Every extractor gives a value or an answer that is not a success.\<close>

lemma extract_json_Inl:
  assumes "extract_json d X raw = Inl r" "\<And>raw r. body_json X raw = Inl r \<Longrightarrow> fst r \<noteq> 200"
  shows "fst r \<noteq> 200"
  using assms
  by (cases "body_json X raw") (auto simp: extract_json_def ok_or_def split: option.splits)

text \<open>The query string that spells out a query, numbers in decimal.\<close>

definition spelled :: "string \<Rightarrow> ('a \<Rightarrow> string) \<Rightarrow> 'a option \<Rightarrow> (string \<times> string) list" where
  "spelled k shown v = (case v of None \<Rightarrow> [] | Some x \<Rightarrow> [(k, shown x)])"

definition list_query_pairs :: "list_query \<Rightarrow> (string \<times> string) list" where
  "list_query_pairs q =
    spelled ''client'' id (q_client q) @ spelled ''provider'' id (q_provider q) @
    spelled ''status'' id (q_status q) @ spelled ''limit'' (\<lambda>n. show_int (i64_int n)) (q_limit q) @
    spelled ''offset'' (\<lambda>n. show_int (i64_int n)) (q_offset q)"

lemma occurrences_spelled [simp]:
  "occurrences k (spelled k' shown v) =
    (if k' = k then (case v of None \<Rightarrow> [] | Some x \<Rightarrow> [shown x]) else [])"
  by (simp add: spelled_def split: option.split)

lemma param_spelled:
  "occurrences k ps = (case v of None \<Rightarrow> [] | Some x \<Rightarrow> [shown x]) \<Longrightarrow>
    (\<And>x. parse (shown x) = Some x) \<Longrightarrow> param ps k parse v"
  by (simp add: param_def split: option.splits)

text \<open>
  C30: Queries are read back.  Whatever other parameters a query string carries, and in whatever
  order, \<open>GET /escrows\<close> takes from it exactly the filters and the page it spells out; a number is
  any decimal text of an \<open>i64\<close>, its printed form among them.
\<close>

theorem escrow_query_round_trip:
  assumes "\<And>k. k \<in> set [''client'', ''provider'', ''status'', ''limit'', ''offset''] \<Longrightarrow>
    occurrences k (query_pairs X raw) = occurrences k (list_query_pairs q)"
  shows "query_escrows X raw = Inr q' \<longleftrightarrow> q' = q"
proof -
  have occ: "occurrences k (query_pairs X raw) = occurrences k (list_query_pairs q)"
    if "k = ''client'' \<or> k = ''provider'' \<or> k = ''status'' \<or> k = ''limit'' \<or> k = ''offset''" for k
    using assms that by auto
  have "list_query_of_pairs (query_pairs X raw) = Some q"
    unfolding list_query_of_pairs_Some
    by (intro conjI param_spelled [where shown = id] param_spelled [where shown =
          "\<lambda>n. show_int (i64_int n)"])
      (simp_all add: occ list_query_pairs_def occurrences_append parse_i64_show)
  then show ?thesis by (auto simp: query_escrows_def extract_query_def)
qed

end
