(* ===== verification/Router.thy ===== *)
theory Router
  imports Requests Indexer
begin

text \<open>
  \<open>src/api/mod.rs\<close> and what axum does around a handler.  The route table is the source's; matching a
  path against its templates and reading the headers is axum's, a field of \<open>web\<close>.  \<open>serve\<close> is one
  request from its method and path to its response, with the order in which each handler's arguments
  are extracted.
\<close>

section \<open>The route table\<close>

datatype endpoint =
    PostChallenge
  | PostVerify
  | GetEscrows
  | GetEscrow
  | GetDisputes
  | PostWebhook
  | GetWebhooks
  | DeleteWebhook

definition router :: "(string \<times> (http_method \<times> endpoint) list) list" where
  "router =
    [(''/auth/challenge'', [(POST, PostChallenge)]),
     (''/auth/verify'', [(POST, PostVerify)]),
     (''/escrows'', [(GET, GetEscrows)]),
     (''/escrows/{id}'', [(GET, GetEscrow)]),
     (''/disputes'', [(GET, GetDisputes)]),
     (''/escrows/{id}/webhooks'', [(POST, PostWebhook), (GET, GetWebhooks)]),
     (''/escrows/{id}/webhooks/{webhook_id}'', [(DELETE, DeleteWebhook)])]"

section \<open>Around a handler\<close>

definition route :: "'raw web \<Rightarrow> http_method \<Rightarrow> string \<Rightarrow> response + endpoint \<times> path_params" where
  "route X meth path =
    (case match_path X (map fst router) path of
       None \<Rightarrow> Inl (404, JNull)
     | Some (template, params) \<Rightarrow>
         (case map_of router template of
            None \<Rightarrow> Inl (404, JNull)
          | Some methods \<Rightarrow>
              (case map_of methods meth of
                 None \<Rightarrow> Inl (405, JNull)
               | Some ep \<Rightarrow> Inr (ep, params))))"

definition answer :: "('a \<Rightarrow> json) \<Rightarrow> app_error + 'a \<Rightarrow> response" where
  "answer to_json r = (case r of Inl e \<Rightarrow> into_response e | Inr x \<Rightarrow> (200, to_json x))"

definition challenge_response_json :: "challenge_response \<Rightarrow> json" where
  "challenge_response_json r =
    JObj [(''nonce'', JStr (cr_nonce r)), (''message'', JStr (cr_message r))]"

definition token_response_json :: "string \<Rightarrow> json" where
  "token_response_json tok = JObj [(''token'', JStr tok)]"

section \<open>The server's state\<close>

text \<open>
  \<open>AppState\<close>: the pool, the challenge store behind its lock, and the secret, which is a parameter below
  because it never changes.  The outbox belongs to the indexer, which shares the pool.
\<close>

record server = iworld +
  challenges :: challenge_store

text \<open>What a request draws from the environment: random bytes, a UUID, and how long \<open>verify\<close> takes.\<close>

record draws =
  nonce_bytes :: bytes
  secret_bytes :: bytes
  fresh_id :: uuid
  verify_delay :: nat

definition run_handler ::
  "('a \<Rightarrow> json) \<Rightarrow> (server, app_error, 'a) eff \<Rightarrow> server \<Rightarrow> response option \<times> server" where
  "run_handler to_json m w = (case m w of (r, w') \<Rightarrow> (Some (answer to_json r), w'))"

definition extracted ::
  "response + 'a \<Rightarrow> ('a \<Rightarrow> server \<Rightarrow> response option \<times> server) \<Rightarrow>
   server \<Rightarrow> response option \<times> server" where
  "extracted r h w = (case r of Inl rejection \<Rightarrow> (Some rejection, w) | Inr x \<Rightarrow> h x w)"

definition authenticated ::
  "'vk auth_crates \<Rightarrow> 'raw web \<Rightarrow> string \<Rightarrow> 'raw \<Rightarrow>
   (string \<Rightarrow> server \<Rightarrow> response option \<times> server) \<Rightarrow> server \<Rightarrow> response option \<times> server" where
  "authenticated A X secret raw h w =
    (case auth_user A secret (clock w) (bearer_of X raw) of
       Inl e \<Rightarrow> (Some (into_response e), w)
     | Inr address \<Rightarrow> h address w)"

text \<open>The two handlers of \<open>src/api/auth.rs\<close> on the server's state; \<open>None\<close> is a panic, no response.\<close>

definition challenge_endpoint ::
  "crates \<Rightarrow> 'vk auth_crates \<Rightarrow> draws \<Rightarrow> string \<Rightarrow> server \<Rightarrow> response option \<times> server" where
  "challenge_endpoint C A dr address w =
    (let (r, st) = challenge C A (nonce_bytes dr) (clock w) address (challenges w)
     in (map_option (answer challenge_response_json) r, w\<lparr>challenges := st\<rparr>))"

definition verify_endpoint ::
  "'vk auth_crates \<Rightarrow> string \<Rightarrow> draws \<Rightarrow> verify_request \<Rightarrow> server \<Rightarrow>
   response option \<times> server" where
  "verify_endpoint A secret dr req w =
    (let now' = clock w + int (verify_delay dr);
         (r, st) = verify A secret (clock w) now' (vreq_address req) (vreq_nonce req)
           (vreq_signature req) (challenges w)
     in (Some (answer token_response_json r), w\<lparr>challenges := st, clock := now'\<rparr>))"

definition serve_endpoint ::
  "crates \<Rightarrow> 'vk auth_crates \<Rightarrow> 'raw web \<Rightarrow> string \<Rightarrow> draws \<Rightarrow> endpoint \<Rightarrow> path_params \<Rightarrow> 'raw \<Rightarrow>
   server \<Rightarrow> response option \<times> server" where
  "serve_endpoint C A X secret dr ep params raw =
    (case ep of
       PostChallenge \<Rightarrow> extracted (body_challenge X raw) (\<lambda>req.
         challenge_endpoint C A dr (creq_address req))
     | PostVerify \<Rightarrow> extracted (body_verify X raw) (verify_endpoint A secret dr)
     | GetEscrows \<Rightarrow> extracted (query_escrows X raw) (\<lambda>q.
         run_handler (\<lambda>es. JArr (map (\<lambda>e. JObj (escrow_row_fields e)) es)) (list_escrows_handler q))
     | GetEscrow \<Rightarrow> extracted (path_id X params) (\<lambda>k.
         run_handler escrow_detail_json (get_escrow_handler k))
     | GetDisputes \<Rightarrow> extracted (query_disputes X raw) (\<lambda>q.
         run_handler (\<lambda>ds. JArr (map dispute_row_json ds))
           (list_disputes_handler (dq_status q) (dq_limit q) (dq_offset q)))
     | PostWebhook \<Rightarrow> authenticated A X secret raw (\<lambda>address.
         extracted (path_id X params) (\<lambda>k.
         extracted (body_webhook X raw) (\<lambda>req.
         run_handler webhook_created_json
           (register_webhook C (fresh_id dr) (secret_bytes dr) address k (wreq_url req)))))
     | GetWebhooks \<Rightarrow> authenticated A X secret raw (\<lambda>address.
         extracted (path_id X params) (\<lambda>k.
         run_handler (\<lambda>ws. JArr (map webhook_row_json ws)) (list_webhooks address k)))
     | DeleteWebhook \<Rightarrow> authenticated A X secret raw (\<lambda>address.
         extracted (path_ids X params) (\<lambda>(k, wid).
         run_handler (\<lambda>_. JNull) (delete_webhook_handler address k wid))))"

definition serve ::
  "crates \<Rightarrow> 'vk auth_crates \<Rightarrow> 'raw web \<Rightarrow> string \<Rightarrow> draws \<Rightarrow> http_method \<Rightarrow> string \<Rightarrow> 'raw \<Rightarrow>
   server \<Rightarrow> response option \<times> server" where
  "serve C A X secret dr meth path raw =
    extracted (route X meth path) (\<lambda>(ep, params). serve_endpoint C A X secret dr ep params raw)"

section \<open>Facts\<close>

text \<open>Every request is a sequence of the program's database steps, whatever its outcome.\<close>

lemma run_handler_writes: "effects pool_writes m \<Longrightarrow> pool_writes w (snd (run_handler f m w))"
  using effectsD [of pool_writes m w] by (simp add: run_handler_def case_prod_unfold)

lemma extracted_writes:
  "(\<And>x w. pool_writes w (snd (h x w))) \<Longrightarrow> pool_writes w (snd (extracted r h w))"
  by (simp add: extracted_def writes.refl split: sum.splits)

lemma authenticated_writes:
  "(\<And>x w. pool_writes w (snd (h x w))) \<Longrightarrow> pool_writes w (snd (authenticated A X secret raw h w))"
  by (simp add: authenticated_def writes.refl split: sum.splits)

lemma challenge_endpoint_writes: "pool_writes w (snd (challenge_endpoint C A dr address w))"
  by (auto simp: challenge_endpoint_def pool_writes_def rely_def split: prod.splits
      intro: exI [of _ 0])

lemma verify_endpoint_writes: "pool_writes w (snd (verify_endpoint A secret dr req w))"
  by (auto simp: verify_endpoint_def pool_writes_def rely_def Let_def split: prod.splits
      intro: exI [of _ 0])

lemma serve_endpoint_writes:
  "pool_writes w (snd (serve_endpoint C A X secret dr ep params raw w))"
  by (cases ep)
    (auto simp: serve_endpoint_def split: prod.splits
      intro!: extracted_writes authenticated_writes challenge_endpoint_writes
        verify_endpoint_writes run_handler_writes eff_intros)

lemma serve_writes: "pool_writes w (snd (serve C A X secret dr meth path raw w))"
  by (auto simp: serve_def split: prod.splits intro!: extracted_writes serve_endpoint_writes)

end
