(* ===== verification/Listing.thy ===== *)
theory Listing
  imports Api Lifecycle
begin

text \<open>
  The reading endpoints.  Both listings are pages of one ordered list of rows; what that gives a
  client that walks through the pages is proved once, in \<open>paged_listing\<close>, and holds for the escrow and
  the dispute listing.  The other lemmas say which rows a listing holds and in which order.
\<close>

section \<open>Limits\<close>

lemma i64_le_iff: "(a :: i64) \<le> b \<longleftrightarrow> i64_int a \<le> i64_int b"
  by (simp add: less_eq_i64_def)

lemma i64_less_iff: "(a :: i64) < b \<longleftrightarrow> i64_int a < i64_int b"
  by (simp add: less_i64_def)

lemma page_limit_bounds: "1 \<le> i64_int (page_limit v)" "i64_int (page_limit v) \<le> 200"
  by (auto simp: page_limit_def clamp_def i64_less_iff)

lemma page_offset_nonneg: "0 \<le> i64_int (page_offset v)"
  by (simp add: page_offset_def max_def i64_le_iff)

lemma page_limit_given: "1 \<le> i64_int n \<Longrightarrow> i64_int n \<le> 200 \<Longrightarrow> page_limit (Some n) = n"
  by (simp add: page_limit_def clamp_def unwrap_or_def i64_less_iff)

lemma page_offset_given: "0 \<le> i64_int n \<Longrightarrow> page_offset (Some n) = n"
  using i64_int_inject [of n "I64 0"]
  by (auto simp: page_offset_def unwrap_or_def max_def i64_le_iff)

definition page_of :: "i64 option \<Rightarrow> i64 option \<Rightarrow> 'r list \<Rightarrow> 'r list" where
  "page_of limit offset rows =
    page (nat (i64_int (page_limit limit))) (nat (i64_int (page_offset offset))) rows"

lemma limit_offset_page:
  "limit_offset (page_limit limit) (page_offset offset) rows = Inr (page_of limit offset rows)"
  using page_limit_bounds(1) [of limit] page_offset_nonneg [of offset]
  by (simp add: limit_offset_def page_of_def i64_less_iff)

lemma length_page_of: "length (page_of limit offset rows) \<le> 200"
proof -
  have "nat (i64_int (page_limit limit)) \<le> 200" using page_limit_bounds(2) [of limit] by simp
  then show ?thesis unfolding page_of_def using length_page order_trans by blast
qed

text \<open>A page number or size as the query parameter a client sends.\<close>

definition i64_of_nat :: "nat \<Rightarrow> i64" where
  "i64_of_nat n = int_as_i64 (int n)"

lemma i64_int_of_nat: "n < 2 ^ 63 \<Longrightarrow> i64_int (i64_of_nat n) = int n"
  by (simp add: i64_of_nat_def i64_int_int_as_i64)

section \<open>Walking through the pages\<close>

locale paged_listing =
  fixes all_rows :: "tables \<Rightarrow> 'r list"
    and fetch :: "i64 option \<Rightarrow> i64 option \<Rightarrow> ('z pool_scheme, app_error, 'r list) eff"
  assumes fetch_quiet: "pending p = [] \<Longrightarrow>
    fetch limit offset p = (Inr (page_of limit offset (all_rows (tabs p))), p)"
begin

text \<open>The rows on page number \<open>i\<close> of size \<open>n\<close>, as the client gets them.\<close>

abbreviation page_no :: "nat \<Rightarrow> 'z pool_scheme \<Rightarrow> nat \<Rightarrow> 'r list" where
  "page_no n p i \<equiv>
    projr (fst (fetch (Some (i64_of_nat n)) (Some (i64_of_nat (i * n))) p))"

lemma page_no_rows:
  assumes "pending p = []" "1 \<le> n" "n \<le> 200" "i * n < 2 ^ 63"
  shows "page_no n p i = page n (i * n) (all_rows (tabs p))"
proof -
  have "i64_int (i64_of_nat n) = int n" "i64_int (i64_of_nat (i * n)) = int (i * n)"
    using assms i64_int_of_nat [of n] i64_int_of_nat [of "i * n"] by simp_all
  then show ?thesis
    using assms
    by (simp add: fetch_quiet page_of_def page_limit_given page_offset_given del: of_nat_mult)
qed

theorem pages_partition:
  assumes "pending p = []" "1 \<le> n" "n \<le> 200" "k * n < 2 ^ 63"
  shows "concat (map (page_no n p) [0..<k]) = take (k * n) (all_rows (tabs p))"
  using assms
proof (induction k)
  case (Suc k)
  have "k * n < 2 ^ 63" using Suc.prems(4) by simp
  with Suc show ?case
    by (simp add: page_no_rows page_def take_add [of "k * n" n] add.commute [of n])
qed simp

end

section \<open>The two listings\<close>

lemma run_query [eff_simps]: "query m w = (case m w of (r, w') \<Rightarrow> (map_err Database r, w'))"
  by (simp add: query_def run_map_errS)

text \<open>The query of a client that asks for parties and a status by their names.\<close>

definition escrow_query ::
  "string option \<Rightarrow> string option \<Rightarrow> escrow_status option \<Rightarrow> i64 option \<Rightarrow> i64 option \<Rightarrow> list_query"
where
  "escrow_query client provider status limit offset =
    \<lparr>q_client = client, q_provider = provider,
     q_status = map_option escrow_status_as_str status, q_limit = limit, q_offset = offset\<rparr>"

definition wanted :: "string option \<Rightarrow> string option \<Rightarrow> escrow_status option \<Rightarrow> escrow_row \<Rightarrow> bool" where
  "wanted client provider status e \<longleftrightarrow>
    opt_match client (e_client e) \<and> opt_match provider (e_provider e) \<and>
    opt_match (map_option escrow_status_as_str status) (e_status e)"

definition escrow_listing ::
  "string option \<Rightarrow> string option \<Rightarrow> escrow_status option \<Rightarrow> tables \<Rightarrow> escrow_row list" where
  "escrow_listing client provider status T =
    rev (sort_key e_id (filter (wanted client provider status) (escrows T)))"

lemma matching_escrows_listing:
  "matching_escrows \<lparr>f_client = client, f_provider = provider,
     f_status = map_option escrow_status_as_str status, f_limit = l, f_offset = off\<rparr> T =
   escrow_listing client provider status T"
  by (simp add: matching_escrows_def escrow_listing_def wanted_def [abs_def])

lemma escrow_status_param_known:
  "escrow_status_param (map_option escrow_status_as_str status) =
    Inr (map_option escrow_status_as_str status)"
  by (simp add: escrow_status_param_def split: option.split)

lemma list_escrows_quiet:
  "pending p = [] \<Longrightarrow>
    list_escrows_handler (escrow_query client provider status limit offset) p =
      (Inr (page_of limit offset (escrow_listing client provider status (tabs p))), p)"
  by (simp add: list_escrows_handler_def escrow_query_def eff_simps list_escrows_def
      exec_sql_healthy_read limit_offset_page matching_escrows_listing escrow_status_param_known)

interpretation escrow_pages: paged_listing "escrow_listing client provider status"
  "\<lambda>limit offset. list_escrows_handler (escrow_query client provider status limit offset)"
  for client provider status
  by unfold_locales (rule list_escrows_quiet)

text \<open>\<open>status=all\<close>, \<open>status=open\<close> and \<open>status=resolved\<close>.\<close>

definition dispute_query :: "dispute_status option \<Rightarrow> string option" where
  "dispute_query status =
    Some (case status of None \<Rightarrow> ''all'' | Some s \<Rightarrow> dispute_status_as_str s)"

definition dispute_listing :: "dispute_status option \<Rightarrow> tables \<Rightarrow> dispute_row list" where
  "dispute_listing status T = matching_disputes (map_option dispute_status_as_str status) T"

lemma dispute_status_param_query:
  "dispute_status_param (dispute_query status) = Inr (map_option dispute_status_as_str status)"
proof -
  have "dispute_status_as_str s \<noteq> ''all''" for s by (cases s) simp_all
  then show ?thesis
    by (simp add: dispute_status_param_def dispute_query_def split: option.split)
qed

lemma list_disputes_quiet:
  "pending p = [] \<Longrightarrow>
    list_disputes_handler (dispute_query status) limit offset p =
      (Inr (page_of limit offset (dispute_listing status (tabs p))), p)"
  by (simp add: list_disputes_handler_def eff_simps list_disputes_def exec_sql_healthy_read
      limit_offset_page dispute_status_param_query dispute_listing_def)

interpretation dispute_pages: paged_listing "dispute_listing status"
  "list_disputes_handler (dispute_query status)" for status
  by unfold_locales (rule list_disputes_quiet)

lemma sorted_rev_sort_key:
  fixes key :: "'r \<Rightarrow> 'k::linorder"
  shows "sorted_wrt (\<lambda>a b. key b \<le> key a) (rev (sort_key key rows))"
  using sorted_sort_key [of key rows] by (simp add: sorted_wrt_rev sorted_wrt_map)

lemma sorted_wrt_strict:
  "sorted_wrt R xs \<Longrightarrow> distinct (map f xs) \<Longrightarrow> (\<And>a b. R a b \<Longrightarrow> f a \<noteq> f b \<Longrightarrow> S a b) \<Longrightarrow>
    sorted_wrt S xs"
  by (induction xs) (auto simp: rev_image_eqI)

section \<open>Properties\<close>

text \<open>
  C27: The escrow listing.  On a quiet connection \<open>GET /escrows\<close> with a known status answers with the page the
  query asks for of the list that holds exactly the escrows with the given client, provider and
  status, each once, the highest id first.
\<close>

theorem escrows_listed:
  assumes "pending p = []" "schema_ok (tabs p)"
  shows "\<exists>rows. list_escrows_handler (escrow_query client provider status limit offset) p =
      (Inr (page_of limit offset rows), p) \<and>
    set rows = {e \<in> set (escrows (tabs p)). wanted client provider status e} \<and>
    sorted_wrt (\<lambda>a b. e_id b < e_id a) rows"
proof -
  let ?rows = "escrow_listing client provider status (tabs p)"
  have "distinct (map e_id (escrows (tabs p)))"
    using assms(2) by (simp add: schema_ok_def keys_ok_def)
  then have "distinct (map e_id (filter (wanted client provider status) (escrows (tabs p))))"
    by (rule distinct_map_filter)
  then have "distinct (map e_id ?rows)"
    unfolding escrow_listing_def by (simp add: distinct_map)
  moreover have "sorted_wrt (\<lambda>a b. e_id b \<le> e_id a) ?rows"
    unfolding escrow_listing_def by (rule sorted_rev_sort_key)
  ultimately have "sorted_wrt (\<lambda>a b. e_id b < e_id a) ?rows"
    by (elim sorted_wrt_strict) auto
  moreover have "set ?rows = {e \<in> set (escrows (tabs p)). wanted client provider status e}"
    by (simp add: escrow_listing_def)
  ultimately show ?thesis using list_escrows_quiet [OF assms(1)] by blast
qed

text \<open>
  C28: The dispute listing.  On a quiet connection \<open>GET /disputes\<close> without a status lists the open disputes,
  with \<open>status=all\<close> every dispute and otherwise those of the status, the newest first, cut to the
  page asked for.
\<close>

theorem disputes_listed:
  assumes "pending p = []"
  shows "\<exists>rows. list_disputes_handler (dispute_query status) limit offset p =
      (Inr (page_of limit offset rows), p) \<and>
    set rows = {d \<in> set (disputes (tabs p)). status = None \<or>
      dispute_status_from_str (d_status d) = Inr (the status)} \<and>
    sorted_wrt (\<lambda>a b. d_created_at b \<le> d_created_at a) rows \<and>
    list_disputes_handler None limit offset p =
      list_disputes_handler (dispute_query (Some Open)) limit offset p"
proof -
  have "set (dispute_listing status (tabs p)) = {d \<in> set (disputes (tabs p)). status = None \<or>
      dispute_status_from_str (d_status d) = Inr (the status)}"
    by (cases status) (auto simp: dispute_listing_def matching_disputes_def opt_match_def
        dispute_status_from_str_Inr)
  moreover have "sorted_wrt (\<lambda>a b. d_created_at b \<le> d_created_at a) (dispute_listing status (tabs p))"
    unfolding dispute_listing_def matching_disputes_def by (rule sorted_rev_sort_key)
  moreover have "dispute_status_param None = dispute_status_param (dispute_query (Some Open))"
    by (simp add: dispute_status_param_query) (simp add: dispute_status_param_def)
  ultimately show ?thesis
    using list_disputes_quiet [OF assms] by (simp add: list_disputes_handler_def) blast
qed

text \<open>
  C29: Walking through the escrows.  A client that asks for consecutive pages of any size from 1 to 200 gets,
  put together, the beginning of the listing: no escrow is missing between two pages and none is on both.
\<close>

theorem escrow_pages_partition:
  assumes "pending p = []" "1 \<le> n" "n \<le> 200" "k * n < 2 ^ 63"
  shows "concat (map (\<lambda>i. projr (fst (list_escrows_handler (escrow_query client provider status
        (Some (i64_of_nat n)) (Some (i64_of_nat (i * n)))) p))) [0..<k]) =
    take (k * n) (escrow_listing client provider status (tabs p))"
  using assms by (rule escrow_pages.pages_partition)

text \<open>
  Walking through the disputes: the same for \<open>GET /disputes\<close> with any status.
\<close>

theorem dispute_pages_partition:
  assumes "pending p = []" "1 \<le> n" "n \<le> 200" "k * n < 2 ^ 63"
  shows "concat (map (\<lambda>i. projr (fst (list_disputes_handler (dispute_query status)
        (Some (i64_of_nat n)) (Some (i64_of_nat (i * n))) p))) [0..<k]) =
    take (k * n) (dispute_listing status (tabs p))"
  using assms by (rule dispute_pages.pages_partition)

lemma bounded_listing:
  assumes "r \<noteq> Inl (Database InvalidRowCount)"
  shows "case fst (bind (lift r) (\<lambda>x. query (exec_sql (read_only (\<lambda>T.
      limit_offset (page_limit l) (page_offset off) (rows x T))))) p) of
    Inl e \<Rightarrow> e \<noteq> Database InvalidRowCount | Inr rs \<Rightarrow> length rs \<le> 200"
  using assms
  by (cases r) (auto simp: run_bind run_lift run_query exec_sql_def read_only_def
      limit_offset_page length_page_of Let_def split: prod.splits delivery.splits)

lemma status_params_local:
  "escrow_status_param v \<noteq> Inl (Database d)" "dispute_status_param v \<noteq> Inl (Database d)"
  by (auto simp: escrow_status_param_def dispute_status_param_def split: option.splits sum.splits)

text \<open>
  C32: Bounded answers.  Whatever limit and offset a client sends, over any connection and beside any other
  writer, neither listing ever sends the database a row count it rejects, and neither answers with
  more than 200 rows.
\<close>

theorem listings_bounded:
  "(case fst (list_escrows_handler q p) of
      Inl e \<Rightarrow> e \<noteq> Database InvalidRowCount | Inr rows \<Rightarrow> length rows \<le> 200) \<and>
   (case fst (list_disputes_handler status limit offset p) of
      Inl e \<Rightarrow> e \<noteq> Database InvalidRowCount | Inr rows \<Rightarrow> length rows \<le> 200)"
  unfolding list_escrows_handler_def list_disputes_handler_def list_escrows_def list_disputes_def
    escrow_filter.simps
  by (intro conjI bounded_listing status_params_local)

text \<open>
  Unknown statuses.  A status that is none of the five names of an escrow status, or neither \<open>all\<close> nor
  a name of a dispute status, is answered with a 400 that quotes it, and the database is not asked.
\<close>

theorem unknown_status_rejected:
  assumes "s \<notin> range escrow_status_as_str" "q_status q = Some s"
    and "t \<notin> range dispute_status_as_str" "t \<noteq> ''all''"
  shows "list_escrows_handler q p = (Inl (BadRequest (''invalid status: '' @ s)), p) \<and>
    list_disputes_handler (Some t) limit offset p =
      (Inl (BadRequest (''invalid status: '' @ t)), p)"
proof -
  obtain e where "escrow_status_from_str s = Inl e"
    using assms(1) escrow_status_from_strD by (cases "escrow_status_from_str s") blast+
  moreover obtain e' where "dispute_status_from_str t = Inl e'"
    using assms(3) dispute_status_from_strD by (cases "dispute_status_from_str t") blast+
  ultimately show ?thesis
    using assms(2,4)
    by (simp add: list_escrows_handler_def list_disputes_handler_def run_bind run_lift
        escrow_status_param_def dispute_status_param_def del: append_Cons)
qed

text \<open>
  C31: One escrow.  On a quiet connection \<open>GET /escrows/{id}\<close> answers with a 404 for an id without a row,
  and otherwise with that row and exactly the milestones of that escrow, the lowest id first.
\<close>

theorem escrow_detail_shown:
  assumes "pending p = []" "schema_ok (tabs p)"
  shows "\<exists>ms. get_escrow_handler k p =
      (case find_by e_id k (escrows (tabs p)) of
         None \<Rightarrow> (Inl NotFound, p)
       | Some e \<Rightarrow> (Inr \<lparr>ed_escrow = e, ed_milestones = ms\<rparr>, p)) \<and>
    set ms = {m \<in> set (milestones (tabs p)). m_escrow_id m = k} \<and>
    sorted_wrt (\<lambda>a b. m_milestone_id a < m_milestone_id b) ms"
proof -
  let ?ms = "list_milestones_query k (tabs p)"
  have "distinct (map m_key (milestones (tabs p)))"
    using assms(2) by (simp add: schema_ok_def keys_ok_def)
  then have "distinct (map m_milestone_id ?ms)"
    by (auto simp: list_milestones_query_def distinct_map inj_on_def)
  moreover have "sorted_wrt (\<lambda>a b. m_milestone_id a \<le> m_milestone_id b) ?ms"
    using sorted_sort_key by (simp add: list_milestones_query_def flip: sorted_wrt_map)
  ultimately have "sorted_wrt (\<lambda>a b. m_milestone_id a < m_milestone_id b) ?ms"
    by (elim sorted_wrt_strict) auto
  moreover have "set ?ms = {m \<in> set (milestones (tabs p)). m_escrow_id m = k}"
    by (auto simp: list_milestones_query_def)
  moreover have "get_escrow_handler k p =
      (case find_by e_id k (escrows (tabs p)) of
         None \<Rightarrow> (Inl NotFound, p)
       | Some e \<Rightarrow> (Inr \<lparr>ed_escrow = e, ed_milestones = ?ms\<rparr>, p))"
    using assms(1)
    by (simp add: get_escrow_handler_def eff_simps get_escrow_def list_milestones_def
        exec_sql_healthy_read split: option.split)
  ultimately show ?thesis by blast
qed

section \<open>Examples\<close>

theorem escrows_listed_witness:
  "\<exists>rows. list_escrows_handler (escrow_query (Some ''GC'') None (Some Created) None None)
      sample_world = (Inr (page_of None None rows), sample_world) \<and>
    set rows = {e \<in> set (escrows (tabs sample_world)). wanted (Some ''GC'') None (Some Created) e} \<and>
    sorted_wrt (\<lambda>a b. e_id b < e_id a) rows"
  by (rule escrows_listed [OF sample_world_pending sample_world_schema])

theorem disputes_listed_witness:
  "\<exists>rows. list_disputes_handler (dispute_query None) None None
      (sample_busy_world [sample_dispute_row]) =
      (Inr (page_of None None rows), sample_busy_world [sample_dispute_row]) \<and>
    set rows = {sample_dispute_row}"
  using disputes_listed [OF sample_busy_world_simps(1), where status = None and limit = None and
      offset = None, of "[sample_dispute_row]"]
  by (auto simp: sample_busy_world_simps)

theorem escrow_pages_partition_witness:
  "concat (map (\<lambda>i. projr (fst (list_escrows_handler (escrow_query None None None
      (Some (i64_of_nat 2)) (Some (i64_of_nat (i * 2)))) sample_world))) [0..<3]) =
    take (3 * 2) (escrow_listing None None None (tabs sample_world))"
  by (rule escrow_pages_partition [OF sample_world_pending]) simp_all

theorem dispute_pages_partition_witness:
  "concat (map (\<lambda>i. projr (fst (list_disputes_handler (dispute_query None)
      (Some (i64_of_nat 1)) (Some (i64_of_nat (i * 1))) (sample_busy_world [sample_dispute_row]))))
      [0..<1]) =
    take (1 * 1) (dispute_listing None (tabs (sample_busy_world [sample_dispute_row])))"
  by (rule dispute_pages_partition [OF sample_busy_world_simps(1)]) simp_all

theorem unknown_status_rejected_witness:
  "list_escrows_handler (\<lparr>q_client = None, q_provider = None, q_status = Some ''done'',
      q_limit = None, q_offset = None\<rparr>) sample_world =
      (Inl (BadRequest (''invalid status: '' @ ''done'')), sample_world) \<and>
   list_disputes_handler (Some ''done'') None None sample_world =
      (Inl (BadRequest (''invalid status: '' @ ''done'')), sample_world)"
proof (rule unknown_status_rejected)
  have "''done'' \<noteq> escrow_status_as_str st" for st by (cases st) simp_all
  then show "''done'' \<notin> range escrow_status_as_str" by blast
  have "''done'' \<noteq> dispute_status_as_str st" for st by (cases st) simp_all
  then show "''done'' \<notin> range dispute_status_as_str" by blast
qed simp_all

theorem escrow_detail_shown_witness:
  "\<exists>ms. get_escrow_handler (I64 1) sample_world =
      (case find_by e_id (I64 1) (escrows (tabs sample_world)) of
         None \<Rightarrow> (Inl NotFound, sample_world)
       | Some e \<Rightarrow> (Inr \<lparr>ed_escrow = e, ed_milestones = ms\<rparr>, sample_world)) \<and>
    set ms = {m \<in> set (milestones (tabs sample_world)). m_escrow_id m = I64 1} \<and>
    sorted_wrt (\<lambda>a b. m_milestone_id a < m_milestone_id b) ms"
  by (rule escrow_detail_shown [OF sample_world_pending sample_world_schema])

end
