(* ===== verification/Sessions.thy ===== *)
theory Sessions
  imports Auth Samples
begin

text \<open>
  Logging in.  A challenge store is a table of one-time codes: \<open>one_time_codes\<close> states what issuing
  and using a code do to the code that is live for a key, and says from that when a use is
  accepted after any history; the store of \<open>src/auth.rs\<close> is an instance.  The properties of the
  two handlers and of the tokens follow.
\<close>

section \<open>One-time codes\<close>

datatype ('t, 'k, 'b, 'c) code_op =
    Issued 't 'k 'b
  | Used 't 'k 'c

fun op_key :: "('t, 'k, 'b, 'c) code_op \<Rightarrow> 'k" where
  "op_key (Issued t k b) = k"
| "op_key (Used t k c) = k"

fun code_step ::
  "('t \<Rightarrow> 'k \<Rightarrow> 'b \<Rightarrow> 's \<Rightarrow> 's) \<Rightarrow> ('t \<Rightarrow> 'k \<Rightarrow> 'c \<Rightarrow> 's \<Rightarrow> bool \<times> 's) \<Rightarrow>
   ('t, 'k, 'b, 'c) code_op \<Rightarrow> 's \<Rightarrow> 's" where
  "code_step iss use (Issued t k b) s = iss t k b s"
| "code_step iss use (Used t k c) s = snd (use t k c s)"

locale one_time_codes =
  fixes issue_code :: "'t::linorder \<Rightarrow> 'k \<Rightarrow> 'b \<Rightarrow> 's \<Rightarrow> 's"
    and use_code :: "'t \<Rightarrow> 'k \<Rightarrow> 'c \<Rightarrow> 's \<Rightarrow> bool \<times> 's"
    and none_live :: 's
    and live :: "'s \<Rightarrow> 'k \<Rightarrow> ('c \<times> 't) option"
    and code_of :: "'b \<Rightarrow> 'c"
    and expiry :: "'t \<Rightarrow> 't"
  assumes live_none: "live none_live k = None"
    and live_issue: "live (issue_code t k b s) k' =
      (if k' = k then Some (code_of b, expiry t) else live s k')"
    and live_use: "live (snd (use_code t k c s)) k' = (if k' = k then None else live s k')"
    and use_accepts: "fst (use_code t k c s) \<longleftrightarrow> (\<exists>e. live s k = Some (c, e) \<and> t < e)"
begin

abbreviation history :: "('t, 'k, 'b, 'c) code_op list \<Rightarrow> 's" where
  "history ops \<equiv> fold (code_step issue_code use_code) ops none_live"

lemma live_history:
  "live (history ops) k =
    (case find (\<lambda>op. op_key op = k) (rev ops) of
       Some (Issued t _ b) \<Rightarrow> Some (code_of b, expiry t)
     | _ \<Rightarrow> None)"
proof (induction ops rule: rev_induct)
  case (snoc op ops)
  then show ?case by (cases op) (auto simp: live_issue live_use)
qed (simp add: live_none)

text \<open>
  A use is accepted exactly when the last thing that happened to its key is the issue of its code,
  and the code has not expired.
\<close>

theorem accepted_iff:
  "fst (use_code t k c (history ops)) \<longleftrightarrow>
    (\<exists>us t0 b vs. ops = us @ Issued t0 k b # vs \<and> list_all (\<lambda>op. op_key op \<noteq> k) vs \<and>
       code_of b = c \<and> t < expiry t0)"
proof -
  have "fst (use_code t k c (history ops)) \<longleftrightarrow>
      (\<exists>t0 b. find (\<lambda>op. op_key op = k) (rev ops) = Some (Issued t0 k b) \<and> code_of b = c \<and>
        t < expiry t0)"
  proof (cases "find (\<lambda>op. op_key op = k) (rev ops)")
    case (Some op)
    then have "op_key op = k" by (auto simp: find_Some_iff)
    with Some show ?thesis unfolding use_accepts live_history by (cases op) auto
  qed (simp add: use_accepts live_history)
  then show ?thesis unfolding find_rev_iff by auto
qed

end

section \<open>The challenge store\<close>

type_synonym challenge_op = "(datetime, string, bytes, string) code_op"

definition challenge_step :: "crates \<Rightarrow> challenge_op \<Rightarrow> challenge_store \<Rightarrow> challenge_store" where
  "challenge_step C =
    code_step (\<lambda>now address nonce_bytes st. snd (issue C nonce_bytes now address st))
      verify_and_consume"

interpretation challenges:
  one_time_codes "\<lambda>now address nonce_bytes st. snd (issue C nonce_bytes now address st)"
    verify_and_consume new_store "\<lambda>st. st" "hex_encode C" "\<lambda>now. now + micros CHALLENGE_TTL_SECS" for C
  by unfold_locales
    (auto simp: issue_def new_store_def verify_and_consume_def Let_def split: option.splits)

text \<open>
  C9: A challenge is good once.  After any sequence of issues and verifications, starting from the empty
  store, a verification of \<open>nonce\<close> for \<open>address\<close> at time \<open>now\<close> is accepted exactly when the last
  thing that happened to that address was the issue of that nonce, less than 300 seconds ago: not
  after a verification of any nonce, not for an older nonce, not after it expired.
\<close>

theorem challenge_accepted_iff:
  "fst (verify_and_consume now address nonce (fold (challenge_step C) ops new_store)) \<longleftrightarrow>
    (\<exists>us t0 nonce_bytes vs. ops = us @ Issued t0 address nonce_bytes # vs \<and>
       list_all (\<lambda>op. op_key op \<noteq> address) vs \<and>
       hex_encode C nonce_bytes = nonce \<and> now < t0 + micros 300)"
  unfolding challenge_step_def CHALLENGE_TTL_SECS_def [symmetric] by (rule challenges.accepted_iff)

lemma challenge_message_ascii:
  assumes "is_ascii (hex_encode C nonce_bytes)"
  shows "from_utf8 (challenge_message (hex_encode C nonce_bytes)) =
    Some (''Concord auth challenge: '' @ hex_encode C nonce_bytes)"
proof -
  have "is_ascii ''Concord auth challenge: ''" by (simp add: is_ascii_def)
  with assms show ?thesis
    unfolding challenge_message_def
    by (intro from_utf8_ascii) (simp only: is_ascii_append simp_thms)
qed

lemma challenge_ascii:
  assumes "is_ascii (hex_encode C nonce_bytes)"
  shows "challenge C A nonce_bytes now address st =
    (if public_key_from_string A address = None
     then (Some (Inl (BadRequest ''invalid Stellar address'')), st)
     else (Some (Inr \<lparr>cr_nonce = hex_encode C nonce_bytes,
             cr_message = ''Concord auth challenge: '' @ hex_encode C nonce_bytes\<rparr>),
           st(address \<mapsto> (hex_encode C nonce_bytes, now + micros 300))))"
  using challenge_message_ascii [OF assms]
  by (simp add: challenge_def issue_def Let_def CHALLENGE_TTL_SECS_def del: append_Cons)

text \<open>
  What \<open>POST /auth/challenge\<close> does.  An address that is no Stellar public key is refused and changes
  nothing.  Otherwise the answer is a new nonce and the text to sign, the nonce becomes the only
  live challenge of the address for 300 seconds, and, \<open>hex::encode\<close> giving ASCII, the conversion
  of the message to a string cannot panic.
\<close>

theorem challenge_answers:
  assumes "is_ascii (hex_encode C nonce_bytes)"
  shows "challenge C A nonce_bytes now address st =
    (if public_key_from_string A address = None
     then (Some (Inl (BadRequest ''invalid Stellar address'')), st)
     else (Some (Inr \<lparr>cr_nonce = hex_encode C nonce_bytes,
             cr_message = ''Concord auth challenge: '' @ hex_encode C nonce_bytes\<rparr>),
           st(address \<mapsto> (hex_encode C nonce_bytes, now + micros 300))))"
  by (rule challenge_ascii [OF assms])

section \<open>Logging in\<close>

lemma verify_and_consume_store [simp]:
  "snd (verify_and_consume now address nonce st) = st(address := None)"
  by (auto simp: verify_and_consume_def split: option.splits)

lemma verify_and_consume_accepts:
  "fst (verify_and_consume now address nonce st) \<longleftrightarrow>
    (\<exists>e. st address = Some (nonce, e) \<and> now < e)"
  by (auto simp: verify_and_consume_def split: option.splits)

lemma verify_wallet_signature_Inr:
  "verify_wallet_signature A address message sig = Inr () \<longleftrightarrow>
    length sig = 64 \<and> (\<exists>pk vk. public_key_from_string A address = Some pk \<and>
      verifying_key_from_bytes A pk = Some vk \<and> ed25519_verify A vk message sig)"
  by (auto simp: verify_wallet_signature_def bindE_Inr_iff)

lemma verify_Inr:
  "fst (verify A secret now now' address nonce signature_b64 st) = Inr tok \<longleftrightarrow>
    (\<exists>e. st address = Some (nonce, e) \<and> now < e) \<and>
    (\<exists>sig pk vk. base64_decode A signature_b64 = Some sig \<and> length sig = 64 \<and>
       public_key_from_string A address = Some pk \<and> verifying_key_from_bytes A pk = Some vk \<and>
       ed25519_verify A vk (as_bytes (''Concord auth challenge: '' @ nonce)) sig) \<and>
    jwt_encode A (as_bytes secret)
      \<lparr>claims_sub = address, claims_exp = i64_as_usize (timestamp (now' + micros 3600))\<rparr> = Inr tok"
proof -
  obtain ok st' where vc: "verify_and_consume now address nonce st = (ok, st')" by fastforce
  have ok: "ok \<longleftrightarrow> (\<exists>e. st address = Some (nonce, e) \<and> now < e)"
    using verify_and_consume_accepts [of now address nonce st] by (simp add: vc)
  show ?thesis
    unfolding ok [symmetric]
    by (auto simp: verify_def vc bindE_Inr_iff verify_wallet_signature_Inr issue_jwt_def
        JWT_TTL_SECS_def challenge_message_def simp del: append_Cons)
qed

text \<open>
  C11: When a token is issued.  \<open>POST /auth/verify\<close> answers with a token exactly when the address has a
  live challenge with the nonce sent, the signature is base64 for 64 bytes that ed25519 accepts
  for the key of that address over \<open>Concord auth challenge: <nonce>\<close>, and the token is then the
  encoding, under the server's secret, of that address and an expiry one hour ahead.
\<close>

theorem verify_issues_token_iff:
  "fst (verify A secret now now' address nonce signature_b64 st) = Inr tok \<longleftrightarrow>
    (\<exists>e. st address = Some (nonce, e) \<and> now < e) \<and>
    (\<exists>sig pk vk. base64_decode A signature_b64 = Some sig \<and> length sig = 64 \<and>
       public_key_from_string A address = Some pk \<and> verifying_key_from_bytes A pk = Some vk \<and>
       ed25519_verify A vk (as_bytes (''Concord auth challenge: '' @ nonce)) sig) \<and>
    jwt_encode A (as_bytes secret)
      \<lparr>claims_sub = address, claims_exp = i64_as_usize (timestamp (now' + micros 3600))\<rparr> = Inr tok"
  by (rule verify_Inr)

text \<open>
  C34: An attempt burns the challenge.  Whatever the nonce, the signature and the outcome, \<open>POST
  /auth/verify\<close> leaves the address without a challenge and the other addresses as they were, so
  that a second attempt, with anything, is refused; the request needs no proof that it comes from
  the owner of the address.
\<close>

theorem verify_burns_challenge:
  "snd (verify A secret now now' address nonce signature_b64 st) = st(address := None) \<and>
   fst (verify A secret t t' address nonce2 signature2
      (snd (verify A secret now now' address nonce signature_b64 st))) =
     Inl (Unauthorized ''challenge not found, already used, or expired'')"
proof -
  have burn: "snd (verify A secret now now' address nonce signature_b64 st) = st(address := None)"
    using verify_and_consume_store [of now address nonce st]
    by (cases "verify_and_consume now address nonce st")
      (simp add: verify_def Let_def split: if_splits)
  then show ?thesis by (simp add: verify_def verify_and_consume_def)
qed

section \<open>Tokens\<close>

text \<open>
  What \<open>jsonwebtoken\<close> documents, with its default leeway of a minute: a token that was encoded decodes,
  with the same secret, to its own claims while it has not expired, and to nothing else ever.
\<close>

definition jwt_decodes :: "'vk auth_crates \<Rightarrow> bool" where
  "jwt_decodes A \<longleftrightarrow> (\<forall>key claims tok t. jwt_encode A key claims = Inr tok \<longrightarrow>
    t div 1000000 \<le> uint (claims_exp claims) \<longrightarrow> jwt_decode A t key tok = Some claims)"

definition jwt_faithful :: "'vk auth_crates \<Rightarrow> bool" where
  "jwt_faithful A \<longleftrightarrow> (\<forall>key claims claims' tok t. jwt_encode A key claims = Inr tok \<longrightarrow>
    jwt_decode A t key tok = Some claims' \<longrightarrow>
    claims' = claims \<and> t div 1000000 \<le> uint (claims_exp claims) + 60)"

lemma token_expiry:
  assumes "0 \<le> now" "now < 2 ^ 62"
  shows "uint (i64_as_usize (timestamp (now + micros 3600))) = now div 1000000 + 3600"
proof -
  define n where "n = now div 1000000 + 3600"
  have "(now + micros 3600) div 1000000 = n" by (simp add: micros_def n_def)
  moreover have "0 \<le> n" "n < 2 ^ 64" using assms by (simp_all add: n_def)
  ultimately show ?thesis
    by (simp add: timestamp_def int_as_i64_def i64_as_usize_def uint_word_of_int_eq
        take_bit_int_eq_self flip: n_def)
qed

lemma decodes_within_hour:
  assumes "jwt_decodes A" "jwt_encode A key
      \<lparr>claims_sub = address, claims_exp = i64_as_usize (timestamp (t + micros 3600))\<rparr> = Inr tok"
    and "0 \<le> t" "t < 2 ^ 62" "t' \<le> t + micros 3600"
  shows "jwt_decode A t' key tok =
    Some \<lparr>claims_sub = address, claims_exp = i64_as_usize (timestamp (t + micros 3600))\<rparr>"
proof -
  have "t' div 1000000 \<le> (t + micros 3600) div 1000000"
    by (rule zdiv_mono1 [OF assms(5)]) simp
  also have "\<dots> = t div 1000000 + 3600" by (simp add: micros_def)
  finally show ?thesis
    using assms(1,2) token_expiry [OF assms(3,4)] by (simp add: jwt_decodes_def)
qed

text \<open>
  C16: Logging in works.  A wallet that asks for a challenge, signs its message and sends nonce and
  signature back within 300 seconds gets a token, and for the hour that follows the server takes
  that token as a proof of the wallet's address.
\<close>

theorem login_round_trip:
  assumes "is_ascii (hex_encode C nonce_bytes)" "public_key_from_string A address = Some pk"
    and "verifying_key_from_bytes A pk = Some vk"
    and "challenge C A nonce_bytes t0 address st = (Some (Inr r), st1)"
    and "base64_decode A signature_b64 = Some sig" "length sig = 64"
    and "ed25519_verify A vk (as_bytes (cr_message r)) sig"
    and "t1 < t0 + micros 300" "0 \<le> t2" "t2 < 2 ^ 62" "jwt_decodes A"
    and "jwt_encode A (as_bytes secret)
      \<lparr>claims_sub = address, claims_exp = i64_as_usize (timestamp (t2 + micros 3600))\<rparr> = Inr tok"
    and "t3 \<le> t2 + micros 3600"
  shows "fst (verify A secret t1 t2 address (cr_nonce r) signature_b64 st1) = Inr tok \<and>
    auth_user A secret t3 (Some tok) = Inr address"
proof
  have r: "r = \<lparr>cr_nonce = hex_encode C nonce_bytes,
      cr_message = ''Concord auth challenge: '' @ hex_encode C nonce_bytes\<rparr>"
    and st1: "st1 = st(address \<mapsto> (hex_encode C nonce_bytes, t0 + micros 300))"
    using assms(4) challenge_ascii [OF assms(1), of A t0 address st]
    by (simp_all add: assms(2) del: append_Cons)
  show "fst (verify A secret t1 t2 address (cr_nonce r) signature_b64 st1) = Inr tok"
    unfolding verify_Inr
    using assms r st1 by (simp del: append_Cons)
  have "jwt_decode A t3 (as_bytes secret) tok = Some
      \<lparr>claims_sub = address, claims_exp = i64_as_usize (timestamp (t2 + micros 3600))\<rparr>"
    by (rule decodes_within_hour [OF assms(11,12,9,10,13)])
  then show "auth_user A secret t3 (Some tok) = Inr address"
    by (simp add: auth_user_def verify_jwt_def)
qed

text \<open>
  What a token is worth.  A token issued by \<open>POST /auth/verify\<close> authenticates the address that
  proved itself there and no other, and is refused from one hour and a minute of leeway after its issue.
\<close>

lemma token_lifetime:
  assumes "jwt_faithful A" "0 \<le> t2" "t2 < 2 ^ 62"
    and "fst (verify A secret t1 t2 address nonce signature_b64 st) = Inr tok"
    and "auth_user A secret t3 (Some tok) = Inr caller"
  shows "caller = address \<and> t3 div 1000000 \<le> t2 div 1000000 + 3660"
proof -
  have enc: "jwt_encode A (as_bytes secret)
      \<lparr>claims_sub = address, claims_exp = i64_as_usize (timestamp (t2 + micros 3600))\<rparr> = Inr tok"
    using assms(4) unfolding verify_Inr by blast
  obtain claims where "jwt_decode A t3 (as_bytes secret) tok = Some claims"
      "caller = claims_sub claims"
    using assms(5) by (auto simp: auth_user_def verify_jwt_def bindE_Inr_iff)
  with assms(1) enc token_expiry [OF assms(2,3)] show ?thesis
    by (fastforce simp: jwt_faithful_def)
qed

section \<open>Examples\<close>

text \<open>One key, a signature scheme and a token format simple enough to compute with.\<close>

definition sample_auth :: "bytes auth_crates" where
  "sample_auth =
    \<lparr>public_key_from_string = (\<lambda>a. if a = ''GP'' then Some (as_bytes a) else None),
     verifying_key_from_bytes = (\<lambda>k. Some k),
     ed25519_verify = (\<lambda>vk msg sig. sig = take 64 (vk @ msg @ replicate 64 (of_char (CHR ''x'')))),
     base64_decode = (\<lambda>s. Some (as_bytes s)),
     jwt_encode = (\<lambda>key c. Inr (show_nat (unat (claims_exp c)) @ CHR ''.'' # claims_sub c)),
     jwt_decode = (\<lambda>t key tok.
       let e = read_digits (takeWhile (\<lambda>c. c \<noteq> CHR ''.'') tok)
       in if t div 1000000 \<le> int e + 60
          then Some \<lparr>claims_sub = tl (dropWhile (\<lambda>c. c \<noteq> CHR ''.'') tok), claims_exp = of_nat e\<rparr>
          else None)\<rparr>"

lemma sample_token_parts:
  "takeWhile (\<lambda>c. c \<noteq> CHR ''.'') (show_nat n @ CHR ''.'' # s) = show_nat n"
  "dropWhile (\<lambda>c. c \<noteq> CHR ''.'') (show_nat n @ CHR ''.'' # s) = CHR ''.'' # s"
  using show_nat_digits [of n]
  by (simp_all add: takeWhile_append dropWhile_append list_all_iff is_digit_not_sign)

lemma sample_jwt: "jwt_decodes sample_auth" "jwt_faithful sample_auth"
  by (auto simp: jwt_decodes_def jwt_faithful_def sample_auth_def Let_def sample_token_parts
      split: if_splits)

definition sample_signature :: string where
  "sample_signature = take 64 (''GP'' @ (''Concord auth challenge: '' @ lower_hex [1, 2]) @
    replicate 64 (CHR ''x''))"

lemma sample_challenge:
  "challenge sample_crates sample_auth [1, 2] 0 ''GP'' new_store =
    (Some (Inr \<lparr>cr_nonce = lower_hex [1, 2],
       cr_message = ''Concord auth challenge: '' @ lower_hex [1, 2]\<rparr>),
     new_store(''GP'' \<mapsto> (lower_hex [1, 2], micros 300)))"
  "is_ascii (hex_encode sample_crates [1, 2])"
proof -
  show a: "is_ascii (hex_encode sample_crates [1, 2])"
    by (simp add: is_ascii_def sample_crates_def lower_hex_def hex_digit_def)
  show "challenge sample_crates sample_auth [1, 2] 0 ''GP'' new_store =
    (Some (Inr \<lparr>cr_nonce = lower_hex [1, 2],
       cr_message = ''Concord auth challenge: '' @ lower_hex [1, 2]\<rparr>),
     new_store(''GP'' \<mapsto> (lower_hex [1, 2], micros 300)))"
    using challenge_message_ascii [OF a]
    by (simp add: challenge_def issue_def Let_def CHALLENGE_TTL_SECS_def sample_auth_def
        sample_crates_def del: append_Cons)
qed

lemma sample_signature_bytes:
  "as_bytes sample_signature = take 64 (as_bytes ''GP'' @
     as_bytes (''Concord auth challenge: '' @ lower_hex [1, 2]) @
     replicate 64 (of_char (CHR ''x'')))" (is ?eq)
  "length (as_bytes sample_signature) = 64"
proof -
  show ?eq
    unfolding sample_signature_def as_bytes_def
    by (simp only: take_map [symmetric] map_append map_replicate)
  show "length (as_bytes sample_signature) = 64"
    by (simp add: as_bytes_def sample_signature_def)
qed

lemma sample_token:
  "jwt_encode sample_auth (as_bytes ''jwt'')
    \<lparr>claims_sub = ''GP'', claims_exp = i64_as_usize (timestamp (5 + micros 3600))\<rparr> =
   Inr (show_nat 3600 @ ''.GP'')"
proof -
  have "i64_as_usize (timestamp (5 + micros 3600)) = 3600"
    by (simp add: timestamp_def micros_def int_as_i64_def i64_as_usize_def)
  then show ?thesis by (simp add: sample_auth_def)
qed

lemma sample_ed25519:
  "ed25519_verify sample_auth (as_bytes ''GP'')
    (as_bytes (''Concord auth challenge: '' @ lower_hex [1, 2])) (as_bytes sample_signature)"
  unfolding sample_auth_def auth_crates.simps by (rule sample_signature_bytes)

lemma sample_keys:
  "public_key_from_string sample_auth ''GP'' = Some (as_bytes ''GP'')"
  "verifying_key_from_bytes sample_auth (as_bytes ''GP'') = Some (as_bytes ''GP'')"
  "base64_decode sample_auth sample_signature = Some (as_bytes sample_signature)"
  by (simp_all add: sample_auth_def)

lemma sample_verifies:
  "fst (verify sample_auth ''jwt'' 2 5 ''GP'' (lower_hex [1, 2]) sample_signature
     (new_store(''GP'' \<mapsto> (lower_hex [1, 2], micros 300)))) = Inr (show_nat 3600 @ ''.GP'')"
  unfolding verify_Inr
  by (intro conjI exI; (rule sample_token sample_keys sample_ed25519 sample_signature_bytes(2))?)
    ((simp add: micros_def)+)

lemma sample_authenticates:
  "auth_user sample_auth ''jwt'' 6 (Some (show_nat 3600 @ ''.GP'')) = Inr ''GP''"
  by (simp add: auth_user_def verify_jwt_def sample_auth_def sample_token_parts Let_def)

theorem challenge_answers_witness:
  "fst (challenge sample_crates sample_auth [1, 2] 0 ''nobody'' new_store) =
    Some (Inl (BadRequest ''invalid Stellar address''))"
  by (subst challenge_answers [OF sample_challenge(2)]) (simp add: sample_auth_def)

lemma token_lifetime_witness:
  "(''GP'' :: string) = ''GP'' \<and> 6 div 1000000 \<le> 5 div 1000000 + (3660 :: int)"
  by (rule token_lifetime [OF sample_jwt(2) _ _ sample_verifies sample_authenticates]) simp_all

theorem login_round_trip_witness:
  "fst (verify sample_auth ''jwt'' 2 5 ''GP''
      (cr_nonce \<lparr>cr_nonce = lower_hex [1, 2],
         cr_message = ''Concord auth challenge: '' @ lower_hex [1, 2]\<rparr>) sample_signature
     (new_store(''GP'' \<mapsto> (lower_hex [1, 2], micros 300)))) = Inr (show_nat 3600 @ ''.GP'') \<and>
   auth_user sample_auth ''jwt'' 6 (Some (show_nat 3600 @ ''.GP'')) = Inr ''GP''"
proof (rule login_round_trip [OF sample_challenge(2) sample_keys(1,2) sample_challenge(1)
      sample_keys(3) sample_signature_bytes(2) _ _ _ _ sample_jwt(1) sample_token])
  show "ed25519_verify sample_auth (as_bytes ''GP'') (as_bytes (cr_message
      \<lparr>cr_nonce = lower_hex [1, 2],
       cr_message = ''Concord auth challenge: '' @ lower_hex [1, 2]\<rparr>)) (as_bytes sample_signature)"
    unfolding challenge_response.simps by (rule sample_ed25519)
qed (simp_all add: micros_def)

end
