(* ===== verification/Subscriptions.thy ===== *)
theory Subscriptions
  imports Listing Notify Sessions
begin

text \<open>
  The webhook endpoints: who may register, see and delete a webhook, branch by branch on a quiet
  connection and, for what protects the parties of an escrow, beside any other writer.
\<close>

section \<open>The statements\<close>

lemma quiet_insert_webhook:
  "pending p = [] \<Longrightarrow> insert_webhook C wid bs k owner url p =
    (case insert_webhook_stmt wid k owner url (clock p) (hex_encode C bs) (clock p) (tabs p) of
       Inl e \<Rightarrow> (Inl e, p) | Inr (w, T) \<Rightarrow> (Inr w, p\<lparr>tabs := T\<rparr>))"
  by (simp add: insert_webhook_def exec_sql_healthy)

lemma register_steps:
  assumes "register_webhook C wid bs address k url p = (Inr wc, p')"
  obtains e p1 w where "starts_with ''https://'' url \<or> starts_with ''http://'' url"
    "get_escrow k p = (Inr (Some e), p1)" "party_of address e"
    "insert_webhook C wid bs k address url p1 = (Inr w, p')" "wc = webhook_created_from w"
  using assms
  by (auto simp: register_webhook_def run_bind run_lift run_fail run_ret run_query party_of_def
      ok_or_def map_err_def split: if_splits prod.splits sum.splits option.splits)

lemma insert_webhook_row:
  assumes "insert_webhook C wid bs k owner url p = (Inr w, p')"
  shows "w = \<lparr>w_id = wid, w_escrow_id = k, w_owner_address = owner, w_url = url,
      w_created_at = clock p, w_secret = hex_encode C bs\<rparr>"
    and "w \<in> set (webhooks (tabs p'))"
  using assms unfolding insert_webhook_def
  by (auto elim!: exec_sql_InrD simp: insert_webhook_stmt_def Let_def split: if_splits
      dest!: arg_cong [of _ "tabs p'" webhooks, THEN sym])

section \<open>Properties\<close>

lemma register_webhook_quiet:
  assumes "pending p = []"
  shows "register_webhook C wid bs address k url p =
    (if \<not> starts_with ''https://'' url \<and> \<not> starts_with ''http://'' url then
       (Inl (BadRequest ''url must be http(s)''), p)
     else case find_by e_id k (escrows (tabs p)) of
       None \<Rightarrow> (Inl NotFound, p)
     | Some e \<Rightarrow>
         if \<not> party_of address e then
           (Inl (Forbidden
             ''only the escrow's client, provider, or arbitrator may register a webhook''), p)
         else if find_by w_id wid (webhooks (tabs p)) \<noteq> None then
           (Inl (Database UniqueViolation), p)
         else
           (let w = \<lparr>w_id = wid, w_escrow_id = k, w_owner_address = address, w_url = url,
                     w_created_at = clock p, w_secret = hex_encode C bs\<rparr>
            in (Inr (webhook_created_from w),
                p\<lparr>tabs := (tabs p)\<lparr>webhooks := webhooks (tabs p) @ [w]\<rparr>\<rparr>)))"
proof (cases "find_by e_id k (escrows (tabs p))")
  case None
  then show ?thesis
    using assms by (simp add: register_webhook_def eff_simps get_escrow_def exec_sql_healthy_read)
next
  case (Some e)
  then show ?thesis
    using assms
    by (auto simp: register_webhook_def eff_simps get_escrow_def exec_sql_healthy_read party_of_def
        quiet_insert_webhook insert_webhook_stmt_def escrow_exists_def Let_def)
qed

text \<open>
  C24: Registering a webhook, branch by branch.  On a quiet connection the answer is: 400 for a URL that is not
  http(s); 404 for an unknown escrow; 403 for a caller that is not its client, provider or arbitrator;
  500 if the fresh id is taken; and otherwise the new row, which is the only change.
\<close>

theorem register_webhook_branches:
  assumes "pending p = []"
  shows "register_webhook C wid bs address k url p =
    (if \<not> starts_with ''https://'' url \<and> \<not> starts_with ''http://'' url then
       (Inl (BadRequest ''url must be http(s)''), p)
     else case find_by e_id k (escrows (tabs p)) of
       None \<Rightarrow> (Inl NotFound, p)
     | Some e \<Rightarrow>
         if \<not> party_of address e then
           (Inl (Forbidden
             ''only the escrow's client, provider, or arbitrator may register a webhook''), p)
         else if find_by w_id wid (webhooks (tabs p)) \<noteq> None then
           (Inl (Database UniqueViolation), p)
         else
           (let w = \<lparr>w_id = wid, w_escrow_id = k, w_owner_address = address, w_url = url,
                     w_created_at = clock p, w_secret = hex_encode C bs\<rparr>
            in (Inr (webhook_created_from w),
                p\<lparr>tabs := (tabs p)\<lparr>webhooks := webhooks (tabs p) @ [w]\<rparr>\<rparr>)))"
  using assms by (rule register_webhook_quiet)

text \<open>
  C15: Only parties register.  Beside any other writer and over any connection, a registration that
  succeeds was made by a party of the escrow for an http(s) URL; the row stands in the table when the
  answer is sent, and the secret in the answer is the row's own, from the fresh random bytes.
\<close>

theorem registered_by_party:
  assumes "rely p" "register_webhook C wid bs address k url p = (Inr wc, p')"
  shows "(starts_with ''https://'' url \<or> starts_with ''http://'' url) \<and>
    (\<exists>e. find_by e_id k (escrows (tabs p')) = Some e \<and> party_of address e) \<and>
    (\<exists>w. w \<in> set (webhooks (tabs p')) \<and> wc = webhook_created_from w \<and> w_escrow_id w = k \<and>
      w_owner_address w = address \<and> w_url w = url \<and> w_secret w = hex_encode C bs)"
proof -
  obtain e p1 w where url: "starts_with ''https://'' url \<or> starts_with ''http://'' url"
    and get: "get_escrow k p = (Inr (Some e), p1)" and party: "party_of address e"
    and ins: "insert_webhook C wid bs k address url p1 = (Inr w, p')"
    and wc: "wc = webhook_created_from w"
    using register_steps [OF assms(2)] by blast
  have found: "find_by e_id k (escrows (tabs p1)) = Some e" by (rule get_escrow_found [OF get])
  have "rely p1" using pool_writes_rely [OF effectsD [OF effects_db_reads(1)] assms(1)] get
    by (metis snd_conv)
  moreover have "pool_writes p1 p'" using insert_webhook_writes [OF found party] ins
    by (metis snd_conv)
  ultimately have "sql_writes (tabs p1) (tabs p')" by (simp add: pool_writes_def)
  then obtain e' where "find_by e_id k (escrows (tabs p')) = Some e'" "party_of address e'"
    using party_stable [OF _ found party] by blast
  then show ?thesis
    using url wc insert_webhook_row [OF ins] by auto
qed

text \<open>
  C25: Whose webhooks are shown.  Over any connection, the list of an escrow's webhooks that a caller
  gets holds only rows of that escrow the caller owns; and what is sent for a row does not depend on
  its secret.
\<close>

theorem webhooks_shown_to_owner:
  assumes "list_webhooks address k p = (Inr ws, p')" "w \<in> set ws"
  shows "w_owner_address w = address \<and> w_escrow_id w = k \<and> w \<in> set (webhooks (tabs p')) \<and>
    webhook_row_json w = webhook_row_json (w\<lparr>w_secret := other\<rparr>)"
proof -
  obtain all where all: "list_webhooks_for_escrow k p = (Inr all, p')"
      "ws = filter (\<lambda>w. w_owner_address w = address) all"
    using assms(1)
    by (auto simp: list_webhooks_def run_bind run_query run_ret map_err_def
        split: prod.splits sum.splits)
  have "all = webhooks_of k (tabs p')"
    using all(1) unfolding list_webhooks_for_escrow_def
    by (elim exec_sql_InrD) (auto simp: read_only_def)
  with all(2) assms(2) show ?thesis by (auto simp: webhooks_of_def webhook_row_json_def)
qed

lemma delete_webhook_quiet:
  assumes "pending p = []"
  shows "delete_webhook_handler address k wid p =
    (if \<exists>w \<in> set (webhooks (tabs p)). w_id w = wid \<and> w_owner_address w = address
     then (Inr (), p\<lparr>tabs := (tabs p)\<lparr>webhooks :=
       filter (\<lambda>w. \<not> (w_id w = wid \<and> w_owner_address w = address)) (webhooks (tabs p))\<rparr>\<rparr>)
     else (Inl NotFound, p))"
proof -
  let ?P = "\<lambda>w. w_id w = wid \<and> w_owner_address w = address"
  let ?kept = "delete_where ?P (webhooks (tabs p))"
  have count: "length ?kept < length (webhooks (tabs p)) \<longleftrightarrow> (\<exists>w \<in> set (webhooks (tabs p)). ?P w)"
    by (rule delete_where_length_less)
  have kept: "\<not> (\<exists>w \<in> set (webhooks (tabs p)). ?P w) \<Longrightarrow> ?kept = webhooks (tabs p)"
    unfolding delete_where_def by (rule filter_True) blast
  have "delete_webhook wid address p = (Inr (\<exists>w \<in> set (webhooks (tabs p)). ?P w),
      p\<lparr>tabs := (tabs p)\<lparr>webhooks := ?kept\<rparr>\<rparr>)"
    using assms count
    by (simp add: delete_webhook_def exec_sql_healthy delete_webhook_stmt_def Let_def)
  then have "delete_webhook_handler address k wid p =
      (if \<exists>w \<in> set (webhooks (tabs p)). ?P w
       then (Inr (), p\<lparr>tabs := (tabs p)\<lparr>webhooks := ?kept\<rparr>\<rparr>)
       else (Inl NotFound, p\<lparr>tabs := (tabs p)\<lparr>webhooks := ?kept\<rparr>\<rparr>))"
    by (simp add: delete_webhook_handler_def run_bind run_query run_fail run_ret)
  with kept show ?thesis by (simp add: delete_where_def)
qed

text \<open>
  C26: Deleting a webhook.  On a quiet connection a caller's request to delete a webhook removes
  exactly the rows with that id the caller owns, and is a 404 that changes nothing if there is none;
  the escrow id in the path plays no part.
\<close>

theorem delete_webhook_branches:
  assumes "pending p = []"
  shows "delete_webhook_handler address k wid p =
    (if \<exists>w \<in> set (webhooks (tabs p)). w_id w = wid \<and> w_owner_address w = address
     then (Inr (), p\<lparr>tabs := (tabs p)\<lparr>webhooks :=
       filter (\<lambda>w. \<not> (w_id w = wid \<and> w_owner_address w = address)) (webhooks (tabs p))\<rparr>\<rparr>)
     else (Inl NotFound, p))"
  using assms by (rule delete_webhook_quiet)

section \<open>Examples\<close>

definition sample_hook :: webhook_row where
  "sample_hook = \<lparr>w_id = 7, w_escrow_id = I64 1, w_owner_address = ''GP'',
    w_url = ''https://p.example'', w_created_at = 0, w_secret = ''s3cret''\<rparr>"

lemma sample_hooked_world_hooks: "webhooks (tabs sample_hooked_world) = [sample_hook]"
  by (simp add: sample_hooked_world_def sample_hook_def)

lemma sample_world_escrow_1:
  "\<exists>e. find_by e_id (I64 1) (escrows (tabs sample_world)) = Some e \<and> party_of ''GP'' e"
  by (simp add: sample_world_def find_by_def party_of_def)

lemma sample_world_no_hooks: "webhooks (tabs sample_world) = []"
  by (simp add: sample_world_def migrated_def)

theorem register_webhook_branches_witness:
  "fst (register_webhook sample_crates 9 [1] ''GX'' (I64 1) ''https://x.example'' sample_world) =
    Inl (Forbidden ''only the escrow's client, provider, or arbitrator may register a webhook'')"
  by (subst register_webhook_branches [OF sample_world_pending])
    (simp add: sample_world_def find_by_def party_of_def starts_with_def)

lemma sample_registers:
  "\<exists>wc p'. register_webhook sample_crates 9 [1] ''GP'' (I64 1) ''https://p.example'' sample_world =
    (Inr wc, p')"
  using sample_world_escrow_1
  by (auto simp: register_webhook_def eff_simps get_escrow_def exec_sql_healthy_read
      sample_world_pending party_of_def quiet_insert_webhook insert_webhook_stmt_def
      escrow_exists_def Let_def sample_world_no_hooks starts_with_def)

theorem registered_by_party_witness:
  "\<exists>p' e. find_by e_id (I64 1) (escrows (tabs p')) = Some e \<and> party_of ''GP'' e \<and>
    snd (register_webhook sample_crates 9 [1] ''GP'' (I64 1) ''https://p.example'' sample_world) = p'"
proof -
  obtain wc p' where run: "register_webhook sample_crates 9 [1] ''GP'' (I64 1) ''https://p.example''
      sample_world = (Inr wc, p')" using sample_registers by blast
  have "rely sample_world" by (simp add: rely_def sample_world_pending)
  from registered_by_party [OF this run] run show ?thesis by auto
qed

theorem webhooks_shown_to_owner_witness:
  "w_owner_address sample_hook = ''GP'' \<and> w_escrow_id sample_hook = I64 1 \<and>
   sample_hook \<in> set (webhooks (tabs sample_hooked_world)) \<and>
   webhook_row_json sample_hook = webhook_row_json (sample_hook\<lparr>w_secret := ''x''\<rparr>)"
proof (rule webhooks_shown_to_owner)
  show "list_webhooks ''GP'' (I64 1) sample_hooked_world = (Inr [sample_hook], sample_hooked_world)"
    by (simp add: list_webhooks_def eff_simps quiet_simps sample_hooked_world_pending webhooks_of_def
        sample_hooked_world_hooks) (simp add: sample_hook_def)
qed simp

theorem delete_webhook_branches_witness:
  "fst (delete_webhook_handler ''GX'' (I64 1) 7 sample_hooked_world) = Inl NotFound"
  by (subst delete_webhook_branches [OF sample_hooked_world_pending])
    (simp add: sample_hooked_world_hooks sample_hook_def)

end
