(* ===== verification/Values.thy ===== *)
theory Values
  imports Subscriptions
begin

text \<open>
  The conversions at the borders of the program: contract values to columns, statuses and settings to
  and from text, errors to responses, and the bytes a delivery signs.
\<close>

section \<open>Contract values\<close>

text \<open>
  C37: Amounts are exact.  The 128-bit value the contract reports as a signed high and an unsigned low half
  is decoded to \<open>hi * 2^64 + lo\<close>, without loss at either sign, and always fits the amount column.
\<close>

theorem amount_decoded:
  "\<exists>a. sc_val_to_i128 (ScI128 hi lo) = Inr a \<and> i128_int a = i64_int hi * 2 ^ 64 + uint lo \<and>
    fits_numeric_39 (i128_int a)"
  using i128_fits_numeric [of "i128_or (i128_shl (i64_as_i128 hi) 64) (u64_as_i128 lo)"]
  by (simp add: sc_val_to_i128_def i128_of_parts)

text \<open>
  C36: Timestamps wrap.  Let the date conversion accept the signed seconds from \<open>lo\<close> to \<open>hi\<close>, as
  \<open>DateTime::from_timestamp\<close> does for chrono's range of dates.  A contract timestamp up to \<open>hi\<close> then
  becomes that instant, and one in the middle is out of range; but one of the last \<open>- lo\<close> values below
  \<open>2^64\<close> is read as a negative number and becomes a date before 1970, not an error.
\<close>

theorem timestamp_wraps:
  assumes "\<And>s. datetime_from_timestamp C s =
      (if lo \<le> i64_int s \<and> i64_int s \<le> hi then Some (micros (i64_int s)) else None)"
    and "- (2 ^ 63) \<le> lo" "lo \<le> 0" "0 \<le> hi" "hi < 2 ^ 63"
  shows "unix_seconds_to_datetime C secs =
      (if uint secs \<le> hi then Inr (micros (uint secs))
       else if 2 ^ 64 + lo \<le> uint secs then Inr (micros (uint secs - 2 ^ 64))
       else Inl (TimestampOutOfRange secs)) \<and>
    ((\<exists>t < 0. unix_seconds_to_datetime C secs = Inr t) \<longleftrightarrow> 2 ^ 64 + lo \<le> uint secs)"
proof -
  have "lo \<le> uint secs" using assms(3) order_trans by fastforce
  moreover have "uint secs < 2 ^ 64" using uint_lt2p [of secs] by simp
  ultimately show ?thesis
    using assms(2-5)
    by (auto simp: unix_seconds_to_datetime_def assms(1) i64_int_u64_as_i64 micros_def ok_or_def)
qed

text \<open>
  C38: The milestones of an event decode all or none: the result has one entry per element of the vector, in
  order, each with the four fields of its own map, and there is a result only if every element has them.
\<close>

theorem milestones_decoded:
  "decode_milestones C v = Inr ms \<longleftrightarrow>
    (\<exists>vs. v = ScVec (Some vs) \<and> list_all2 (\<lambda>entry m.
       bindE (map_get C entry ''id'') sc_val_to_u32 = Inr (dm_id m) \<and>
       bindE (map_get C entry ''description'') (sc_val_to_string C) = Inr (dm_description m) \<and>
       bindE (map_get C entry ''amount'') sc_val_to_i128 = Inr (dm_amount m) \<and>
       bindE (map_get C entry ''deadline'') sc_val_to_u64 = Inr (dm_deadline m)) vs ms)"
proof -
  have one: "decode_milestone C entry = Inr m \<longleftrightarrow>
      bindE (map_get C entry ''id'') sc_val_to_u32 = Inr (dm_id m) \<and>
      bindE (map_get C entry ''description'') (sc_val_to_string C) = Inr (dm_description m) \<and>
      bindE (map_get C entry ''amount'') sc_val_to_i128 = Inr (dm_amount m) \<and>
      bindE (map_get C entry ''deadline'') sc_val_to_u64 = Inr (dm_deadline m)" for entry m
    by (cases m) (auto simp: decode_milestone_def bindE_Inr_iff)
  show ?thesis
    by (auto simp: decode_milestones_def collectE_Inr_iff one split: scval.splits option.splits)
qed

text \<open>
  A resolution decodes exactly when it is a vector that begins with one of the three
  variant symbols; only a split has basis points, taken from the second element, which must be a 32-bit
  number and is stored with its bits unchanged.
\<close>

lemma resolution_decoded:
  "decode_resolution C v = Inr (kind, bps) \<longleftrightarrow>
    (\<exists>s rest. v = ScVec (Some (ScSymbol s # rest)) \<and>
      (stringm_to_string C s = ''ReleaseToProvider'' \<and> kind = ''release'' \<and> bps = None \<or>
       stringm_to_string C s = ''RefundToClient'' \<and> kind = ''refund'' \<and> bps = None \<or>
       (\<exists>n rest'. stringm_to_string C s = ''Split'' \<and> rest = ScU32 n # rest' \<and>
          kind = ''split'' \<and> bps = Some (u32_as_i32 n))))"
  by (auto simp: decode_resolution_def Let_def bindE_Inr_iff
      split: scval.splits option.splits list.splits if_splits)

section \<open>Texts\<close>

definition env_of :: "config \<Rightarrow> string \<Rightarrow> string option" where
  "env_of c =
    [''DATABASE_URL'' \<mapsto> database_url c, ''JWT_SECRET'' \<mapsto> jwt_secret c,
     ''SOROBAN_RPC_URL'' \<mapsto> soroban_rpc_url c, ''ESCROW_CONTRACT_ID'' \<mapsto> escrow_contract_id c,
     ''PORT'' \<mapsto> show_nat (unat (port c)),
     ''INDEXER_POLL_INTERVAL_SECS'' \<mapsto> show_nat (unat (indexer_poll_interval_secs c))]"

lemma from_env_env_of: "from_env (env_of c) = Inr c"
proof -
  have "unat (port c) < 2 ^ 16" "unat (indexer_poll_interval_secs c) < 2 ^ 64"
    using unsigned_less [of "port c"] unsigned_less [of "indexer_poll_interval_secs c"] by simp_all
  then show ?thesis by (simp add: from_env_Inr env_of_def parse_or_shown)
qed

text \<open>
  C39: The configuration.  An environment that spells out a configuration is read back as it; start-up fails
  exactly when one of the three mandatory variables is missing; and a port that is no number of 16
  bits falls back to 8080.
\<close>

theorem config_round_trip:
  "from_env (env_of c) = Inr c \<and>
   ((\<exists>m. from_env env = Inl m) \<longleftrightarrow>
      env ''DATABASE_URL'' = None \<or> env ''JWT_SECRET'' = None \<or> env ''ESCROW_CONTRACT_ID'' = None) \<and>
   ((\<exists>m. from_env env = Inl m) \<or> port (projr (from_env env)) =
      (case Option.bind (env ''PORT'') (parse_unsigned 16) of None \<Rightarrow> 8080 | Some n \<Rightarrow> of_nat n))"
  using from_env_env_of [of c]
  by (auto simp: from_env_def expect_def ok_or_def bindE_def parse_or_def split: option.splits)

section \<open>Errors\<close>

text \<open>
  Errors say nothing internal.  Every database and internal error becomes the same response, a 500 with
  a fixed text; the other errors have their own codes 400, 401, 403 and 404 and repeat only the
  message the handler wrote.
\<close>

theorem internal_errors_opaque:
  "into_response (Database d) = (500, JObj [(''error'', JStr ''internal server error'')]) \<and>
   into_response (Internal m) = into_response (Database d) \<and>
   (fst (into_response e) = 500 \<longleftrightarrow> (\<exists>d. e = Database d) \<or> (\<exists>m. e = Internal m)) \<and>
   fst (into_response e) \<in> {400, 401, 403, 404, 500}"
  by (cases e) (simp_all add: into_response_def)

section \<open>Signatures\<close>

text \<open>
  What a delivery signs is unambiguous: the bytes fed to the MAC determine the timestamp and the
  body, so a signature cannot be moved to another pair.
\<close>

theorem signed_content_unambiguous:
  "signed_content ts body = signed_content ts' body' \<longleftrightarrow> ts = ts' \<and> body = body'"
  by (rule signed_content_inject)

theorem timestamp_wraps_witness:
  "unix_seconds_to_datetime sample_crates 0xFFFFFFFFFFFFFFFF = Inr (- 1000000) \<and>
   unix_seconds_to_datetime sample_crates 0x8000000000000000 =
     Inl (TimestampOutOfRange 0x8000000000000000)"
proof -
  note wraps = timestamp_wraps [of sample_crates "- 8334601228800" 8210266876799]
  have law: "datetime_from_timestamp sample_crates s =
      (if - 8334601228800 \<le> i64_int s \<and> i64_int s \<le> 8210266876799
       then Some (micros (i64_int s)) else None)" for s
    by (simp add: sample_crates_def sample_from_timestamp_def)
  show ?thesis
    using wraps [OF law, of "0xFFFFFFFFFFFFFFFF"] wraps [OF law, of "0x8000000000000000"]
    by (simp add: micros_def)
qed

end
