(* ===== verification/Server.thy ===== *)
theory Server
  imports Router Feed Values
begin

text \<open>
  The whole process, \<open>src/main.rs\<close> and \<open>src/state.rs\<close>: start-up, and the runs of the started server,
  in which the indexer polls, requests pass the layers and are served, time passes and the forecast
  for the connection to the database changes, in any order.  A run records what was exchanged with
  the clients.
\<close>

section \<open>Start-up\<close>

datatype start_error =
    MissingVariable string
  | NoDatabase db_error
  | NoPort

text \<open>
  \<open>connect\<close> gives what the database at a URL holds: \<open>None\<close> before the migrations ever ran there,
  otherwise the tables an earlier run of the server left.
\<close>

definition init_pool :: "(string \<Rightarrow> db_error + tables option) \<Rightarrow> string \<Rightarrow> db_error + tables" where
  "init_pool connect url =
    bindE (connect url) (\<lambda>stored.
    Inr (case stored of None \<Rightarrow> migrated | Some T \<Rightarrow> T))"

definition app_state :: "tables \<Rightarrow> datetime \<Rightarrow> server" where
  "app_state T now =
    \<lparr>tabs = T, pending = [], clock = now, outbox = [], challenges = new_store\<rparr>"

definition start ::
  "(string \<Rightarrow> string option) \<Rightarrow> (string \<Rightarrow> db_error + tables option) \<Rightarrow> (u16 \<Rightarrow> bool) \<Rightarrow> datetime \<Rightarrow>
   start_error + config \<times> server" where
  "start env connect bindable now =
    bindE (map_err MissingVariable (from_env env)) (\<lambda>cfg.
    bindE (map_err NoDatabase (init_pool connect (database_url cfg))) (\<lambda>T.
    if bindable (port cfg) then Inr (cfg, app_state T now) else Inl NoPort))"

text \<open>
  The layers around the router.  The trace layer only logs; the CORS layer answers preflight requests
  itself and otherwise only adds headers.
\<close>

definition cors :: cors_layer where
  "cors = \<lparr>allow_methods = [GET, POST, DELETE], allow_headers = AnyValue, allow_origin = AnyValue\<rparr>"

definition app ::
  "crates \<Rightarrow> 'vk auth_crates \<Rightarrow> 'raw web \<Rightarrow> string \<Rightarrow> draws \<Rightarrow> http_method \<Rightarrow> string \<Rightarrow> 'raw \<Rightarrow>
   server \<Rightarrow> response option \<times> server" where
  "app C A X secret dr meth path raw w =
    (case intercept X cors meth raw of
       Some r \<Rightarrow> (Some r, w)
     | None \<Rightarrow> serve C A X secret dr meth path raw w)"

text \<open>Its documentation: only \<open>OPTIONS\<close> requests are intercepted, and answered with an empty 200.\<close>

definition cors_documented :: "'raw web \<Rightarrow> bool" where
  "cors_documented X \<longleftrightarrow> (\<forall>meth raw r. intercept X cors meth raw = Some r \<longrightarrow>
    meth = OtherMethod ''OPTIONS'' \<and> r = (200, JNull))"

text \<open>No endpoint is kept from a browser: the layer allows every method of the table.\<close>

lemma cors_allows_routes:
  "list_all (\<lambda>(path, methods). set (map fst methods) \<subseteq> set (allow_methods cors)) router"
  by (simp add: cors_def router_def)

lemma app_writes: "pool_writes w (snd (app C A X secret dr meth path raw w))"
  by (simp add: app_def serve_writes writes.refl split: option.split)

section \<open>Runs\<close>

record 'raw exchange =
  ex_before :: server
  ex_method :: http_method
  ex_path :: string
  ex_raw :: 'raw
  ex_draws :: draws
  ex_response :: "response option"

text \<open>
  What happens between two requests: a poll of the indexer, time, or a new forecast for the next
  statements, in which the other task may write anything the program can write.
\<close>

inductive background :: "crates \<Rightarrow> config \<Rightarrow> server \<Rightarrow> server \<Rightarrow> bool" for C cfg where
  poll: "background C cfg w (snd (poll_once C rpc cfg w))"
| pass: "background C cfg w (w\<lparr>clock := clock w + int dt\<rparr>)"
| forecast: "list_all (\<lambda>(d, dt, others). \<forall>T. sql_writes T (others T)) gaps \<Longrightarrow>
    background C cfg w (w\<lparr>pending := gaps\<rparr>)"

inductive run ::
  "crates \<Rightarrow> 'vk auth_crates \<Rightarrow> 'raw web \<Rightarrow> config \<Rightarrow> server \<Rightarrow> 'raw exchange list \<Rightarrow> server \<Rightarrow> bool"
  for C A X cfg w0 where
  started: "run C A X cfg w0 [] w0"
| background: "run C A X cfg w0 xs w \<Longrightarrow> background C cfg w w' \<Longrightarrow> run C A X cfg w0 xs w'"
| request: "run C A X cfg w0 xs w \<Longrightarrow>
    app C A X (jwt_secret cfg) dr meth path raw w = (resp, w') \<Longrightarrow>
    run C A X cfg w0 (xs @ [\<lparr>ex_before = w, ex_method = meth, ex_path = path, ex_raw = raw,
      ex_draws = dr, ex_response = resp\<rparr>]) w'"

text \<open>A poll leaves what is not the indexer's, the challenges, alone.\<close>

definition keeps_rest :: "'z iworld_scheme \<Rightarrow> 'z iworld_scheme \<Rightarrow> bool" where
  "keeps_rest w w' \<longleftrightarrow> iworld.more w' = iworld.more w"

lemma pool_more_rest: "pool.more w' = pool.more w \<Longrightarrow> keeps_rest w w'"
  by (cases w; cases w') (simp add: keeps_rest_def)

lemma keeps_rest_exec_sql: "keeps_rest w (snd (exec_sql stmt w))"
  by (rule pool_more_rest) simp

interpretation rest_frame:
  delivery_effects "keeps_rest :: 'z iworld_scheme \<Rightarrow> 'z iworld_scheme \<Rightarrow> bool"
  by unfold_locales
    (auto simp: effects_def upsert_escrow_def set_escrow_status_def upsert_milestone_def
      set_milestone_status_def mark_milestone_submitted_def release_milestone_def
      insert_dispute_def resolve_dispute_def list_webhooks_for_escrow_def keeps_rest_exec_sql,
      simp_all add: keeps_rest_def)

lemma poll_once_rest: "effects keeps_rest (poll_once C rpc cfg)"
proof -
  have cur: "effects keeps_rest (db get_cursor)" "effects keeps_rest (db (set_cursor l c))" for l c
    by (rule rest_frame.db_effects; simp add: effects_def get_cursor_def set_cursor_def
        keeps_rest_exec_sql)+
  have "effects keeps_rest (fetch_page rpc cfg)"
    unfolding fetch_page_def
    by (intro rest_frame.effects_bind cur)
      (auto intro!: rest_frame.effects_bind rest_frame.effects_lift split: prod.splits)
  moreover have "effects keeps_rest (advance_cursor r)" for r
    unfolding advance_cursor_def
    by (auto intro!: cur rest_frame.effects_ret split: option.splits)
  ultimately show ?thesis
    unfolding poll_once_def
    by (intro rest_frame.effects_bind rest_frame.effects_ret)
      (simp_all add: effects_def case_prod_unfold Let_def rest_frame.process_events_effects)
qed

lemma background_steps:
  assumes "background C cfg w w'" "rely w"
  shows "rely w' \<and> sql_writes (tabs w) (tabs w') \<and> challenges w' = challenges w"
  using assms
proof (cases rule: background.cases)
  case (poll rpc)
  have pw: "pool_writes w w'" unfolding poll by (rule effectsD [OF effects_poll_once])
  have "iworld.more w' = iworld.more w"
    using effectsD [OF poll_once_rest, of w C rpc cfg] by (simp add: poll keeps_rest_def)
  then have "challenges w' = challenges w" by (cases w; cases w') simp
  then show ?thesis using assms(2) pool_writes_rely [OF pw] pw by (simp add: pool_writes_def)
qed (use assms(2) in \<open>auto simp: rely_def list_all_iff\<close>)

lemma run_steps:
  assumes "run C A X cfg w0 xs w" "rely w0"
  shows "rely w \<and> sql_writes (tabs w0) (tabs w)"
  using assms
proof (induction rule: run.induct)
  case (background xs w w')
  then have "rely w" "sql_writes (tabs w0) (tabs w)" by simp_all
  with background_steps [OF background.hyps(2)] show ?case by auto
next
  case (request xs w dr meth path raw resp w')
  have pw: "pool_writes w w'"
    using app_writes [of w C A X "jwt_secret cfg" dr meth path raw] request.hyps(2) by simp
  with request show ?case
    using pool_writes_rely [OF pw] by (auto simp: pool_writes_def)
qed simp

lemma start_Inr:
  assumes "start env connect bindable now = Inr (cfg, w)"
  obtains stored where "from_env env = Inr cfg" "connect (database_url cfg) = Inr stored"
    "bindable (port cfg)"
    "w = app_state (case stored of None \<Rightarrow> migrated | Some T \<Rightarrow> T) now"
  using assms
  by (auto simp: start_def init_pool_def bindE_Inr_iff split: if_splits)

lemma started_ok:
  assumes "start env connect bindable now = Inr (cfg, w0)"
    and "\<And>T. connect (database_url cfg) = Inr (Some T) \<Longrightarrow> schema_ok T"
  shows "rely w0 \<and> schema_ok (tabs w0)"
proof -
  obtain stored where st: "connect (database_url cfg) = Inr stored"
      "w0 = app_state (case stored of None \<Rightarrow> migrated | Some T \<Rightarrow> T) now"
    using start_Inr [OF assms(1)] by blast
  with assms(2) show ?thesis
    by (cases stored) (simp_all add: app_state_def rely_def schema_migrated)
qed

section \<open>Logins in a run\<close>

text \<open>An exchange in which the server gave \<open>address\<close> the nonce \<open>nonce\<close> at time \<open>t\<close>.\<close>

definition challenged ::
  "crates \<Rightarrow> 'raw web \<Rightarrow> string \<Rightarrow> string \<Rightarrow> datetime \<Rightarrow> 'raw exchange \<Rightarrow> bool" where
  "challenged C X address nonce t x \<longleftrightarrow>
    (\<exists>ps. route X (ex_method x) (ex_path x) = Inr (PostChallenge, ps)) \<and>
    body_challenge X (ex_raw x) = Inr \<lparr>creq_address = address\<rparr> \<and>
    hex_encode C (nonce_bytes (ex_draws x)) = nonce \<and> clock (ex_before x) = t"

text \<open>A base64 text that is a signature of the challenge by the key of the address.\<close>

definition signed_challenge :: "'vk auth_crates \<Rightarrow> string \<Rightarrow> string \<Rightarrow> string \<Rightarrow> bool" where
  "signed_challenge A address nonce signature_b64 \<longleftrightarrow>
    (\<exists>sig pk vk. base64_decode A signature_b64 = Some sig \<and> length sig = 64 \<and>
       public_key_from_string A address = Some pk \<and> verifying_key_from_bytes A pk = Some vk \<and>
       ed25519_verify A vk (as_bytes (''Concord auth challenge: '' @ nonce)) sig)"

text \<open>An exchange in which the server sent a token.\<close>

definition token_sent :: "'raw web \<Rightarrow> string \<Rightarrow> 'raw exchange \<Rightarrow> bool" where
  "token_sent X tok x \<longleftrightarrow>
    (\<exists>ps. route X (ex_method x) (ex_path x) = Inr (PostVerify, ps)) \<and>
    ex_response x = Some (200, token_response_json tok)"

lemma handlers_keep_rest:
  "effects keeps_rest (list_escrows_handler q :: ('z iworld_scheme, app_error, escrow_row list) eff)"
  "effects keeps_rest (get_escrow_handler k :: ('z iworld_scheme, app_error, escrow_detail) eff)"
  "effects keeps_rest (list_disputes_handler st l off :: ('z iworld_scheme, app_error, dispute_row list) eff)"
  "effects keeps_rest (register_webhook C wid bs a k url :: ('z iworld_scheme, app_error, webhook_created) eff)"
  "effects keeps_rest (list_webhooks a k :: ('z iworld_scheme, app_error, webhook_row list) eff)"
  "effects keeps_rest (delete_webhook_handler a k wid :: ('z iworld_scheme, app_error, unit) eff)"
proof -
  have q: "effects keeps_rest (query (exec_sql stmt))" for stmt :: "'b stmt"
    unfolding query_def
    by (rule rest_frame.effects_map_errS) (simp add: effects_def keeps_rest_exec_sql)
  have ins: "effects keeps_rest (query (insert_webhook C wid bs a k url))" for C wid bs a k url
    unfolding query_def
    by (rule rest_frame.effects_map_errS)
      (simp add: effects_def insert_webhook_def keeps_rest_exec_sql)
  note defs = list_escrows_handler_def get_escrow_handler_def list_disputes_handler_def
    register_webhook_def list_webhooks_def delete_webhook_handler_def list_escrows_def
    get_escrow_def list_milestones_def list_disputes_def list_webhooks_for_escrow_def
    delete_webhook_def
  note rules = q ins rest_frame.effects_bind rest_frame.effects_lift rest_frame.effects_ret
    rest_frame.effects_fail
  show "effects keeps_rest (list_escrows_handler q :: ('z iworld_scheme, app_error, escrow_row list) eff)"
    "effects keeps_rest (get_escrow_handler k :: ('z iworld_scheme, app_error, escrow_detail) eff)"
    "effects keeps_rest (list_disputes_handler st l off :: ('z iworld_scheme, app_error, dispute_row list) eff)"
    "effects keeps_rest (register_webhook C wid bs a k url :: ('z iworld_scheme, app_error, webhook_created) eff)"
    "effects keeps_rest (list_webhooks a k :: ('z iworld_scheme, app_error, webhook_row list) eff)"
    "effects keeps_rest (delete_webhook_handler a k wid :: ('z iworld_scheme, app_error, unit) eff)"
    unfolding defs by (auto intro!: rules split: prod.splits)
qed

lemma run_handler_challenges:
  assumes "effects keeps_rest m" "run_handler f m w = (resp, w')"
  shows "challenges w' = challenges w"
proof -
  have "iworld.more w' = iworld.more w"
    using effectsD [OF assms(1), of w] assms(2)
    by (simp add: run_handler_def keeps_rest_def case_prod_unfold)
  then show ?thesis by (cases w; cases w') simp
qed

lemma verify_store: "snd (verify A secret now now' a n sig st) = st(a := None)"
  using verify_and_consume_store [of now a n st]
  by (cases "verify_and_consume now a n st") (simp add: verify_def Let_def split: if_splits)

lemma challenge_handler_store:
  "snd (challenge C A bs now a st) = st \<or>
   snd (challenge C A bs now a st) = st(a \<mapsto> (hex_encode C bs, now + micros 300))"
  by (auto simp: challenge_def issue_def Let_def CHALLENGE_TTL_SECS_def split: option.splits)

lemma challenge_endpoint_challenges:
  assumes "challenge_endpoint C A dr address w = (resp, w')"
    and "challenges w' a = Some (n, e)" "challenges w a \<noteq> Some (n, e)"
  shows "address = a \<and> hex_encode C (nonce_bytes dr) = n \<and> e = clock w + micros 300"
proof -
  have "challenges w' = snd (challenge C A (nonce_bytes dr) (clock w) address (challenges w))"
    using assms(1) by (auto simp: challenge_endpoint_def case_prod_unfold Let_def)
  with assms(2,3) challenge_handler_store [of C A "nonce_bytes dr" "clock w" address "challenges w"]
  show ?thesis by (auto split: if_splits)
qed

text \<open>A request leaves no challenge that was not there before or that it asked for itself.\<close>

lemma serve_endpoint_challenges:
  assumes "serve_endpoint C A X secret dr ep ps raw w = (resp, w')"
    and "challenges w' a = Some (n, e)" "challenges w a \<noteq> Some (n, e)"
  shows "ep = PostChallenge \<and> body_challenge X raw = Inr \<lparr>creq_address = a\<rparr> \<and> hex_encode C (nonce_bytes dr) = n \<and>
    e = clock w + micros 300"
proof (cases ep)
  case PostChallenge
  then show ?thesis
    using assms challenge_endpoint_challenges [of C A dr "creq_address (projr (body_challenge X raw))"
        w resp w' a n e]
    by (cases "body_challenge X raw") (auto simp: serve_endpoint_def extracted_def)
next
  case PostVerify
  then show ?thesis
    using assms by (auto simp: serve_endpoint_def extracted_def verify_endpoint_def
        case_prod_unfold Let_def verify_store split: sum.splits if_splits)
qed (use assms in \<open>auto simp: serve_endpoint_def extracted_def authenticated_def
      dest!: run_handler_challenges [rotated] intro: handlers_keep_rest split: sum.splits\<close>)

lemma serve_challenges:
  assumes "serve C A X secret dr meth path raw w = (resp, w')"
    and "challenges w' a = Some (n, e)" "challenges w a \<noteq> Some (n, e)"
  shows "(\<exists>ps. route X meth path = Inr (PostChallenge, ps)) \<and> body_challenge X raw = Inr \<lparr>creq_address = a\<rparr> \<and>
    hex_encode C (nonce_bytes dr) = n \<and> e = clock w + micros 300"
proof (cases "route X meth path")
  case (Inr r)
  obtain ep ps where r: "r = (ep, ps)" by (cases r)
  have "serve_endpoint C A X secret dr ep ps raw w = (resp, w')"
    using assms(1) by (simp add: serve_def extracted_def Inr r)
  from serve_endpoint_challenges [OF this assms(2,3)] Inr r show ?thesis by simp
qed (use assms in \<open>simp add: serve_def extracted_def\<close>)

lemma app_challenges:
  assumes "app C A X secret dr meth path raw w = (resp, w')"
    and "challenges w' a = Some (n, e)" "challenges w a \<noteq> Some (n, e)"
  shows "(\<exists>ps. route X meth path = Inr (PostChallenge, ps)) \<and>
    body_challenge X raw = Inr \<lparr>creq_address = a\<rparr> \<and>
    hex_encode C (nonce_bytes dr) = n \<and> e = clock w + micros 300"
  using assms serve_challenges [of C A X secret dr meth path raw w resp w']
  by (simp add: app_def split: option.splits)

text \<open>Every live challenge was asked for in the run, five minutes before it expires.\<close>

lemma run_challenges:
  assumes "run C A X cfg w0 xs w" "rely w0" "challenges w0 = new_store"
    and "challenges w a = Some (n, e)"
  shows "\<exists>x \<in> set xs. challenged C X a n (e - micros 300) x"
  using assms
proof (induction rule: run.induct)
  case started
  then show ?case by (simp add: new_store_def)
next
  case (background xs w w')
  then have "rely w" using run_steps by blast
  with background background_steps show ?case by metis
next
  case (request xs w dr meth path raw resp w')
  show ?case
  proof (cases "challenges w a = Some (n, e)")
    case False
    from app_challenges [OF request.hyps(2) request.prems(3) False] show ?thesis
      by (auto simp: challenged_def)
  qed (use request in auto)
qed

lemma answer_ok: "answer f r = (200, j) \<longleftrightarrow> (\<exists>x. r = Inr x \<and> j = f x)"
  by (auto simp: answer_def into_response_def split: sum.splits app_error.splits)

text \<open>What the server checked when it sent a token.\<close>

lemma serve_token:
  assumes "serve C A X secret dr meth path raw w = (Some (200, token_response_json tok), w')"
    and "route X meth path = Inr (PostVerify, ps)" "\<forall>r. body_verify X raw = Inl r \<longrightarrow> fst r \<noteq> 200"
  shows "\<exists>a n sig e t. body_verify X raw = Inr \<lparr>vreq_address = a, vreq_nonce = n, vreq_signature = sig\<rparr> \<and> challenges w a = Some (n, e) \<and>
    clock w < e \<and> signed_challenge A a n sig \<and>
    jwt_encode A (as_bytes secret) \<lparr>claims_sub = a, claims_exp = t\<rparr> = Inr tok"
proof -
  have ep: "extracted (body_verify X raw) (verify_endpoint A secret dr) w =
      (Some (200, token_response_json tok), w')"
    using assms(1,2) by (simp add: serve_def extracted_def serve_endpoint_def)
  then obtain a n sig where body: "body_verify X raw = Inr \<lparr>vreq_address = a, vreq_nonce = n, vreq_signature = sig\<rparr>"
    using assms(3) by (cases "body_verify X raw")
      (fastforce simp: extracted_def, metis verify_request.surjective unit.exhaust)
  have "fst (verify A secret (clock w) (clock w + int (verify_delay dr)) a n sig (challenges w)) =
      Inr tok"
    using ep body
    by (auto simp: extracted_def verify_endpoint_def case_prod_unfold Let_def answer_ok
        token_response_json_def)
  with body show ?thesis unfolding verify_Inr signed_challenge_def by blast
qed

lemma run_exchange:
  assumes "run C A X cfg w0 xs w" "x \<in> set xs"
  obtains us vs w' where "xs = us @ x # vs" "run C A X cfg w0 us (ex_before x)"
    "app C A X (jwt_secret cfg) (ex_draws x) (ex_method x) (ex_path x) (ex_raw x) (ex_before x) =
       (ex_response x, w')"
  using assms
proof (induction arbitrary: thesis rule: run.induct)
  case (request xs w dr meth path raw resp w')
  show ?case
  proof (cases "x \<in> set xs")
    case True
    with request.IH obtain us vs w'' where "xs = us @ x # vs" "run C A X cfg w0 us (ex_before x)"
      "app C A X (jwt_secret cfg) (ex_draws x) (ex_method x) (ex_path x) (ex_raw x) (ex_before x) =
         (ex_response x, w'')" by blast
    then show ?thesis by (intro request.prems(1) [of us]) simp_all
  next
    case False
    with request show ?thesis by (intro request.prems(1) [of xs "[]"]) auto
  qed
qed (simp, blast)

section \<open>Properties\<close>

text \<open>
  C1: The database is always well-formed.  In every state that a server reaches that was started on a fresh
  database or on one an earlier run left well-formed, under every order of polls, requests and
  writes of the one task between the statements of the other, and with any statements lost: keys are
  unique, every milestone, dispute and webhook has its escrow, every status is one of its column's,
  a resolved dispute has its resolution, and every webhook belongs to a party of its escrow.
\<close>

theorem server_keeps_schema:
  assumes "start env connect bindable now = Inr (cfg, w0)"
    and "\<And>T. connect (database_url cfg) = Inr (Some T) \<Longrightarrow> schema_ok T"
    and "run C A X cfg w0 xs w"
  shows "schema_ok (tabs w)"
  using started_ok [OF assms(1,2)] schema.writes run_steps [OF assms(3)] by blast

text \<open>
  C7: What never changes.  However a run goes on from a state, an escrow that has a row keeps it, with its
  contract, parties, token and texts, and its ledger never goes back; a milestone keeps its amount
  and deadline, and once submitted or released stays so on record; a dispute keeps who raised it and
  why, and a resolved one stays resolved.
\<close>

theorem server_rows_evolve:
  assumes "rely w" "run C A X cfg w xs w'"
  shows "tables_evolve (tabs w) (tabs w')"
  using rows.evolves_writes run_steps [OF assms(2,1)] by blast


text \<open>
  C5: A caller has logged in.  Suppose tokens cannot be forged: the bearer token of a request is one the
  server sent in this run.  Then if the server takes the caller for \<open>address\<close>, a \<open>POST /auth/verify\<close>
  of that address came before, with a valid signature by its key of a nonce, and the server had given
  that nonce to that address in an earlier \<open>POST /auth/challenge\<close>, less than 300 seconds before
  the signature was checked.
\<close>

theorem authenticated_caller_logged_in:
  assumes "start env connect bindable now = Inr (cfg, w0)" "run C A X cfg w0 xs w"
    and "jwt_faithful A" "\<And>raw r. body_json X raw = Inl r \<Longrightarrow> fst r \<noteq> 200" "cors_documented X"
    and "x \<in> set xs" "token_sent X tok x"
    and "auth_user A (jwt_secret cfg) (clock w) (Some tok) = Inr address"
  shows "\<exists>us vs y nonce sig t. xs = us @ x # vs \<and> y \<in> set us \<and>
    body_verify X (ex_raw x) =
      Inr \<lparr>vreq_address = address, vreq_nonce = nonce, vreq_signature = sig\<rparr> \<and>
    signed_challenge A address nonce sig \<and>
    challenged C X address nonce t y \<and> clock (ex_before x) < t + micros 300"
proof -
  obtain T where "w0 = app_state T now" using start_Inr [OF assms(1)] by blast
  then have w0: "rely w0" "challenges w0 = new_store" by (simp_all add: app_state_def rely_def)
  obtain us vs w' where x: "xs = us @ x # vs" "run C A X cfg w0 us (ex_before x)"
    "app C A X (jwt_secret cfg) (ex_draws x) (ex_method x) (ex_path x) (ex_raw x) (ex_before x) =
       (ex_response x, w')"
    using run_exchange [OF assms(2,6)] .
  obtain ps where sent: "route X (ex_method x) (ex_path x) = Inr (PostVerify, ps)"
      "ex_response x = Some (200, token_response_json tok)"
    using assms(7) by (auto simp: token_sent_def)
  have served: "serve C A X (jwt_secret cfg) (ex_draws x) (ex_method x) (ex_path x) (ex_raw x)
      (ex_before x) = (Some (200, token_response_json tok), w')"
  proof (cases "intercept X cors (ex_method x) (ex_raw x)")
    case (Some r)
    then have "r = (200, JNull)" using assms(5) unfolding cors_documented_def by blast
    with x(3) show ?thesis by (simp add: app_def Some sent(2) token_response_json_def)
  next
    case None
    with x(3) show ?thesis by (simp add: app_def sent(2))
  qed
  have rejects: "\<forall>r. body_verify X (ex_raw x) = Inl r \<longrightarrow> fst r \<noteq> 200"
    unfolding body_verify_def
    by (intro allI impI, rule extract_json_Inl, assumption, rule assms(4))
  obtain a n sig e t where body: "body_verify X (ex_raw x) =
        Inr \<lparr>vreq_address = a, vreq_nonce = n, vreq_signature = sig\<rparr>"
      "challenges (ex_before x) a = Some (n, e)" "clock (ex_before x) < e" "signed_challenge A a n sig"
      "jwt_encode A (as_bytes (jwt_secret cfg)) \<lparr>claims_sub = a, claims_exp = t\<rparr> = Inr tok"
    using serve_token [OF served sent(1) rejects] by (elim exE conjE)
  have "address = a"
    using assms(3,8) body(5)
    by (fastforce simp: auth_user_def verify_jwt_def bindE_Inr_iff jwt_faithful_def)
  moreover obtain y where "y \<in> set us" "challenged C X a n (e - micros 300) y"
    using run_challenges [OF x(2) w0 body(2)] by blast
  ultimately show ?thesis
    using x(1) body by (intro exI [of _ us] exI [of _ vs] exI [of _ y] exI [of _ n] exI [of _ sig]
        exI [of _ "e - micros 300"]) simp
qed

text \<open>
  C23: No token, no effect.  A request for a webhook endpoint whose bearer token is missing, malformed, expired
  or not the server's is answered with a 401, before its path and body are looked at, and changes
  nothing.
\<close>

theorem unauthenticated_refused:
  assumes "route X meth path = Inr (ep, ps)" "ep \<in> {PostWebhook, GetWebhooks, DeleteWebhook}"
    and "\<And>address. auth_user A secret (clock w) (bearer_of X raw) \<noteq> Inr address"
  shows "\<exists>body. serve C A X secret dr meth path raw w = (Some (401, body), w)"
proof (cases "auth_user A secret (clock w) (bearer_of X raw)")
  case (Inl e)
  then have "\<exists>m. e = Unauthorized m"
    by (auto simp: auth_user_def verify_jwt_def ok_or_def bindE_def split: option.splits)
  then have "\<exists>body. into_response e = (401, body)" by (auto simp: into_response_def)
  with Inl assms(1,2) show ?thesis
    by (auto simp: serve_def extracted_def serve_endpoint_def authenticated_def)
qed (use assms(3) in blast)

section \<open>Examples\<close>

definition sample_server :: server where
  "sample_server = app_state migrated 0"

lemma sample_start:
  "start (env_of sample_config) (\<lambda>_. Inr None) (\<lambda>_. True) 0 = Inr (sample_config, sample_server)"
  by (simp add: start_def init_pool_def from_env_env_of sample_server_def)

theorem server_keeps_schema_witness:
  "schema_ok (tabs (snd (poll_once sample_crates sample_rpc sample_config sample_server)))"
  by (rule server_keeps_schema [OF sample_start _ run.background [OF run.started background.poll]])
    simp

theorem server_rows_evolve_witness:
  "tables_evolve (tabs sample_server)
    (tabs (snd (poll_once sample_crates sample_rpc sample_config sample_server)))"
  by (rule server_rows_evolve [OF _ run.background [OF run.started background.poll]])
    (simp add: sample_server_def app_state_def rely_def)

text \<open>Bodies, parameters and the bearer token of the one client, \<open>GP\<close>.\<close>

definition sample_web :: "string web" where
  "sample_web =
    \<lparr>match_path = (\<lambda>templates path. if path \<in> set templates then Some (path, []) else None),
     bearer_of = (\<lambda>raw. if raw = [] then None else Some raw),
     percent_decode = Some, uuid_from_string = (\<lambda>_. Some 7), query_pairs = (\<lambda>_. []),
     body_json = (\<lambda>_. Inr (JObj
       [(''address'', JStr ''GP''), (''nonce'', JStr (lower_hex [1, 2])),
        (''signature'', JStr sample_signature), (''url'', JStr ''https://p.example'')])),
     intercept = (\<lambda>_ meth _. if meth = OtherMethod ''OPTIONS'' then Some (200, JNull) else None)\<rparr>"

lemma sample_bodies:
  "body_challenge sample_web raw = Inr \<lparr>creq_address = ''GP''\<rparr>"
  "body_verify sample_web raw = Inr
    \<lparr>vreq_address = ''GP'', vreq_nonce = lower_hex [1, 2], vreq_signature = sample_signature\<rparr>"
  "body_webhook sample_web raw = Inr \<lparr>wreq_url = ''https://p.example''\<rparr>"
  by (simp_all add: extractor_defs sample_web_def challenge_request_of_json_def
      verify_request_of_json_def register_webhook_request_of_json_def struct_fields_def
      required_def de_string_def)


definition sample_draws :: draws where
  "sample_draws = \<lparr>nonce_bytes = [1, 2], secret_bytes = [3], fresh_id = 9, verify_delay = 3\<rparr>"

definition sample_challenges :: challenge_store where
  "sample_challenges = new_store(''GP'' \<mapsto> (lower_hex [1, 2], micros 300))"

lemma sample_config_secret: "jwt_secret sample_config = ''jwt''"
  by (simp add: sample_config_def)

lemma sample_routes:
  "route sample_web POST ''/auth/challenge'' = Inr (PostChallenge, [])"
  "route sample_web POST ''/auth/verify'' = Inr (PostVerify, [])"
  "route sample_web DELETE ''/escrows/{id}/webhooks/{webhook_id}'' = Inr (DeleteWebhook, [])"
  by (simp_all add: route_def sample_web_def router_def)

lemma sample_serves_challenge:
  "snd (serve sample_crates sample_auth sample_web ''jwt'' sample_draws POST ''/auth/challenge'' []
    sample_server) = sample_server\<lparr>challenges := sample_challenges\<rparr>"
proof -
  have "snd (challenge sample_crates sample_auth [1, 2] 0 ''GP'' new_store) = sample_challenges"
    by (simp add: sample_challenge(1) sample_challenges_def)
  then show ?thesis
    by (simp add: sample_bodies serve_def extracted_def sample_routes serve_endpoint_def challenge_endpoint_def
        sample_draws_def sample_server_def app_state_def Let_def case_prod_unfold)
qed

definition sample_waiting :: server where
  "sample_waiting = sample_server\<lparr>challenges := sample_challenges, clock := 2\<rparr>"

lemma sample_serves_verify:
  "serve sample_crates sample_auth sample_web ''jwt'' sample_draws POST ''/auth/verify'' []
     sample_waiting =
   (Some (200, token_response_json (show_nat 3600 @ ''.GP'')),
    sample_waiting\<lparr>challenges := sample_challenges(''GP'' := None), clock := 5\<rparr>)"
proof -
  let ?v = "verify sample_auth ''jwt'' 2 5 ''GP'' (lower_hex [1, 2]) sample_signature
    sample_challenges"
  have "?v = (Inr (show_nat 3600 @ ''.GP''), sample_challenges(''GP'' := None))"
    using sample_verifies verify_store [of sample_auth "''jwt''" 2 5 "''GP''" "lower_hex [1, 2]"
        sample_signature sample_challenges]
    by (simp add: sample_challenges_def prod_eq_iff)
  then show ?thesis
    by (simp add: sample_bodies serve_def extracted_def sample_routes serve_endpoint_def
        verify_endpoint_def sample_draws_def sample_waiting_def answer_def)
qed

definition sample_query :: list_query where
  "sample_query = \<lparr>q_client = Some ''GC'', q_provider = None, q_status = None,
     q_limit = Some (I64 20), q_offset = None\<rparr>"

theorem escrow_query_round_trip_witness:
  "query_escrows (sample_web\<lparr>query_pairs := (\<lambda>_. [(''limit'', ''20''), (''page'', ''x''),
      (''client'', ''GC'')])\<rparr>) [] = Inr sample_query"
proof (rule escrow_query_round_trip [THEN iffD2])
  fix k
  have "show_int 20 = ''20''"
    by code_simp
  then show "occurrences k (query_pairs (sample_web\<lparr>query_pairs := (\<lambda>_. [(''limit'', ''20''),
      (''page'', ''x''), (''client'', ''GC'')])\<rparr>) []) = occurrences k (list_query_pairs sample_query)"
    if "k \<in> set [''client'', ''provider'', ''status'', ''limit'', ''offset'']"
    using that by (auto simp: list_query_pairs_def occurrences_append sample_query_def)
qed (rule refl)

text \<open>A run with a login: the challenge at time 0, its answer at time 2, a token from time 5 on.\<close>

lemma sample_cors: "cors_documented sample_web"
  by (simp add: cors_documented_def sample_web_def split: if_splits)

lemma sample_app: "app C A sample_web secret dr meth path raw w =
    serve C A sample_web secret dr meth path raw w" if "meth \<noteq> OtherMethod ''OPTIONS''"
  using that by (simp add: app_def sample_web_def)

lemma sample_run:
  "\<exists>xs x. run sample_crates sample_auth sample_web sample_config sample_server (xs @ [x])
      (sample_waiting\<lparr>challenges := sample_challenges(''GP'' := None), clock := 5 + int 1\<rparr>) \<and>
    token_sent sample_web (show_nat 3600 @ ''.GP'') x"
proof -
  let ?run = "run sample_crates sample_auth sample_web sample_config sample_server"
  let ?app = "app sample_crates sample_auth sample_web (jwt_secret sample_config) sample_draws
    POST ''/auth/challenge'' [] sample_server"
  have "?app = (fst ?app, sample_server\<lparr>challenges := sample_challenges\<rparr>)"
    using sample_serves_challenge by (simp add: sample_app sample_config_secret prod_eq_iff)
  from run.request [OF run.started this] obtain xs where
    "?run xs (sample_server\<lparr>challenges := sample_challenges\<rparr>)" by blast
  from run.background [OF this background.pass [of _ _ _ 2]] have 1: "?run xs sample_waiting"
    by (simp add: sample_waiting_def sample_server_def app_state_def)
  have "app sample_crates sample_auth sample_web (jwt_secret sample_config) sample_draws POST
      ''/auth/verify'' [] sample_waiting =
    (Some (200, token_response_json (show_nat 3600 @ ''.GP'')),
     sample_waiting\<lparr>challenges := sample_challenges(''GP'' := None), clock := 5\<rparr>)"
    using sample_serves_verify by (simp add: sample_config_secret sample_app)
  from run.background [OF run.request [OF 1 this] background.pass [of _ _ _ 1]]
  show ?thesis by (fastforce simp: token_sent_def sample_routes)
qed

theorem authenticated_caller_logged_in_witness:
  "\<exists>xs x us vs y nonce sig t. xs = us @ x # vs \<and> y \<in> set us \<and>
    body_verify sample_web (ex_raw x) =
      Inr \<lparr>vreq_address = ''GP'', vreq_nonce = nonce, vreq_signature = sig\<rparr> \<and>
    signed_challenge sample_auth ''GP'' nonce sig \<and>
    challenged sample_crates sample_web ''GP'' nonce t y \<and>
    clock (ex_before x) < t + micros 300"
proof -
  obtain xs x where run: "run sample_crates sample_auth sample_web sample_config sample_server
      (xs @ [x])
      (sample_waiting\<lparr>challenges := sample_challenges(''GP'' := None), clock := 5 + int 1\<rparr>)"
    "token_sent sample_web (show_nat 3600 @ ''.GP'') x"
    using sample_run by blast
  have "\<exists>us vs y nonce sig t. xs @ [x] = us @ x # vs \<and> y \<in> set us \<and>
      body_verify sample_web (ex_raw x) =
      Inr \<lparr>vreq_address = ''GP'', vreq_nonce = nonce, vreq_signature = sig\<rparr> \<and>
      signed_challenge sample_auth ''GP'' nonce sig \<and>
      challenged sample_crates sample_web ''GP'' nonce t y \<and>
      clock (ex_before x) < t + micros 300"
  proof (rule authenticated_caller_logged_in [OF sample_start run(1) sample_jwt(2) _ _ _ run(2)])
    show "auth_user sample_auth (jwt_secret sample_config) (clock (sample_waiting
        \<lparr>challenges := sample_challenges(''GP'' := None), clock := 5 + int 1\<rparr>))
        (Some (show_nat 3600 @ ''.GP'')) = Inr ''GP''"
      using sample_authenticates by (simp add: sample_config_secret)
    show "fst r \<noteq> 200" if "body_json sample_web raw = Inl r" for raw r
      using that by (simp add: sample_web_def)
    show "cors_documented sample_web" by (rule sample_cors)
  qed simp
  then show ?thesis by blast
qed

theorem unauthenticated_refused_witness:
  "\<exists>body. serve sample_crates sample_auth sample_web ''jwt'' sample_draws DELETE
      ''/escrows/{id}/webhooks/{webhook_id}'' [] sample_server = (Some (401, body), sample_server)"
  by (rule unauthenticated_refused [OF sample_routes(3)])
    (simp_all add: sample_web_def auth_user_def)

end
