(* ===== verification/Typing.thy ===== *)
theory Typing
  imports Server
begin

text \<open>
  What clients can rely on in an answer: the type of each endpoint's success, with the vocabularies
  of its status fields and the ranges of its numbers, and that every request is answered at all.
\<close>

section \<open>Types of JSON documents\<close>

datatype jtype =
    TNull
  | TStr
  | TEnum "string list"
  | TTime
  | TDecimal
  | TUuid
  | TI32
  | TI64
  | TOpt jtype
  | TArr jtype
  | TObj "(string \<times> jtype) list"

definition has_fields :: "(string \<times> (json \<Rightarrow> bool)) list \<Rightarrow> json \<Rightarrow> bool" where
  "has_fields ps j =
    (case j of JObj fs \<Rightarrow> list_all2 (\<lambda>(k, p) (k', v). k = k' \<and> p v) ps fs | _ \<Rightarrow> False)"

definition int_within :: "nat \<Rightarrow> json \<Rightarrow> bool" where
  "int_within w j =
    (case j of JInt n \<Rightarrow> - (2 ^ (w - 1)) \<le> n \<and> n < 2 ^ (w - 1) | _ \<Rightarrow> False)"

primrec has_type :: "jtype \<Rightarrow> json \<Rightarrow> bool" where
  "has_type TNull = (\<lambda>j. j = JNull)"
| "has_type TStr = (\<lambda>j. case j of JStr _ \<Rightarrow> True | _ \<Rightarrow> False)"
| "has_type (TEnum ss) = (\<lambda>j. case j of JStr s \<Rightarrow> s \<in> set ss | _ \<Rightarrow> False)"
| "has_type TTime = (\<lambda>j. case j of JTime _ \<Rightarrow> True | _ \<Rightarrow> False)"
| "has_type TDecimal = (\<lambda>j. case j of JDecimal n \<Rightarrow> fits_numeric_39 n | _ \<Rightarrow> False)"
| "has_type TUuid = (\<lambda>j. case j of JUuid _ \<Rightarrow> True | _ \<Rightarrow> False)"
| "has_type TI32 = int_within 32"
| "has_type TI64 = int_within 64"
| "has_type (TOpt t) = (\<lambda>j. j = JNull \<or> has_type t j)"
| "has_type (TArr t) = (\<lambda>j. case j of JArr js \<Rightarrow> list_all (has_type t) js | _ \<Rightarrow> False)"
| "has_type (TObj ts) = has_fields (map (map_prod id has_type) ts)"

text \<open>The types of the answers, one per endpoint.\<close>

definition escrow_fields_type :: "(string \<times> jtype) list" where
  "escrow_fields_type =
    [(''id'', TI64), (''contract_id'', TStr), (''client'', TStr), (''provider'', TStr),
     (''arbitrator'', TStr), (''token'', TStr),
     (''status'', TEnum [''created'', ''funded'', ''in_progress'', ''completed'', ''cancelled'']),
     (''created_at'', TTime), (''updated_at'', TTime), (''updated_ledger'', TI64),
     (''review_period'', TI64), (''chain_created_at'', TOpt TTime), (''title'', TOpt TStr),
     (''metadata_uri'', TOpt TStr), (''metadata_hash'', TOpt TStr)]"

definition milestone_type :: jtype where
  "milestone_type = TObj
    [(''escrow_id'', TI64), (''milestone_id'', TI32), (''description'', TStr),
     (''amount'', TDecimal),
     (''status'', TEnum [''pending'', ''submitted'', ''released'', ''expired'', ''disputed'',
        ''resolved'']),
     (''updated_at'', TTime), (''deadline'', TOpt TTime), (''submitted_at'', TOpt TTime),
     (''evidence_uri'', TOpt TStr), (''evidence_hash'', TOpt TStr),
     (''released_via'', TOpt (TEnum [''approved'', ''auto_release'']))]"

definition dispute_type :: jtype where
  "dispute_type = TObj
    [(''escrow_id'', TI64), (''milestone_id'', TI32), (''raised_by'', TStr), (''reason'', TStr),
     (''status'', TEnum [''open'', ''resolved'']),
     (''resolution_kind'', TOpt (TEnum [''release'', ''refund'', ''split''])),
     (''resolution_provider_bps'', TOpt TI32), (''created_at'', TTime),
     (''resolved_at'', TOpt TTime)]"

definition webhook_fields_type :: "(string \<times> jtype) list" where
  "webhook_fields_type =
    [(''id'', TUuid), (''escrow_id'', TI64), (''owner_address'', TStr), (''url'', TStr),
     (''created_at'', TTime)]"

definition error_type :: jtype where
  "error_type = TObj [(''error'', TStr)]"

definition response_type :: "endpoint \<Rightarrow> jtype" where
  "response_type ep =
    (case ep of
       PostChallenge \<Rightarrow> TObj [(''nonce'', TStr), (''message'', TStr)]
     | PostVerify \<Rightarrow> TObj [(''token'', TStr)]
     | GetEscrows \<Rightarrow> TArr (TObj escrow_fields_type)
     | GetEscrow \<Rightarrow> TObj (escrow_fields_type @ [(''milestones'', TArr milestone_type)])
     | GetDisputes \<Rightarrow> TArr dispute_type
     | PostWebhook \<Rightarrow> TObj (webhook_fields_type @ [(''secret'', TStr)])
     | GetWebhooks \<Rightarrow> TArr (TObj webhook_fields_type)
     | DeleteWebhook \<Rightarrow> TNull)"

section \<open>Rows have their types\<close>

lemma has_fields_JObj [simp]:
  "has_fields ps (JObj fs) \<longleftrightarrow> list_all2 (\<lambda>(k, p) (k', v). k = k' \<and> p v) ps fs"
  by (simp add: has_fields_def)

lemma has_type_opt [simp]:
  "has_type (TOpt TStr) (json_opt JStr v)"
  "has_type (TOpt TTime) (json_opt JTime u)"
  "has_type (TOpt (TEnum ss)) (json_opt JStr v) \<longleftrightarrow> v \<in> insert None (Some ` set ss)"
  by (auto simp: json_opt_def split: option.splits)

lemma int_within_i64 [simp]: "int_within 64 (JInt (i64_int n))"
  using i64_int_bounds [of n] by (simp add: int_within_def)

lemma int_within_i32 [simp]: "int_within 32 (JInt (i32_int n))"
  by (cases n) (simp add: int_within_def sint_uint signed_take_bit_eq_take_bit_shift
      take_bit_eq_mod)

lemma has_type_opt_i32 [simp]: "has_type (TOpt TI32) (json_opt (\<lambda>b. JInt (i32_int b)) v)"
  by (simp add: json_opt_def split: option.split)

declare has_type.simps(9) [simp del]

lemma has_type_JArr [simp]: "has_type (TArr t) (JArr js) \<longleftrightarrow> list_all (has_type t) js"
  by simp

lemma known_escrow_status_names:
  "known_escrow_status s \<longleftrightarrow>
    s \<in> {''created'', ''funded'', ''in_progress'', ''completed'', ''cancelled''}"
  by (simp add: known_escrow_status_def escrow_status_from_str_def)

lemma escrow_row_typed:
  "escrow_ok e \<Longrightarrow> has_type (TObj escrow_fields_type) (JObj (escrow_row_fields e))"
  by (auto simp: escrow_ok_def known_escrow_status_names escrow_row_fields_def
      escrow_fields_type_def)

lemma milestone_row_typed: "milestone_ok m \<Longrightarrow> has_type milestone_type (milestone_row_json m)"
  by (simp add: milestone_ok_def milestone_row_json_def milestone_type_def)

lemma escrow_detail_typed:
  assumes "escrow_ok (ed_escrow d) \<and> list_all milestone_ok (ed_milestones d)"
  shows "has_type (TObj (escrow_fields_type @ [(''milestones'', TArr milestone_type)]))
    (escrow_detail_json d)"
  using assms escrow_row_typed [of "ed_escrow d"] milestone_row_typed
  by (auto simp: escrow_detail_json_def list_all_iff intro!: list_all2_appendI)

lemma dispute_row_typed: "dispute_ok d \<Longrightarrow> has_type dispute_type (dispute_row_json d)"
  by (auto simp: dispute_ok_def dispute_row_json_def dispute_type_def)

lemma webhook_row_typed: "has_type (TObj webhook_fields_type) (webhook_row_json w)"
  by (simp add: webhook_row_json_def webhook_fields_type_def)

section \<open>What a computation yields\<close>

text \<open>
  \<open>yields P m\<close>: whatever well-formed database \<open>m\<close> meets, and whatever is written meanwhile, a value
  it returns satisfies \<open>P\<close>.
\<close>

definition yields :: "('a \<Rightarrow> bool) \<Rightarrow> ('z pool_scheme, 'e, 'a) eff \<Rightarrow> bool" where
  "yields P m \<longleftrightarrow>
    (\<forall>p x. rely p \<longrightarrow> schema_ok (tabs p) \<longrightarrow> fst (m p) = Inr x \<longrightarrow> P x)"

lemma yields_simple:
  "P x \<Longrightarrow> yields P (ret x)"
  "yields P (fail e)"
  "(\<And>x. r = Inr x \<Longrightarrow> P x) \<Longrightarrow> yields P (lift r)"
  by (auto simp: yields_def ret_def fail_def lift_def)

lemma yields_any: "yields (\<lambda>_. True) m"
  by (simp add: yields_def)

lemma yields_bind:
  assumes "effects pool_writes m" "yields Q m" "\<And>x. Q x \<Longrightarrow> yields P (f x)"
  shows "yields P (bind m f)"
  unfolding yields_def
proof (intro allI impI)
  fix p y
  assume p: "rely p" "schema_ok (tabs p)" and y: "fst (bind m f p) = Inr y"
  obtain r p' where mp: "m p = (r, p')" by fastforce
  have "rely p'" "schema_ok (tabs p')"
    using pool_writes_rely [OF effectsD [OF assms(1), of p]] schema.kept [OF assms(1) p] p
    by (simp_all add: mp)
  with y assms(2,3) p show "P y"
    by (cases r) (auto simp: run_bind mp yields_def)
qed

lemma yields_query: "yields P m \<Longrightarrow> yields P (query m)"
  by (auto simp: yields_def query_def run_map_errS case_prod_unfold)

lemma yields_read:
  assumes "\<And>T x. schema_ok T \<Longrightarrow> q T = Inr x \<Longrightarrow> P x"
  shows "yields P (exec_sql (read_only q))"
  unfolding yields_def
proof (intro allI impI)
  fix p x
  assume p: "rely p" "schema_ok (tabs p)" and x: "fst (exec_sql (read_only q) p) = Inr x"
  then obtain p' where run: "exec_sql (read_only q) p = (Inr x, p')" by (metis prod.collapse)
  obtain d dt others where gap: "next_gap p = (d, dt, others)" "q (others (tabs p)) = Inr x"
    using run by (elim exec_sql_InrD) (auto simp: read_only_def bindE_Inr_iff)
  have "schema_ok (others (tabs p))"
    using schema.writes [OF next_gap_rely [OF p(1) gap(1)] p(2)] .
  from assms [OF this gap(2)] show "P x" .
qed

lemmas yields_intros = yields_query yields_read yields_simple

lemma schema_rows:
  assumes "schema_ok T"
  shows "e \<in> set (escrows T) \<Longrightarrow> escrow_ok e" "m \<in> set (milestones T) \<Longrightarrow> milestone_ok m"
    "d \<in> set (disputes T) \<Longrightarrow> dispute_ok d"
  using assms by (auto simp: schema_ok_def rows_ok_def list_all_iff)

lemma limit_offset_rows: "limit_offset l off rows = Inr xs \<Longrightarrow> set xs \<subseteq> set rows"
  by (auto simp: limit_offset_def page_def split: if_splits dest!: in_set_takeD in_set_dropD)

lemma list_escrows_yields: "yields (list_all escrow_ok) (list_escrows_handler q)"
  unfolding list_escrows_handler_def list_escrows_def
  by (intro yields_bind [OF writes.effects_lift yields_any] yields_intros)
    (fastforce simp: list_all_iff matching_escrows_def dest!: limit_offset_rows
      intro: schema_rows)

lemma list_disputes_yields: "yields (list_all dispute_ok) (list_disputes_handler st l off)"
  unfolding list_disputes_handler_def list_disputes_def
  by (intro yields_bind [OF writes.effects_lift yields_any] yields_intros)
    (fastforce simp: list_all_iff matching_disputes_def dest!: limit_offset_rows
      intro: schema_rows)

lemma get_escrow_yields:
  "yields (\<lambda>d. escrow_ok (ed_escrow d) \<and> list_all milestone_ok (ed_milestones d))
    (get_escrow_handler k)"
proof -
  have found: "yields (\<lambda>v. \<forall>e. v = Some e \<longrightarrow> escrow_ok e) (query (get_escrow k))"
    unfolding get_escrow_def
    by (intro yields_intros) (auto dest: find_by_SomeD intro: schema_rows)
  have ms: "yields (list_all milestone_ok) (query (list_milestones k))"
    unfolding list_milestones_def
    by (intro yields_intros) (auto simp: list_milestones_query_def list_all_iff intro: schema_rows)
  show ?thesis
    unfolding get_escrow_handler_def
    by (rule yields_bind [OF _ found] yields_bind [OF writes.effects_lift, where Q = escrow_ok]
        yields_bind [OF _ ms] yields_simple eff_intros | simp)+
qed

section \<open>Answers\<close>

definition error_codes :: "nat list" where
  "error_codes = [400, 401, 403, 404, 405, 413, 415, 422, 500]"

definition typed_answer :: "jtype \<Rightarrow> response option \<Rightarrow> bool" where
  "typed_answer t r \<longleftrightarrow>
    (case r of
       None \<Rightarrow> False
     | Some (code, j) \<Rightarrow>
         if code = 200 then has_type t j
         else code \<in> set error_codes \<and> (j = JNull \<or> has_type error_type j))"

text \<open>A rejection of an extractor: one of the error codes and no JSON.\<close>

definition rejects :: "response + 'a \<Rightarrow> bool" where
  "rejects r \<longleftrightarrow> (\<forall>code j. r = Inl (code, j) \<longrightarrow> code \<in> set error_codes \<and> j = JNull)"

lemma into_response_typed: "typed_answer t (Some (into_response e))"
  by (cases e) (simp_all add: typed_answer_def into_response_def error_type_def error_codes_def)

lemma extracted_typed:
  "rejects r \<Longrightarrow> (\<And>x. r = Inr x \<Longrightarrow> typed_answer t (fst (h x w))) \<Longrightarrow>
    typed_answer t (fst (extracted r h w))"
  by (cases r) (auto simp: extracted_def rejects_def typed_answer_def error_codes_def)

lemma authenticated_typed:
  "(\<And>a. typed_answer t (fst (h a w))) \<Longrightarrow> typed_answer t (fst (authenticated A X secret raw h w))"
  by (simp add: authenticated_def into_response_typed split: sum.split)

lemma answer_typed: "(\<And>x. r = Inr x \<Longrightarrow> has_type t (f x)) \<Longrightarrow> typed_answer t (Some (answer f r))"
  by (cases r) (simp_all add: answer_def into_response_typed, simp add: typed_answer_def)

lemma run_handler_typed:
  assumes "yields P m" "\<And>x. P x \<Longrightarrow> has_type t (f x)" "rely w" "schema_ok (tabs w)"
  shows "typed_answer t (fst (run_handler f m w))"
  using assms by (simp add: run_handler_def case_prod_unfold answer_typed yields_def)

lemma extractors_reject:
  assumes "\<And>raw. rejects (body_json X raw)"
  shows "rejects (extract_json d X raw)" "rejects (extract_query e X raw)"
    "rejects (path_id X ps)" "rejects (path_ids X ps)" "rejects (route X meth path)"
  using assms [of raw]
  by (auto simp: rejects_def extract_json_def extract_query_def path_id_def path_ids_def
      path_values_def route_def error_codes_def bindE_def ok_or_def
      split: sum.splits option.splits list.splits)

lemma challenge_endpoint_typed:
  assumes "\<And>bs. is_ascii (hex_encode C bs)"
  shows "typed_answer (response_type PostChallenge) (fst (challenge_endpoint C A dr a w))"
proof -
  have "typed_answer (response_type PostChallenge) (Some (answer challenge_response_json r))" for r
    by (rule answer_typed) (simp add: response_type_def challenge_response_json_def)
  then show ?thesis
    by (simp add: challenge_endpoint_def challenge_ascii [OF assms])
qed

lemma verify_endpoint_typed:
  "typed_answer (response_type PostVerify) (fst (verify_endpoint A secret dr req w))"
proof -
  have "typed_answer (response_type PostVerify) (Some (answer token_response_json r))" for r
    by (rule answer_typed) (simp add: response_type_def token_response_json_def)
  then show ?thesis by (simp add: verify_endpoint_def case_prod_unfold Let_def)
qed

lemma list_all_typed:
  "list_all P xs \<Longrightarrow> (\<And>x. P x \<Longrightarrow> has_type t (f x)) \<Longrightarrow> has_type (TArr t) (JArr (map f xs))"
  by (simp add: list.pred_map list_all_iff)

lemma serve_endpoint_typed:
  assumes "\<And>bs. is_ascii (hex_encode C bs)" "\<And>raw. rejects (body_json X raw)"
    and "rely w" "schema_ok (tabs w)"
  shows "typed_answer (response_type ep) (fst (serve_endpoint C A X secret dr ep ps raw w))"
proof (cases ep)
  case GetEscrows
  show ?thesis
    unfolding GetEscrows serve_endpoint_def endpoint.case query_escrows_def
    by (intro extracted_typed extractors_reject assms run_handler_typed [OF list_escrows_yields])
      (simp only: response_type_def endpoint.case list_all_typed escrow_row_typed)
next
  case GetEscrow
  show ?thesis
    unfolding GetEscrow serve_endpoint_def endpoint.case
    by (intro extracted_typed extractors_reject assms run_handler_typed [OF get_escrow_yields])
      (simp only: response_type_def endpoint.case escrow_detail_typed)
next
  case GetDisputes
  show ?thesis
    unfolding GetDisputes serve_endpoint_def endpoint.case query_disputes_def
    by (intro extracted_typed extractors_reject assms run_handler_typed [OF list_disputes_yields])
      (simp only: response_type_def endpoint.case list_all_typed dispute_row_typed)
next
  case GetWebhooks
  show ?thesis
    unfolding GetWebhooks serve_endpoint_def endpoint.case
    by (intro authenticated_typed extracted_typed extractors_reject assms
        run_handler_typed [OF yields_any])
      (simp add: response_type_def list.pred_map list_all_iff webhook_row_typed [simplified])
next
  case PostWebhook
  show ?thesis
    unfolding PostWebhook serve_endpoint_def endpoint.case body_webhook_def
    by (intro authenticated_typed extracted_typed extractors_reject assms
        run_handler_typed [OF yields_any])
      (simp add: response_type_def webhook_created_json_def webhook_fields_type_def)
next
  case DeleteWebhook
  show ?thesis
    unfolding DeleteWebhook serve_endpoint_def endpoint.case
    by (intro authenticated_typed extracted_typed extractors_reject assms)
      (auto intro!: run_handler_typed [OF yields_any] assms simp: response_type_def
        split: prod.split)
qed (auto simp: serve_endpoint_def body_challenge_def body_verify_def intro!: extracted_typed
      extractors_reject assms challenge_endpoint_typed verify_endpoint_typed)

lemma serve_typed:
  assumes "\<And>bs. is_ascii (hex_encode C bs)" "\<And>raw. rejects (body_json X raw)"
    and "rely w" "schema_ok (tabs w)"
  shows "(\<exists>ep ps. route X meth path = Inr (ep, ps) \<and>
      typed_answer (response_type ep) (fst (serve C A X secret dr meth path raw w))) \<or>
    (\<exists>code. fst (serve C A X secret dr meth path raw w) = Some (code, JNull) \<and>
      code \<in> set error_codes)"
proof (cases "route X meth path")
  case (Inl r)
  then show ?thesis
    using extractors_reject(5) [OF assms(2), where meth = meth and path = path]
    by (cases r) (simp add: serve_def extracted_def rejects_def)
next
  case (Inr r)
  then show ?thesis
    using serve_endpoint_typed [OF assms, of "fst r" A secret dr "snd r" raw]
    by (cases r) (auto simp: serve_def extracted_def)
qed

text \<open>
  C6: Every request is answered, in its type.  In every run of the server, if \<open>hex::encode\<close> gives
  ASCII and axum's body rejections are the ones it documents, no request makes a handler panic: each
  gets an answer.  Beside the empty ones to preflights a 200 carries a document of its endpoint's type, with statuses, resolutions and
  release kinds from their vocabularies and numbers in the range of their Rust type; every other
  answer has one of the error codes and an \<open>error\<close> message or no JSON.
\<close>

theorem responses_typed:
  assumes "start env connect bindable now = Inr (cfg, w0)"
    and "\<And>T. connect (database_url cfg) = Inr (Some T) \<Longrightarrow> schema_ok T"
    and "run C A X cfg w0 xs w" "x \<in> set xs"
    and "\<And>bs. is_ascii (hex_encode C bs)" "\<And>raw. rejects (body_json X raw)" "cors_documented X"
  shows "\<exists>code j. ex_response x = Some (code, j) \<and>
    (if code = 200
     then ex_method x = OtherMethod ''OPTIONS'' \<and> j = JNull \<or>
       (\<exists>ep ps. route X (ex_method x) (ex_path x) = Inr (ep, ps) \<and> has_type (response_type ep) j)
     else code \<in> set error_codes \<and> (j = JNull \<or> has_type error_type j))"
proof -
  obtain us vs w' where x: "run C A X cfg w0 us (ex_before x)"
    "app C A X (jwt_secret cfg) (ex_draws x) (ex_method x) (ex_path x) (ex_raw x) (ex_before x) =
       (ex_response x, w')"
    using run_exchange [OF assms(3,4)] by blast
  have w0: "rely w0" "schema_ok (tabs w0)"
    using started_ok [OF assms(1,2)] by simp_all
  have "rely (ex_before x)" "schema_ok (tabs (ex_before x))"
    using run_steps [OF x(1) w0(1)] schema.writes w0(2) by blast+
  note typed = serve_typed [OF assms(5,6) this, of "ex_method x" "ex_path x" A "jwt_secret cfg"
      "ex_draws x" "ex_raw x"]
  show ?thesis
  proof (cases "intercept X cors (ex_method x) (ex_raw x)")
    case (Some r)
    then have "ex_method x = OtherMethod ''OPTIONS'' \<and> r = (200, JNull)"
      using assms(7) unfolding cors_documented_def by blast
    moreover have "ex_response x = Some r" using x(2) by (simp add: app_def Some)
    ultimately show ?thesis by simp
  next
    case None
    then have served: "serve C A X (jwt_secret cfg) (ex_draws x) (ex_method x) (ex_path x) (ex_raw x)
        (ex_before x) = (ex_response x, w')"
      using x(2) by (simp add: app_def)
    from typed show ?thesis
    proof (elim disjE exE conjE)
      fix code
      assume "fst (serve C A X (jwt_secret cfg) (ex_draws x) (ex_method x) (ex_path x) (ex_raw x)
        (ex_before x)) = Some (code, JNull)" "code \<in> set error_codes"
      moreover have "200 \<notin> set error_codes" by (simp add: error_codes_def)
      ultimately show ?thesis by (intro exI [of _ code] exI [of _ JNull]) (auto simp: served)
    qed (auto simp: served typed_answer_def split: option.splits if_splits)
  qed
qed

lemma unat_lt2p_u8: "unat (b :: u8) < 256"
  using unsigned_less [of b, where ?'a = nat] by simp

lemma lower_hex_ascii: "is_ascii (lower_hex bs)"
proof -
  have digit: "(of_char (hex_digit n) :: nat) < 128" if "n < 16" for n
    using that by (auto simp: hex_digit_def)
  have "unat b div 16 < 16" for b :: u8
    using unat_lt2p_u8 [of b] by (simp add: less_mult_imp_div_less)
  then show ?thesis
    by (auto simp: is_ascii_def lower_hex_def intro!: digit)
qed

definition sample_exchange :: "string exchange" where
  "sample_exchange =
    \<lparr>ex_before = sample_server, ex_method = POST, ex_path = ''/auth/challenge'', ex_raw = [],
     ex_draws = sample_draws, ex_response = fst (app sample_crates sample_auth sample_web ''jwt''
       sample_draws POST ''/auth/challenge'' [] sample_server)\<rparr>"

theorem responses_typed_witness:
  "\<exists>code j. ex_response sample_exchange = Some (code, j) \<and>
    (if code = 200
     then ex_method sample_exchange = OtherMethod ''OPTIONS'' \<and> j = JNull \<or>
       (\<exists>ep ps. route sample_web (ex_method sample_exchange) (ex_path sample_exchange) =
         Inr (ep, ps) \<and> has_type (response_type ep) j)
     else code \<in> set error_codes \<and> (j = JNull \<or> has_type error_type j))"
proof (rule responses_typed [OF sample_start])
  show "run sample_crates sample_auth sample_web sample_config sample_server
      ([] @ [sample_exchange]) (snd (app sample_crates sample_auth sample_web ''jwt'' sample_draws
        POST ''/auth/challenge'' [] sample_server))"
    unfolding sample_exchange_def
    by (rule run.request [OF run.started]) (simp add: sample_config_secret)
  show "is_ascii (hex_encode sample_crates bs)" for bs
    by (simp add: sample_crates_def lower_hex_ascii)
  show "rejects (body_json sample_web raw)" for raw by (simp add: rejects_def sample_web_def)
  show "cors_documented sample_web" by (rule sample_cors)
qed simp_all

end
