(* ===== verification/UnitTests.thy ===== *)
theory UnitTests
  imports Sessions Delivery
begin

text \<open>
  The unit tests that stand beside the code, \<open>mod tests\<close> of \<open>src/indexer/decode.rs\<close>, \<open>rpc.rs\<close>,
  \<open>mod.rs\<close> and \<open>src/auth.rs\<close>, read as statements about the model: each test is a definition of its
  name, \<open>True\<close> if its assertions hold.  A test that calls a crate needs that crate's documented
  behaviour, which the predicates of the first section state.
\<close>

section \<open>What the tests need of the crates\<close>

text \<open>Texts of printable ASCII, without the backslash that \<open>Display\<close> escapes, are kept.\<close>

definition plain :: "string \<Rightarrow> bool" where
  "plain s \<longleftrightarrow> list_all (\<lambda>c. 32 \<le> (of_char c :: nat) \<and> (of_char c :: nat) < 127 \<and> c \<noteq> CHR 0x5C) s"

definition strings_ok :: "crates \<Rightarrow> bool" where
  "strings_ok C \<longleftrightarrow> (\<forall>s. plain s \<longrightarrow> stringm_to_string C (as_bytes s) = s)"

definition hex_ok :: "crates \<Rightarrow> bool" where
  "hex_ok C \<longleftrightarrow> (\<forall>bs. hex_encode C bs = lower_hex bs)"

text \<open>An account key prints as \<open>G...\<close> and is read back, a contract id prints as \<open>C...\<close>.\<close>

definition strkey_ok :: "crates \<Rightarrow> 'vk auth_crates \<Rightarrow> bool" where
  "strkey_ok C A \<longleftrightarrow>
    (\<forall>bs. length bs = 32 \<longrightarrow>
      public_key_from_string A (strkey_ed25519_to_string C bs) = Some bs \<and>
      hd (strkey_ed25519_to_string C bs) = CHR ''G'' \<and> strkey_ed25519_to_string C bs \<noteq> [] \<and>
      hd (strkey_contract_to_string C bs) = CHR ''C'' \<and> strkey_contract_to_string C bs \<noteq> [])"

text \<open>Chrono's range reaches past the year 200000.\<close>

definition dates_ok :: "crates \<Rightarrow> bool" where
  "dates_ok C \<longleftrightarrow>
    (\<forall>s. 0 \<le> i64_int s \<longrightarrow> i64_int s < 2 ^ 42 \<longrightarrow>
      datetime_from_timestamp C s = Some (micros (i64_int s)))"

text \<open>
  \<open>pub\<close> gives a signing key's public key, \<open>sign\<close> its signatures.  Among the keys and messages of the
  tests a signature verifies exactly for its own key and message.
\<close>

definition signatures_ok ::
  "'vk auth_crates \<Rightarrow> (bytes \<Rightarrow> bytes) \<Rightarrow> (bytes \<Rightarrow> bytes \<Rightarrow> bytes) \<Rightarrow> bytes list \<Rightarrow> bytes list \<Rightarrow> bool"
where
  "signatures_ok A pub sign keys msgs \<longleftrightarrow>
    list_all (\<lambda>key. length (pub key) = 32 \<and> verifying_key_from_bytes A (pub key) \<noteq> None \<and>
      list_all (\<lambda>msg. length (sign key msg) = 64 \<and>
        list_all (\<lambda>key'. list_all (\<lambda>msg'.
          ed25519_verify A (the (verifying_key_from_bytes A (pub key'))) msg' (sign key msg) \<longleftrightarrow>
            key' = key \<and> msg' = msg) msgs) keys) msgs) keys"

text \<open>An HMAC-SHA256 has 32 bytes, and those of the given keys and messages differ.\<close>

definition hmac_ok :: "crates \<Rightarrow> (bytes \<times> bytes) list \<Rightarrow> bool" where
  "hmac_ok C inputs \<longleftrightarrow>
    list_all (\<lambda>(key, msg). length (hmac_sha256 C key msg) = 32) inputs \<and>
    distinct (map (\<lambda>(key, msg). hmac_sha256 C key msg) inputs)"

text \<open>
  HS256: a token carries the MAC of what it signs, which its claims determine (\<open>signs\<close>), and is
  refused under a key that gives those bytes another MAC.
\<close>

definition hs256_ok :: "crates \<Rightarrow> 'vk auth_crates \<Rightarrow> (claims \<Rightarrow> bytes) \<Rightarrow> bool" where
  "hs256_ok C A signs \<longleftrightarrow> (\<forall>key key' claims tok t.
    jwt_encode A key claims = Inr tok \<longrightarrow>
    hmac_sha256 C key' (signs claims) \<noteq> hmac_sha256 C key (signs claims) \<longrightarrow>
    jwt_decode A t key' tok = None)"

text \<open>The MACs of the token that the test issues at time \<open>t0\<close>, under its two secrets.\<close>

definition token_macs :: "(claims \<Rightarrow> bytes) \<Rightarrow> datetime \<Rightarrow> (bytes \<times> bytes) list" where
  "token_macs signs t0 =
    (let msg = signs \<lparr>claims_sub = ''GADDRESS'',
           claims_exp = i64_as_usize (timestamp (t0 + micros 3600))\<rparr>
     in [(as_bytes ''secret-a'', msg), (as_bytes ''secret-b'', msg)])"

section \<open>src/indexer/decode.rs\<close>

definition symbol :: "string \<Rightarrow> scval" where
  "symbol s = ScSymbol (as_bytes s)"

definition decodes_i128_from_parts :: bool where
  "decodes_i128_from_parts \<longleftrightarrow> sc_val_to_i128 (ScI128 (I64 0) 400) = Inr (I128 400)"

definition decodes_negative_i128_from_parts :: bool where
  "decodes_negative_i128_from_parts \<longleftrightarrow>
    sc_val_to_i128 (ScI128 (I64 (- 1)) (- 1)) = Inr (I128 (- 1))"

definition decodes_account_address :: "crates \<Rightarrow> 'vk auth_crates \<Rightarrow> bool" where
  "decodes_account_address C A \<longleftrightarrow>
    (let raw = replicate 32 7 in
     case sc_address_to_string C (ScAccount raw) of
       Inl _ \<Rightarrow> False
     | Inr s \<Rightarrow> take 1 s = ''G'' \<and> public_key_from_string A s = Some raw)"

definition decodes_contract_address :: "crates \<Rightarrow> bool" where
  "decodes_contract_address C \<longleftrightarrow>
    (case sc_address_to_string C (ScContract (replicate 32 9)) of
       Inl _ \<Rightarrow> False | Inr s \<Rightarrow> take 1 s = ''C'')"

definition finds_field_in_data_map :: "crates \<Rightarrow> bool" where
  "finds_field_in_data_map C \<longleftrightarrow>
    (let m = ScMap (Some [(symbol ''milestone_id'', ScU32 2), (symbol ''amount'', ScI128 (I64 0) 100)])
     in bindE (map_get C m ''milestone_id'') sc_val_to_u32 = Inr 2 \<and>
        bindE (map_get C m ''amount'') sc_val_to_i128 = Inr (I128 100) \<and>
        map_get C m ''missing'' = Inl (MissingField ''missing''))"

definition decodes_release_to_provider_resolution :: "crates \<Rightarrow> bool" where
  "decodes_release_to_provider_resolution C \<longleftrightarrow>
    decode_resolution C (ScVec (Some [symbol ''ReleaseToProvider''])) = Inr (''release'', None)"

definition decodes_split_resolution :: "crates \<Rightarrow> bool" where
  "decodes_split_resolution C \<longleftrightarrow>
    decode_resolution C (ScVec (Some [symbol ''Split'', ScU32 6000])) =
      Inr (''split'', Some (I32 6000))"

definition decodes_milestones_vec :: "crates \<Rightarrow> bool" where
  "decodes_milestones_vec C \<longleftrightarrow>
    (let milestone_map = (\<lambda>mid desc amount. ScMap (Some
           [(symbol ''id'', ScU32 mid), (symbol ''description'', ScString (as_bytes desc)),
            (symbol ''amount'', ScI128 (I64 0) amount),
            (symbol ''status'', ScVec (Some [symbol ''Pending''])),
            (symbol ''deadline'', ScU64 1700000000)]))
     in case decode_milestones C (ScVec (Some
            [milestone_map 0 ''Design'' 100, milestone_map 1 ''Build'' 300])) of
          Inl _ \<Rightarrow> False
        | Inr ms \<Rightarrow>
            length ms = 2 \<and> dm_id (ms ! 0) = 0 \<and> dm_description (ms ! 0) = ''Design'' \<and>
            dm_amount (ms ! 0) = I128 100 \<and> dm_deadline (ms ! 0) = 1700000000 \<and>
            dm_amount (ms ! 1) = I128 300)"

definition decodes_bytes_to_hex :: "crates \<Rightarrow> bool" where
  "decodes_bytes_to_hex C \<longleftrightarrow>
    sc_val_to_bytes_hex C (ScBytes [0xDE, 0xAD, 0xBE, 0xEF]) = Inr ''deadbeef''"

definition converts_unix_seconds_to_datetime :: "crates \<Rightarrow> bool" where
  "converts_unix_seconds_to_datetime C \<longleftrightarrow>
    (case unix_seconds_to_datetime C 1700000000 of
       Inl _ \<Rightarrow> False | Inr dt \<Rightarrow> i64_int (timestamp dt) = 1700000000)"

definition empty_string_becomes_none :: bool where
  "empty_string_becomes_none \<longleftrightarrow>
    empty_as_none [] = None \<and> empty_as_none ''ipfs://x'' = Some ''ipfs://x''"

definition decodes_symbol_string :: "crates \<Rightarrow> bool" where
  "decodes_symbol_string C \<longleftrightarrow>
    sc_val_to_string C (ScSymbol (as_bytes ''escrow_created'')) = Inr ''escrow_created''"

lemma decode_tests_pass:
  assumes "strings_ok C" "hex_ok C" "strkey_ok C A" "dates_ok C"
  shows "decodes_i128_from_parts \<and> decodes_negative_i128_from_parts \<and>
    decodes_account_address C A \<and> decodes_contract_address C \<and> finds_field_in_data_map C \<and>
    decodes_release_to_provider_resolution C \<and> decodes_split_resolution C \<and>
    decodes_milestones_vec C \<and> decodes_bytes_to_hex C \<and> converts_unix_seconds_to_datetime C \<and>
    empty_string_becomes_none \<and> decodes_symbol_string C"
proof -
  have kept: "stringm_to_string C (as_bytes s) = s" if "plain s" for s
    using assms(1) that by (simp add: strings_ok_def)
  have i128: "i128_or (i128_shl (i64_as_i128 (I64 0)) 64) (u64_as_i128 n) = I128 (ucast n)" for n
    by (simp add: i64_as_i128_def u64_as_i128_def)
  have "NOT (mask 64) OR ucast (- 1 :: 64 word) = (- 1 :: 128 word)"
    by (rule bit_word_eqI) (auto simp: bit_simps)
  then have "decodes_i128_from_parts" "decodes_negative_i128_from_parts"
    by (simp_all add: decodes_i128_from_parts_def decodes_negative_i128_from_parts_def
        sc_val_to_i128_def i64_as_i128_def u64_as_i128_def)
  moreover have "decodes_account_address C A" "decodes_contract_address C"
    using assms(3)
    by (auto simp: decodes_account_address_def decodes_contract_address_def strkey_ok_def Let_def
        take_Suc)
  moreover have "finds_field_in_data_map C"
    by (simp add: finds_field_in_data_map_def map_get_def symbol_def kept plain_def
        sc_val_to_i128_def i128)
  moreover have "decodes_release_to_provider_resolution C" "decodes_split_resolution C"
    by (simp_all add: decodes_release_to_provider_resolution_def decodes_split_resolution_def
        decode_resolution_def symbol_def kept plain_def u32_as_i32_def sc_val_to_u32_def)
  moreover have "decodes_milestones_vec C"
    by (simp add: decodes_milestones_vec_def decode_milestones_def decode_milestone_def map_get_def
        symbol_def kept plain_def sc_val_to_i128_def sc_val_to_string_def i128 sc_val_to_u32_def
        sc_val_to_u64_def)
  moreover have "lower_hex [0xDE, 0xAD, 0xBE, 0xEF] = ''deadbeef''" by code_simp
  then have "decodes_bytes_to_hex C"
    using assms(2) by (simp add: decodes_bytes_to_hex_def sc_val_to_bytes_hex_def hex_ok_def)
  moreover have "converts_unix_seconds_to_datetime C"
    using assms(4)
    by (simp add: converts_unix_seconds_to_datetime_def unix_seconds_to_datetime_def dates_ok_def
        i64_int_u64_as_i64 timestamp_def micros_def i64_int_int_as_i64)
  moreover have "empty_string_becomes_none" "decodes_symbol_string C"
    by (simp_all add: empty_string_becomes_none_def decodes_symbol_string_def empty_as_none_def
        sc_val_to_string_def kept plain_def)
  ultimately show ?thesis by blast
qed

section \<open>src/auth.rs\<close>

text \<open>The test key pair: the seed, and the address of its public key.\<close>

definition test_keypair :: "crates \<Rightarrow> (bytes \<Rightarrow> bytes) \<Rightarrow> bytes \<times> string" where
  "test_keypair C pub =
    (let signing_key = replicate 32 7 in (signing_key, strkey_ed25519_to_string C (pub signing_key)))"

definition is_ok :: "'e + 'a \<Rightarrow> bool" where
  "is_ok r = (case r of Inl _ \<Rightarrow> False | Inr _ \<Rightarrow> True)"

definition valid_signature_over_challenge_verifies ::
  "crates \<Rightarrow> 'vk auth_crates \<Rightarrow> (bytes \<Rightarrow> bytes) \<Rightarrow> (bytes \<Rightarrow> bytes \<Rightarrow> bytes) \<Rightarrow> bool" where
  "valid_signature_over_challenge_verifies C A pub sign \<longleftrightarrow>
    (let (signing_key, address) = test_keypair C pub;
         message = challenge_message ''abc123'';
         signature = sign signing_key message
     in is_ok (verify_wallet_signature A address message signature))"

definition signature_over_wrong_message_is_rejected ::
  "crates \<Rightarrow> 'vk auth_crates \<Rightarrow> (bytes \<Rightarrow> bytes) \<Rightarrow> (bytes \<Rightarrow> bytes \<Rightarrow> bytes) \<Rightarrow> bool" where
  "signature_over_wrong_message_is_rejected C A pub sign \<longleftrightarrow>
    (let (signing_key, address) = test_keypair C pub;
         signature = sign signing_key (challenge_message ''abc123'');
         wrong_message = challenge_message ''different-nonce''
     in \<not> is_ok (verify_wallet_signature A address wrong_message signature))"

definition signature_from_wrong_key_is_rejected ::
  "crates \<Rightarrow> 'vk auth_crates \<Rightarrow> (bytes \<Rightarrow> bytes) \<Rightarrow> (bytes \<Rightarrow> bytes \<Rightarrow> bytes) \<Rightarrow> bool" where
  "signature_from_wrong_key_is_rejected C A pub sign \<longleftrightarrow>
    (let (_, address) = test_keypair C pub;
         other_key = replicate 32 9;
         message = challenge_message ''abc123'';
         signature = sign other_key message
     in \<not> is_ok (verify_wallet_signature A address message signature))"

text \<open>The store's clock reads \<open>t0\<close>, \<open>t1\<close> and \<open>t2\<close> at the three calls.\<close>

definition challenge_round_trips_once_and_then_fails ::
  "crates \<Rightarrow> bytes \<Rightarrow> datetime \<Rightarrow> datetime \<Rightarrow> datetime \<Rightarrow> bool" where
  "challenge_round_trips_once_and_then_fails C random t0 t1 t2 \<longleftrightarrow>
    (let (nonce, st) = issue C random t0 ''GADDRESS'' new_store;
         (first, st1) = verify_and_consume t1 ''GADDRESS'' nonce st;
         (second, st2) = verify_and_consume t2 ''GADDRESS'' nonce st1
     in first \<and> \<not> second)"

definition challenge_rejects_mismatched_nonce ::
  "crates \<Rightarrow> bytes \<Rightarrow> datetime \<Rightarrow> datetime \<Rightarrow> bool" where
  "challenge_rejects_mismatched_nonce C random t0 t1 \<longleftrightarrow>
    (let (_, st) = issue C random t0 ''GADDRESS'' new_store
     in \<not> fst (verify_and_consume t1 ''GADDRESS'' ''wrong-nonce'' st))"

definition jwt_round_trips_and_rejects_wrong_secret ::
  "'vk auth_crates \<Rightarrow> datetime \<Rightarrow> datetime \<Rightarrow> bool" where
  "jwt_round_trips_and_rejects_wrong_secret A t0 t1 \<longleftrightarrow>
    (case issue_jwt A ''secret-a'' t0 ''GADDRESS'' of
       Inl _ \<Rightarrow> False
     | Inr tok \<Rightarrow>
         verify_jwt A ''secret-a'' t1 tok = Inr ''GADDRESS'' \<and>
         \<not> is_ok (verify_jwt A ''secret-b'' t1 tok))"

lemma verify_wallet_signature_ok:
  "is_ok (verify_wallet_signature A address message sig) \<longleftrightarrow>
    length sig = 64 \<and> (\<exists>pk vk. public_key_from_string A address = Some pk \<and>
      verifying_key_from_bytes A pk = Some vk \<and> ed25519_verify A vk message sig)"
  using verify_wallet_signature_Inr [of A address message sig]
  by (cases "verify_wallet_signature A address message sig") (auto simp: is_ok_def)

lemma hex_digit_inject: "m < 16 \<Longrightarrow> n < 16 \<Longrightarrow> hex_digit m = hex_digit n \<longleftrightarrow> m = n"
  by (auto simp: hex_digit_def char_of_eq_iff take_bit_eq_mod split: if_splits)

lemma hex_byte_inject:
  fixes a b :: u8
  assumes "hex_digit (unat a div 16) = hex_digit (unat b div 16)"
    and "hex_digit (unat a mod 16) = hex_digit (unat b mod 16)"
  shows "a = b"
proof -
  have "unat c div 16 < 16" for c :: u8
    using unsigned_less [of c, where ?'a = nat] by (simp add: less_mult_imp_div_less)
  then have "unat a div 16 = unat b div 16" "unat a mod 16 = unat b mod 16"
    using assms by (simp_all add: hex_digit_inject)
  then have "unat a = unat b" by (metis div_mult_mod_eq)
  then show ?thesis by (rule unsigned_word_eqI)
qed

lemma lower_hex_inject [simp]: "lower_hex xs = lower_hex ys \<longleftrightarrow> xs = ys"
proof
  show "lower_hex xs = lower_hex ys \<Longrightarrow> xs = ys"
  proof (induction xs arbitrary: ys)
    case (Cons x xs)
    then show ?case by (cases ys) (auto simp: lower_hex_def dest: hex_byte_inject)
  qed (cases ys; simp add: lower_hex_def)
qed simp

lemma lower_hex_length: "length (lower_hex bs) = 2 * length bs"
  by (induction bs) (simp_all add: lower_hex_def)

lemma auth_tests_pass:
  assumes "strkey_ok C A" "hex_ok C"
    and "signatures_ok A pub sign [replicate 32 7, replicate 32 9]
      [challenge_message ''abc123'', challenge_message ''different-nonce'']"
    and "t1 < t0 + micros 300" "jwt_decodes A" "hs256_ok C A signs \<and> hmac_ok C (token_macs signs t0)"
    and "0 \<le> t0" "t0 < 2 ^ 62"
    and "\<And>claims. \<exists>tok. jwt_encode A (as_bytes ''secret-a'') claims = Inr tok"
  shows "valid_signature_over_challenge_verifies C A pub sign \<and>
    signature_over_wrong_message_is_rejected C A pub sign \<and>
    signature_from_wrong_key_is_rejected C A pub sign \<and>
    challenge_round_trips_once_and_then_fails C random t0 t1 t2 \<and>
    challenge_rejects_mismatched_nonce C random t0 t1 \<and>
    jwt_round_trips_and_rejects_wrong_secret A t0 t1"
proof -
  let ?key = "replicate 32 7 :: bytes" and ?other = "replicate 32 9 :: bytes"
  let ?msg = "challenge_message ''abc123''" and ?wrong = "challenge_message ''different-nonce''"
  let ?address = "strkey_ed25519_to_string C (pub ?key)"
  have diff: "?wrong \<noteq> ?msg" "?key \<noteq> ?other"
    by (simp_all add: challenge_message_def numeral_nat)
  from assms(3) obtain vk where key: "length (pub ?key) = 32"
      "verifying_key_from_bytes A (pub ?key) = Some vk"
    by (auto simp: signatures_ok_def)
  have sigs: "length (sign ?key ?msg) = 64" "ed25519_verify A vk ?msg (sign ?key ?msg)"
      "\<not> ed25519_verify A vk ?wrong (sign ?key ?msg)" "\<not> ed25519_verify A vk ?msg (sign ?other ?msg)"
    using assms(3) key(2) diff by (simp_all add: signatures_ok_def)
  have address: "public_key_from_string A ?address = Some (pub ?key)"
    using assms(1) key(1) by (simp add: strkey_ok_def)
  have "valid_signature_over_challenge_verifies C A pub sign"
      "signature_over_wrong_message_is_rejected C A pub sign"
      "signature_from_wrong_key_is_rejected C A pub sign"
    using sigs
    by (simp_all add: valid_signature_over_challenge_verifies_def key address
        signature_over_wrong_message_is_rejected_def signature_from_wrong_key_is_rejected_def
        test_keypair_def Let_def verify_wallet_signature_ok)
  moreover have "challenge_round_trips_once_and_then_fails C random t0 t1 t2"
    using assms(4)
    by (simp add: challenge_round_trips_once_and_then_fails_def issue_def Let_def
        verify_and_consume_def CHALLENGE_TTL_SECS_def)
  moreover have "hex_encode C random \<noteq> ''wrong-nonce''"
  proof
    assume "hex_encode C random = ''wrong-nonce''"
    then have "length (lower_hex random) = 11" using assms(2) by (simp add: hex_ok_def)
    then show False by (simp add: lower_hex_length) presburger
  qed
  then have "challenge_rejects_mismatched_nonce C random t0 t1"
    by (simp add: challenge_rejects_mismatched_nonce_def issue_def Let_def verify_and_consume_def)
  moreover have "jwt_round_trips_and_rejects_wrong_secret A t0 t1"
  proof -
    obtain tok where tok: "jwt_encode A (as_bytes ''secret-a'') \<lparr>claims_sub = ''GADDRESS'',
        claims_exp = i64_as_usize (timestamp (t0 + micros 3600))\<rparr> = Inr tok"
      using assms(9) by blast
    have macs: "hmac_sha256 C (as_bytes ''secret-b'') (signs \<lparr>claims_sub = ''GADDRESS'',
          claims_exp = i64_as_usize (timestamp (t0 + micros 3600))\<rparr>) \<noteq>
        hmac_sha256 C (as_bytes ''secret-a'') (signs \<lparr>claims_sub = ''GADDRESS'',
          claims_exp = i64_as_usize (timestamp (t0 + micros 3600))\<rparr>)"
      using assms(6) by (auto simp: hmac_ok_def token_macs_def Let_def)
    have "t1 \<le> t0 + micros 3600" using assms(4) by (simp add: micros_def)
    from decodes_within_hour [OF assms(5) tok assms(7,8) this]
    have "verify_jwt A ''secret-a'' t1 tok = Inr ''GADDRESS''" by (simp add: verify_jwt_def)
    moreover have "hs256_ok C A signs" using assms(6) ..
    then have "jwt_decode A t1 (as_bytes ''secret-b'') tok = None"
      using tok macs unfolding hs256_ok_def by blast
    ultimately show ?thesis
      by (simp add: jwt_round_trips_and_rejects_wrong_secret_def issue_jwt_def JWT_TTL_SECS_def tok
          is_ok_def verify_jwt_def)
  qed
  ultimately show ?thesis by blast
qed

section \<open>src/indexer/rpc.rs and src/indexer/mod.rs\<close>

text \<open>A \<open>getEvents\<close> response captured from the testnet, field for field.\<close>

definition SAMPLE_RESPONSE :: json where
  "SAMPLE_RESPONSE = JObj
    [(''events'', JArr [JObj
       [(''type'', JStr ''contract''), (''ledger'', JInt 4555815),
        (''ledgerClosedAt'', JStr ''2026-09-07T17:37:42Z''),
        (''contractId'', JStr ''CCV6TXXCFDFC743XMQBRICV4HFMKRPDDCPUQFKOWVYZ3BNJEGEDQODSO''),
        (''id'', JStr ''0019567076431654912-0000000000''), (''operationIndex'', JInt 0),
        (''transactionIndex'', JInt 7),
        (''txHash'', JStr ''47904d90dab125163eae92caa593b49068069fee5c90cba1f5922257e252c334''),
        (''inSuccessfulContractCall'', JBool True),
        (''topic'', JArr [JStr ''AAAADwAAAA5lc2Nyb3dfY3JlYXRlZAAA'', JStr ''AAAABQAAAAAAAAAA'']),
        (''value'', JStr ''AAAAEQ=='')]]),
     (''cursor'', JStr ''0019567093611524096-0000000001''), (''latestLedger'', JInt 4555876),
     (''oldestLedger'', JInt 4434917), (''latestLedgerCloseTime'', JStr ''1788802967''),
     (''oldestLedgerCloseTime'', JStr ''1788198172'')]"

definition deserializes_real_get_events_response_shape ::
  "(string \<Rightarrow> datetime option) \<Rightarrow> (datetime \<Rightarrow> string) \<Rightarrow> bool" where
  "deserializes_real_get_events_response_shape parse_time to_rfc3339 \<longleftrightarrow>
    (case get_events_result_of_json parse_time SAMPLE_RESPONSE of
       None \<Rightarrow> False
     | Some result \<Rightarrow>
         length (ger_events result) = 1 \<and>
         ev_id (ger_events result ! 0) = ''0019567076431654912-0000000000'' \<and>
         ev_ledger (ger_events result ! 0) = 4555815 \<and>
         to_rfc3339 (ev_ledger_closed_at (ger_events result ! 0)) = ''2026-09-07T17:37:42+00:00'' \<and>
         ev_in_successful_contract_call (ger_events result ! 0) \<and>
         ger_cursor result = Some ''0019567093611524096-0000000001'' \<and>
         ger_latest_ledger result = 4555876)"

definition serializes_get_events_request_with_cursor :: bool where
  "serializes_get_events_request_with_cursor \<longleftrightarrow>
    (let params = \<lparr>gp_start_ledger = None, gp_contract_id = ''CABC'', gp_cursor = Some ''123-0'',
           gp_limit = 100\<rparr>;
         request = json_rpc_request ''getEvents'' (get_events_params_json params);
         sent = json_field request ''params''
     in json_field request ''method'' = Some (JStr ''getEvents'') \<and>
        Option.bind (Option.bind sent (\<lambda>p. json_field p ''pagination'')) (\<lambda>p. json_field p ''cursor'') =
          Some (JStr ''123-0'') \<and>
        Option.bind sent (\<lambda>p. json_field p ''startLedger'') = None)"

definition test_body :: bytes where
  "test_body = as_bytes (''{'' @ [CHR 0x22] @ ''escrow_id'' @ [CHR 0x22] @ '':1,'' @ [CHR 0x22] @
     ''event'' @ [CHR 0x22] @ '':'' @ [CHR 0x22] @ ''escrow_funded'' @ [CHR 0x22] @ ''}'')"

definition signature_is_deterministic_and_key_dependent :: "crates \<Rightarrow> bool" where
  "signature_is_deterministic_and_key_dependent C \<longleftrightarrow>
    (let ts = int_as_i64 1700000000;
         sig_a = sign_webhook_payload C ''secret-a'' ts test_body;
         sig_a_again = sign_webhook_payload C ''secret-a'' ts test_body;
         sig_b = sign_webhook_payload C ''secret-b'' ts test_body;
         sig_different_time = sign_webhook_payload C ''secret-a'' (int_as_i64 1700000001) test_body
     in sig_a = sig_a_again \<and> sig_a \<noteq> sig_b \<and> sig_a \<noteq> sig_different_time \<and> length sig_a = 64)"

lemma de_numbers:
  "de_u32 (JInt 4555815) = Some 4555815" "de_u32 (JInt 4555876) = Some 4555876"
  by (simp_all add: de_u32_def)

lemma rpc_tests_pass:
  assumes "parse_time ''2026-09-07T17:37:42Z'' = Some t"
    and "to_rfc3339 t = ''2026-09-07T17:37:42+00:00''"
  shows "deserializes_real_get_events_response_shape parse_time to_rfc3339 \<and>
    serializes_get_events_request_with_cursor"
proof
  show "deserializes_real_get_events_response_shape parse_time to_rfc3339"
    using assms
    by (simp add: deserializes_real_get_events_response_shape_def SAMPLE_RESPONSE_def
        get_events_result_of_json_def rpc_event_of_json_def struct_fields_def required_def
        optional_def de_numbers de_datetime_def de_string_def de_bool_def de_list_def
        de_option_def)
  show serializes_get_events_request_with_cursor
    by (simp add: serializes_get_events_request_with_cursor_def json_rpc_request_def Let_def
        json_field_startLedger json_field_pagination)
qed

lemma signature_test_passes:
  assumes "hex_ok C" "hmac_ok C
      [(as_bytes ''secret-a'', signed_content (int_as_i64 1700000000) test_body),
       (as_bytes ''secret-b'', signed_content (int_as_i64 1700000000) test_body),
       (as_bytes ''secret-a'', signed_content (int_as_i64 1700000001) test_body)]"
  shows "signature_is_deterministic_and_key_dependent C"
  using assms
  by (auto simp: signature_is_deterministic_and_key_dependent_def Let_def sign_webhook_payload_def
      hmac_ok_def hex_ok_def lower_hex_length)

section \<open>All of them\<close>

definition test_keys :: "bytes list" where
  "test_keys = [replicate 32 7, replicate 32 9]"

definition test_messages :: "bytes list" where
  "test_messages = [challenge_message ''abc123'', challenge_message ''different-nonce'']"

definition test_macs :: "(bytes \<times> bytes) list" where
  "test_macs =
    [(as_bytes ''secret-a'', signed_content (int_as_i64 1700000000) test_body),
     (as_bytes ''secret-b'', signed_content (int_as_i64 1700000000) test_body),
     (as_bytes ''secret-a'', signed_content (int_as_i64 1700000001) test_body)]"

definition crates_documented ::
  "crates \<Rightarrow> 'vk auth_crates \<Rightarrow> (bytes \<Rightarrow> bytes) \<Rightarrow> (bytes \<Rightarrow> bytes \<Rightarrow> bytes) \<Rightarrow> (claims \<Rightarrow> bytes) \<Rightarrow>
    datetime \<Rightarrow> bool" where
  "crates_documented C A pub sign signs t0 \<longleftrightarrow>
    strings_ok C \<and> hex_ok C \<and> strkey_ok C A \<and> dates_ok C \<and> hmac_ok C test_macs \<and>
    signatures_ok A pub sign test_keys test_messages \<and> jwt_decodes A \<and> hs256_ok C A signs \<and>
    hmac_ok C (token_macs signs t0) \<and>
    (\<forall>key claims. \<exists>tok. jwt_encode A key claims = Inr tok)"

text \<open>
  C40: The repository's unit tests pass.  If the crates do what they document (texts, hexadecimal, strkey,
  chrono; signatures and MACs that differ on the tests' inputs; tokens that decode for their hour
  under their own secret and are refused under a key with another MAC), and the calls of a test are less than five minutes apart, all
  nineteen tests of \<open>decode.rs\<close>, \<open>auth.rs\<close>, \<open>rpc.rs\<close> and \<open>indexer/mod.rs\<close> hold of the model.
\<close>

theorem unit_tests_pass:
  assumes "crates_documented C A pub sign signs t0"
    and "parse_time ''2026-09-07T17:37:42Z'' = Some t"
    and "to_rfc3339 t = ''2026-09-07T17:37:42+00:00''"
    and "t1 < t0 + micros 300" "0 \<le> t0" "t0 < 2 ^ 62"
  shows "decodes_i128_from_parts \<and> decodes_negative_i128_from_parts \<and>
    decodes_account_address C A \<and> decodes_contract_address C \<and> finds_field_in_data_map C \<and>
    decodes_release_to_provider_resolution C \<and> decodes_split_resolution C \<and>
    decodes_milestones_vec C \<and> decodes_bytes_to_hex C \<and> converts_unix_seconds_to_datetime C \<and>
    empty_string_becomes_none \<and> decodes_symbol_string C \<and>
    valid_signature_over_challenge_verifies C A pub sign \<and>
    signature_over_wrong_message_is_rejected C A pub sign \<and>
    signature_from_wrong_key_is_rejected C A pub sign \<and>
    challenge_round_trips_once_and_then_fails C random t0 t1 t2 \<and>
    challenge_rejects_mismatched_nonce C random t0 t1 \<and>
    jwt_round_trips_and_rejects_wrong_secret A t0 t1 \<and>
    deserializes_real_get_events_response_shape parse_time to_rfc3339 \<and>
    serializes_get_events_request_with_cursor \<and>
    signature_is_deterministic_and_key_dependent C"
proof -
  have laws: "strings_ok C" "hex_ok C" "strkey_ok C A" "dates_ok C" "hmac_ok C test_macs"
      "signatures_ok A pub sign test_keys test_messages" "jwt_decodes A"
      "hs256_ok C A signs \<and> hmac_ok C (token_macs signs t0)" "\<exists>tok. jwt_encode A key claims = Inr tok" for key claims
    using assms(1) by (simp_all add: crates_documented_def)
  show ?thesis
    using decode_tests_pass [OF laws(1-4)] rpc_tests_pass [of parse_time t to_rfc3339, OF assms(2,3)]
      auth_tests_pass [OF laws(3,2) laws(6) [unfolded test_keys_def test_messages_def] assms(4)
        laws(7,8) assms(5,6) laws(9)]
      signature_test_passes [OF laws(2) laws(5) [unfolded test_macs_def]]
    by blast
qed

section \<open>Examples\<close>

text \<open>Crates simple enough to compute with, for which the tests hold.\<close>

definition test_crates :: crates where
  "test_crates = sample_crates
    \<lparr>strkey_ed25519_to_string := (\<lambda>bs. CHR ''G'' # chars_of bs),
     strkey_contract_to_string := (\<lambda>bs. CHR ''C'' # chars_of bs)\<rparr>"

definition test_sign :: "bytes \<Rightarrow> bytes \<Rightarrow> bytes" where
  "test_sign key msg = take 64 (key @ drop 24 msg @ replicate 64 0)"

definition test_auth :: "bytes auth_crates" where
  "test_auth = sample_auth
    \<lparr>public_key_from_string := (\<lambda>s. case s of [] \<Rightarrow> None
       | c # r \<Rightarrow> if c = CHR ''G'' then Some (as_bytes r) else None),
     ed25519_verify := (\<lambda>vk msg sig. sig = test_sign vk msg),
     jwt_encode := (\<lambda>key c. map_sum id (\<lambda>tok. lower_hex key @ CHR ''.'' # tok)
       (jwt_encode sample_auth key c)),
     jwt_decode := (\<lambda>t key tok.
       if takeWhile (\<lambda>c. c \<noteq> CHR ''.'') tok = lower_hex key
       then jwt_decode sample_auth t key (tl (dropWhile (\<lambda>c. c \<noteq> CHR ''.'') tok)) else None)\<rparr>"

lemma as_bytes_chars_of: "as_bytes (chars_of bs) = bs"
proof -
  have "(of_char (char_of (unat b) :: char) :: u8) = b" for b :: u8
    using unsigned_less [of b, where ?'a = nat]
    by (simp add: take_bit_eq_mod flip: of_nat_of_char_word)
  then show ?thesis by (simp add: as_bytes_def chars_of_def o_def)
qed

lemma lower_hex_no_dot: "c \<in> set (lower_hex bs) \<Longrightarrow> c \<noteq> CHR ''.''"
proof -
  have "hex_digit n \<noteq> CHR ''.''" if "n < 16" for n
    using that by (auto simp: hex_digit_def char_of_eq_iff take_bit_eq_mod)
  moreover have "unat b div 16 < 16" for b :: u8
    using unsigned_less [of b, where ?'a = nat] by (simp add: less_mult_imp_div_less)
  ultimately show "c \<in> set (lower_hex bs) \<Longrightarrow> c \<noteq> CHR ''.''"
    by (auto simp: lower_hex_def) (metis mod_less_divisor zero_less_numeral)+
qed

lemma test_jwt: "jwt_decodes test_auth" "hs256_ok test_crates test_auth (\<lambda>_. replicate 32 0)"
proof -
  have cut: "takeWhile (\<lambda>c. c \<noteq> CHR ''.'') (lower_hex key @ CHR ''.'' # tok) = lower_hex key"
      "tl (dropWhile (\<lambda>c. c \<noteq> CHR ''.'') (lower_hex key @ CHR ''.'' # tok)) = tok" for key tok
    by (simp_all add: takeWhile_append2 dropWhile_append2 lower_hex_no_dot)
  have enc: "jwt_encode test_auth key c = Inr tok \<longleftrightarrow>
      (\<exists>r. jwt_encode sample_auth key c = Inr r \<and> tok = lower_hex key @ CHR ''.'' # r)" for key c tok
    by (cases "jwt_encode sample_auth key c") (auto simp: test_auth_def)
  have dec: "jwt_decode test_auth t key (lower_hex key' @ CHR ''.'' # r) =
      (if key = key' then jwt_decode sample_auth t key r else None)" for t key key' r
    by (auto simp: test_auth_def cut)
  show "jwt_decodes test_auth"
    using sample_jwt(1) by (auto simp: jwt_decodes_def enc dec)
  show "hs256_ok test_crates test_auth (\<lambda>_. replicate 32 0)"
    by (auto simp: hs256_ok_def enc dec)
qed

lemma test_sign_eq:
  "length key = 32 \<Longrightarrow> length key' = 32 \<Longrightarrow> test_sign key msg = test_sign key' msg' \<longleftrightarrow>
    key = key' \<and> take 32 (drop 24 msg @ replicate 64 0) = take 32 (drop 24 msg' @ replicate 64 0)"
  by (simp add: test_sign_def)

lemma test_messages_differ:
  "take 32 (drop 24 (challenge_message ''abc123'') @ replicate 64 0) \<noteq>
    take 32 (drop 24 (challenge_message ''different-nonce'') @ replicate 64 0)"
proof -
  have "drop 24 (challenge_message s) = as_bytes s" for s
    by (simp add: challenge_message_def as_bytes_def)
  then show ?thesis by (simp add: as_bytes_def)
qed

lemma test_signatures: "signatures_ok test_auth id test_sign test_keys test_messages"
proof -
  have keys: "replicate 32 (7 :: u8) \<noteq> replicate 32 9" by (simp add: numeral_nat)
  have "length (test_sign key msg) = 64" for key msg by (simp add: test_sign_def)
  moreover have "challenge_message ''abc123'' \<noteq> challenge_message ''different-nonce''"
    using test_messages_differ by metis
  ultimately show ?thesis
    using keys keys [symmetric] test_messages_differ test_messages_differ [symmetric]
    by (simp add: signatures_ok_def test_keys_def test_messages_def test_auth_def sample_auth_def
        test_sign_eq)
qed

lemma digit_chars:
  "digit_char 0 = CHR ''0''" "digit_char 1 = CHR ''1''" "digit_char 7 = CHR ''7''"
  by code_simp+

lemma test_macs_differ: "hmac_ok test_crates test_macs"
proof -
  have "show_int 1700000000 = ''1700000000''" "show_int 1700000001 = ''1700000001''"
    by (simp_all add: show_int_def show_nat.simps digit_chars digit_chars(2) [simplified])
  then show ?thesis
    by (simp add: hmac_ok_def test_macs_def test_crates_def sample_crates_def signed_content_def
        i64_int_int_as_i64 as_bytes_def test_body_def)
qed

lemma test_strings: "strings_ok test_crates" "hex_ok test_crates" "strkey_ok test_crates test_auth"
    "dates_ok test_crates"
  by (simp_all add: strings_ok_def hex_ok_def strkey_ok_def dates_ok_def test_crates_def test_auth_def
      sample_crates_def as_bytes_chars_of sample_from_timestamp_def)

lemma test_token_macs: "hmac_ok test_crates (token_macs (\<lambda>_. replicate 32 0) t0)"
  by (simp add: hmac_ok_def token_macs_def Let_def test_crates_def sample_crates_def as_bytes_def)

lemma test_documented:
  "crates_documented test_crates test_auth id test_sign (\<lambda>_. replicate 32 0) t0"
  by (simp add: crates_documented_def test_strings test_macs_differ test_signatures test_jwt
      test_token_macs)
    (simp add: test_auth_def sample_auth_def)

theorem unit_tests_pass_witness:
  "decodes_account_address test_crates test_auth \<and>
    signature_from_wrong_key_is_rejected test_crates test_auth id test_sign \<and>
    jwt_round_trips_and_rejects_wrong_secret test_auth 5 7"
proof -
  have "(7 :: datetime) < 5 + micros 300" "(0 :: datetime) \<le> 5" "(5 :: datetime) < 2 ^ 62"
    by (simp_all add: micros_def)
  from unit_tests_pass [OF test_documented _ _ this,
      of "\<lambda>_. Some 0" 0 "\<lambda>_. ''2026-09-07T17:37:42+00:00''" "[1, 2]" 9]
  show ?thesis by simp
qed

end
