(* ===== verification/HttpTests.thy ===== *)
theory HttpTests
  imports Server UnitTests
begin

text \<open>
  The integration tests of \<open>src/api/tests.rs\<close> on the model: each is a definition of its name that sends
  requests through \<open>serve\<close> to a server over a freshly migrated database and holds if all assertions
  do.  A call that the test unwraps, and a request without an answer, make it fail.  What axum does
  with the tests' requests, which it documents, is \<open>axum_ok\<close>.
\<close>

section \<open>The harness\<close>

definition JWT_SECRET :: string where
  "JWT_SECRET = ''test-secret''"

record http_request =
  rq_method :: http_method
  rq_path :: string
  rq_query :: "(string \<times> string) list"
  rq_bearer :: "string option"
  rq_body :: "json option"

definition get :: "string \<Rightarrow> (string \<times> string) list \<Rightarrow> http_request" where
  "get path qs =
    \<lparr>rq_method = GET, rq_path = path, rq_query = qs, rq_bearer = None, rq_body = None\<rparr>"

definition json_request :: "http_method \<Rightarrow> string \<Rightarrow> json \<Rightarrow> string option \<Rightarrow> http_request" where
  "json_request meth path body bearer =
    \<lparr>rq_method = meth, rq_path = path, rq_query = [], rq_bearer = bearer, rq_body = Some body\<rparr>"

text \<open>A request with a token and without a body, as the webhook test builds by hand.\<close>

definition bearer_request :: "http_method \<Rightarrow> string \<Rightarrow> string \<Rightarrow> http_request" where
  "bearer_request meth path tok =
    \<lparr>rq_method = meth, rq_path = path, rq_query = [], rq_bearer = Some tok, rq_body = None\<rparr>"

record 'vk test_env =
  te_crates :: crates
  te_auth :: "'vk auth_crates"
  te_web :: "http_request web"
  te_show_uuid :: "uuid \<Rightarrow> string"

text \<open>\<open>app\<close> over a fresh pool.\<close>

definition fresh_app :: "datetime \<Rightarrow> server" where
  "fresh_app now = app_state migrated now"

definition request ::
  "'vk test_env \<Rightarrow> draws \<Rightarrow> http_request \<Rightarrow> (nat \<Rightarrow> json \<Rightarrow> server \<Rightarrow> bool) \<Rightarrow> server \<Rightarrow> bool" where
  "request E dr req k w =
    (case serve (te_crates E) (te_auth E) (te_web E) JWT_SECRET dr (rq_method req) (rq_path req) req w of
       (None, _) \<Rightarrow> False
     | (Some (status, body), w') \<Rightarrow> k status body w')"

definition unwrap :: "(server, 'e, 'a) eff \<Rightarrow> ('a \<Rightarrow> server \<Rightarrow> bool) \<Rightarrow> server \<Rightarrow> bool" where
  "unwrap m k w = (case m w of (Inl _, _) \<Rightarrow> False | (Inr x, w') \<Rightarrow> k x w')"

definition seed_escrow ::
  "i64 \<Rightarrow> string \<Rightarrow> string \<Rightarrow> string \<Rightarrow> string \<Rightarrow> (server \<Rightarrow> bool) \<Rightarrow> server \<Rightarrow> bool" where
  "seed_escrow k client provider arbitrator status cont w =
    unwrap (upsert_escrow k ''CCONTRACT'' client provider arbitrator ''CTOKEN'' status (I64 1)
      (I64 604800) (clock w) None None None) (\<lambda>_. cont) w"

definition items :: "json \<Rightarrow> json list" where
  "items j = (case j of JArr js \<Rightarrow> js | _ \<Rightarrow> [])"

definition at :: "json \<Rightarrow> nat \<Rightarrow> json" where
  "at j i = (if i < length (items j) then items j ! i else JNull)"

definition key :: "json \<Rightarrow> string \<Rightarrow> json" where
  "key j k = (case json_field j k of None \<Rightarrow> JNull | Some v \<Rightarrow> v)"

definition contains :: "string \<Rightarrow> string \<Rightarrow> bool" where
  "contains s part \<longleftrightarrow> (\<exists>i \<in> set [0..<Suc (length s)]. take (length part) (drop i s) = part)"

text \<open>
  The documented behaviour of axum on the requests of the tests: which template matches a path, a
  well-formed JSON body, query pairs and bearer token are handed on, and \<open>%\<close> is the only escape.
\<close>

definition axum_ok :: "'vk test_env \<Rightarrow> bool" where
  "axum_ok E \<longleftrightarrow>
    (let X = te_web E in
     (\<forall>r. bearer_of X r = rq_bearer r \<and> query_pairs X r = rq_query r \<and>
        (\<forall>j. rq_body r = Some j \<longrightarrow> body_json X r = Inr j)) \<and>
     (\<forall>s. CHR ''%'' \<notin> set s \<longrightarrow> percent_decode X s = Some s) \<and>
     (\<forall>u. uuid_from_string X (te_show_uuid E u) = Some u \<and> CHR ''%'' \<notin> set (te_show_uuid E u) \<and>
        match_path X (map fst router) (''/escrows/1/webhooks/'' @ te_show_uuid E u) =
          Some (''/escrows/{id}/webhooks/{webhook_id}'',
            [(''id'', ''1''), (''webhook_id'', te_show_uuid E u)])) \<and>
     list_all (\<lambda>(path, template, params). match_path X (map fst router) path = Some (template, params))
       [(''/escrows'', ''/escrows'', []), (''/disputes'', ''/disputes'', []),
        (''/escrows/1'', ''/escrows/{id}'', [(''id'', ''1'')]),
        (''/escrows/999'', ''/escrows/{id}'', [(''id'', ''999'')]),
        (''/escrows/1/webhooks'', ''/escrows/{id}/webhooks'', [(''id'', ''1'')]),
        (''/auth/challenge'', ''/auth/challenge'', []), (''/auth/verify'', ''/auth/verify'', [])])"

section \<open>The tests\<close>

definition get_escrow_returns_404_when_missing ::
  "'vk test_env \<Rightarrow> draws \<Rightarrow> datetime \<Rightarrow> bool" where
  "get_escrow_returns_404_when_missing E dr now \<longleftrightarrow>
    request E dr (get ''/escrows/999'' []) (\<lambda>status body _.
      status = 404 \<and> key body ''error'' = JStr ''not found'') (fresh_app now)"

definition get_escrow_returns_escrow_with_milestones ::
  "'vk test_env \<Rightarrow> draws \<Rightarrow> datetime \<Rightarrow> bool" where
  "get_escrow_returns_escrow_with_milestones E dr now \<longleftrightarrow>
    seed_escrow (I64 1) ''GCLIENT'' ''GPROVIDER'' ''GARBITRATOR'' ''created''
      (unwrap (upsert_milestone (I64 1) (I32 0) ''Design'' 100 ''pending'' now) (\<lambda>_.
        request E dr (get ''/escrows/1'' []) (\<lambda>status body _.
          status = 200 \<and> key body ''id'' = JInt 1 \<and> key body ''client'' = JStr ''GCLIENT'' \<and>
          key body ''status'' = JStr ''created'' \<and>
          key (at (key body ''milestones'') 0) ''description'' = JStr ''Design'')))
      (fresh_app now)"

definition list_escrows_filters_by_client ::
  "'vk test_env \<Rightarrow> draws \<Rightarrow> datetime \<Rightarrow> bool" where
  "list_escrows_filters_by_client E dr now \<longleftrightarrow>
    seed_escrow (I64 1) ''GCLIENT_A'' ''GPROVIDER'' ''GARBITRATOR'' ''created''
      (seed_escrow (I64 2) ''GCLIENT_B'' ''GPROVIDER'' ''GARBITRATOR'' ''created''
        (request E dr (get ''/escrows'' [(''client'', ''GCLIENT_A'')]) (\<lambda>status body _.
          status = 200 \<and> length (items body) = 1 \<and> key (at body 0) ''id'' = JInt 1)))
      (fresh_app now)"

definition list_escrows_rejects_invalid_status ::
  "'vk test_env \<Rightarrow> draws \<Rightarrow> datetime \<Rightarrow> bool" where
  "list_escrows_rejects_invalid_status E dr now \<longleftrightarrow>
    request E dr (get ''/escrows'' [(''status'', ''not_a_real_status'')]) (\<lambda>status body _.
      status = 400 \<and>
      (case key body ''error'' of JStr m \<Rightarrow> contains m ''invalid status'' | _ \<Rightarrow> False)) (fresh_app now)"

definition list_disputes_defaults_to_open ::
  "'vk test_env \<Rightarrow> draws \<Rightarrow> datetime \<Rightarrow> bool" where
  "list_disputes_defaults_to_open E dr now \<longleftrightarrow>
    seed_escrow (I64 1) ''GCLIENT'' ''GPROVIDER'' ''GARBITRATOR'' ''in_progress''
      (unwrap (insert_dispute (I64 1) (I32 0) ''GCLIENT'' ''not delivered'') (\<lambda>_.
       unwrap (resolve_dispute (I64 1) (I32 0) ''release'' None) (\<lambda>_.
       seed_escrow (I64 2) ''GCLIENT2'' ''GPROVIDER2'' ''GARBITRATOR2'' ''in_progress''
         (unwrap (insert_dispute (I64 2) (I32 0) ''GCLIENT2'' ''still open'') (\<lambda>_.
          request E dr (get ''/disputes'' []) (\<lambda>status body _.
            status = 200 \<and> length (items body) = 1 \<and> key (at body 0) ''escrow_id'' = JInt 2 \<and>
            key (at body 0) ''status'' = JStr ''open''))))))
      (fresh_app now)"

definition list_disputes_all_widens_to_everything ::
  "'vk test_env \<Rightarrow> draws \<Rightarrow> datetime \<Rightarrow> bool" where
  "list_disputes_all_widens_to_everything E dr now \<longleftrightarrow>
    seed_escrow (I64 1) ''GCLIENT'' ''GPROVIDER'' ''GARBITRATOR'' ''in_progress''
      (unwrap (insert_dispute (I64 1) (I32 0) ''GCLIENT'' ''not delivered'') (\<lambda>_.
       unwrap (resolve_dispute (I64 1) (I32 0) ''release'' None) (\<lambda>_.
         request E dr (get ''/disputes'' [(''status'', ''all'')]) (\<lambda>status body _.
           status = 200 \<and> length (items body) = 1))))
      (fresh_app now)"

definition with_token ::
  "'vk test_env \<Rightarrow> string \<Rightarrow> (string \<Rightarrow> server \<Rightarrow> bool) \<Rightarrow> server \<Rightarrow> bool" where
  "with_token E address k w =
    (case issue_jwt (te_auth E) JWT_SECRET (clock w) address of Inl _ \<Rightarrow> False | Inr tok \<Rightarrow> k tok w)"

definition register_request :: "string \<Rightarrow> string option \<Rightarrow> http_request" where
  "register_request url bearer =
    json_request POST ''/escrows/1/webhooks'' (JObj [(''url'', JStr url)]) bearer"

definition seed_first :: "(server \<Rightarrow> bool) \<Rightarrow> server \<Rightarrow> bool" where
  "seed_first = seed_escrow (I64 1) ''GCLIENT'' ''GPROVIDER'' ''GARBITRATOR'' ''created''"

definition register_webhook_requires_auth :: "'vk test_env \<Rightarrow> draws \<Rightarrow> datetime \<Rightarrow> bool" where
  "register_webhook_requires_auth E dr now \<longleftrightarrow>
    seed_first (request E dr (register_request ''https://example.com/hook'' None)
      (\<lambda>status _ _. status = 401)) (fresh_app now)"

definition register_webhook_rejects_non_party :: "'vk test_env \<Rightarrow> draws \<Rightarrow> datetime \<Rightarrow> bool" where
  "register_webhook_rejects_non_party E dr now \<longleftrightarrow>
    seed_first (with_token E ''GSTRANGER'' (\<lambda>tok.
      request E dr (register_request ''https://example.com/hook'' (Some tok))
        (\<lambda>status _ _. status = 403))) (fresh_app now)"

definition register_webhook_rejects_non_http_url :: "'vk test_env \<Rightarrow> draws \<Rightarrow> datetime \<Rightarrow> bool" where
  "register_webhook_rejects_non_http_url E dr now \<longleftrightarrow>
    seed_first (with_token E ''GCLIENT'' (\<lambda>tok.
      request E dr (register_request ''javascript:alert(1)'' (Some tok))
        (\<lambda>status _ _. status = 400))) (fresh_app now)"

definition register_webhook_secrets_are_unique ::
  "'vk test_env \<Rightarrow> draws \<Rightarrow> draws \<Rightarrow> datetime \<Rightarrow> bool" where
  "register_webhook_secrets_are_unique E dr1 dr2 now \<longleftrightarrow>
    seed_first (with_token E ''GCLIENT'' (\<lambda>tok.
      request E dr1 (register_request ''https://example.com/hook'' (Some tok)) (\<lambda>_ body_a.
      request E dr2 (register_request ''https://example.com/hook'' (Some tok)) (\<lambda>_ body_b _.
        case (key body_a ''secret'', key body_b ''secret'') of
          (JStr secret_a, JStr secret_b) \<Rightarrow> secret_a \<noteq> secret_b | _ \<Rightarrow> False)))) (fresh_app now)"

definition webhook_lifecycle_register_list_delete ::
  "'vk test_env \<Rightarrow> draws \<Rightarrow> datetime \<Rightarrow> bool" where
  "webhook_lifecycle_register_list_delete E dr now \<longleftrightarrow>
    seed_first (with_token E ''GCLIENT'' (\<lambda>client_token.
      request E dr (register_request ''https://example.com/hook'' (Some client_token))
        (\<lambda>status body w.
          status = 200 \<and> key body ''owner_address'' = JStr ''GCLIENT'' \<and>
          (case (key body ''id'', key body ''secret'') of
             (JUuid wid, JStr secret) \<Rightarrow> length secret = 64 \<and>
               with_token E ''GPROVIDER'' (\<lambda>provider_token.
               request E dr (bearer_request GET ''/escrows/1/webhooks'' provider_token)
                 (\<lambda>status body w. status = 200 \<and> body = JArr [] \<and>
               request E dr (bearer_request GET ''/escrows/1/webhooks'' client_token)
                 (\<lambda>status body w. status = 200 \<and> length (items body) = 1 \<and>
                    json_field (at body 0) ''secret'' = None \<and>
               request E dr (bearer_request DELETE
                   (''/escrows/1/webhooks/'' @ te_show_uuid E wid) provider_token)
                 (\<lambda>status _ w. status = 404 \<and>
               request E dr (bearer_request DELETE
                   (''/escrows/1/webhooks/'' @ te_show_uuid E wid) client_token)
                 (\<lambda>status _ _. status = 200) w) w) w)) w
           | _ \<Rightarrow> False)))) (fresh_app now)"

definition auth_challenge_rejects_invalid_address :: "'vk test_env \<Rightarrow> draws \<Rightarrow> datetime \<Rightarrow> bool" where
  "auth_challenge_rejects_invalid_address E dr now \<longleftrightarrow>
    request E dr (json_request POST ''/auth/challenge''
        (JObj [(''address'', JStr ''not-a-real-address'')]) None)
      (\<lambda>status _ _. status = 400) (fresh_app now)"

definition auth_verify_rejects_unknown_challenge :: "'vk test_env \<Rightarrow> draws \<Rightarrow> datetime \<Rightarrow> bool" where
  "auth_verify_rejects_unknown_challenge E dr now \<longleftrightarrow>
    request E dr (json_request POST ''/auth/verify''
        (JObj [(''address'', JStr ''GCLIENT''), (''nonce'', JStr ''never-issued''),
               (''signature'', JStr ''AAAA'')]) None)
      (\<lambda>status _ _. status = 401) (fresh_app now)"

section \<open>Running them\<close>

lemma axum_routes:
  assumes "axum_ok E"
  shows "route (te_web E) GET ''/escrows'' = Inr (GetEscrows, [])"
    "route (te_web E) GET ''/disputes'' = Inr (GetDisputes, [])"
    "route (te_web E) GET ''/escrows/1'' = Inr (GetEscrow, [(''id'', ''1'')])"
    "route (te_web E) GET ''/escrows/999'' = Inr (GetEscrow, [(''id'', ''999'')])"
    "route (te_web E) POST ''/escrows/1/webhooks'' = Inr (PostWebhook, [(''id'', ''1'')])"
    "route (te_web E) GET ''/escrows/1/webhooks'' = Inr (GetWebhooks, [(''id'', ''1'')])"
    "route (te_web E) DELETE (''/escrows/1/webhooks/'' @ te_show_uuid E u) =
      Inr (DeleteWebhook, [(''id'', ''1''), (''webhook_id'', te_show_uuid E u)])"
    "route (te_web E) POST ''/auth/challenge'' = Inr (PostChallenge, [])"
    "route (te_web E) POST ''/auth/verify'' = Inr (PostVerify, [])"
proof -
  have routes: "map_of router ''/escrows'' = Some [(GET, GetEscrows)]"
      "map_of router ''/disputes'' = Some [(GET, GetDisputes)]"
      "map_of router ''/escrows/{id}'' = Some [(GET, GetEscrow)]"
      "map_of router ''/escrows/{id}/webhooks'' = Some [(POST, PostWebhook), (GET, GetWebhooks)]"
      "map_of router ''/escrows/{id}/webhooks/{webhook_id}'' = Some [(DELETE, DeleteWebhook)]"
      "map_of router ''/auth/challenge'' = Some [(POST, PostChallenge)]"
      "map_of router ''/auth/verify'' = Some [(POST, PostVerify)]"
    by (simp_all add: router_def)
  show "route (te_web E) GET ''/escrows'' = Inr (GetEscrows, [])"
    "route (te_web E) GET ''/disputes'' = Inr (GetDisputes, [])"
    "route (te_web E) GET ''/escrows/1'' = Inr (GetEscrow, [(''id'', ''1'')])"
    "route (te_web E) GET ''/escrows/999'' = Inr (GetEscrow, [(''id'', ''999'')])"
    "route (te_web E) POST ''/escrows/1/webhooks'' = Inr (PostWebhook, [(''id'', ''1'')])"
    "route (te_web E) GET ''/escrows/1/webhooks'' = Inr (GetWebhooks, [(''id'', ''1'')])"
    "route (te_web E) DELETE (''/escrows/1/webhooks/'' @ te_show_uuid E u) =
      Inr (DeleteWebhook, [(''id'', ''1''), (''webhook_id'', te_show_uuid E u)])"
    "route (te_web E) POST ''/auth/challenge'' = Inr (PostChallenge, [])"
    "route (te_web E) POST ''/auth/verify'' = Inr (PostVerify, [])"
    using assms by (simp_all add: axum_ok_def Let_def route_def routes del: append_Cons)
qed

lemma axum_extracts:
  assumes "axum_ok E"
  shows "bearer_of (te_web E) r = rq_bearer r" "query_pairs (te_web E) r = rq_query r"
    "rq_body r = Some j \<Longrightarrow> body_json (te_web E) r = Inr j"
    "path_id (te_web E) [(''id'', ''1'')] = Inr (I64 1)"
    "path_id (te_web E) [(''id'', ''999'')] = Inr (I64 999)"
    "path_ids (te_web E) [(''id'', ''1''), (''webhook_id'', te_show_uuid E u)] = Inr (I64 1, u)"
proof -
  have numbers: "parse_i64 ''1'' = Some (I64 1)" "parse_i64 ''999'' = Some (I64 999)"
    by (simp_all add: parse_i64_def parse_unsigned_def is_digit_def read_digits_def digit_val_def
        int_as_i64_def)
  show "bearer_of (te_web E) r = rq_bearer r" "query_pairs (te_web E) r = rq_query r"
    "rq_body r = Some j \<Longrightarrow> body_json (te_web E) r = Inr j"
    "path_id (te_web E) [(''id'', ''1'')] = Inr (I64 1)"
    "path_id (te_web E) [(''id'', ''999'')] = Inr (I64 999)"
    "path_ids (te_web E) [(''id'', ''1''), (''webhook_id'', te_show_uuid E u)] = Inr (I64 1, u)"
    using assms
    by (simp_all add: axum_ok_def Let_def path_id_def path_ids_def path_values_def numbers)
qed

lemmas test_simps =
  request_def serve_def extracted_def get_def serve_endpoint_def run_handler_def eff_simps run_query
  exec_sql_healthy_read answer_def into_response_def fresh_app_def app_state_def migrated_def
  find_by_def key_def at_def items_def seed_escrow_def unwrap_def

lemmas test_stmts =
  quiet_simps quiet_upsert_escrow quiet_upsert_milestone quiet_insert_dispute
  upsert_escrow_stmt_def upsert_milestone_stmt_def insert_dispute_stmt_def escrow_exists_def

lemmas test_pages =
  extract_query_def optional_def form_option_def limit_offset_def opt_match_def less_i64_def
  less_eq_i64_def max_def page_def page_limit_def page_offset_def unwrap_or_def clamp_def

lemmas test_escrows =
  query_escrows_def list_query_of_pairs_def list_escrows_handler_def escrow_status_param_def
  list_escrows_def matching_escrows_def escrow_row_fields_def

lemmas test_disputes =
  query_disputes_def list_disputes_query_of_pairs_def list_disputes_handler_def
  dispute_status_param_def list_disputes_def matching_disputes_def dispute_row_json_def
  update_where_def

lemma reading_tests_pass:
  assumes "axum_ok E"
  shows "get_escrow_returns_404_when_missing E dr now"
    "get_escrow_returns_escrow_with_milestones E dr now"
    "list_escrows_filters_by_client E dr now"
    "list_escrows_rejects_invalid_status E dr now"
    "list_disputes_defaults_to_open E dr now"
    "list_disputes_all_widens_to_everything E dr now"
proof -
  show "get_escrow_returns_404_when_missing E dr now"
    by (simp add: get_escrow_returns_404_when_missing_def test_simps axum_routes [OF assms]
        axum_extracts [OF assms] get_escrow_handler_def get_escrow_def)
  show "get_escrow_returns_escrow_with_milestones E dr now"
    by (simp add: get_escrow_returns_escrow_with_milestones_def test_simps test_stmts
        axum_routes [OF assms] axum_extracts [OF assms] get_escrow_handler_def get_escrow_def
        list_milestones_def list_milestones_query_def escrow_detail_json_def escrow_row_fields_def
        milestone_row_json_def fits_numeric_39_def)
  show "list_escrows_filters_by_client E dr now"
    by (simp add: list_escrows_filters_by_client_def test_simps test_stmts axum_routes [OF assms]
        axum_extracts [OF assms] test_pages test_escrows)
  show "list_escrows_rejects_invalid_status E dr now"
    by (simp add: list_escrows_rejects_invalid_status_def test_simps test_stmts axum_routes [OF assms]
        axum_extracts [OF assms] test_pages test_escrows escrow_status_from_str_def contains_def)
  show "list_disputes_defaults_to_open E dr now"
    by (simp add: list_disputes_defaults_to_open_def test_simps test_stmts axum_routes [OF assms]
        axum_extracts [OF assms] test_pages test_disputes)
  show "list_disputes_all_widens_to_everything E dr now"
    by (simp add: list_disputes_all_widens_to_everything_def test_simps test_stmts axum_routes [OF assms]
        axum_extracts [OF assms] test_pages test_disputes)
qed

text \<open>Tokens of the test server, and what they give its extractor.\<close>

definition tokens_ok :: "'vk auth_crates \<Rightarrow> datetime \<Rightarrow> bool" where
  "tokens_ok A now \<longleftrightarrow> jwt_decodes A \<and> 0 \<le> now \<and> now < 2 ^ 62 \<and>
    (\<forall>key claims. \<exists>tok. jwt_encode A key claims = Inr tok)"

lemma issued_token:
  assumes "tokens_ok A now"
  obtains tok where "issue_jwt A JWT_SECRET now address = Inr tok"
    "auth_user A JWT_SECRET now (Some tok) = Inr address"
proof -
  let ?claims = "\<lparr>claims_sub = address, claims_exp = i64_as_usize (timestamp (now + micros 3600))\<rparr>"
  obtain tok where tok: "jwt_encode A (as_bytes JWT_SECRET) ?claims = Inr tok"
    using assms unfolding tokens_ok_def by blast
  have "jwt_decode A now (as_bytes JWT_SECRET) tok = Some ?claims"
    by (rule decodes_within_hour [OF _ tok])
      (use assms in \<open>simp_all add: tokens_ok_def micros_def\<close>)
  then have "auth_user A JWT_SECRET now (Some tok) = Inr address"
    by (simp add: auth_user_def verify_jwt_def)
  moreover have "issue_jwt A JWT_SECRET now address = Inr tok"
    by (simp add: issue_jwt_def JWT_TTL_SECS_def tok)
  ultimately show thesis using that by blast
qed

text \<open>The database after the seed of the webhook tests.\<close>

definition first_row :: "datetime \<Rightarrow> escrow_row" where
  "first_row now =
    \<lparr>e_id = I64 1, e_contract_id = ''CCONTRACT'', e_client = ''GCLIENT'', e_provider = ''GPROVIDER'',
     e_arbitrator = ''GARBITRATOR'', e_token = ''CTOKEN'', e_status = ''created'',
     e_created_at = now, e_updated_at = now, e_updated_ledger = I64 1,
     e_review_period = I64 604800, e_chain_created_at = Some now, e_title = None,
     e_metadata_uri = None, e_metadata_hash = None\<rparr>"

definition with_hooks :: "datetime \<Rightarrow> webhook_row list \<Rightarrow> server" where
  "with_hooks now ws =
    \<lparr>tabs = migrated\<lparr>escrows := [first_row now], webhooks := ws\<rparr>, pending = [], clock = now,
     outbox = [], challenges = new_store\<rparr>"

lemma with_hooks_simps [simp]:
  "pending (with_hooks now ws) = []" "clock (with_hooks now ws) = now"
  "escrows (tabs (with_hooks now ws)) = [first_row now]"
  "webhooks (tabs (with_hooks now ws)) = ws"
  by (simp_all add: with_hooks_def)

lemma seeded: "seed_first cont (fresh_app now) = cont (with_hooks now [])"
  by (simp add: seed_first_def seed_escrow_def unwrap_def fresh_app_def app_state_def
      quiet_upsert_escrow upsert_escrow_stmt_def find_by_def with_hooks_def first_row_def
      migrated_def)

definition hook_row :: "'vk test_env \<Rightarrow> draws \<Rightarrow> datetime \<Rightarrow> string \<Rightarrow> webhook_row" where
  "hook_row E dr now owner =
    \<lparr>w_id = fresh_id dr, w_escrow_id = I64 1, w_owner_address = owner,
     w_url = ''https://example.com/hook'', w_created_at = now,
     w_secret = hex_encode (te_crates E) (secret_bytes dr)\<rparr>"

lemma register_runs:
  assumes "axum_ok E" "auth_user (te_auth E) JWT_SECRET now (Some tok) = Inr a"
    and "find_by w_id (fresh_id dr) ws = None"
  shows "request E dr (register_request url (Some tok)) k (with_hooks now ws) =
    (if \<not> starts_with ''https://'' url \<and> \<not> starts_with ''http://'' url
     then k 400 (snd (into_response (BadRequest ''url must be http(s)''))) (with_hooks now ws)
     else if \<not> party_of a (first_row now)
     then k 403 (snd (into_response (Forbidden
       ''only the escrow's client, provider, or arbitrator may register a webhook'')))
       (with_hooks now ws)
     else k 200 (webhook_created_json (webhook_created_from
         ((hook_row E dr now a)\<lparr>w_url := url\<rparr>)))
       (with_hooks now (ws @ [(hook_row E dr now a)\<lparr>w_url := url\<rparr>])))"
proof -
  have escrow: "find_by e_id (I64 1) [first_row now] = Some (first_row now)"
    by (simp add: find_by_def first_row_def)
  have body: "body_webhook (te_web E) (register_request url (Some tok)) = Inr \<lparr>wreq_url = url\<rparr>"
    by (simp add: body_webhook_def extract_json_def register_request_def json_request_def
        axum_extracts [OF assms(1)] register_webhook_request_of_json_def struct_fields_def
        required_def de_string_def)
  have more: "(with_hooks now ws)\<lparr>tabs := (tabs (with_hooks now ws))\<lparr>webhooks := ws'\<rparr>\<rparr> =
      with_hooks now ws'" for ws'
    by (simp add: with_hooks_def)
  show ?thesis
    using assms(2,3)
    by (simp add: request_def serve_def extracted_def register_request_def json_request_def
        axum_routes [OF assms(1)] axum_extracts [OF assms(1)] serve_endpoint_def authenticated_def
        body [unfolded register_request_def json_request_def] run_handler_def
        register_webhook_quiet escrow answer_def into_response_def more hook_row_def Let_def)
qed

lemma listing_runs:
  assumes "axum_ok E" "auth_user (te_auth E) JWT_SECRET now (Some tok) = Inr a"
  shows "request E dr (bearer_request GET ''/escrows/1/webhooks'' tok) k (with_hooks now ws) =
    k 200 (JArr (map webhook_row_json (filter (\<lambda>w. w_escrow_id w = I64 1 \<and> w_owner_address w = a) ws)))
      (with_hooks now ws)"
  using assms(2)
  by (simp add: request_def serve_def extracted_def bearer_request_def axum_routes [OF assms(1)]
      axum_extracts [OF assms(1)] serve_endpoint_def authenticated_def run_handler_def
      list_webhooks_def eff_simps run_query quiet_simps answer_def webhooks_of_def conj_commute)

lemma deleting_runs:
  assumes "axum_ok E" "auth_user (te_auth E) JWT_SECRET now (Some tok) = Inr a"
  shows "request E dr (bearer_request DELETE (''/escrows/1/webhooks/'' @ te_show_uuid E wid) tok) k
      (with_hooks now ws) =
    (if \<exists>w \<in> set ws. w_id w = wid \<and> w_owner_address w = a
     then k 200 JNull (with_hooks now (filter (\<lambda>w. \<not> (w_id w = wid \<and> w_owner_address w = a)) ws))
     else k 404 (snd (into_response NotFound)) (with_hooks now ws))"
proof -
  have more: "(with_hooks now ws)\<lparr>tabs := (tabs (with_hooks now ws))\<lparr>webhooks := ws'\<rparr>\<rparr> =
      with_hooks now ws'" for ws'
    by (simp add: with_hooks_def)
  have run: "delete_webhook_handler a (I64 1) wid (with_hooks now ws) =
      (if \<exists>w \<in> set ws. w_id w = wid \<and> w_owner_address w = a
       then (Inr (), with_hooks now (filter (\<lambda>w. \<not> (w_id w = wid \<and> w_owner_address w = a)) ws))
       else (Inl NotFound, with_hooks now ws))"
    by (subst delete_webhook_quiet) (simp_all only: with_hooks_simps more)
  have requested: "request E dr (bearer_request DELETE (''/escrows/1/webhooks/'' @ te_show_uuid E wid)
      tok) k (with_hooks now ws) =
    (case delete_webhook_handler a (I64 1) wid (with_hooks now ws) of
       (Inl e, w) \<Rightarrow> k (fst (into_response e)) (snd (into_response e)) w
     | (Inr _, w) \<Rightarrow> k 200 JNull w)"
    using assms(2)
    by (simp add: request_def serve_def extracted_def bearer_request_def axum_routes [OF assms(1)]
        axum_extracts [OF assms(1)] serve_endpoint_def authenticated_def run_handler_def answer_def
        del: append_Cons split: prod.split sum.split)
  show ?thesis
    unfolding requested run
    by (cases "\<exists>w \<in> set ws. w_id w = wid \<and> w_owner_address w = a")
      (simp_all only: if_True if_False prod.case sum.case, simp_all add: into_response_def)
qed

lemma webhook_tests_pass:
  assumes ax: "axum_ok E" and "tokens_ok (te_auth E) now"
    and hex: "hex_encode (te_crates E) (secret_bytes dr) = lower_hex (secret_bytes dr)"
      "hex_encode (te_crates E) (secret_bytes dr') = lower_hex (secret_bytes dr')"
    and "length (secret_bytes dr) = 32" "secret_bytes dr' \<noteq> secret_bytes dr"
    and "fresh_id dr' \<noteq> fresh_id dr"
  shows "register_webhook_requires_auth E dr now" "register_webhook_rejects_non_party E dr now"
    "register_webhook_rejects_non_http_url E dr now"
    "register_webhook_secrets_are_unique E dr dr' now"
    "webhook_lifecycle_register_list_delete E dr now"
proof -
  obtain stranger where stranger: "issue_jwt (te_auth E) JWT_SECRET now ''GSTRANGER'' = Inr stranger"
      "auth_user (te_auth E) JWT_SECRET now (Some stranger) = Inr ''GSTRANGER''"
    using issued_token [OF assms(2)] .
  obtain client where client: "issue_jwt (te_auth E) JWT_SECRET now ''GCLIENT'' = Inr client"
      "auth_user (te_auth E) JWT_SECRET now (Some client) = Inr ''GCLIENT''"
    using issued_token [OF assms(2)] .
  obtain provider where provider: "issue_jwt (te_auth E) JWT_SECRET now ''GPROVIDER'' = Inr provider"
      "auth_user (te_auth E) JWT_SECRET now (Some provider) = Inr ''GPROVIDER''"
    using issued_token [OF assms(2)] .
  have party: "party_of ''GCLIENT'' (first_row now)" "\<not> party_of ''GSTRANGER'' (first_row now)"
    by (simp_all add: party_of_def first_row_def)
  have http: "starts_with ''https://'' ''https://example.com/hook''"
      "\<not> starts_with ''https://'' ''javascript:alert(1)''"
      "\<not> starts_with ''http://'' ''javascript:alert(1)''"
    by (simp_all add: starts_with_def)
  have nohooks: "find_by w_id u [] = None" for u by (simp add: find_by_def)
  show "register_webhook_requires_auth E dr now"
    by (simp add: register_webhook_requires_auth_def seeded request_def serve_def extracted_def
        register_request_def json_request_def axum_routes [OF ax] axum_extracts [OF ax]
        serve_endpoint_def authenticated_def auth_user_def into_response_def)
  show "register_webhook_rejects_non_party E dr now"
    by (simp add: register_webhook_rejects_non_party_def seeded with_token_def stranger(1)
        register_runs [OF ax stranger(2)] nohooks party http)
  show "register_webhook_rejects_non_http_url E dr now"
    by (simp add: register_webhook_rejects_non_http_url_def seeded with_token_def client(1)
        register_runs [OF ax client(2)] nohooks http)
  show "register_webhook_secrets_are_unique E dr dr' now"
    using assms(6,7)
    by (simp add: register_webhook_secrets_are_unique_def seeded with_token_def client(1)
        register_runs [OF ax client(2)] nohooks party http find_by_def hook_row_def
        webhook_created_json_def webhook_created_from_def key_def hex)
  show "webhook_lifecycle_register_list_delete E dr now"
    using assms(5)
    by (simp add: webhook_lifecycle_register_list_delete_def seeded with_token_def client(1)
        provider(1) register_runs [OF ax client(2)] listing_runs [OF ax client(2)]
        listing_runs [OF ax provider(2)] deleting_runs [OF ax client(2)]
        deleting_runs [OF ax provider(2)] nohooks party http hook_row_def key_def items_def at_def
        webhook_created_json_def webhook_created_from_def webhook_row_json_def hex
        lower_hex_length del: append_Cons)
qed

lemma auth_tests_pass_over_http:
  assumes "axum_ok E" "public_key_from_string (te_auth E) ''not-a-real-address'' = None"
  shows "auth_challenge_rejects_invalid_address E dr now"
    "auth_verify_rejects_unknown_challenge E dr now"
  using assms(2)
  by (simp_all add: auth_challenge_rejects_invalid_address_def
      auth_verify_rejects_unknown_challenge_def request_def serve_def extracted_def json_request_def
      axum_routes [OF assms(1)] axum_extracts [OF assms(1)] serve_endpoint_def
      extractor_defs challenge_request_of_json_def verify_request_of_json_def struct_fields_def
      required_def de_string_def challenge_endpoint_def challenge_def verify_endpoint_def verify_def
      verify_and_consume_def fresh_app_def app_state_def new_store_def answer_def into_response_def)

text \<open>
  C35: The integration tests hold of the model.  On a freshly migrated database each of the thirteen
  tests of the HTTP layer passes, at any time and for any tokens, secrets and ids drawn (two
  registrations drawing different ones), if axum reads the tests' requests as it documents, tokens
  decode while they are valid, and \<open>not-a-real-address\<close> is no public key.
\<close>

theorem http_tests_pass:
  assumes "axum_ok E" "tokens_ok (te_auth E) now"
    and "public_key_from_string (te_auth E) ''not-a-real-address'' = None"
    and "hex_encode (te_crates E) = lower_hex"
    and "length (secret_bytes dr) = 32" "secret_bytes dr' \<noteq> secret_bytes dr"
      "fresh_id dr' \<noteq> fresh_id dr"
  shows "get_escrow_returns_404_when_missing E dr now \<and>
    get_escrow_returns_escrow_with_milestones E dr now \<and>
    list_escrows_filters_by_client E dr now \<and> list_escrows_rejects_invalid_status E dr now \<and>
    list_disputes_defaults_to_open E dr now \<and> list_disputes_all_widens_to_everything E dr now \<and>
    register_webhook_requires_auth E dr now \<and> register_webhook_rejects_non_party E dr now \<and>
    register_webhook_rejects_non_http_url E dr now \<and>
    register_webhook_secrets_are_unique E dr dr' now \<and>
    webhook_lifecycle_register_list_delete E dr now \<and>
    auth_challenge_rejects_invalid_address E dr now \<and> auth_verify_rejects_unknown_challenge E dr now"
  using reading_tests_pass [OF assms(1)] auth_tests_pass_over_http [OF assms(1,3)]
    webhook_tests_pass [OF assms(1,2) _ _ assms(5-7)]
  by (simp add: assms(4))

section \<open>Examples\<close>

text \<open>An axum that matches templates segment by segment, and a \<open>uuid\<close> crate that prints in decimal.\<close>

fun segments :: "string \<Rightarrow> string list" where
  "segments [] = [[]]"
| "segments (c # s) =
    (if c = CHR ''/'' then [] # segments s
     else case segments s of t # ts \<Rightarrow> (c # t) # ts | [] \<Rightarrow> [[c]])"

fun captures :: "string list \<Rightarrow> string list \<Rightarrow> path_params option" where
  "captures [] [] = Some []"
| "captures (t # ts) (s # ss) =
    (if take 1 t = ''{''
     then if s = [] then None else map_option (Cons (butlast (tl t), s)) (captures ts ss)
     else if t = s then captures ts ss else None)"
| "captures _ _ = None"

definition match_templates :: "string list \<Rightarrow> string \<Rightarrow> (string \<times> path_params) option" where
  "match_templates ts path =
    (case List.map_filter (\<lambda>t. map_option (Pair t) (captures (segments t) (segments path))) ts of
       [] \<Rightarrow> None | m # _ \<Rightarrow> Some m)"

definition test_web :: "http_request web" where
  "test_web =
    \<lparr>match_path = match_templates, bearer_of = rq_bearer, percent_decode = Some,
     uuid_from_string = (\<lambda>s. map_option of_nat (parse_unsigned 128 s)), query_pairs = rq_query,
     body_json = (\<lambda>r. case rq_body r of None \<Rightarrow> Inl (415, JNull) | Some j \<Rightarrow> Inr j),
     intercept = (\<lambda>_ meth _. if meth = OtherMethod ''OPTIONS'' then Some (200, JNull) else None)\<rparr>"

definition test_server :: "bytes test_env" where
  "test_server =
    \<lparr>te_crates = test_crates, te_auth = test_auth, te_web = test_web,
     te_show_uuid = (\<lambda>u. show_nat (unat u))\<rparr>"

lemma segments_digits: "CHR ''/'' \<notin> set s \<Longrightarrow> segments s = [s]"
  by (induction s) auto

lemma show_nat_chars: "CHR ''/'' \<notin> set (show_nat n)" "CHR ''%'' \<notin> set (show_nat n)"
  using show_nat_digits [of n] by (auto simp: list_all_iff is_digit_def)

lemma test_axum: "axum_ok test_server"
proof -
  have uuid: "match_templates (map fst router) (''/escrows/1/webhooks/'' @ show_nat n) =
      Some (''/escrows/{id}/webhooks/{webhook_id}'', [(''id'', ''1''), (''webhook_id'', show_nat n)])" for n
    by (simp add: match_templates_def router_def map_filter_simps segments_digits show_nat_chars)
  have parsed: "parse_unsigned 128 (show_nat (unat u)) = Some (unat u)" for u :: uuid
    using unsigned_less [of u, where ?'a = nat] by (intro parse_unsigned_show) simp
  have fixed: "list_all (\<lambda>(path, template, params).
        match_templates (map fst router) path = Some (template, params))
      [(''/escrows'', ''/escrows'', []), (''/disputes'', ''/disputes'', []),
       (''/escrows/1'', ''/escrows/{id}'', [(''id'', ''1'')]),
       (''/escrows/999'', ''/escrows/{id}'', [(''id'', ''999'')]),
       (''/escrows/1/webhooks'', ''/escrows/{id}/webhooks'', [(''id'', ''1'')]),
       (''/auth/challenge'', ''/auth/challenge'', []), (''/auth/verify'', ''/auth/verify'', [])]"
    by (simp add: match_templates_def router_def map_filter_simps)
  show ?thesis
    using uuid fixed
    by (simp add: axum_ok_def test_server_def test_web_def parsed show_nat_chars)
qed

lemma test_tokens: "tokens_ok test_auth 5"
  by (simp add: tokens_ok_def test_jwt) (simp add: test_auth_def sample_auth_def)

theorem http_tests_pass_witness:
  "webhook_lifecycle_register_list_delete test_server (sample_draws\<lparr>secret_bytes := replicate 32 3\<rparr>) 5"
proof -
  have "fresh_id (sample_draws\<lparr>fresh_id := 10\<rparr>) \<noteq>
      fresh_id (sample_draws\<lparr>secret_bytes := replicate 32 3\<rparr>)"
    and "secret_bytes (sample_draws\<lparr>fresh_id := 10\<rparr>) \<noteq>
      secret_bytes (sample_draws\<lparr>secret_bytes := replicate 32 3\<rparr>)"
    and "hex_encode (te_crates test_server) = lower_hex"
    and "public_key_from_string (te_auth test_server) ''not-a-real-address'' = None"
    and "length (secret_bytes (sample_draws\<lparr>secret_bytes := replicate 32 3\<rparr>)) = 32"
    by (simp_all add: sample_draws_def test_server_def test_crates_def sample_crates_def
        test_auth_def numeral_nat)
  moreover have "tokens_ok (te_auth test_server) 5" by (simp add: test_server_def test_tokens)
  ultimately show ?thesis using http_tests_pass [OF test_axum] by blast
qed

end
