(* ===== verification/Spec2Isabelle.thy ===== *)
theory Spec2Isabelle
  imports Recovery Typing HttpTests
begin

text \<open>
  Verification of the Concord backend: an indexer that follows the events of an escrow contract on
  Soroban into Postgres, and an HTTP server that reads the tables, lets wallets log in and lets the
  parties of an escrow register webhooks.

  \<^bold>\<open>The program and its theories\<close>

  \<open>src/main.rs\<close> reads the configuration, opens and migrates the database, spawns the indexer and
  serves the routes of \<open>src/api/mod.rs\<close>; the two tasks share only the database.

    \<^item> \<open>Prelude\<close>: Rust's integers and casts, results, stateful computations with early return, UTF-8,
      decimal numbers.  \<open>Extern\<close>: the values exchanged with other crates, and their functions as
      parameters (\<open>crates\<close>).  \<open>Serde\<close>: the decoders that serde derives, on JSON documents and on the
      pairs of a query, with the contracts \<open>codec\<close>, \<open>value_codec\<close> and \<open>list_codec\<close>.
    \<^item> \<open>Models\<close> (\<open>src/models.rs\<close>), \<open>Tables\<close> and \<open>Db\<close> (\<open>src/db.rs\<close>, \<open>migrations\<close>): a table is the list
      of its rows, each statement has a definition \<open>..._stmt\<close> on the tables and one of the source's
      name that sends it over the pool (\<open>exec_sql\<close>).
    \<^item> \<open>Writes\<close>: every way the program changes the tables, as the step relation \<open>sql_write\<close>, and the
      contracts \<open>db_invariant\<close> and \<open>db_evolution\<close> over it.  \<open>Schema\<close>: the invariant \<open>schema_ok\<close> and the
      order \<open>tables_evolve\<close>, as instances.
    \<^item> \<open>Decode\<close>, \<open>Rpc\<close>, \<open>Indexer\<close> and \<open>Delivery\<close> (\<open>src/indexer/*.rs\<close>), \<open>Config\<close> (\<open>src/config.rs\<close>).
    \<^item> \<open>Errors\<close> (\<open>src/error.rs\<close>), \<open>Auth\<close> (\<open>src/auth.rs\<close>, \<open>src/api/auth.rs\<close>), \<open>Api\<close> (the other handlers
      of \<open>src/api\<close>), \<open>Requests\<close> (bodies, queries and path parameters and how they are extracted),
      \<open>Router\<close> (\<open>src/api/mod.rs\<close> and what axum does around a handler), \<open>Server\<close> (\<open>src/main.rs\<close>,
      \<open>src/state.rs\<close>: start-up, layers and runs).
    \<^item> \<open>UnitTests\<close> and \<open>HttpTests\<close>: the tests in the source files and in \<open>src/api/tests.rs\<close>, one definition
      per test and of its name.

  \<^bold>\<open>State and concurrency\<close>

  A \<open>pool\<close> is the tables, the clock, and a list \<open>pending\<close> of what happens around the next statements: how
  long each takes to arrive, whether the connection is lost before or after the server runs it, and
  what the other task writes meanwhile.  A list of arbitrary length with arbitrary writes of the
  program is assumed (\<open>rely\<close>), so a statement about all pools is one about all interleavings of the
  statements of the two tasks.  An empty list is the quiet connection of the functional theorems.
  \<open>iworld\<close> adds the deliveries the indexer spawned, \<open>server\<close> the challenge store.

  \<^bold>\<open>What is shown\<close>

    \<^item> \<open>Server\<close>: the schema invariant in every reachable state, how rows evolve, and that whoever
      is authenticated has answered a challenge with a valid signature.  The contract
      \<open>event_effects\<close> of \<open>Indexer\<close>, which says that handling an event keeps what its statements keep, is
      used four times: for the steps, the outbox, the cursor and the challenge store.
    \<^item> \<open>Convergence\<close> and \<open>Register\<close>: the status of an escrow as a register stamped with a ledger; order
      independence, and the refinement of an abstract machine by the indexer.
    \<^item> \<open>Plans\<close>, \<open>Overwrites\<close>, \<open>Replay\<close>: the statements of an event as data, rows as histories of
      overwrites (\<open>overwriting\<close>, \<open>row_history\<close>, interpreted on the three tables the indexer fills),
      and that a page whose statements were lost in part is repaired by handling it again.
    \<^item> \<open>Recovery\<close>: when that happens.  Polls cut short before they moved the cursor are made good by
      the next one; an event lost in a poll that did move it is lost for good.
    \<^item> \<open>Lifecycle\<close>, \<open>Notify\<close>: what each event writes, what a failing event leaves, who is notified.
    \<^item> \<open>Feed\<close>: polls as a consumer of the event log, exactly once and in order, and that it catches up.
    \<^item> \<open>Sessions\<close>: one-time codes and the challenge store as an instance; tokens.
    \<^item> \<open>Listing\<close>, \<open>Subscriptions\<close>: the reading and the webhook endpoints; \<open>paged_listing\<close> says what a
      walk through pages gives, for both listings.
    \<^item> \<open>Rpc\<close>, \<open>Requests\<close>: what the client takes from a reply and an endpoint from a query string, other
      fields and their order notwithstanding.  \<open>Typing\<close>: the type of every answer of every run.
    \<^item> \<open>UnitTests\<close>, \<open>HttpTests\<close>: all tests of the repository hold of the model, for every behaviour of the
      other crates that their documentation allows.
    \<^item> \<open>Values\<close>: conversions, errors, signed bytes.  \<open>Samples\<close> and the sections called Examples hold
      concrete inputs at which the theorems with hypotheses are applied.

  \<^bold>\<open>Bounds and loops\<close>

  No fuel is used: the loops over pages and milestones are structural, so every handler and every poll
  is a total function and returns.  The poll loop never returns; it is modelled by its prefixes
  (\<open>run_polls\<close>, one RPC per poll), and \<open>polls_catch_up\<close> says after how many polls the log is handled.  Machine integers keep their width.

  \<^bold>\<open>Not modelled\<close>

  Logging and the trace layer; sending HTTP; the bytes of a JSON document, XDR, strkey, SHA-256,
  ed25519, base64 and the token codec (parameters).  Of axum, the matching of a path against the
  route templates and the splitting of a request into headers, query pairs and body (parameters, the
  fields of \<open>web\<close>), the texts of its own rejections, and its answers to \<open>HEAD\<close>; of the CORS layer,
  the headers it adds, and when it answers a preflight (a parameter).  TLS and sockets; the poisoning of
  the challenge lock, which needs a panic while it is held; NUL characters in a text column, which
  Postgres refuses and which here count as a lost statement; the range of \<open>TIMESTAMPTZ\<close>, so that dates
  before 4713 BC, which chrono accepts and which only a wrapped contract timestamp gives, are stored here
  and refused by Postgres; the order of rows Postgres may choose
  where a query gives none, which is the order of insertion here, also for equal \<open>created_at\<close> in the
  listing of disputes; the retention window of the RPC.  One clock serves the process and the database.
\<close>

end
